(* ===== verification/Prelude.thy ===== *)
theory Prelude
  imports Complex_Main "HOL-Library.Word" "HOL-Library.Stream" "HOL-Library.Sublist"
begin

section \<open>Shared foundations\<close>

text \<open>
  What every component uses: the early-return style of Go functions as combinators over an
  explicit world, the byte strings of Go with \<^verbatim>\<open>strings.TrimSpace\<close>, and the reading of SQL
  statements as operations on lists of rows. The collections below carry the automation:
  \<open>io_simps\<close> unfolds a handler into its branches, \<open>keeps_rules\<close> proves that a handler keeps an
  invariant from the same fact about its calls.
\<close>

named_theorems io_simps \<open>unfolding rules of the early-return combinators\<close>
named_theorems keeps_rules \<open>composition rules for invariants kept by a stateful computation\<close>
named_theorems sql_simps \<open>unfolding rules of the row operations\<close>

subsection \<open>Stateful computations with an error result\<close>

text \<open>
  A Go function that may fail returns a value and an error. A computation over a world \<open>'w\<close>
  returns \<open>Inl\<close> of the error or \<open>Inr\<close> of the value, and the world it leaves behind.
\<close>

type_synonym ('w, 'e, 'a) io = "'w \<Rightarrow> ('e + 'a) \<times> 'w"

definition okM :: "'a \<Rightarrow> ('w, 'e, 'a) io" where
  "okM a w = (Inr a, w)"

definition errM :: "'e \<Rightarrow> ('w, 'e, 'a) io" where
  "errM e w = (Inl e, w)"

text \<open>\<open>tryM m k\<close> is \<^verbatim>\<open>x, err := m(); if err != nil { return err }; k(x)\<close>.\<close>

definition tryM :: "('w, 'e, 'a) io \<Rightarrow> ('a \<Rightarrow> ('w, 'e, 'b) io) \<Rightarrow> ('w, 'e, 'b) io" where
  "tryM m k w = (case m w of (Inl e, w') \<Rightarrow> (Inl e, w') | (Inr a, w') \<Rightarrow> k a w')"

text \<open>\<open>wrapM f m\<close> is \<^verbatim>\<open>if err := m(); err != nil { return fmt.Errorf(...) }\<close>: \<open>f\<close> wraps the error.\<close>

definition wrapM :: "('e \<Rightarrow> 'e) \<Rightarrow> ('w, 'e, 'a) io \<Rightarrow> ('w, 'e, 'a) io" where
  "wrapM f m w = (case m w of (Inl e, w') \<Rightarrow> (Inl (f e), w') | (Inr a, w') \<Rightarrow> (Inr a, w'))"

text \<open>\<open>catchM m k\<close> hands the result, error or value, to \<open>k\<close>: the code inspects the error itself.\<close>

definition catchM :: "('w, 'e, 'a) io \<Rightarrow> ('e + 'a \<Rightarrow> ('w, 'e, 'b) io) \<Rightarrow> ('w, 'e, 'b) io" where
  "catchM m k w = (case m w of (r, w') \<Rightarrow> k r w')"

text \<open>\<open>letM m k\<close> runs a call that cannot fail (reading the clock, drawing an identifier).\<close>

definition letM :: "('w \<Rightarrow> 'a \<times> 'w) \<Rightarrow> ('a \<Rightarrow> 'w \<Rightarrow> 'b \<times> 'w) \<Rightarrow> 'w \<Rightarrow> 'b \<times> 'w" where
  "letM m k w = (case m w of (a, w') \<Rightarrow> k a w')"

lemmas combinator_defs = okM_def errM_def tryM_def wrapM_def catchM_def letM_def

lemma okM_eq [io_simps]: "okM a w = (r, w') \<longleftrightarrow> r = Inr a \<and> w' = w"
  by (auto simp: okM_def)

lemma errM_eq [io_simps]: "errM e w = (r, w') \<longleftrightarrow> r = Inl e \<and> w' = w"
  by (auto simp: errM_def)

lemma tryM_Inr [io_simps]:
  "tryM m k w = (Inr b, w'') \<longleftrightarrow> (\<exists>a w'. m w = (Inr a, w') \<and> k a w' = (Inr b, w''))"
  by (auto simp: tryM_def split: prod.splits sum.splits)

lemma tryM_Inl [io_simps]:
  "tryM m k w = (Inl e, w'') \<longleftrightarrow>
     m w = (Inl e, w'') \<or> (\<exists>a w'. m w = (Inr a, w') \<and> k a w' = (Inl e, w''))"
  by (auto simp: tryM_def split: prod.splits sum.splits)

lemma wrapM_Inr [io_simps]: "wrapM f m w = (Inr a, w') \<longleftrightarrow> m w = (Inr a, w')"
  by (auto simp: wrapM_def split: prod.splits sum.splits)

lemma wrapM_Inl [io_simps]: "wrapM f m w = (Inl e, w') \<longleftrightarrow> (\<exists>e'. m w = (Inl e', w') \<and> e = f e')"
  by (auto simp: wrapM_def split: prod.splits sum.splits)

lemma catchM_eq [io_simps]:
  "catchM m k w = (r, w'') \<longleftrightarrow> (\<exists>x w'. m w = (x, w') \<and> k x w' = (r, w''))"
  by (auto simp: catchM_def split: prod.splits)

lemma letM_eq [io_simps]:
  "letM m k w = (r, w'') \<longleftrightarrow> (\<exists>a w'. m w = (a, w') \<and> k a w' = (r, w''))"
  by (auto simp: letM_def split: prod.splits)

subsection \<open>Invariants kept by a computation\<close>

definition keeps :: "('w \<Rightarrow> bool) \<Rightarrow> ('w \<Rightarrow> 'a \<times> 'w) \<Rightarrow> bool" where
  "keeps I m \<longleftrightarrow> (\<forall>w. I w \<longrightarrow> I (snd (m w)))"

lemma keepsI: "(\<And>w r w'. I w \<Longrightarrow> m w = (r, w') \<Longrightarrow> I w') \<Longrightarrow> keeps I m"
  unfolding keeps_def by (metis prod.collapse)

lemma keepsD: "keeps I m \<Longrightarrow> I w \<Longrightarrow> m w = (r, w') \<Longrightarrow> I w'"
  unfolding keeps_def by (metis snd_conv)

lemma keeps_okM [keeps_rules]: "keeps I (okM a)"
  by (simp add: keeps_def okM_def)

lemma keeps_errM [keeps_rules]: "keeps I (errM e)"
  by (simp add: keeps_def errM_def)

lemma keeps_tryM [keeps_rules]: "keeps I m \<Longrightarrow> (\<And>a. keeps I (k a)) \<Longrightarrow> keeps I (tryM m k)"
  unfolding keeps_def by (auto simp: tryM_def split: prod.splits sum.splits)

lemma keeps_wrapM [keeps_rules]: "keeps I m \<Longrightarrow> keeps I (wrapM f m)"
  unfolding keeps_def by (auto simp: wrapM_def split: prod.splits sum.splits)

lemma keeps_catchM [keeps_rules]: "keeps I m \<Longrightarrow> (\<And>r. keeps I (k r)) \<Longrightarrow> keeps I (catchM m k)"
  unfolding keeps_def by (auto simp: catchM_def split: prod.splits)

lemma keeps_letM [keeps_rules]: "keeps I m \<Longrightarrow> (\<And>a. keeps I (k a)) \<Longrightarrow> keeps I (letM m k)"
  unfolding keeps_def by (auto simp: letM_def split: prod.splits)

lemma keeps_if [keeps_rules]:
  "(b \<Longrightarrow> keeps I m) \<Longrightarrow> (\<not> b \<Longrightarrow> keeps I n) \<Longrightarrow> keeps I (if b then m else n)"
  by simp

lemma keeps_case_option [keeps_rules]:
  "(x = None \<Longrightarrow> keeps I m) \<Longrightarrow> (\<And>a. x = Some a \<Longrightarrow> keeps I (k a)) \<Longrightarrow>
   keeps I (case x of None \<Rightarrow> m | Some a \<Rightarrow> k a)"
  by (simp split: option.split)

lemma keeps_case_sum [keeps_rules]:
  "(\<And>e. x = Inl e \<Longrightarrow> keeps I (m e)) \<Longrightarrow> (\<And>a. x = Inr a \<Longrightarrow> keeps I (k a)) \<Longrightarrow>
   keeps I (case x of Inl e \<Rightarrow> m e | Inr a \<Rightarrow> k a)"
  by (simp split: sum.split)

lemma keeps_case_prod [keeps_rules]:
  "(\<And>a b. x = (a, b) \<Longrightarrow> keeps I (k a b)) \<Longrightarrow> keeps I (case x of (a, b) \<Rightarrow> k a b)"
  by (simp split: prod.split)

subsection \<open>Drawing for a list, and decimal numbers\<close>

text \<open>\<open>mapL f xs\<close> runs \<open>f\<close> on the elements in order, as a slice literal evaluates its elements.\<close>

fun mapL :: "('a \<Rightarrow> 'w \<Rightarrow> 'b \<times> 'w) \<Rightarrow> 'a list \<Rightarrow> 'w \<Rightarrow> 'b list \<times> 'w" where
  "mapL f [] w = ([], w)"
| "mapL f (x # xs) w = (case f x w of (y, w') \<Rightarrow> case mapL f xs w' of (ys, w'') \<Rightarrow> (y # ys, w''))"

lemma mapL_map: "(\<And>x w. g (fst (f x w)) = h x) \<Longrightarrow> map g (fst (mapL f xs w)) = map h xs"
  by (induction xs arbitrary: w) (simp_all add: case_prod_beta)

lemma keeps_mapL [keeps_rules]: "(\<And>x. keeps I (f x)) \<Longrightarrow> keeps I (mapL f xs)"
proof (induction xs)
  case Nil
  then show ?case by (simp add: keeps_def)
next
  case (Cons x xs)
  then have "keeps I (f x)" "keeps I (mapL f xs)" by auto
  then show ?case by (force simp: keeps_def split: prod.splits)
qed

text \<open>\<^verbatim>\<open>%d\<close> and \<^verbatim>\<open>strconv.Itoa\<close>.\<close>

fun digits_of :: "nat \<Rightarrow> string" where
  "digits_of n = (if n < 10 then [char_of (48 + n)] else digits_of (n div 10) @ [char_of (48 + n mod 10)])"

declare digits_of.simps [simp del]

definition Itoa :: "int \<Rightarrow> string" where
  "Itoa i = (if i < 0 then ''-'' @ digits_of (nat (- i)) else digits_of (nat i))"

text \<open>
  \<^verbatim>\<open>%q\<close>: the string in double quotes, with the backslash escapes of \<^verbatim>\<open>strconv.Quote\<close>. Bytes outside
  ASCII are copied, as \<^verbatim>\<open>Quote\<close> copies printable runes.
\<close>

definition hex_digit :: "nat \<Rightarrow> char" where
  "hex_digit n = char_of (if n < 10 then 48 + n else 87 + n)"

definition quote_byte :: "char \<Rightarrow> string" where
  "quote_byte c =
     (let n = of_char c :: nat in
      if c = CHR 0x22 then [CHR 0x5C, CHR 0x22]
      else if c = CHR 0x5C then [CHR 0x5C, CHR 0x5C]
      else if n = 7 then [CHR 0x5C, CHR ''a''] else if n = 8 then [CHR 0x5C, CHR ''b'']
      else if n = 12 then [CHR 0x5C, CHR ''f''] else if n = 10 then [CHR 0x5C, CHR ''n'']
      else if n = 13 then [CHR 0x5C, CHR ''r''] else if n = 9 then [CHR 0x5C, CHR ''t'']
      else if n = 11 then [CHR 0x5C, CHR ''v'']
      else if n < 32 \<or> n = 127 then [CHR 0x5C, CHR ''x'', hex_digit (n div 16), hex_digit (n mod 16)]
      else [c])"

definition Quote :: "string \<Rightarrow> string" where
  "Quote s = CHR 0x22 # concat (map quote_byte s) @ [CHR 0x22]"

subsection \<open>Byte strings and \<^verbatim>\<open>strings.TrimSpace\<close>\<close>

text \<open>
  A Go string is a sequence of bytes, here a \<^typ>\<open>string\<close>. \<^verbatim>\<open>strings.TrimSpace\<close> removes leading
  and trailing runes for which \<^verbatim>\<open>unicode.IsSpace\<close> holds; the list holds their UTF-8 encodings.
  A rune at the front (or at the end) of a byte string is one of them exactly when its encoding is
  a prefix (a suffix) of the bytes, so no decoder is needed.
\<close>

definition space_encodings :: "string list" where
  "space_encodings =
     [[CHR 0x09], [CHR 0x0A], [CHR 0x0B], [CHR 0x0C], [CHR 0x0D], [CHR 0x20],
      [CHR 0xC2, CHR 0x85], [CHR 0xC2, CHR 0xA0], [CHR 0xE1, CHR 0x9A, CHR 0x80],
      [CHR 0xE2, CHR 0x80, CHR 0x80], [CHR 0xE2, CHR 0x80, CHR 0x81],
      [CHR 0xE2, CHR 0x80, CHR 0x82], [CHR 0xE2, CHR 0x80, CHR 0x83],
      [CHR 0xE2, CHR 0x80, CHR 0x84], [CHR 0xE2, CHR 0x80, CHR 0x85],
      [CHR 0xE2, CHR 0x80, CHR 0x86], [CHR 0xE2, CHR 0x80, CHR 0x87],
      [CHR 0xE2, CHR 0x80, CHR 0x88], [CHR 0xE2, CHR 0x80, CHR 0x89],
      [CHR 0xE2, CHR 0x80, CHR 0x8A], [CHR 0xE2, CHR 0x80, CHR 0xA8],
      [CHR 0xE2, CHR 0x80, CHR 0xA9], [CHR 0xE2, CHR 0x80, CHR 0xAF],
      [CHR 0xE2, CHR 0x81, CHR 0x9F], [CHR 0xE3, CHR 0x80, CHR 0x80]]"

fun strip_prefix :: "'a list \<Rightarrow> 'a list \<Rightarrow> 'a list option" where
  "strip_prefix [] s = Some s"
| "strip_prefix (c # cs) [] = None"
| "strip_prefix (c # cs) (d # ds) = (if c = d then strip_prefix cs ds else None)"

lemma strip_prefix_Some: "strip_prefix p s = Some r \<longleftrightarrow> s = p @ r"
  by (induction p s rule: strip_prefix.induct) auto

lemma strip_prefix_None: "strip_prefix p s = None \<longleftrightarrow> \<not> prefix p s"
  by (metis strip_prefix_Some not_Some_eq prefix_def)

fun strip_one :: "'a list list \<Rightarrow> 'a list \<Rightarrow> 'a list option" where
  "strip_one [] s = None"
| "strip_one (e # es) s =
     (case strip_prefix e s of
        Some r \<Rightarrow> (if e = [] then strip_one es s else Some r)
      | None \<Rightarrow> strip_one es s)"

lemma strip_one_Some: "strip_one es s = Some r \<Longrightarrow> \<exists>e \<in> set es. e \<noteq> [] \<and> s = e @ r"
  by (induction es s rule: strip_one.induct) (auto simp: strip_prefix_Some split: option.splits if_splits)

lemma strip_one_shorter: "strip_one es s = Some r \<Longrightarrow> length r < length s"
  by (auto dest: strip_one_Some)

lemma strip_one_None: "strip_one es s = None \<longleftrightarrow> (\<forall>e \<in> set es. e \<noteq> [] \<longrightarrow> \<not> prefix e s)"
  by (induction es s rule: strip_one.induct)
     (auto simp: strip_prefix_None strip_prefix_Some split: option.splits)

function trim_left :: "'a list list \<Rightarrow> 'a list \<Rightarrow> 'a list" where
  "trim_left es s = (case strip_one es s of None \<Rightarrow> s | Some r \<Rightarrow> trim_left es r)"
  by pat_completeness auto
termination
  by (relation "measure (\<lambda>(es, s). length s)") (auto dest: strip_one_shorter)

declare trim_left.simps [simp del]

definition TrimSpace :: "string \<Rightarrow> string" where
  "TrimSpace s =
     (let t = trim_left space_encodings s
      in rev (trim_left (map rev space_encodings) (rev t)))"

lemma trim_left_stops: "strip_one es (trim_left es s) = None"
proof (induction es s rule: trim_left.induct)
  case (1 es s)
  then show ?case
    by (cases "strip_one es s") (simp_all add: trim_left.simps [of es s])
qed

lemma trim_left_fixed: "strip_one es s = None \<Longrightarrow> trim_left es s = s"
  by (simp add: trim_left.simps)

lemma trim_left_suffix: "suffix (trim_left es s) s"
proof (induction es s rule: trim_left.induct)
  case (1 es s)
  show ?case
  proof (cases "strip_one es s")
    case None
    then show ?thesis by (simp add: trim_left_fixed)
  next
    case (Some r)
    from strip_one_Some [OF this] obtain e where "s = e @ r" by blast
    then have "suffix r s" by (simp add: suffix_def)
    with 1 [OF Some] have "suffix (trim_left es r) s"
      by (rule suffix_order.trans)
    with Some show ?thesis by (simp add: trim_left.simps [of es s])
  qed
qed

text \<open>Trimming twice is trimming once, and a blank string stays blank.\<close>

lemma TrimSpace_idem: "TrimSpace (TrimSpace s) = TrimSpace s"
proof -
  let ?t = "trim_left space_encodings s"
  let ?u = "rev (trim_left (map rev space_encodings) (rev ?t))"
  have "prefix ?u ?t"
    using trim_left_suffix [of "map rev space_encodings" "rev ?t"] by (simp add: suffix_to_prefix)
  moreover have "strip_one space_encodings ?t = None"
    by (rule trim_left_stops)
  ultimately have "strip_one space_encodings ?u = None"
    by (meson prefix_order.trans strip_one_None)
  then have "trim_left space_encodings ?u = ?u"
    by (rule trim_left_fixed)
  moreover have "trim_left (map rev space_encodings) (rev ?u) = rev ?u"
    by (simp add: trim_left_fixed trim_left_stops)
  ultimately show ?thesis
    by (simp add: TrimSpace_def Let_def)
qed

lemma TrimSpace_Nil [simp]: "TrimSpace [] = []"
  by (simp add: TrimSpace_def trim_left_fixed strip_one_None space_encodings_def)

text \<open>
  \<open>graphic s\<close>: the string is nonempty and neither its first nor its last byte can belong to the
  encoding of a space, the usual case of a trimmed field.
\<close>

definition space_lead :: "char set" where
  "space_lead = set (map hd space_encodings)"

definition space_tail :: "char set" where
  "space_tail = set (map last space_encodings)"

definition graphic :: "string \<Rightarrow> bool" where
  "graphic s \<longleftrightarrow> s \<noteq> [] \<and> hd s \<notin> space_lead \<and> last s \<notin> space_tail"

lemma TrimSpace_graphic: "graphic s \<Longrightarrow> TrimSpace s = s"
proof -
  assume g: "graphic s"
  have nil: "\<forall>e \<in> set space_encodings. e \<noteq> []"
    by (simp add: space_encodings_def)
  have "strip_one space_encodings s = None"
    unfolding strip_one_None using g nil
    by (auto simp: graphic_def space_lead_def prefix_def image_iff)
  moreover have "strip_one (map rev space_encodings) (rev s) = None"
    unfolding strip_one_None using g nil
    by (auto simp: graphic_def space_tail_def prefix_def image_iff rev_eq_append_conv
          simp del: rev_append)
  ultimately show ?thesis
    by (simp add: TrimSpace_def trim_left_fixed Let_def)
qed

subsection \<open>Rows, updates and ordered selection\<close>

text \<open>
  A table is the list of its rows in the order the scan meets them, which SQL leaves open: a theorem
  about every table covers every scan order. \<open>row_of\<close> is a lookup by a unique column,
  \<open>update_where\<close> an \<^verbatim>\<open>UPDATE ... WHERE\<close>, \<open>rows_where\<close> its number of rows affected,
  \<open>newest_by\<close> an \<^verbatim>\<open>ORDER BY k DESC LIMIT 1\<close>.
\<close>

definition row_of :: "('r \<Rightarrow> 'k) \<Rightarrow> 'k \<Rightarrow> 'r list \<Rightarrow> 'r option" where
  "row_of key k rows = find (\<lambda>r. key r = k) rows"

definition update_where :: "('r \<Rightarrow> bool) \<Rightarrow> ('r \<Rightarrow> 'r) \<Rightarrow> 'r list \<Rightarrow> 'r list" where
  "update_where p f rows = map (\<lambda>r. if p r then f r else r) rows"

definition rows_where :: "('r \<Rightarrow> bool) \<Rightarrow> 'r list \<Rightarrow> nat" where
  "rows_where p rows = length (filter p rows)"

definition newest_by :: "('r \<Rightarrow> int) \<Rightarrow> 'r list \<Rightarrow> 'r option" where
  "newest_by k rows = (case sort_key (\<lambda>r. - k r) rows of [] \<Rightarrow> None | r # _ \<Rightarrow> Some r)"

lemma row_of_Some: "row_of key k rows = Some r \<Longrightarrow> r \<in> set rows \<and> key r = k"
  by (auto simp: row_of_def find_Some_iff)

lemma row_of_None: "row_of key k rows = None \<longleftrightarrow> k \<notin> key ` set rows"
  by (auto simp: row_of_def find_None_iff)

lemma row_of_unique:
  "distinct (map key rows) \<Longrightarrow> r \<in> set rows \<Longrightarrow> row_of key (key r) rows = Some r"
proof (induction rows)
  case Nil
  then show ?case by simp
next
  case (Cons a rows)
  then show ?case by (auto simp: row_of_def)
qed

lemma row_of_simps [simp, sql_simps]:
  "row_of key k [] = None"
  "row_of key k (r # rows) = (if key r = k then Some r else row_of key k rows)"
  by (simp_all add: row_of_def)

lemma row_of_append:
  "row_of key k (rows @ rows') = (case row_of key k rows of None \<Rightarrow> row_of key k rows' | Some r \<Rightarrow> Some r)"
  by (induction rows) auto

lemma update_where_simps [simp, sql_simps]:
  "update_where p f [] = []"
  "update_where p f (r # rows) = (if p r then f r else r) # update_where p f rows"
  by (simp_all add: update_where_def)

lemma set_update_where: "set (update_where p f rows) = (\<lambda>r. if p r then f r else r) ` set rows"
  by (simp add: update_where_def)

lemma length_update_where [simp]: "length (update_where p f rows) = length rows"
  by (simp add: update_where_def)

lemma map_update_where: "(\<And>r. p r \<Longrightarrow> g (f r) = g r) \<Longrightarrow> map g (update_where p f rows) = map g rows"
  by (simp add: update_where_def)

lemma row_of_update_where:
  "(\<And>r. p r \<Longrightarrow> key (f r) = key r) \<Longrightarrow>
   row_of key k (update_where p f rows) = map_option (\<lambda>r. if p r then f r else r) (row_of key k rows)"
  by (induction rows) auto

lemma rows_where_pos: "rows_where p rows \<noteq> 0 \<longleftrightarrow> (\<exists>r \<in> set rows. p r)"
  by (auto simp: rows_where_def filter_empty_conv)

lemma rows_where_keyed:
  assumes "distinct (map key rows)"
  shows "rows_where (\<lambda>r. key r = k \<and> p r) rows =
    (case row_of key k rows of Some r \<Rightarrow> (if p r then 1 else 0) | None \<Rightarrow> 0)"
  using assms
proof (induction rows)
  case Nil
  then show ?case by (simp add: rows_where_def)
next
  case (Cons a rows)
  have "key a \<notin> key ` set rows" using Cons.prems by simp
  then have "k = key a \<Longrightarrow> rows_where (\<lambda>r. key r = k \<and> p r) rows = 0"
    by (simp add: rows_where_def filter_empty_conv) (metis image_eqI)
  with Cons show ?case by (auto simp: rows_where_def split: option.split)
qed

lemma newest_by_Some:
  "newest_by k rows = Some r \<Longrightarrow> r \<in> set rows \<and> (\<forall>r' \<in> set rows. k r' \<le> k r)"
proof -
  assume h: "newest_by k rows = Some r"
  then obtain rs where s: "sort_key (\<lambda>r. - k r) rows = r # rs"
    by (auto simp: newest_by_def split: list.splits)
  have "set (r # rs) = set rows" using s by (metis set_sort)
  moreover have "sorted (map (\<lambda>r. - k r) (r # rs))" using s by (metis sorted_sort_key)
  ultimately show ?thesis by auto
qed

lemma newest_by_None: "newest_by k rows = None \<longleftrightarrow> rows = []"
  by (auto simp: newest_by_def split: list.splits) (metis length_sort length_0_conv list.distinct(1))

lemma map_snoc_distinct: "distinct (map g rows) \<Longrightarrow> g r \<notin> g ` set rows \<Longrightarrow> distinct (map g (rows @ [r]))"
  by simp

end
