(* ===== verification/Go_Error.thy ===== *)
theory Go_Error
  imports Prelude
begin

section \<open>Errors as values\<close>

text \<open>
  The error values of the program: the sentinel errors of \<^verbatim>\<open>internal/postgres\<close>, \<^verbatim>\<open>internal/auth\<close>
  and \<^verbatim>\<open>internal/migrations\<close>, the two error types of \<^verbatim>\<open>internal/app/errors.go\<close>, the wrapping of
  \<^verbatim>\<open>fmt.Errorf\<close> with \<^verbatim>\<open>%w\<close>, and the errors of libraries. A server error of PostgreSQL carries its
  SQLSTATE and the constraint (\<open>PgError\<close>); any other library error is named by its cause
  (\<open>LibError\<close>). The text of those two is not the program's, so it is the parameter \<open>lib_text\<close> of
  \<open>error_text\<close>.
\<close>

datatype go_error =
    ErrNotFound
  | ErrStateConflict
  | ErrUnauthorized
  | ErrSchemaUninitialized
  | ErrSchemaBehind
  | ErrSchemaAhead
  | ErrorsNew string
  | PgError string string
  | LibError string
  | ValidationError go_error
  | StateConflictError go_error
  | Wrapf string go_error string

text \<open>\<^verbatim>\<open>err.Error()\<close>.\<close>

fun error_text :: "(go_error \<Rightarrow> string) \<Rightarrow> go_error \<Rightarrow> string" where
  "error_text lib_text ErrNotFound = ''postgres: not found''"
| "error_text lib_text ErrStateConflict = ''postgres: invalid state transition or lock ownership''"
| "error_text lib_text ErrUnauthorized = ''auth: unauthorized''"
| "error_text lib_text ErrSchemaUninitialized = ''migrations: schema is not initialized''"
| "error_text lib_text ErrSchemaBehind = ''migrations: schema is behind the current binary''"
| "error_text lib_text ErrSchemaAhead = ''migrations: schema is newer than the current binary''"
| "error_text lib_text (ErrorsNew s) = s"
| "error_text lib_text (PgError c k) = lib_text (PgError c k)"
| "error_text lib_text (LibError s) = lib_text (LibError s)"
| "error_text lib_text (ValidationError e) = error_text lib_text e"
| "error_text lib_text (StateConflictError e) = error_text lib_text e"
| "error_text lib_text (Wrapf pre e post) = pre @ error_text lib_text e @ post"

text \<open>\<^verbatim>\<open>errors.Unwrap\<close> and the two searches down the chain, \<^verbatim>\<open>errors.Is\<close> and \<^verbatim>\<open>errors.As\<close>.\<close>

fun unwrap :: "go_error \<Rightarrow> go_error option" where
  "unwrap (ValidationError e) = Some e"
| "unwrap (StateConflictError e) = Some e"
| "unwrap (Wrapf pre e post) = Some e"
| "unwrap e = None"

fun errors_Is :: "go_error \<Rightarrow> go_error \<Rightarrow> bool" where
  "errors_Is (ValidationError e) target \<longleftrightarrow> ValidationError e = target \<or> errors_Is e target"
| "errors_Is (StateConflictError e) target \<longleftrightarrow> StateConflictError e = target \<or> errors_Is e target"
| "errors_Is (Wrapf pre e post) target \<longleftrightarrow> Wrapf pre e post = target \<or> errors_Is e target"
| "errors_Is e target \<longleftrightarrow> e = target"

fun as_ValidationError :: "go_error \<Rightarrow> go_error option" where
  "as_ValidationError (ValidationError e) = Some e"
| "as_ValidationError (StateConflictError e) = as_ValidationError e"
| "as_ValidationError (Wrapf pre e post) = as_ValidationError e"
| "as_ValidationError e = None"

fun as_StateConflictError :: "go_error \<Rightarrow> go_error option" where
  "as_StateConflictError (StateConflictError e) = Some e"
| "as_StateConflictError (ValidationError e) = as_StateConflictError e"
| "as_StateConflictError (Wrapf pre e post) = as_StateConflictError e"
| "as_StateConflictError e = None"

fun as_PgError :: "go_error \<Rightarrow> (string \<times> string) option" where
  "as_PgError (PgError c k) = Some (c, k)"
| "as_PgError (ValidationError e) = as_PgError e"
| "as_PgError (StateConflictError e) = as_PgError e"
| "as_PgError (Wrapf pre e post) = as_PgError e"
| "as_PgError e = None"

text \<open>\<open>errors_Is\<close> is equality with the target somewhere on the \<open>unwrap\<close> chain.\<close>

lemma errors_Is_unwrap:
  "errors_Is e target \<longleftrightarrow> e = target \<or> (\<exists>e'. unwrap e = Some e' \<and> errors_Is e' target)"
  by (cases e) auto

lemma errors_Is_refl [simp]: "errors_Is e e"
  by (cases e) simp_all

text \<open>\<^verbatim>\<open>fmt.Errorf("prefix: %w", err)\<close>.\<close>

definition wrap_prefix :: "string \<Rightarrow> go_error \<Rightarrow> go_error" where
  "wrap_prefix pre e = Wrapf pre e []"

lemma wrap_prefix_simps [simp]:
  "errors_Is (wrap_prefix pre e) ErrNotFound = errors_Is e ErrNotFound"
  "errors_Is (wrap_prefix pre e) ErrStateConflict = errors_Is e ErrStateConflict"
  "errors_Is (wrap_prefix pre e) ErrUnauthorized = errors_Is e ErrUnauthorized"
  "as_ValidationError (wrap_prefix pre e) = as_ValidationError e"
  "as_StateConflictError (wrap_prefix pre e) = as_StateConflictError e"
  "as_PgError (wrap_prefix pre e) = as_PgError e"
  "error_text lib_text (wrap_prefix pre e) = pre @ error_text lib_text e"
  by (simp_all add: wrap_prefix_def)

text \<open>The library errors a driver or a parser can return: nothing the program raises itself.\<close>

fun foreign :: "go_error \<Rightarrow> bool" where
  "foreign (PgError c k) = True"
| "foreign (LibError s) = True"
| "foreign e = False"

lemma foreign_is_foreign:
  assumes "foreign e"
  shows "\<not> errors_Is e ErrNotFound" "\<not> errors_Is e ErrStateConflict" "\<not> errors_Is e ErrUnauthorized"
    "as_ValidationError e = None" "as_StateConflictError e = None"
  using assms by (cases e; simp)+

end
