(* ===== verification/Domain.thy ===== *)
theory Domain
  imports Go_Error
begin

section \<open>The domain model (\<^verbatim>\<open>internal/domain\<close>)\<close>

text \<open>
  The data of \<^verbatim>\<open>models.go\<close> and its validation. A string-typed enum of Go holds any string, so each
  becomes a datatype with the declared constants and an \<open>Other\<close> constructor for every other value.
  A UUID is its 128 bits, a time its nanoseconds since the epoch in UTC, a finite \<^verbatim>\<open>float64\<close> the
  rational it denotes (the program only compares it). A pointer field is an \<open>option\<close>. Where a struct
  is the row of a table and more, the row is a record of its own and the struct extends it.
\<close>

type_synonym uuid = "128 word"
type_synonym time = int

definition uuid_Nil :: uuid where
  "uuid_Nil = 0"

subsection \<open>String enums\<close>

datatype Role = RoleEngineer | RolePlatformAdmin | RoleOther string

fun Role_string :: "Role \<Rightarrow> string" where
  "Role_string RoleEngineer = ''engineer''"
| "Role_string RolePlatformAdmin = ''platform-admin''"
| "Role_string (RoleOther s) = s"

definition Role_of :: "string \<Rightarrow> Role" where
  "Role_of s = (if s = ''engineer'' then RoleEngineer
     else if s = ''platform-admin'' then RolePlatformAdmin else RoleOther s)"

datatype ReadinessState = ReadinessReady | ReadinessDegraded | ReadinessBlocked | ReadinessOther string

fun ReadinessState_string :: "ReadinessState \<Rightarrow> string" where
  "ReadinessState_string ReadinessReady = ''ready''"
| "ReadinessState_string ReadinessDegraded = ''degraded''"
| "ReadinessState_string ReadinessBlocked = ''blocked''"
| "ReadinessState_string (ReadinessOther s) = s"

datatype CheckStatus = CheckStatusPass | CheckStatusWarn | CheckStatusFail | CheckStatusOther string

datatype CandidateStatus =
  CandidateStatusPending | CandidateStatusApproved | CandidateStatusRejected | CandidateStatusOther string

fun CandidateStatus_string :: "CandidateStatus \<Rightarrow> string" where
  "CandidateStatus_string CandidateStatusPending = ''pending''"
| "CandidateStatus_string CandidateStatusApproved = ''approved''"
| "CandidateStatus_string CandidateStatusRejected = ''rejected''"
| "CandidateStatus_string (CandidateStatusOther s) = s"

datatype JobStatus =
  JobStatusPending | JobStatusProcessing | JobStatusCompleted | JobStatusFailed | JobStatusOther string

datatype JobType = JobTypeServiceEvaluation | JobTypeOther string

fun JobType_string :: "JobType \<Rightarrow> string" where
  "JobType_string JobTypeServiceEvaluation = ''service_evaluation''"
| "JobType_string (JobTypeOther s) = s"

lemma Role_of_string [simp]: "Role_string (Role_of s) = s"
  by (simp add: Role_of_def)

text \<open>\<^verbatim>\<open>func (status CandidateStatus) CanTransitionTo(next CandidateStatus) bool\<close>.\<close>

fun CanTransitionTo :: "CandidateStatus \<Rightarrow> CandidateStatus \<Rightarrow> bool" where
  "CanTransitionTo CandidateStatusPending next' \<longleftrightarrow>
     next' = CandidateStatusApproved \<or> next' = CandidateStatusRejected"
| "CanTransitionTo CandidateStatusApproved next' \<longleftrightarrow> False"
| "CanTransitionTo CandidateStatusRejected next' \<longleftrightarrow> False"
| "CanTransitionTo (CandidateStatusOther s) next' \<longleftrightarrow> False"

subsection \<open>Structs\<close>

text \<open>The values of a \<^verbatim>\<open>map[string]any\<close> the program builds.\<close>

datatype any = AnyString string | AnyInt int

type_synonym details = "(string \<times> any) list"

record SLOPolicy =
  slo_ID :: uuid
  slo_ServiceID :: uuid
  slo_AvailabilityTargetPercent :: rat
  slo_LatencyTargetMilliseconds :: int
  slo_TimeWindow :: string
  slo_CreatedAt :: time
  slo_UpdatedAt :: time

record services_row =
  svc_ID :: uuid
  svc_Name :: string
  svc_Description :: string
  svc_OwnerEmail :: string
  svc_RepositoryURL :: string
  svc_RunbookURL :: string
  svc_HealthEndpointURL :: string
  svc_ObservabilityURL :: string
  svc_DeploymentPipeline :: string
  svc_HasCI :: bool
  svc_HasTracing :: bool
  svc_HasMetrics :: bool
  svc_Language :: string
  svc_Tier :: int
  svc_Lifecycle :: string
  svc_CreatedAt :: time
  svc_UpdatedAt :: time

record Service = services_row +
  svc_SLOPolicy :: SLOPolicy

record ReadinessSnapshot =
  snap_ID :: uuid
  snap_ServiceID :: uuid
  snap_State :: ReadinessState
  snap_Score :: int
  snap_Summary :: string
  snap_EvaluatedAt :: time
  snap_JobID :: uuid
  snap_CreatedAt :: time

record ReadinessCheckResult =
  chk_ID :: uuid
  chk_SnapshotID :: uuid
  chk_ServiceID :: uuid
  chk_CheckName :: string
  chk_Status :: CheckStatus
  chk_Message :: string
  chk_RemediationHint :: string
  chk_CreatedAt :: time

record Scorecard =
  sc_Service :: Service
  sc_Snapshot :: ReadinessSnapshot
  sc_Checks :: "ReadinessCheckResult list"

record PromotionDecision =
  dec_ID :: uuid
  dec_CandidateID :: uuid
  dec_SnapshotID :: "uuid option"
  dec_Decision :: CandidateStatus
  dec_Summary :: string
  dec_CreatedAt :: time

record candidates_row =
  cand_ID :: uuid
  cand_ServiceID :: uuid
  cand_Environment :: string
  cand_Version :: string
  cand_CommitSHA :: string
  cand_RequestedBy :: string
  cand_Status :: CandidateStatus
  cand_DecisionReason :: string
  cand_LastSnapshotID :: "uuid option"
  cand_CreatedAt :: time
  cand_UpdatedAt :: time
  cand_EvaluatedAt :: "time option"

record DeploymentCandidate = candidates_row +
  cand_PromotionDecision :: "PromotionDecision option"

record AuditEvent =
  aud_ID :: uuid
  aud_ActorSubject :: string
  aud_ActorRole :: Role
  aud_EventType :: string
  aud_ResourceType :: string
  aud_ResourceID :: uuid
  aud_RequestID :: string
  aud_Details :: details
  aud_CreatedAt :: time

text \<open>
  A job and its row share all columns but two: \<^verbatim>\<open>lock_owner\<close> and \<^verbatim>\<open>last_error\<close> are nullable in the
  table and plain strings in the struct.
\<close>

record job_columns =
  job_ID :: uuid
  job_Type :: JobType
  job_ResourceID :: uuid
  job_Status :: JobStatus
  job_IdempotencyKey :: string
  job_Payload :: details
  job_Attempts :: int
  job_MaxAttempts :: int
  job_AvailableAt :: time
  job_LockedAt :: "time option"
  job_CreatedAt :: time
  job_UpdatedAt :: time

record Job = job_columns +
  job_LockOwner :: string
  job_LastError :: string

record SLOPolicyInput =
  sloin_AvailabilityTargetPercent :: rat
  sloin_LatencyTargetMilliseconds :: int
  sloin_Window :: string

record ServiceInput =
  in_Name :: string
  in_Description :: string
  in_OwnerEmail :: string
  in_RepositoryURL :: string
  in_RunbookURL :: string
  in_HealthEndpointURL :: string
  in_ObservabilityURL :: string
  in_DeploymentPipeline :: string
  in_HasCI :: bool
  in_HasTracing :: bool
  in_HasMetrics :: bool
  in_Language :: string
  in_Tier :: int
  in_Lifecycle :: string
  in_SLOPolicy :: SLOPolicyInput

record ServicePatch =
  p_Description :: "string option"
  p_OwnerEmail :: "string option"
  p_RepositoryURL :: "string option"
  p_RunbookURL :: "string option"
  p_HealthEndpointURL :: "string option"
  p_ObservabilityURL :: "string option"
  p_DeploymentPipeline :: "string option"
  p_HasCI :: "bool option"
  p_HasTracing :: "bool option"
  p_HasMetrics :: "bool option"
  p_Language :: "string option"
  p_Tier :: "int option"
  p_Lifecycle :: "string option"
  p_SLOPolicy :: "SLOPolicyInput option"

record DeploymentCandidateInput =
  cin_ServiceID :: uuid
  cin_Environment :: string
  cin_Version :: string
  cin_CommitSHA :: string
  cin_RequestedBy :: string

subsection \<open>Validation\<close>

text \<open>
  \<^verbatim>\<open>mail.ParseAddress\<close> and \<^verbatim>\<open>url.ParseRequestURI\<close> are parameters: of the first the code uses whether
  it returns an error, of the second the error and the scheme. A validator returns the error, if any.
\<close>

record parsers =
  mail_ParseAddress :: "string \<Rightarrow> go_error option"
  url_ParseRequestURI :: "string \<Rightarrow> go_error + string"

definition validateEmail :: "parsers \<Rightarrow> string \<Rightarrow> go_error option" where
  "validateEmail P v =
     (if TrimSpace v = [] then Some (ErrorsNew ''is required'')
      else case mail_ParseAddress P v of
        Some err \<Rightarrow> Some (wrap_prefix ''must be a valid email: '' err)
      | None \<Rightarrow> None)"

definition validateURL :: "parsers \<Rightarrow> string \<Rightarrow> string \<Rightarrow> go_error option" where
  "validateURL P field v =
     (if TrimSpace v = [] then Some (ErrorsNew (field @ '' is required''))
      else case url_ParseRequestURI P v of
        Inl err \<Rightarrow> Some (wrap_prefix (field @ '' must be a valid URL: '') err)
      | Inr scheme \<Rightarrow>
          if scheme = ''http'' \<or> scheme = ''https'' then None
          else Some (ErrorsNew (field @ '' must use http or https'')))"

definition SLOPolicyInput_Validate :: "SLOPolicyInput \<Rightarrow> go_error option" where
  "SLOPolicyInput_Validate i =
     (if sloin_AvailabilityTargetPercent i \<le> 0 \<or> sloin_AvailabilityTargetPercent i > 100
      then Some (ErrorsNew ''slo_policy.availability_target_percent must be between 0 and 100'')
      else if sloin_LatencyTargetMilliseconds i \<le> 0
      then Some (ErrorsNew ''slo_policy.latency_target_milliseconds must be greater than zero'')
      else if TrimSpace (sloin_Window i) = [] then Some (ErrorsNew ''slo_policy.window is required'')
      else None)"

text \<open>\<open>orElse a b\<close>: the first error of two checks in sequence.\<close>

fun orElse :: "go_error option \<Rightarrow> go_error option \<Rightarrow> go_error option" where
  "orElse (Some e) b = Some e"
| "orElse None b = b"

definition failIf :: "bool \<Rightarrow> string \<Rightarrow> go_error option" where
  "failIf b message = (if b then Some (ErrorsNew message) else None)"

lemma orElse_None [simp]: "orElse a b = None \<longleftrightarrow> a = None \<and> b = None"
  by (cases a) auto

lemma failIf_None [simp]: "failIf b message = None \<longleftrightarrow> \<not> b"
  by (simp add: failIf_def)

definition ServiceInput_Validate :: "parsers \<Rightarrow> ServiceInput \<Rightarrow> go_error option" where
  "ServiceInput_Validate P i =
     orElse (failIf (TrimSpace (in_Name i) = []) ''service.name is required'')
    (orElse (failIf (TrimSpace (in_Description i) = []) ''service.description is required'')
    (orElse (map_option (wrap_prefix ''service.owner_email: '') (validateEmail P (in_OwnerEmail i)))
    (orElse (validateURL P ''service.repository_url'' (in_RepositoryURL i))
    (orElse (validateURL P ''service.runbook_url'' (in_RunbookURL i))
    (orElse (validateURL P ''service.health_endpoint_url'' (in_HealthEndpointURL i))
    (orElse (validateURL P ''service.observability_url'' (in_ObservabilityURL i))
    (orElse (failIf (TrimSpace (in_DeploymentPipeline i) = []) ''service.deployment_pipeline is required'')
    (orElse (failIf (TrimSpace (in_Language i) = []) ''service.language is required'')
    (orElse (failIf (in_Tier i < 0 \<or> in_Tier i > 3) ''service.tier must be between 0 and 3'')
    (orElse (failIf (TrimSpace (in_Lifecycle i) = []) ''service.lifecycle is required'')
      (SLOPolicyInput_Validate (in_SLOPolicy i))))))))))))"

text \<open>A check that runs only when the patch carries the field.\<close>

definition whenSet :: "'a option \<Rightarrow> ('a \<Rightarrow> go_error option) \<Rightarrow> go_error option" where
  "whenSet x check = (case x of None \<Rightarrow> None | Some v \<Rightarrow> check v)"

lemma whenSet_None [simp]: "whenSet x check = None \<longleftrightarrow> (\<forall>v. x = Some v \<longrightarrow> check v = None)"
  by (auto simp: whenSet_def split: option.splits)

definition ServicePatch_Validate :: "parsers \<Rightarrow> ServicePatch \<Rightarrow> go_error option" where
  "ServicePatch_Validate P p =
     orElse (failIf (p_Description p = None \<and> p_OwnerEmail p = None \<and> p_RepositoryURL p = None \<and>
         p_RunbookURL p = None \<and> p_HealthEndpointURL p = None \<and> p_ObservabilityURL p = None \<and>
         p_DeploymentPipeline p = None \<and> p_HasCI p = None \<and> p_HasTracing p = None \<and>
         p_HasMetrics p = None \<and> p_Language p = None \<and> p_Tier p = None \<and> p_Lifecycle p = None \<and>
         p_SLOPolicy p = None) ''service patch must include at least one field'')
    (orElse (whenSet (p_Description p) (\<lambda>v. failIf (TrimSpace v = []) ''service.description must not be empty''))
    (orElse (whenSet (p_OwnerEmail p) (\<lambda>v. map_option (wrap_prefix ''service.owner_email: '') (validateEmail P v)))
    (orElse (whenSet (p_RepositoryURL p) (validateURL P ''service.repository_url''))
    (orElse (whenSet (p_RunbookURL p) (validateURL P ''service.runbook_url''))
    (orElse (whenSet (p_HealthEndpointURL p) (validateURL P ''service.health_endpoint_url''))
    (orElse (whenSet (p_ObservabilityURL p) (validateURL P ''service.observability_url''))
    (orElse (whenSet (p_Tier p) (\<lambda>v. failIf (v < 0 \<or> v > 3) ''service.tier must be between 0 and 3''))
    (orElse (whenSet (p_DeploymentPipeline p) (\<lambda>v. failIf (TrimSpace v = []) ''service.deployment_pipeline must not be empty''))
    (orElse (whenSet (p_Language p) (\<lambda>v. failIf (TrimSpace v = []) ''service.language must not be empty''))
    (orElse (whenSet (p_Lifecycle p) (\<lambda>v. failIf (TrimSpace v = []) ''service.lifecycle must not be empty''))
      (whenSet (p_SLOPolicy p) SLOPolicyInput_Validate)))))))))))"

definition DeploymentCandidateInput_Validate :: "parsers \<Rightarrow> DeploymentCandidateInput \<Rightarrow> go_error option" where
  "DeploymentCandidateInput_Validate P i =
     orElse (failIf (cin_ServiceID i = uuid_Nil) ''deployment_candidate.service_id is required'')
    (orElse (failIf (TrimSpace (cin_Environment i) \<notin> {''development'', ''staging'', ''production''})
        ''deployment_candidate.environment must be one of development|staging|production'')
    (orElse (failIf (TrimSpace (cin_Version i) = []) ''deployment_candidate.version is required'')
    (orElse (failIf (TrimSpace (cin_CommitSHA i) = []) ''deployment_candidate.commit_sha is required'')
      (map_option (wrap_prefix ''deployment_candidate.requested_by: '') (validateEmail P (cin_RequestedBy i))))))"

subsection \<open>What validation accepts\<close>

text \<open>
  The declarative reading of the validators: a field-wise predicate on the values, shared by the
  registration input, the patch and the stored service.
\<close>

definition email_ok :: "parsers \<Rightarrow> string \<Rightarrow> bool" where
  "email_ok P v \<longleftrightarrow> TrimSpace v \<noteq> [] \<and> mail_ParseAddress P v = None"

definition url_ok :: "parsers \<Rightarrow> string \<Rightarrow> bool" where
  "url_ok P v \<longleftrightarrow> TrimSpace v \<noteq> [] \<and> url_ParseRequestURI P v \<in> {Inr ''http'', Inr ''https''}"

definition slo_ok :: "rat \<Rightarrow> int \<Rightarrow> string \<Rightarrow> bool" where
  "slo_ok availability latency window \<longleftrightarrow>
     0 < availability \<and> availability \<le> 100 \<and> 0 < latency \<and> TrimSpace window \<noteq> []"

definition service_ok :: "parsers \<Rightarrow> Service \<Rightarrow> bool" where
  "service_ok P s \<longleftrightarrow>
     TrimSpace (svc_Name s) \<noteq> [] \<and> TrimSpace (svc_Description s) \<noteq> [] \<and>
     email_ok P (svc_OwnerEmail s) \<and> url_ok P (svc_RepositoryURL s) \<and> url_ok P (svc_RunbookURL s) \<and>
     url_ok P (svc_HealthEndpointURL s) \<and> url_ok P (svc_ObservabilityURL s) \<and>
     TrimSpace (svc_DeploymentPipeline s) \<noteq> [] \<and> TrimSpace (svc_Language s) \<noteq> [] \<and>
     0 \<le> svc_Tier s \<and> svc_Tier s \<le> 3 \<and> TrimSpace (svc_Lifecycle s) \<noteq> [] \<and>
     slo_ok (slo_AvailabilityTargetPercent (svc_SLOPolicy s))
       (slo_LatencyTargetMilliseconds (svc_SLOPolicy s)) (slo_TimeWindow (svc_SLOPolicy s))"

lemma validateEmail_None [simp]: "validateEmail P v = None \<longleftrightarrow> email_ok P v"
  by (auto simp: validateEmail_def email_ok_def split: option.splits)

lemma validateURL_None [simp]: "validateURL P field v = None \<longleftrightarrow> url_ok P v"
  by (auto simp: validateURL_def url_ok_def split: sum.splits)

lemma SLOPolicyInput_Validate_None [simp]:
  "SLOPolicyInput_Validate i = None \<longleftrightarrow>
     slo_ok (sloin_AvailabilityTargetPercent i) (sloin_LatencyTargetMilliseconds i) (sloin_Window i)"
  by (auto simp: SLOPolicyInput_Validate_def slo_ok_def)

lemma ServiceInput_Validate_None:
  "ServiceInput_Validate P i = None \<longleftrightarrow>
     TrimSpace (in_Name i) \<noteq> [] \<and> TrimSpace (in_Description i) \<noteq> [] \<and>
     email_ok P (in_OwnerEmail i) \<and> url_ok P (in_RepositoryURL i) \<and> url_ok P (in_RunbookURL i) \<and>
     url_ok P (in_HealthEndpointURL i) \<and> url_ok P (in_ObservabilityURL i) \<and>
     TrimSpace (in_DeploymentPipeline i) \<noteq> [] \<and> TrimSpace (in_Language i) \<noteq> [] \<and>
     0 \<le> in_Tier i \<and> in_Tier i \<le> 3 \<and> TrimSpace (in_Lifecycle i) \<noteq> [] \<and>
     SLOPolicyInput_Validate (in_SLOPolicy i) = None"
  by (auto simp: ServiceInput_Validate_def)

lemma ServicePatch_Validate_fields:
  assumes "ServicePatch_Validate P p = None"
  shows "\<And>v. p_Description p = Some v \<Longrightarrow> TrimSpace v \<noteq> []"
    and "\<And>v. p_OwnerEmail p = Some v \<Longrightarrow> email_ok P v"
    and "\<And>v. p_RepositoryURL p = Some v \<Longrightarrow> url_ok P v"
    and "\<And>v. p_RunbookURL p = Some v \<Longrightarrow> url_ok P v"
    and "\<And>v. p_HealthEndpointURL p = Some v \<Longrightarrow> url_ok P v"
    and "\<And>v. p_ObservabilityURL p = Some v \<Longrightarrow> url_ok P v"
    and "\<And>v. p_Tier p = Some v \<Longrightarrow> 0 \<le> v \<and> v \<le> 3"
    and "\<And>v. p_DeploymentPipeline p = Some v \<Longrightarrow> TrimSpace v \<noteq> []"
    and "\<And>v. p_Language p = Some v \<Longrightarrow> TrimSpace v \<noteq> []"
    and "\<And>v. p_Lifecycle p = Some v \<Longrightarrow> TrimSpace v \<noteq> []"
    and "\<And>v. p_SLOPolicy p = Some v \<Longrightarrow> SLOPolicyInput_Validate v = None"
  using assms unfolding ServicePatch_Validate_def by auto

text \<open>An accepted field is never empty.\<close>

lemma blank_not_ok:
  "\<not> email_ok P []" "\<not> url_ok P []" "\<not> slo_ok a l []"
  by (simp_all add: email_ok_def url_ok_def slo_ok_def)

end
