(* ===== verification/Auth.thy ===== *)
theory Auth
  imports Domain
begin

section \<open>Authentication (\<^verbatim>\<open>internal/auth\<close>)\<close>

text \<open>The authenticated caller.\<close>

record Principal =
  pr_Subject :: string
  pr_Role :: Role
  pr_Issuer :: string

end
