(* ===== verification/PlatformChecks.thy ===== *)
theory PlatformChecks
  imports Domain
begin

section \<open>The readiness evaluator (\<^verbatim>\<open>internal/platformchecks\<close>)\<close>

text \<open>
  \<open>Evaluate\<close> runs ten checks on a service, counts failures and warnings, and derives the score and
  the readiness state. \<^verbatim>\<open>uuid.New\<close> is the parameter \<open>uuid_New\<close>, a draw from the world. The lemmas
  relate the state, the score and the list of checks, first for any service, then for a service that
  passed validation.
\<close>

record Result =
  res_Snapshot :: ReadinessSnapshot
  res_Checks :: "ReadinessCheckResult list"

type_synonym finding = "CheckStatus \<times> string \<times> string"

definition passIf :: "bool \<Rightarrow> string \<Rightarrow> string \<Rightarrow> string \<Rightarrow> finding" where
  "passIf ok passMessage failMessage hint =
     (if ok then (CheckStatusPass, passMessage, []) else (CheckStatusFail, failMessage, hint))"

definition warnIf :: "bool \<Rightarrow> string \<Rightarrow> string \<Rightarrow> string \<Rightarrow> finding" where
  "warnIf ok passMessage warnMessage hint =
     (if ok then (CheckStatusPass, passMessage, []) else (CheckStatusWarn, warnMessage, hint))"

definition buildCheck ::
  "('w \<Rightarrow> uuid \<times> 'w) \<Rightarrow> uuid \<Rightarrow> string \<times> finding \<Rightarrow> 'w \<Rightarrow> ReadinessCheckResult \<times> 'w" where
  "buildCheck uuid_New serviceID spec =
     (case spec of (name, status, message, hint) \<Rightarrow>
        letM uuid_New (\<lambda>new w.
          (\<lparr>chk_ID = new, chk_SnapshotID = uuid_Nil, chk_ServiceID = serviceID,
            chk_CheckName = TrimSpace name, chk_Status = status, chk_Message = message,
            chk_RemediationHint = hint, chk_CreatedAt = 0\<rparr>, w)))"

text \<open>The ten checks, in the order of the slice.\<close>

definition slo_complete :: "SLOPolicy \<Rightarrow> bool" where
  "slo_complete p \<longleftrightarrow> slo_TimeWindow p \<noteq> [] \<and> slo_AvailabilityTargetPercent p > 0 \<and>
     slo_LatencyTargetMilliseconds p > 0"

definition findings :: "Service \<Rightarrow> (string \<times> finding) list" where
  "findings s =
    [(''owner_declared'', passIf (svc_OwnerEmail s \<noteq> []) ''Owner email present''
        ''Owner email missing'' ''Set a durable owner_email for operational accountability.''),
     (''repository_connected'', passIf (svc_RepositoryURL s \<noteq> []) ''Repository URL present''
        ''Repository URL missing'' ''Register the canonical repository_url.''),
     (''runbook_present'', warnIf (svc_RunbookURL s \<noteq> []) ''Runbook URL present''
        ''Runbook missing'' ''Add a runbook_url before promotion.''),
     (''health_endpoint_present'', passIf (svc_HealthEndpointURL s \<noteq> []) ''Health endpoint URL present''
        ''Health endpoint missing'' ''Expose and register a health_endpoint_url.''),
     (''observability_dashboard_present'', warnIf (svc_ObservabilityURL s \<noteq> []) ''Observability dashboard present''
        ''Observability dashboard missing'' ''Register an observability_url for debugging and ownership.''),
     (''ci_enabled'', passIf (svc_HasCI s) ''CI declared''
        ''CI not declared'' ''Set has_ci=true and wire CI before promotion.''),
     (''tracing_enabled'', warnIf (svc_HasTracing s) ''Tracing declared''
        ''Tracing not declared'' ''Enable tracing or document the gap before production use.''),
     (''metrics_enabled'', warnIf (svc_HasMetrics s) ''Metrics declared''
        ''Metrics not declared'' ''Enable metrics or document the gap before production use.''),
     (''deployment_pipeline_declared'', passIf (svc_DeploymentPipeline s \<noteq> []) ''Deployment pipeline declared''
        ''Deployment pipeline missing'' ''Set deployment_pipeline to the owning CI/CD workflow.''),
     (''slo_policy_declared'', warnIf (slo_complete (svc_SLOPolicy s)) ''SLO policy declared''
        ''SLO policy incomplete'' ''Define availability, latency, and window targets.'')]"

text \<open>The counting loop, over the pair of failures and warnings.\<close>

fun tally :: "ReadinessCheckResult list \<Rightarrow> int \<times> int \<Rightarrow> int \<times> int" where
  "tally [] (failures, warnings) = (failures, warnings)"
| "tally (c # cs) (failures, warnings) =
     (case chk_Status c of
        CheckStatusFail \<Rightarrow> tally cs (failures + 1, warnings)
      | CheckStatusWarn \<Rightarrow> tally cs (failures, warnings + 1)
      | _ \<Rightarrow> tally cs (failures, warnings))"

definition score_of :: "int \<Rightarrow> int \<Rightarrow> int" where
  "score_of failures warnings =
     (let score = 100 - failures * 30 - warnings * 10 in if score < 0 then 0 else score)"

definition state_of :: "int \<Rightarrow> int \<Rightarrow> ReadinessState \<times> string" where
  "state_of failures warnings =
     (if failures > 0 then (ReadinessBlocked,
        ''Service is blocked by '' @ Itoa failures @ '' failing golden-path checks.'')
      else if warnings > 0 then (ReadinessDegraded,
        ''Service is degraded with '' @ Itoa warnings @ '' warning-level golden-path checks.'')
      else (ReadinessReady, ''Service is ready for promotion.''))"

definition Evaluate :: "('w \<Rightarrow> uuid \<times> 'w) \<Rightarrow> Service \<Rightarrow> uuid \<Rightarrow> time \<Rightarrow> 'w \<Rightarrow> Result \<times> 'w" where
  "Evaluate uuid_New service jobID evaluatedAt =
     letM (mapL (buildCheck uuid_New (svc_ID service)) (findings service)) (\<lambda>checks.
     case tally checks (0, 0) of (failures, warnings) \<Rightarrow>
     case state_of failures warnings of (state, summary) \<Rightarrow>
     letM uuid_New (\<lambda>snapshotID w.
       (\<lparr>res_Snapshot =
           \<lparr>snap_ID = snapshotID, snap_ServiceID = svc_ID service, snap_State = state,
            snap_Score = score_of failures warnings, snap_Summary = summary,
            snap_EvaluatedAt = evaluatedAt, snap_JobID = jobID, snap_CreatedAt = evaluatedAt\<rparr>,
         res_Checks = map (\<lambda>c. c\<lparr>chk_SnapshotID := snapshotID, chk_CreatedAt := evaluatedAt\<rparr>) checks\<rparr>, w)))"

subsection \<open>Counting\<close>

definition failures_of :: "Service \<Rightarrow> nat" where
  "failures_of s = length (filter (\<lambda>x. fst (snd x) = CheckStatusFail) (findings s))"

definition warnings_of :: "Service \<Rightarrow> nat" where
  "warnings_of s = length (filter (\<lambda>x. fst (snd x) = CheckStatusWarn) (findings s))"

abbreviation status_count :: "CheckStatus \<Rightarrow> ReadinessCheckResult list \<Rightarrow> nat" where
  "status_count st cs \<equiv> length (filter (\<lambda>c. chk_Status c = st) cs)"

lemma tally_counts:
  "tally cs (f, w) = (f + int (status_count CheckStatusFail cs), w + int (status_count CheckStatusWarn cs))"
  by (induction cs arbitrary: f w) (auto split: CheckStatus.split)

lemma buildCheck_fields:
  "chk_Status (fst (buildCheck new sid x w)) = fst (snd x)"
  "chk_CheckName (fst (buildCheck new sid x w)) = TrimSpace (fst x)"
  "chk_RemediationHint (fst (buildCheck new sid x w)) = snd (snd (snd x))"
  "chk_ServiceID (fst (buildCheck new sid x w)) = sid"
  by (auto simp: buildCheck_def letM_def split: prod.splits)

lemma mapL_statuses:
  "map chk_Status (fst (mapL (buildCheck new sid) xs w)) = map (fst \<circ> snd) xs"
  by (rule mapL_map) (simp add: buildCheck_fields)

lemma status_count_map: "status_count st cs = length (filter (\<lambda>x. x = st) (map chk_Status cs))"
  by (induction cs) auto

lemma finding_status:
  "fst (passIf ok m n h) = (if ok then CheckStatusPass else CheckStatusFail)"
  "fst (warnIf ok m n h) = (if ok then CheckStatusPass else CheckStatusWarn)"
  by (simp_all add: passIf_def warnIf_def)

lemma finding_status_iff:
  "fst (passIf ok m n h) = CheckStatusFail \<longleftrightarrow> \<not> ok" "fst (passIf ok m n h) \<noteq> CheckStatusWarn"
  "fst (warnIf ok m n h) = CheckStatusWarn \<longleftrightarrow> \<not> ok" "fst (warnIf ok m n h) \<noteq> CheckStatusFail"
  by (simp_all add: finding_status)

lemma length_filter_Cons:
  "length (filter p (x # xs)) = of_bool (p x) + length (filter p xs)"
  by simp

lemma failures_of_simp: "failures_of s =
    of_bool (svc_OwnerEmail s = []) + of_bool (svc_RepositoryURL s = []) +
    of_bool (svc_HealthEndpointURL s = []) + of_bool (\<not> svc_HasCI s) +
    of_bool (svc_DeploymentPipeline s = [])"
  by (simp only: failures_of_def findings_def length_filter_Cons fst_conv snd_conv
        finding_status_iff not_not of_bool_eq add_0_left add_0_right filter.simps(1) list.size(3))

lemma warnings_of_simp: "warnings_of s =
    of_bool (svc_RunbookURL s = []) + of_bool (svc_ObservabilityURL s = []) +
    of_bool (\<not> svc_HasTracing s) + of_bool (\<not> svc_HasMetrics s) +
    of_bool (\<not> slo_complete (svc_SLOPolicy s))"
  by (simp only: warnings_of_def findings_def length_filter_Cons fst_conv snd_conv
        finding_status_iff not_not of_bool_eq add_0_left add_0_right filter.simps(1) list.size(3))

lemma mapL_counts:
  "status_count CheckStatusFail (fst (mapL (buildCheck new sid) (findings s) w)) = failures_of s"
  "status_count CheckStatusWarn (fst (mapL (buildCheck new sid) (findings s) w)) = warnings_of s"
  by (simp_all add: status_count_map mapL_statuses failures_of_def warnings_of_def filter_map
        comp_def)

subsection \<open>The verdict\<close>

lemma status_count_update:
  "status_count st (map (\<lambda>c. c\<lparr>chk_SnapshotID := i, chk_CreatedAt := t\<rparr>) cs) = status_count st cs"
  by (simp add: filter_map comp_def)

text \<open>Everything \<^verbatim>\<open>Evaluate\<close> returns, in terms of the two counts.\<close>

lemma Evaluate_result:
  assumes "Evaluate new s job tm w = (r, w')"
  shows "status_count CheckStatusFail (res_Checks r) = failures_of s"
    and "status_count CheckStatusWarn (res_Checks r) = warnings_of s"
    and "snap_Score (res_Snapshot r) = score_of (int (failures_of s)) (int (warnings_of s))"
    and "(snap_State (res_Snapshot r), snap_Summary (res_Snapshot r)) =
           state_of (int (failures_of s)) (int (warnings_of s))"
    and "map chk_Status (res_Checks r) = map (fst \<circ> snd) (findings s)"
    and "snap_ServiceID (res_Snapshot r) = svc_ID s" "snap_JobID (res_Snapshot r) = job"
    and "snap_EvaluatedAt (res_Snapshot r) = tm"
proof -
  obtain cs w1 where m: "mapL (buildCheck new (svc_ID s)) (findings s) w = (cs, w1)"
    by fastforce
  note c = mapL_counts [of new "svc_ID s" s w, unfolded m fst_conv]
  have t: "tally cs (0, 0) = (int (failures_of s), int (warnings_of s))"
    using c by (simp add: tally_counts)
  obtain st sm where so: "state_of (int (failures_of s)) (int (warnings_of s)) = (st, sm)"
    by fastforce
  obtain sid w2 where d: "new w1 = (sid, w2)" by fastforce
  have r: "res_Checks r = map (\<lambda>c. c\<lparr>chk_SnapshotID := sid, chk_CreatedAt := tm\<rparr>) cs"
    "res_Snapshot r =
      \<lparr>snap_ID = sid, snap_ServiceID = svc_ID s, snap_State = st,
       snap_Score = score_of (int (failures_of s)) (int (warnings_of s)), snap_Summary = sm,
       snap_EvaluatedAt = tm, snap_JobID = job, snap_CreatedAt = tm\<rparr>"
    using assms by (auto simp: Evaluate_def letM_def m t so d)
  show "status_count CheckStatusFail (res_Checks r) = failures_of s"
    "status_count CheckStatusWarn (res_Checks r) = warnings_of s"
    using c by (simp_all only: r status_count_update)
  show "map chk_Status (res_Checks r) = map (fst \<circ> snd) (findings s)"
    using mapL_statuses [of new "svc_ID s" "findings s" w] m by (simp add: r comp_def)
  show "snap_Score (res_Snapshot r) = score_of (int (failures_of s)) (int (warnings_of s))"
    "(snap_State (res_Snapshot r), snap_Summary (res_Snapshot r)) =
       state_of (int (failures_of s)) (int (warnings_of s))"
    "snap_ServiceID (res_Snapshot r) = svc_ID s" "snap_JobID (res_Snapshot r) = job"
    "snap_EvaluatedAt (res_Snapshot r) = tm"
    by (simp_all add: r so)
qed

lemma state_of_iff:
  "fst (state_of f w) = ReadinessBlocked \<longleftrightarrow> f > 0"
  "fst (state_of f w) = ReadinessDegraded \<longleftrightarrow> \<not> f > 0 \<and> w > 0"
  "fst (state_of f w) = ReadinessReady \<longleftrightarrow> \<not> f > 0 \<and> \<not> w > 0"
  by (simp_all add: state_of_def)

lemma Evaluate_state:
  assumes "Evaluate new s job tm w = (r, w')"
  shows "snap_State (res_Snapshot r) = fst (state_of (int (failures_of s)) (int (warnings_of s)))"
  by (metis Evaluate_result(4) [OF assms] fst_conv)

lemma status_count_0: "status_count st cs = 0 \<longleftrightarrow> (\<forall>c \<in> set cs. chk_Status c \<noteq> st)"
  by (simp add: filter_empty_conv)

lemma score_of_range: "0 \<le> f \<Longrightarrow> 0 \<le> w \<Longrightarrow> 0 \<le> score_of f w \<and> score_of f w \<le> 100"
  by (simp add: score_of_def Let_def)

text \<open>A check result is pass, warn or fail; the enum's other values never occur.\<close>

lemma finding_known:
  "\<forall>x \<in> set (findings s). fst (snd x) \<in> {CheckStatusPass, CheckStatusWarn, CheckStatusFail}"
  by (simp add: findings_def finding_status)

lemma Evaluate_statuses_known:
  assumes "Evaluate new s job tm w = (r, w')" and "c \<in> set (res_Checks r)"
  shows "chk_Status c \<in> {CheckStatusPass, CheckStatusWarn, CheckStatusFail}"
proof -
  have "chk_Status c \<in> set (map chk_Status (res_Checks r))" using assms(2) by simp
  then have "chk_Status c \<in> set (map (fst \<circ> snd) (findings s))"
    by (simp only: Evaluate_result(5) [OF assms(1)])
  then obtain x where "x \<in> set (findings s)" "chk_Status c = fst (snd x)" by auto
  then show ?thesis using finding_known by metis
qed

text \<open>The verdict in terms of the returned checks.\<close>

lemma evaluation_score:
  assumes "Evaluate new s job tm w = (r, w')"
  shows "snap_Score (res_Snapshot r) = max 0 (100 - 30 * int (status_count CheckStatusFail (res_Checks r))
                                               - 10 * int (status_count CheckStatusWarn (res_Checks r)))"
  by (simp add: Evaluate_result(1-3) [OF assms] score_of_def Let_def max_def algebra_simps)

lemma evaluation_score_range:
  assumes "Evaluate new s job tm w = (r, w')"
  shows "0 \<le> snap_Score (res_Snapshot r)" "snap_Score (res_Snapshot r) \<le> 100"
  by (simp_all add: evaluation_score [OF assms])

lemma evaluation_failing:
  assumes "Evaluate new s job tm w = (r, w')"
  shows "(\<exists>c \<in> set (res_Checks r). chk_Status c = CheckStatusFail) \<longleftrightarrow> failures_of s \<noteq> 0"
  using status_count_0 [of CheckStatusFail "res_Checks r"] by (auto simp only: Evaluate_result(1) [OF assms])

lemma evaluation_warning:
  assumes "Evaluate new s job tm w = (r, w')"
  shows "(\<exists>c \<in> set (res_Checks r). chk_Status c = CheckStatusWarn) \<longleftrightarrow> warnings_of s \<noteq> 0"
  using status_count_0 [of CheckStatusWarn "res_Checks r"] by (auto simp only: Evaluate_result(2) [OF assms])

lemma evaluation_blocked:
  assumes "Evaluate new s job tm w = (r, w')"
  shows "snap_State (res_Snapshot r) = ReadinessBlocked \<longleftrightarrow>
     (\<exists>c \<in> set (res_Checks r). chk_Status c = CheckStatusFail)"
  unfolding evaluation_failing [OF assms] Evaluate_state [OF assms] by (auto simp: state_of_def)

lemma evaluation_ready:
  assumes "Evaluate new s job tm w = (r, w')"
  shows "snap_State (res_Snapshot r) = ReadinessReady \<longleftrightarrow>
     (\<forall>c \<in> set (res_Checks r). chk_Status c = CheckStatusPass)"
proof -
  have "(\<forall>c \<in> set (res_Checks r). chk_Status c = CheckStatusPass) \<longleftrightarrow> failures_of s = 0 \<and> warnings_of s = 0"
    using evaluation_failing [OF assms] evaluation_warning [OF assms] Evaluate_statuses_known [OF assms]
    by fastforce
  then show ?thesis unfolding Evaluate_state [OF assms] by (auto simp: state_of_def)
qed

lemma evaluation_perfect:
  assumes "Evaluate new s job tm w = (r, w')"
  shows "snap_Score (res_Snapshot r) = 100 \<longleftrightarrow> snap_State (res_Snapshot r) = ReadinessReady"
  unfolding Evaluate_state [OF assms] Evaluate_result(3) [OF assms] by (auto simp: state_of_def score_of_def)

subsection \<open>Properties\<close>

text \<open>
  C38. The verdict of an evaluation is a function of the returned checks alone: the score is 100 less
  30 per failing and 10 per warning check, floored at 0 and so in the range 0 to 100 the schema
  demands; the service is blocked exactly when some check fails, ready exactly when every check
  passes, degraded otherwise; and the score is 100 exactly when the state is ready.
\<close>

theorem Evaluate_verdict:
  assumes "Evaluate new s job tm w = (r, w')"
  shows "snap_Score (res_Snapshot r) =
      max 0 (100 - 30 * int (status_count CheckStatusFail (res_Checks r))
                 - 10 * int (status_count CheckStatusWarn (res_Checks r)))
    \<and> 0 \<le> snap_Score (res_Snapshot r) \<and> snap_Score (res_Snapshot r) \<le> 100
    \<and> (snap_State (res_Snapshot r) = ReadinessBlocked \<longleftrightarrow>
         (\<exists>c \<in> set (res_Checks r). chk_Status c = CheckStatusFail))
    \<and> (snap_State (res_Snapshot r) = ReadinessReady \<longleftrightarrow>
         (\<forall>c \<in> set (res_Checks r). chk_Status c = CheckStatusPass))
    \<and> (snap_State (res_Snapshot r) \<in> {ReadinessReady, ReadinessDegraded, ReadinessBlocked})
    \<and> (snap_Score (res_Snapshot r) = 100 \<longleftrightarrow> snap_State (res_Snapshot r) = ReadinessReady)"
  using evaluation_score [OF assms] evaluation_blocked [OF assms] evaluation_ready [OF assms]
    evaluation_perfect [OF assms] evaluation_score_range [OF assms] Evaluate_state [OF assms]
  by (auto simp: state_of_def)

text \<open>A concrete service with one warning: everything declared except tracing.\<close>

definition sample_slo :: SLOPolicy where
  "sample_slo = \<lparr>slo_ID = 2, slo_ServiceID = 1, slo_AvailabilityTargetPercent = 999 / 10,
     slo_LatencyTargetMilliseconds = 250, slo_TimeWindow = ''30d'', slo_CreatedAt = 0, slo_UpdatedAt = 0\<rparr>"

definition sample_service :: Service where
  "sample_service = \<lparr>svc_ID = 1, svc_Name = ''control-plane'', svc_Description = ''cp'',
     svc_OwnerEmail = ''owner@example.com'', svc_RepositoryURL = ''https://github.com/example'',
     svc_RunbookURL = ''https://example.com/runbook'', svc_HealthEndpointURL = ''https://example.com/healthz'',
     svc_ObservabilityURL = ''https://example.com/dashboard'', svc_DeploymentPipeline = ''github-actions'',
     svc_HasCI = True, svc_HasTracing = False, svc_HasMetrics = True, svc_Language = ''go'',
     svc_Tier = 1, svc_Lifecycle = ''production'', svc_CreatedAt = 0, svc_UpdatedAt = 0,
     svc_SLOPolicy = sample_slo\<rparr>"

text \<open>Draws of consecutive identifiers.\<close>

definition draw_next :: "uuid \<Rightarrow> uuid \<times> uuid" where
  "draw_next n = (n, n + 1)"

lemma sample_counts: "failures_of sample_service = 0" "warnings_of sample_service = 1"
  by (simp_all add: failures_of_simp warnings_of_simp sample_service_def sample_slo_def slo_complete_def)

theorem Evaluate_verdict_witness:
  "\<exists>r w'. Evaluate draw_next sample_service 7 0 100 = (r, w') \<and>
     snap_Score (res_Snapshot r) = 90 \<and> snap_State (res_Snapshot r) = ReadinessDegraded \<and>
     \<not> (\<forall>c \<in> set (res_Checks r). chk_Status c = CheckStatusPass)"
proof -
  obtain r w' where e: "Evaluate draw_next sample_service 7 0 100 = (r, w')" by fastforce
  have "snap_Score (res_Snapshot r) = 90" "snap_State (res_Snapshot r) = ReadinessDegraded"
    using Evaluate_result(3) [OF e] Evaluate_state [OF e]
    by (simp_all add: sample_counts score_of_def state_of_def)
  with Evaluate_verdict [OF e] e show ?thesis by auto
qed

text \<open>
  \<open>declares_more s t\<close>: the service \<open>t\<close> declares everything \<open>s\<close> declares.
\<close>

definition declares_more :: "Service \<Rightarrow> Service \<Rightarrow> bool" where
  "declares_more s t \<longleftrightarrow>
     (svc_OwnerEmail s \<noteq> [] \<longrightarrow> svc_OwnerEmail t \<noteq> []) \<and>
     (svc_RepositoryURL s \<noteq> [] \<longrightarrow> svc_RepositoryURL t \<noteq> []) \<and>
     (svc_RunbookURL s \<noteq> [] \<longrightarrow> svc_RunbookURL t \<noteq> []) \<and>
     (svc_HealthEndpointURL s \<noteq> [] \<longrightarrow> svc_HealthEndpointURL t \<noteq> []) \<and>
     (svc_ObservabilityURL s \<noteq> [] \<longrightarrow> svc_ObservabilityURL t \<noteq> []) \<and>
     (svc_DeploymentPipeline s \<noteq> [] \<longrightarrow> svc_DeploymentPipeline t \<noteq> []) \<and>
     (svc_HasCI s \<longrightarrow> svc_HasCI t) \<and> (svc_HasTracing s \<longrightarrow> svc_HasTracing t) \<and>
     (svc_HasMetrics s \<longrightarrow> svc_HasMetrics t) \<and>
     (slo_complete (svc_SLOPolicy s) \<longrightarrow> slo_complete (svc_SLOPolicy t))"

lemma declares_more_counts:
  assumes "declares_more s t"
  shows "failures_of t \<le> failures_of s" "warnings_of t \<le> warnings_of s"
  unfolding failures_of_simp warnings_of_simp
  by (intro add_mono, insert assms, auto simp: declares_more_def)+


lemma score_of_antimono:
  "f' \<le> f \<Longrightarrow> w' \<le> w \<Longrightarrow> score_of f w \<le> score_of f' w'"
  by (simp add: score_of_def Let_def)

text \<open>Readiness states are ordered from blocked over degraded to ready; an unknown state compares to itself only.\<close>

instantiation ReadinessState :: order
begin

definition less_eq_ReadinessState :: "ReadinessState \<Rightarrow> ReadinessState \<Rightarrow> bool" where
  "less_eq_ReadinessState a b \<longleftrightarrow> a = b \<or> (a, b) \<in> {(ReadinessBlocked, ReadinessDegraded),
     (ReadinessBlocked, ReadinessReady), (ReadinessDegraded, ReadinessReady)}"

definition less_ReadinessState :: "ReadinessState \<Rightarrow> ReadinessState \<Rightarrow> bool" where
  "less_ReadinessState a b \<longleftrightarrow> a \<le> b \<and> \<not> b \<le> a"

instance
  by standard (auto simp: less_eq_ReadinessState_def less_ReadinessState_def)

end

lemma state_of_antimono:
  "0 \<le> f' \<Longrightarrow> f' \<le> f \<Longrightarrow> 0 \<le> w' \<Longrightarrow> w' \<le> w \<Longrightarrow> fst (state_of f w) \<le> fst (state_of f' w')"
  by (auto simp: state_of_def less_eq_ReadinessState_def)

text \<open>
  C39. Declaring more never hurts: if \<open>t\<close> declares everything \<open>s\<close> declares, its score is at least
  that of \<open>s\<close> and its state is at least as good, where blocked is below degraded and degraded below ready.
\<close>

theorem Evaluate_monotone:
  assumes "declares_more s t"
    and "Evaluate new s job tm w = (r, w')" and "Evaluate new t job' tm' v = (q, v')"
  shows "snap_Score (res_Snapshot r) \<le> snap_Score (res_Snapshot q)
    \<and> snap_State (res_Snapshot r) \<le> snap_State (res_Snapshot q)"
  using declares_more_counts [OF assms(1)]
  unfolding Evaluate_state [OF assms(2)] Evaluate_state [OF assms(3)]
    Evaluate_result(3) [OF assms(2)] Evaluate_result(3) [OF assms(3)]
  by (auto intro: score_of_antimono state_of_antimono)

theorem Evaluate_monotone_witness:
  "\<exists>r w' q v'. Evaluate draw_next sample_service 7 0 100 = (r, w') \<and>
     Evaluate draw_next (sample_service\<lparr>svc_HasTracing := True\<rparr>) 7 0 100 = (q, v') \<and>
     snap_Score (res_Snapshot r) \<le> snap_Score (res_Snapshot q)"
proof -
  obtain r w' where e: "Evaluate draw_next sample_service 7 0 100 = (r, w')" by fastforce
  obtain q v' where f: "Evaluate draw_next (sample_service\<lparr>svc_HasTracing := True\<rparr>) 7 0 100 = (q, v')"
    by fastforce
  have "declares_more sample_service (sample_service\<lparr>svc_HasTracing := True\<rparr>)"
    by (simp add: declares_more_def sample_service_def)
  from Evaluate_monotone [OF this e f] e f show ?thesis by auto
qed

lemma service_ok_declared:
  assumes "service_ok P s"
  shows "svc_OwnerEmail s \<noteq> []" "svc_RepositoryURL s \<noteq> []" "svc_RunbookURL s \<noteq> []"
    "svc_HealthEndpointURL s \<noteq> []" "svc_ObservabilityURL s \<noteq> []" "svc_DeploymentPipeline s \<noteq> []"
    "slo_complete (svc_SLOPolicy s)"
  using assms blank_not_ok by (auto simp: service_ok_def slo_complete_def slo_ok_def)

lemma service_ok_counts:
  assumes "service_ok P s"
  shows "failures_of s = of_bool (\<not> svc_HasCI s)"
    "warnings_of s = of_bool (\<not> svc_HasTracing s) + of_bool (\<not> svc_HasMetrics s)"
  by (simp_all add: failures_of_simp warnings_of_simp service_ok_declared [OF assms])

text \<open>
  For a service that passed validation seven of the ten checks cannot fail: the verdict depends on
  the three declared flags only. It is blocked exactly without CI, ready exactly with CI, tracing and
  metrics, and its score is never below 50.
\<close>

lemma Evaluate_validated:
  assumes "service_ok P s" and "Evaluate new s job tm w = (r, w')"
  shows "(snap_State (res_Snapshot r) = ReadinessBlocked \<longleftrightarrow> \<not> svc_HasCI s)
    \<and> (snap_State (res_Snapshot r) = ReadinessReady \<longleftrightarrow> svc_HasCI s \<and> svc_HasTracing s \<and> svc_HasMetrics s)
    \<and> snap_Score (res_Snapshot r) = 100 - 30 * of_bool (\<not> svc_HasCI s)
        - 10 * of_bool (\<not> svc_HasTracing s) - 10 * of_bool (\<not> svc_HasMetrics s)
    \<and> 50 \<le> snap_Score (res_Snapshot r)"
  unfolding Evaluate_state [OF assms(2)] Evaluate_result(3) [OF assms(2)] state_of_iff
    service_ok_counts [OF assms(1)] score_of_def Let_def
  by (cases "svc_HasCI s"; cases "svc_HasTracing s"; cases "svc_HasMetrics s") simp_all

definition sample_parsers :: parsers where
  "sample_parsers = \<lparr>
     mail_ParseAddress = (\<lambda>v. if CHR ''@'' \<in> set v then None else Some (LibError ''mail: missing at sign'')),
     url_ParseRequestURI = (\<lambda>v. if take 8 v = ''https://'' then Inr ''https''
        else if take 7 v = ''http://'' then Inr ''http'' else Inl (LibError ''invalid URI for request''))\<rparr>"

text \<open>The names of the ten checks, and the ownership of every returned check.\<close>

definition check_names :: "string list" where
  "check_names = [''owner_declared'', ''repository_connected'', ''runbook_present'',
     ''health_endpoint_present'', ''observability_dashboard_present'', ''ci_enabled'',
     ''tracing_enabled'', ''metrics_enabled'', ''deployment_pipeline_declared'', ''slo_policy_declared'']"

lemma check_names_trimmed: "map TrimSpace check_names = check_names"
proof -
  have "\<forall>n \<in> set check_names. graphic n"
    by (simp add: check_names_def graphic_def space_lead_def space_tail_def space_encodings_def)
  then show ?thesis by (auto intro: map_idI TrimSpace_graphic)
qed

lemma findings_names: "map fst (findings s) = check_names"
  by (simp add: findings_def check_names_def)

lemma mapL_set: "y \<in> set (fst (mapL f xs w)) \<Longrightarrow> \<exists>x \<in> set xs. \<exists>v. y = fst (f x v)"
proof (induction xs arbitrary: w)
  case Nil
  then show ?case by simp
next
  case (Cons x xs)
  then show ?case by (auto simp: case_prod_beta)
qed

lemma hints:
  "(snd (snd (passIf ok a b (c # h))) = []) = (fst (passIf ok a b (c # h)) = CheckStatusPass)"
  "(snd (snd (warnIf ok a b (c # h))) = []) = (fst (warnIf ok a b (c # h)) = CheckStatusPass)"
  by (simp_all add: passIf_def warnIf_def)

lemma finding_hint:
  "\<forall>x \<in> set (findings s). snd (snd (snd x)) = [] \<longleftrightarrow> fst (snd x) = CheckStatusPass"
  unfolding findings_def by (simp only: list.set ball_simps snd_conv hints refl simp_thms)

lemma evaluation_checks:
  assumes "Evaluate new s job tm w = (r, w')"
  shows "map chk_CheckName (res_Checks r) = check_names
    \<and> (\<forall>c \<in> set (res_Checks r).
         chk_SnapshotID c = snap_ID (res_Snapshot r) \<and> chk_ServiceID c = svc_ID s \<and> chk_CreatedAt c = tm
         \<and> (chk_RemediationHint c = [] \<longleftrightarrow> chk_Status c = CheckStatusPass))"
proof -
  obtain cs w1 where m: "mapL (buildCheck new (svc_ID s)) (findings s) w = (cs, w1)"
    by fastforce
  have names: "map chk_CheckName cs = check_names"
  proof -
    have "map chk_CheckName (fst (mapL (buildCheck new (svc_ID s)) (findings s) w)) =
        map (\<lambda>x. TrimSpace (fst x)) (findings s)"
      by (rule mapL_map) (simp add: buildCheck_fields)
    also have "\<dots> = map TrimSpace (map fst (findings s))" by (simp add: comp_def)
    finally show ?thesis by (simp only: m fst_conv findings_names check_names_trimmed)
  qed
  have fields: "chk_ServiceID c = svc_ID s \<and> (chk_RemediationHint c = [] \<longleftrightarrow> chk_Status c = CheckStatusPass)"
    if "c \<in> set cs" for c
  proof -
    from that m obtain x v where x: "x \<in> set (findings s)" "c = fst (buildCheck new (svc_ID s) x v)"
      using mapL_set [of c "buildCheck new (svc_ID s)" "findings s" w] by auto
    then show ?thesis using finding_hint by (simp add: buildCheck_fields)
  qed
  obtain f wn where t: "tally cs (0, 0) = (f, wn)" by fastforce
  obtain st sm where so: "state_of f wn = (st, sm)" by fastforce
  obtain sid w2 where d: "new w1 = (sid, w2)" by fastforce
  have r: "res_Checks r = map (\<lambda>c. c\<lparr>chk_SnapshotID := sid, chk_CreatedAt := tm\<rparr>) cs"
    "snap_ID (res_Snapshot r) = sid"
    using assms by (auto simp: Evaluate_def letM_def m t so d)
  show ?thesis
    using fields names by (auto simp: r comp_def)
qed

end
