(* ===== verification/ControlPlane.thy ===== *)
theory ControlPlane
  imports Auth PlatformChecks
begin

section \<open>The control plane (\<^verbatim>\<open>internal/app/controlplane.go\<close>)\<close>

text \<open>
  The service layer over the \<^verbatim>\<open>Repository\<close> interface. An interface value is the record of its
  methods, so the definitions hold for any implementation over any world \<open>'w\<close>; the PostgreSQL store
  is the implementation the program uses. Besides the fields of the Go struct the record
  \<open>ControlPlane\<close> carries the library calls the code makes: the two parsers of validation,
  \<^verbatim>\<open>uuid.New\<close> and \<^verbatim>\<open>uuid.UUID.String\<close>.
\<close>

record 'w Repository =
  CreateService :: "Service \<Rightarrow> ('w, go_error, Service) io"
  UpdateService :: "uuid \<Rightarrow> ServicePatch \<Rightarrow> ('w, go_error, Service) io"
  GetService :: "uuid \<Rightarrow> ('w, go_error, Service) io"
  SaveReadinessEvaluation :: "ReadinessSnapshot \<Rightarrow> ReadinessCheckResult list \<Rightarrow> ('w, go_error, unit) io"
  GetLatestScorecard :: "uuid \<Rightarrow> ('w, go_error, Scorecard) io"
  EnqueueJob :: "Job \<Rightarrow> ('w, go_error, Job) io"
  CreateDeploymentCandidate :: "DeploymentCandidate \<Rightarrow> ('w, go_error, DeploymentCandidate) io"
  GetLatestSnapshot :: "uuid \<Rightarrow> ('w, go_error, ReadinessSnapshot) io"
  SavePromotionDecision :: "uuid \<Rightarrow> ReadinessSnapshot option \<Rightarrow> PromotionDecision \<Rightarrow> CandidateStatus \<Rightarrow>
    string \<Rightarrow> ('w, go_error, DeploymentCandidate) io"
  GetDeploymentCandidate :: "uuid \<Rightarrow> ('w, go_error, DeploymentCandidate) io"
  InsertAuditEvent :: "AuditEvent \<Rightarrow> ('w, go_error, unit) io"
  ListAuditEvents :: "string \<Rightarrow> uuid option \<Rightarrow> int \<Rightarrow> ('w, go_error, AuditEvent list) io"
  ClaimJobs :: "string \<Rightarrow> int \<Rightarrow> int \<Rightarrow> ('w, go_error, Job list) io"
  MarkJobCompleted :: "uuid \<Rightarrow> string \<Rightarrow> ('w, go_error, unit) io"
  MarkJobFailed :: "Job \<Rightarrow> go_error \<Rightarrow> ('w, go_error, unit) io"

record 'w ControlPlane =
  cp_repo :: "'w Repository"
  cp_now :: "'w \<Rightarrow> time \<times> 'w"
  cp_jobMaxAttempts :: int
  cp_parsers :: parsers
  cp_uuid_New :: "'w \<Rightarrow> uuid \<times> 'w"
  cp_uuid_String :: "uuid \<Rightarrow> string"

definition auditEvent ::
  "'w ControlPlane \<Rightarrow> time \<Rightarrow> Principal \<Rightarrow> string \<Rightarrow> string \<Rightarrow> string \<Rightarrow> uuid \<Rightarrow> details \<Rightarrow> 'w \<Rightarrow> AuditEvent \<times> 'w" where
  "auditEvent c now pr requestID eventType resourceType resourceID dets =
     letM (cp_uuid_New c) (\<lambda>new w.
       (\<lparr>aud_ID = new, aud_ActorSubject = pr_Subject pr, aud_ActorRole = pr_Role pr,
         aud_EventType = eventType, aud_ResourceType = resourceType, aud_ResourceID = resourceID,
         aud_RequestID = requestID, aud_Details = dets, aud_CreatedAt = now\<rparr>, w))"

text \<open>\<^verbatim>\<open>if err := c.repo.InsertAuditEvent(ctx, auditEvent(...)); err != nil { return err }\<close>.\<close>

definition audited ::
  "'w ControlPlane \<Rightarrow> time \<Rightarrow> Principal \<Rightarrow> string \<Rightarrow> string \<Rightarrow> string \<Rightarrow> uuid \<Rightarrow> details \<Rightarrow> ('w, go_error, unit) io" where
  "audited c now pr requestID eventType resourceType resourceID dets =
     letM (auditEvent c now pr requestID eventType resourceType resourceID dets)
       (InsertAuditEvent (cp_repo c))"

subsection \<open>Services\<close>

text \<open>The struct literal of \<^verbatim>\<open>RegisterService\<close>.\<close>

definition service_from_input :: "ServiceInput \<Rightarrow> time \<Rightarrow> uuid \<Rightarrow> uuid \<Rightarrow> Service" where
  "service_from_input input now serviceID policyID =
     \<lparr>svc_ID = serviceID, svc_Name = in_Name input, svc_Description = in_Description input,
      svc_OwnerEmail = in_OwnerEmail input, svc_RepositoryURL = in_RepositoryURL input,
      svc_RunbookURL = in_RunbookURL input, svc_HealthEndpointURL = in_HealthEndpointURL input,
      svc_ObservabilityURL = in_ObservabilityURL input, svc_DeploymentPipeline = in_DeploymentPipeline input,
      svc_HasCI = in_HasCI input, svc_HasTracing = in_HasTracing input, svc_HasMetrics = in_HasMetrics input,
      svc_Language = in_Language input, svc_Tier = in_Tier input, svc_Lifecycle = in_Lifecycle input,
      svc_CreatedAt = now, svc_UpdatedAt = now,
      svc_SLOPolicy = \<lparr>slo_ID = policyID, slo_ServiceID = serviceID,
        slo_AvailabilityTargetPercent = sloin_AvailabilityTargetPercent (in_SLOPolicy input),
        slo_LatencyTargetMilliseconds = sloin_LatencyTargetMilliseconds (in_SLOPolicy input),
        slo_TimeWindow = sloin_Window (in_SLOPolicy input), slo_CreatedAt = now, slo_UpdatedAt = now\<rparr>\<rparr>"

definition ControlPlane_RegisterService ::
  "'w ControlPlane \<Rightarrow> ServiceInput \<Rightarrow> Principal \<Rightarrow> string \<Rightarrow> ('w, go_error, Service) io" where
  "ControlPlane_RegisterService c input pr requestID =
     (case ServiceInput_Validate (cp_parsers c) input of
        Some err \<Rightarrow> errM (ValidationError err)
      | None \<Rightarrow>
          letM (cp_now c) (\<lambda>now.
          letM (cp_uuid_New c) (\<lambda>serviceID.
          letM (cp_uuid_New c) (\<lambda>policyID.
          tryM (CreateService (cp_repo c) (service_from_input input now serviceID policyID)) (\<lambda>created.
          tryM (audited c now pr requestID ''service.registered'' ''service'' (svc_ID created)
                  [(''name'', AnyString (svc_Name created))]) (\<lambda>_.
          okM created))))))"

definition ControlPlane_UpdateService ::
  "'w ControlPlane \<Rightarrow> uuid \<Rightarrow> ServicePatch \<Rightarrow> Principal \<Rightarrow> string \<Rightarrow> ('w, go_error, Service) io" where
  "ControlPlane_UpdateService c serviceID patch pr requestID =
     (case ServicePatch_Validate (cp_parsers c) patch of
        Some err \<Rightarrow> errM (ValidationError err)
      | None \<Rightarrow>
          tryM (UpdateService (cp_repo c) serviceID patch) (\<lambda>updated.
          letM (cp_now c) (\<lambda>now.
          tryM (audited c now pr requestID ''service.updated'' ''service'' (svc_ID updated)
                  [(''name'', AnyString (svc_Name updated))]) (\<lambda>_.
          okM updated))))"

subsection \<open>Evaluation requests\<close>

definition evaluation_job ::
  "'w ControlPlane \<Rightarrow> uuid \<Rightarrow> uuid \<Rightarrow> string \<Rightarrow> time \<Rightarrow> Job" where
  "evaluation_job c jobID serviceID key now =
     \<lparr>job_ID = jobID, job_Type = JobTypeServiceEvaluation, job_ResourceID = serviceID,
      job_Status = JobStatusPending, job_IdempotencyKey = key,
      job_Payload = [(''service_id'', AnyString (cp_uuid_String c serviceID))],
      job_Attempts = 0, job_MaxAttempts = cp_jobMaxAttempts c, job_AvailableAt = now,
      job_LockedAt = None, job_CreatedAt = now, job_UpdatedAt = now,
      job_LockOwner = [], job_LastError = []\<rparr>"

text \<open>An empty idempotency key is replaced by a fresh \<^verbatim>\<open>uuid.NewString()\<close>.\<close>

definition idempotency_key :: "'w ControlPlane \<Rightarrow> string \<Rightarrow> 'w \<Rightarrow> string \<times> 'w" where
  "idempotency_key c key =
     (if key = [] then letM (cp_uuid_New c) (\<lambda>new w. (cp_uuid_String c new, w)) else (\<lambda>w. (key, w)))"

definition ControlPlane_QueueServiceEvaluation ::
  "'w ControlPlane \<Rightarrow> uuid \<Rightarrow> string \<Rightarrow> Principal \<Rightarrow> string \<Rightarrow> ('w, go_error, Job) io" where
  "ControlPlane_QueueServiceEvaluation c serviceID idempotencyKey pr requestID =
     tryM (GetService (cp_repo c) serviceID) (\<lambda>_.
     letM (cp_now c) (\<lambda>now.
     letM (idempotency_key c idempotencyKey) (\<lambda>key.
     letM (cp_uuid_New c) (\<lambda>jobID.
     tryM (EnqueueJob (cp_repo c) (evaluation_job c jobID serviceID key now)) (\<lambda>enqueued.
     tryM (audited c now pr requestID ''service.evaluation_requested'' ''service'' serviceID
             [(''job_id'', AnyString (cp_uuid_String c (job_ID enqueued)))]) (\<lambda>_.
     okM enqueued))))))"

definition ControlPlane_GetScorecard :: "'w ControlPlane \<Rightarrow> uuid \<Rightarrow> ('w, go_error, Scorecard) io" where
  "ControlPlane_GetScorecard c serviceID = GetLatestScorecard (cp_repo c) serviceID"

subsection \<open>Deployment candidates\<close>

definition pending_candidate :: "DeploymentCandidateInput \<Rightarrow> uuid \<Rightarrow> time \<Rightarrow> DeploymentCandidate" where
  "pending_candidate input candidateID now =
     \<lparr>cand_ID = candidateID, cand_ServiceID = cin_ServiceID input, cand_Environment = cin_Environment input,
      cand_Version = cin_Version input, cand_CommitSHA = cin_CommitSHA input,
      cand_RequestedBy = cin_RequestedBy input, cand_Status = CandidateStatusPending,
      cand_DecisionReason = ''Awaiting explicit promotion evaluation.'',
      cand_LastSnapshotID = None, cand_CreatedAt = now, cand_UpdatedAt = now, cand_EvaluatedAt = None,
      cand_PromotionDecision = None\<rparr>"

definition ControlPlane_CreateDeploymentCandidate ::
  "'w ControlPlane \<Rightarrow> DeploymentCandidateInput \<Rightarrow> Principal \<Rightarrow> string \<Rightarrow> ('w, go_error, DeploymentCandidate) io" where
  "ControlPlane_CreateDeploymentCandidate c input pr requestID =
     (case DeploymentCandidateInput_Validate (cp_parsers c) input of
        Some err \<Rightarrow> errM (ValidationError err)
      | None \<Rightarrow>
          if pr_Role pr = RoleEngineer \<and> pr_Subject pr \<noteq> cin_RequestedBy input
          then errM (ValidationError (ErrorsNew ''deployment_candidate.requested_by must match authenticated subject''))
          else
          tryM (GetService (cp_repo c) (cin_ServiceID input)) (\<lambda>_.
          letM (cp_now c) (\<lambda>now.
          letM (cp_uuid_New c) (\<lambda>candidateID.
          tryM (CreateDeploymentCandidate (cp_repo c) (pending_candidate input candidateID now)) (\<lambda>created.
          tryM (audited c now pr requestID ''deployment_candidate.created'' ''deployment_candidate'' (cand_ID created)
                  [(''service_id'', AnyString (cp_uuid_String c (cand_ServiceID created))),
                   (''environment'', AnyString (cand_Environment created)),
                   (''version'', AnyString (cand_Version created))]) (\<lambda>_.
          okM created))))))"

text \<open>The decision table over the result of \<^verbatim>\<open>GetLatestSnapshot\<close>.\<close>

definition promotion_verdict ::
  "go_error + ReadinessSnapshot \<Rightarrow> go_error + CandidateStatus \<times> string \<times> ReadinessSnapshot option" where
  "promotion_verdict r =
     (case r of
        Inl err \<Rightarrow>
          if errors_Is err ErrNotFound
          then Inr (CandidateStatusRejected, ''Rejected: no readiness snapshot exists for this service yet.'', None)
          else Inl err
      | Inr snapshot \<Rightarrow>
          if snap_State snapshot = ReadinessReady
          then Inr (CandidateStatusApproved, ''Approved: latest readiness snapshot is ready.'', Some snapshot)
          else Inr (CandidateStatusRejected,
            ''Rejected: latest readiness snapshot is '' @ ReadinessState_string (snap_State snapshot) @ ''.'',
            Some snapshot))"

definition ControlPlane_EvaluateDeploymentCandidate ::
  "'w ControlPlane \<Rightarrow> uuid \<Rightarrow> Principal \<Rightarrow> string \<Rightarrow> ('w, go_error, DeploymentCandidate) io" where
  "ControlPlane_EvaluateDeploymentCandidate c candidateID pr requestID =
     tryM (GetDeploymentCandidate (cp_repo c) candidateID) (\<lambda>candidate.
     if cand_Status candidate \<noteq> CandidateStatusPending
     then errM (StateConflictError (ErrorsNew (''deployment candidate '' @ cp_uuid_String c (cand_ID candidate) @
            '' is already in terminal status '' @ CandidateStatus_string (cand_Status candidate))))
     else
     catchM (GetLatestSnapshot (cp_repo c) (cand_ServiceID candidate)) (\<lambda>r.
     case promotion_verdict r of
       Inl err \<Rightarrow> errM err
     | Inr (decisionStatus, reason, decisionSnapshot) \<Rightarrow>
         letM (cp_now c) (\<lambda>now.
         letM (cp_uuid_New c) (\<lambda>decisionID.
         tryM (SavePromotionDecision (cp_repo c) (cand_ID candidate) decisionSnapshot
                 \<lparr>dec_ID = decisionID, dec_CandidateID = cand_ID candidate,
                  dec_SnapshotID = map_option snap_ID decisionSnapshot, dec_Decision = decisionStatus,
                  dec_Summary = reason, dec_CreatedAt = now\<rparr> decisionStatus reason) (\<lambda>updated.
         tryM (audited c now pr requestID ''deployment_candidate.evaluated'' ''deployment_candidate''
                 (cand_ID updated)
                 [(''decision'', AnyString (CandidateStatus_string (cand_Status updated))),
                  (''reason'', AnyString (cand_DecisionReason updated))]) (\<lambda>_.
         okM updated))))))"

definition ControlPlane_GetDeploymentCandidate ::
  "'w ControlPlane \<Rightarrow> uuid \<Rightarrow> ('w, go_error, DeploymentCandidate) io" where
  "ControlPlane_GetDeploymentCandidate c candidateID = GetDeploymentCandidate (cp_repo c) candidateID"

definition ControlPlane_ListAuditEvents ::
  "'w ControlPlane \<Rightarrow> string \<Rightarrow> uuid option \<Rightarrow> int \<Rightarrow> ('w, go_error, AuditEvent list) io" where
  "ControlPlane_ListAuditEvents c resourceType resourceID limit =
     ListAuditEvents (cp_repo c) resourceType resourceID limit"

subsection \<open>The evaluation job\<close>

definition worker_principal :: "string \<Rightarrow> Principal" where
  "worker_principal workerID =
     \<lparr>pr_Subject = workerID, pr_Role = RolePlatformAdmin, pr_Issuer = ''worker''\<rparr>"

definition ControlPlane_ProcessServiceEvaluationJob ::
  "'w ControlPlane \<Rightarrow> Job \<Rightarrow> string \<Rightarrow> ('w, go_error, unit) io" where
  "ControlPlane_ProcessServiceEvaluationJob c job workerID =
     tryM (GetService (cp_repo c) (job_ResourceID job)) (\<lambda>service.
     letM (cp_now c) (\<lambda>now.
     letM (Evaluate (cp_uuid_New c) service (job_ID job) now) (\<lambda>result.
     tryM (SaveReadinessEvaluation (cp_repo c) (res_Snapshot result) (res_Checks result)) (\<lambda>_.
     letM (cp_now c) (\<lambda>later.
     audited c later (worker_principal workerID) (cp_uuid_String c (job_ID job))
       ''service.evaluated'' ''service'' (svc_ID service)
       [(''snapshot_id'', AnyString (cp_uuid_String c (snap_ID (res_Snapshot result)))),
        (''state'', AnyString (ReadinessState_string (snap_State (res_Snapshot result)))),
        (''score'', AnyInt (snap_Score (res_Snapshot result)))])))))"

end
