(* ===== verification/Worker.thy ===== *)
theory Worker
  imports ControlPlane
begin

section \<open>The worker (\<^verbatim>\<open>internal/jobs/worker.go\<close>)\<close>

text \<open>
  One worker: it claims a batch, processes each claimed job and persists the outcome. What it changes
  besides the repository, its log lines and the counter of job outcomes, is kept beside the world of the
  repository. \<open>wk_lib_text\<close> is the text of library errors.
\<close>

record 'w Worker =
  wk_id :: string
  wk_service :: "'w ControlPlane"
  wk_repo :: "'w Repository"
  wk_batchSize :: int
  wk_lease :: int
  wk_lib_text :: "go_error \<Rightarrow> string"

definition NewWorker ::
  "(go_error \<Rightarrow> string) \<Rightarrow> uuid \<Rightarrow> 'w ControlPlane \<Rightarrow> 'w Repository \<Rightarrow> int \<Rightarrow> int \<Rightarrow> 'w Worker" where
  "NewWorker lib_text newID service repo batchSize lease =
     \<lparr>wk_id = ''worker-'' @ cp_uuid_String service newID, wk_service = service, wk_repo = repo,
      wk_batchSize = batchSize, wk_lease = lease, wk_lib_text = lib_text\<rparr>"

text \<open>The log lines of \<^verbatim>\<open>worker.go\<close> with their attributes, and the increments of \<^verbatim>\<open>WorkerJobsTotal\<close>.\<close>

datatype worker_log =
    WorkerIterationFailed string string
  | WorkerJobFailed string string string string
  | WorkerJobCompleted string string string

record 'w worker_state =
  ws_world :: 'w
  ws_log :: "worker_log list"
  ws_jobs_total :: "(string \<times> string) list"

definition watched :: "'w \<Rightarrow> 'w worker_state" where
  "watched w = \<lparr>ws_world = w, ws_log = [], ws_jobs_total = []\<rparr>"

definition in_world :: "('w \<Rightarrow> 'a \<times> 'w) \<Rightarrow> 'w worker_state \<Rightarrow> 'a \<times> 'w worker_state" where
  "in_world m s = (case m (ws_world s) of (r, w) \<Rightarrow> (r, s\<lparr>ws_world := w\<rparr>))"

definition log_worker :: "worker_log \<Rightarrow> 'w worker_state \<Rightarrow> unit \<times> 'w worker_state" where
  "log_worker entry s = ((), s\<lparr>ws_log := ws_log s @ [entry]\<rparr>)"

definition WorkerJobsTotal_Inc :: "JobType \<Rightarrow> string \<Rightarrow> 'w worker_state \<Rightarrow> unit \<times> 'w worker_state" where
  "WorkerJobsTotal_Inc t outcome s = ((), s\<lparr>ws_jobs_total := ws_jobs_total s @ [(JobType_string t, outcome)]\<rparr>)"

definition processJob :: "'w Worker \<Rightarrow> Job \<Rightarrow> ('w, go_error, unit) io" where
  "processJob wk job =
     (case job_Type job of
        JobTypeServiceEvaluation \<Rightarrow> ControlPlane_ProcessServiceEvaluationJob (wk_service wk) job (wk_id wk)
      | JobTypeOther t \<Rightarrow> errM (ErrorsNew (''worker: unsupported job type '' @ Quote t)))"

text \<open>
  The loop of \<^verbatim>\<open>runOnce\<close>: a failed job is marked failed and the loop continues; a failure to
  persist an outcome ends the iteration.
\<close>

fun process_jobs :: "'w Worker \<Rightarrow> Job list \<Rightarrow> ('w worker_state, go_error, unit) io" where
  "process_jobs wk [] = okM ()"
| "process_jobs wk (job # jobs) =
     catchM (in_world (processJob wk job)) (\<lambda>r.
     case r of
       Inl err \<Rightarrow>
         tryM (wrapM (\<lambda>markErr. Wrapf (''worker: process job '' @ cp_uuid_String (wk_service wk) (job_ID job) @
                 '' failed: '' @ error_text (wk_lib_text wk) err @ ''; additionally failed to persist failure: '')
               markErr []) (in_world (MarkJobFailed (wk_repo wk) job err))) (\<lambda>_.
         letM (WorkerJobsTotal_Inc (job_Type job) ''failed'') (\<lambda>_.
         letM (log_worker (WorkerJobFailed (wk_id wk) (cp_uuid_String (wk_service wk) (job_ID job))
             (JobType_string (job_Type job)) (error_text (wk_lib_text wk) err))) (\<lambda>_.
         process_jobs wk jobs)))
     | Inr u \<Rightarrow>
         tryM (wrapM (wrap_prefix ''worker: mark job completed: '')
             (in_world (MarkJobCompleted (wk_repo wk) (job_ID job) (wk_id wk)))) (\<lambda>_.
         letM (WorkerJobsTotal_Inc (job_Type job) ''completed'') (\<lambda>_.
         letM (log_worker (WorkerJobCompleted (wk_id wk) (cp_uuid_String (wk_service wk) (job_ID job))
             (JobType_string (job_Type job)))) (\<lambda>_.
         process_jobs wk jobs))))"

definition runOnce :: "'w Worker \<Rightarrow> ('w worker_state, go_error, unit) io" where
  "runOnce wk = tryM (in_world (ClaimJobs (wk_repo wk) (wk_id wk) (wk_batchSize wk) (wk_lease wk))) (process_jobs wk)"

text \<open>
  \<^verbatim>\<open>Run\<close> iterates until its context is done; \<open>ticks\<close> is the number of ticker ticks it receives
  before that. An iteration's error is logged and the loop goes on.
\<close>

definition iteration :: "'w Worker \<Rightarrow> 'w worker_state \<Rightarrow> unit \<times> 'w worker_state" where
  "iteration wk s = (case runOnce wk s of
     (Inl err, s') \<Rightarrow> log_worker (WorkerIterationFailed (wk_id wk) (error_text (wk_lib_text wk) err)) s'
   | (Inr u, s') \<Rightarrow> ((), s'))"

fun Run :: "'w Worker \<Rightarrow> nat \<Rightarrow> ('w worker_state, go_error, unit) io" where
  "Run wk 0 = letM (iteration wk) (\<lambda>_. errM (LibError ''context canceled''))"
| "Run wk (Suc ticks) = letM (iteration wk) (\<lambda>_. Run wk ticks)"

end
