(* ===== verification/Database.thy ===== *)
theory Database
  imports PlatformChecks "HOL-Library.Product_Lexorder" "HOL-Library.List_Lexorder"
begin

section \<open>The database and the world of a process\<close>

text \<open>
  The tables of \<^verbatim>\<open>internal/migrations/sql/0001_init.sql\<close> and the effects a process meets: every round
  trip to PostgreSQL may fail, the wall clocks of the process and of the server are read independently,
  \<^verbatim>\<open>uuid.New\<close> draws an identifier, and rows may be locked by other transactions. All of these are
  streams of the world, so a theorem about every world is a theorem about every outage, every clock
  and every draw. Statements are functions on the tables that check the columns' types and the
  constraints of the schema in PostgreSQL's order: parameter encoding, CHECK constraints by name,
  unique indexes, foreign keys.
\<close>

record jobs_row = job_columns +
  row_LockOwner :: "string option"
  row_LastError :: "string option"

record db =
  t_services :: "services_row list"
  t_slo_policies :: "SLOPolicy list"
  t_jobs :: "jobs_row list"
  t_snapshots :: "ReadinessSnapshot list"
  t_checks :: "ReadinessCheckResult list"
  t_candidates :: "candidates_row list"
  t_decisions :: "PromotionDecision list"
  t_audit :: "AuditEvent list"

definition empty_db :: db where
  "empty_db = \<lparr>t_services = [], t_slo_policies = [], t_jobs = [], t_snapshots = [], t_checks = [],
     t_candidates = [], t_decisions = [], t_audit = []\<rparr>"

text \<open>
  One round trip: it works, it fails before the server acts (\<open>Fault\<close>), or the server acts and the
  reply is lost (\<open>LostReply\<close>), which the client sees as an error too.
\<close>

datatype fault = NoFault | Fault string | LostReply string

record world =
  w_db :: db
  w_faults :: "fault stream"
  w_clock :: "time stream"
  w_pg_clock :: "time stream"
  w_uuids :: "uuid stream"
  w_locked :: "uuid list stream"

subsection \<open>Clocks and identifiers\<close>

definition time_Now :: "world \<Rightarrow> time \<times> world" where
  "time_Now w = (shd (w_clock w), w\<lparr>w_clock := stl (w_clock w)\<rparr>)"

definition pg_NOW :: "world \<Rightarrow> time \<times> world" where
  "pg_NOW w = (shd (w_pg_clock w), w\<lparr>w_pg_clock := stl (w_pg_clock w)\<rparr>)"

definition uuid_New :: "world \<Rightarrow> uuid \<times> world" where
  "uuid_New w = (shd (w_uuids w), w\<lparr>w_uuids := stl (w_uuids w)\<rparr>)"

definition locked_rows :: "world \<Rightarrow> uuid list \<times> world" where
  "locked_rows w = (shd (w_locked w), w\<lparr>w_locked := stl (w_locked w)\<rparr>)"

subsection \<open>Round trips and transactions\<close>

definition next_trip :: "world \<Rightarrow> world" where
  "next_trip w = w\<lparr>w_faults := stl (w_faults w)\<rparr>"

definition pg_read :: "(db \<Rightarrow> go_error + 'a) \<Rightarrow> (world, go_error, 'a) io" where
  "pg_read q w =
     (case shd (w_faults w) of
        NoFault \<Rightarrow> (q (w_db w), next_trip w)
      | Fault s \<Rightarrow> (Inl (LibError s), next_trip w)
      | LostReply s \<Rightarrow> (Inl (LibError s), next_trip w))"

definition pg_write :: "(db \<Rightarrow> go_error + 'a \<times> db) \<Rightarrow> (world, go_error, 'a) io" where
  "pg_write stmt w =
     (case shd (w_faults w) of
        NoFault \<Rightarrow> (case stmt (w_db w) of
            Inl e \<Rightarrow> (Inl e, next_trip w)
          | Inr (a, d) \<Rightarrow> (Inr a, (next_trip w)\<lparr>w_db := d\<rparr>))
      | Fault s \<Rightarrow> (Inl (LibError s), next_trip w)
      | LostReply s \<Rightarrow> (case stmt (w_db w) of
            Inl e \<Rightarrow> (Inl (LibError s), next_trip w)
          | Inr (a, d) \<Rightarrow> (Inl (LibError s), (next_trip w)\<lparr>w_db := d\<rparr>)))"

text \<open>
  \<^verbatim>\<open>tx, err := s.pool.Begin(ctx); defer tx.Rollback(ctx); body; tx.Commit(ctx)\<close>: the body works on the
  transaction's copy of the tables, an early return rolls back, a commit whose reply is lost has
  happened.
\<close>

definition with_tx :: "string \<Rightarrow> string \<Rightarrow> (world, go_error, 'a) io \<Rightarrow> (world, go_error, 'a) io" where
  "with_tx beginMsg commitMsg body w =
     (case wrapM (wrap_prefix beginMsg) (pg_read (\<lambda>d. Inr ())) w of
        (Inl e, w1) \<Rightarrow> (Inl e, w1)
      | (Inr u, w1) \<Rightarrow>
          (case body w1 of
             (Inl e, w2) \<Rightarrow> (Inl e, w2\<lparr>w_db := w_db w1\<rparr>)
           | (Inr a, w2) \<Rightarrow>
               (case shd (w_faults w2) of
                  NoFault \<Rightarrow> (Inr a, next_trip w2)
                | Fault s \<Rightarrow> (Inl (wrap_prefix commitMsg (LibError s)), (next_trip w2)\<lparr>w_db := w_db w1\<rparr>)
                | LostReply s \<Rightarrow> (Inl (wrap_prefix commitMsg (LibError s)), next_trip w2))))"

subsection \<open>Statements\<close>

definition int4 :: "int \<Rightarrow> bool" where
  "int4 i \<longleftrightarrow> - (2 ^ 31) \<le> i \<and> i < 2 ^ 31"

text \<open>\<open>require cs\<close>: the error of the first condition that does not hold.\<close>

fun require :: "(bool \<times> go_error) list \<Rightarrow> go_error option" where
  "require [] = None"
| "require ((b, e) # cs) = (if b then require cs else Some e)"

lemma require_None: "require cs = None \<longleftrightarrow> (\<forall>(b, e) \<in> set cs. b)"
  by (induction cs rule: require.induct) auto

definition int4_encodes :: "int \<Rightarrow> bool \<times> go_error" where
  "int4_encodes i = (int4 i, LibError ''unable to encode int4'')"

abbreviation check_violation :: "string \<Rightarrow> go_error" where
  "check_violation \<equiv> PgError ''23514''"
abbreviation unique_violation :: "string \<Rightarrow> go_error" where
  "unique_violation \<equiv> PgError ''23505''"
abbreviation fk_violation :: "string \<Rightarrow> go_error" where
  "fk_violation \<equiv> PgError ''23503''"

type_synonym 'a statement = "db \<Rightarrow> go_error + 'a \<times> db"

definition insert_when :: "(bool \<times> go_error) list \<Rightarrow> db \<Rightarrow> go_error + unit \<times> db" where
  "insert_when cs d = (case require cs of Some e \<Rightarrow> Inl e | None \<Rightarrow> Inr ((), d))"

definition insert_service :: "services_row \<Rightarrow> unit statement" where
  "insert_service r d = insert_when
     [int4_encodes (svc_Tier r),
      (0 \<le> svc_Tier r \<and> svc_Tier r \<le> 3, check_violation ''services_tier_check''),
      (svc_ID r \<notin> svc_ID ` set (t_services d), unique_violation ''services_pkey''),
      (svc_Name r \<notin> svc_Name ` set (t_services d), unique_violation ''services_name_key'')]
     (d\<lparr>t_services := t_services d @ [r]\<rparr>)"

definition insert_slo_policy :: "SLOPolicy \<Rightarrow> unit statement" where
  "insert_slo_policy p d = insert_when
     [int4_encodes (slo_LatencyTargetMilliseconds p),
      (slo_AvailabilityTargetPercent p > 0 \<and> slo_AvailabilityTargetPercent p \<le> 100,
         check_violation ''slo_policies_availability_check''),
      (slo_LatencyTargetMilliseconds p > 0, check_violation ''slo_policies_latency_check''),
      (slo_ID p \<notin> slo_ID ` set (t_slo_policies d), unique_violation ''slo_policies_pkey''),
      (slo_ServiceID p \<notin> slo_ServiceID ` set (t_slo_policies d), unique_violation ''slo_policies_service_id_key''),
      (slo_ServiceID p \<in> svc_ID ` set (t_services d), fk_violation ''slo_policies_service_id_fkey'')]
     (d\<lparr>t_slo_policies := t_slo_policies d @ [p]\<rparr>)"

definition insert_snapshot :: "ReadinessSnapshot \<Rightarrow> unit statement" where
  "insert_snapshot r d = insert_when
     [int4_encodes (snap_Score r),
      (0 \<le> snap_Score r \<and> snap_Score r \<le> 100, check_violation ''readiness_snapshots_score_check''),
      (snap_State r \<in> {ReadinessReady, ReadinessDegraded, ReadinessBlocked},
         check_violation ''readiness_snapshots_state_check''),
      (snap_ID r \<notin> snap_ID ` set (t_snapshots d), unique_violation ''readiness_snapshots_pkey''),
      (snap_JobID r \<in> job_ID ` set (t_jobs d), fk_violation ''readiness_snapshots_job_id_fkey''),
      (snap_ServiceID r \<in> svc_ID ` set (t_services d), fk_violation ''readiness_snapshots_service_id_fkey'')]
     (d\<lparr>t_snapshots := t_snapshots d @ [r]\<rparr>)"

definition insert_check :: "ReadinessCheckResult \<Rightarrow> unit statement" where
  "insert_check c d = insert_when
     [(chk_Status c \<in> {CheckStatusPass, CheckStatusWarn, CheckStatusFail},
         check_violation ''readiness_check_results_status_check''),
      (chk_ID c \<notin> chk_ID ` set (t_checks d), unique_violation ''readiness_check_results_pkey''),
      (chk_ServiceID c \<in> svc_ID ` set (t_services d), fk_violation ''readiness_check_results_service_id_fkey''),
      (chk_SnapshotID c \<in> snap_ID ` set (t_snapshots d), fk_violation ''readiness_check_results_snapshot_id_fkey'')]
     (d\<lparr>t_checks := t_checks d @ [c]\<rparr>)"

text \<open>A nullable reference to a snapshot.\<close>

definition ref_snapshot :: "uuid option \<Rightarrow> db \<Rightarrow> bool" where
  "ref_snapshot x d = (case x of None \<Rightarrow> True | Some i \<Rightarrow> i \<in> snap_ID ` set (t_snapshots d))"

definition insert_candidate :: "candidates_row \<Rightarrow> unit statement" where
  "insert_candidate c d = insert_when
     [(cand_Status c \<in> {CandidateStatusPending, CandidateStatusApproved, CandidateStatusRejected},
         check_violation ''deployment_candidates_status_check''),
      (cand_ID c \<notin> cand_ID ` set (t_candidates d), unique_violation ''deployment_candidates_pkey''),
      (ref_snapshot (cand_LastSnapshotID c) d, fk_violation ''deployment_candidates_last_snapshot_id_fkey''),
      (cand_ServiceID c \<in> svc_ID ` set (t_services d), fk_violation ''deployment_candidates_service_id_fkey'')]
     (d\<lparr>t_candidates := t_candidates d @ [c]\<rparr>)"

definition insert_audit_event :: "AuditEvent \<Rightarrow> unit statement" where
  "insert_audit_event e d = insert_when
     [(aud_ID e \<notin> aud_ID ` set (t_audit d), unique_violation ''audit_events_pkey'')]
     (d\<lparr>t_audit := t_audit d @ [e]\<rparr>)"

lemma insert_when_Inr [sql_simps]: "insert_when cs d = Inr (u, d') \<longleftrightarrow> require cs = None \<and> d' = d"
  by (auto simp: insert_when_def split: option.splits)

lemmas insert_defs [sql_simps] = insert_service_def insert_slo_policy_def insert_snapshot_def insert_check_def
  insert_candidate_def insert_audit_event_def

subsection \<open>What a round trip can do\<close>

text \<open>\<open>on_db I\<close> lifts a predicate on the tables to the world.\<close>

definition on_db :: "(db \<Rightarrow> bool) \<Rightarrow> world \<Rightarrow> bool" where
  "on_db I w \<longleftrightarrow> I (w_db w)"

lemma w_db_next_trip [simp]: "w_db (next_trip w) = w_db w"
  by (simp add: next_trip_def)

lemma pg_read_db: "pg_read q w = (r, w') \<Longrightarrow> w_db w' = w_db w"
  by (auto simp: pg_read_def split: fault.splits)

lemma pg_read_Inr: "pg_read q w = (Inr a, w') \<longleftrightarrow> shd (w_faults w) = NoFault \<and> q (w_db w) = Inr a \<and> w' = next_trip w"
  by (auto simp: pg_read_def split: fault.splits)

lemma pg_read_Inl:
  "pg_read q w = (Inl e, w') \<Longrightarrow> (q (w_db w) = Inl e \<or> (\<exists>s. e = LibError s))"
  by (auto simp: pg_read_def split: fault.splits)

lemma pg_write_Inr:
  "pg_write stmt w = (Inr a, w') \<longleftrightarrow>
     shd (w_faults w) = NoFault \<and> (\<exists>d. stmt (w_db w) = Inr (a, d) \<and> w' = (next_trip w)\<lparr>w_db := d\<rparr>)"
  by (auto simp: pg_write_def split: fault.splits sum.splits)

lemma pg_write_Inl:
  "pg_write stmt w = (Inl e, w') \<Longrightarrow> (stmt (w_db w) = Inl e \<and> w_db w' = w_db w) \<or> (\<exists>s. e = LibError s)"
  by (auto simp: pg_write_def split: fault.splits sum.splits)

text \<open>A wrapped round trip that succeeded, as a fact about the tables.\<close>

lemma wrap_write: "wrapM f (pg_write stmt) w = (Inr a, w') \<Longrightarrow> stmt (w_db w) = Inr (a, w_db w')"
  by (auto simp: wrapM_Inr pg_write_Inr)

lemma wrap_read: "wrapM f (pg_read q) w = (Inr a, w') \<Longrightarrow> q (w_db w) = Inr a \<and> w_db w' = w_db w"
  by (auto simp: wrapM_Inr pg_read_Inr)

lemma pg_write_db:
  "pg_write stmt w = (r, w') \<Longrightarrow> w_db w' = w_db w \<or> (\<exists>a. stmt (w_db w) = Inr (a, w_db w'))"
  by (auto simp: pg_write_def split: fault.splits sum.splits)

text \<open>
  The rules by which every store operation keeps a predicate on the tables: reads and draws keep it,
  a write keeps it if its statement does, a transaction keeps it if its body does.
\<close>

definition stmt_keeps :: "(db \<Rightarrow> bool) \<Rightarrow> 'a statement \<Rightarrow> bool" where
  "stmt_keeps I stmt \<longleftrightarrow> (\<forall>d a d'. I d \<longrightarrow> stmt d = Inr (a, d') \<longrightarrow> I d')"

lemma stmt_keepsI: "(\<And>d a d'. I d \<Longrightarrow> stmt d = Inr (a, d') \<Longrightarrow> I d') \<Longrightarrow> stmt_keeps I stmt"
  by (simp add: stmt_keeps_def)

lemma keeps_pg_read [keeps_rules]: "keeps (on_db I) (pg_read q)"
  by (rule keepsI) (auto simp: on_db_def dest: pg_read_db)

lemma keeps_pg_write [keeps_rules]: "stmt_keeps I stmt \<Longrightarrow> keeps (on_db I) (pg_write stmt)"
  by (rule keepsI) (auto simp: on_db_def stmt_keeps_def dest!: pg_write_db)

lemma keeps_time_Now [keeps_rules]: "keeps (on_db I) time_Now"
  by (simp add: keeps_def on_db_def time_Now_def)

lemma keeps_pg_NOW [keeps_rules]: "keeps (on_db I) pg_NOW"
  by (simp add: keeps_def on_db_def pg_NOW_def)

lemma keeps_uuid_New [keeps_rules]: "keeps (on_db I) uuid_New"
  by (simp add: keeps_def on_db_def uuid_New_def)

lemma keeps_locked_rows [keeps_rules]: "keeps (on_db I) locked_rows"
  by (simp add: keeps_def on_db_def locked_rows_def)

lemma with_tx_cases:
  assumes "with_tx b c body w = (r, w')"
  obtains (begin_failed) "w_db w' = w_db w" "\<exists>s. r = Inl (wrap_prefix b (LibError s))"
  | (body_failed) w1 e w2 where "w_db w1 = w_db w" "body w1 = (Inl e, w2)" "r = Inl e" "w_db w' = w_db w"
  | (committed) w1 a w2 where "w_db w1 = w_db w" "body w1 = (Inr a, w2)" "w_db w' = w_db w2" "r = Inr a"
  | (commit_failed) w1 a w2 s where "w_db w1 = w_db w" "body w1 = (Inr a, w2)"
      "w_db w' = w_db w \<or> w_db w' = w_db w2" "r = Inl (wrap_prefix c (LibError s))"
proof -
  obtain x w1 where b: "pg_read (\<lambda>d. Inr ()) w = (x, w1)" by fastforce
  note db1 = pg_read_db [OF b]
  show thesis
  proof (cases x)
    case (Inl e)
    with b have "\<exists>s. e = LibError s" using pg_read_Inl [of "\<lambda>d. Inr ()" w e w1] by simp
    with assms b Inl db1 show ?thesis
      by (auto simp: with_tx_def wrapM_def intro: begin_failed)
  next
    case (Inr u)
    obtain y w2 where body: "body w1 = (y, w2)" by fastforce
    show ?thesis
    proof (cases y)
      case (Inl e)
      with assms b Inr body db1 show ?thesis
        by (auto simp: with_tx_def wrapM_def intro: body_failed)
    next
      case y: (Inr a)
      show ?thesis
      proof (cases "shd (w_faults w2)")
        case NoFault
        with assms b Inr body y db1 show ?thesis
          by (auto simp: with_tx_def wrapM_def intro: committed)
      next
        case (Fault s)
        with assms b Inr body y db1 show ?thesis
          by (auto simp: with_tx_def wrapM_def intro: commit_failed)
      next
        case (LostReply s)
        with assms b Inr body y db1 show ?thesis
          by (auto simp: with_tx_def wrapM_def intro: commit_failed)
      qed
    qed
  qed
qed

lemma keeps_with_tx:
  assumes "keeps (on_db I) body"
  shows "keeps (on_db I) (with_tx b c body)"
proof (rule keepsI)
  fix w r w'
  assume I: "on_db I w" and tx: "with_tx b c body w = (r, w')"
  have step: "I (w_db w2)" if "w_db w1 = w_db w" "body w1 = (x, w2)" for w1 x w2
    using keepsD [OF assms _ that(2)] that(1) I by (simp add: on_db_def)
  from tx show "on_db I w'"
    by (cases rule: with_tx_cases) (use I in \<open>auto simp: on_db_def dest: step\<close>)
qed

end
