(* ===== verification/Store.thy ===== *)
theory Store
  imports Database
begin

section \<open>The PostgreSQL store (\<^verbatim>\<open>internal/postgres\<close>)\<close>

text \<open>
  One definition per method of \<^verbatim>\<open>Store\<close>, each a sequence of round trips on the world of Database,
  with the wrapping of every error. The \<^verbatim>\<open>context.Context\<close> argument is the round trip's fault stream:
  a cancelled call fails.
\<close>

subsection \<open>Services\<close>

definition scanService :: "services_row \<Rightarrow> SLOPolicy \<Rightarrow> Service" where
  "scanService r p =
     \<lparr>svc_ID = svc_ID r, svc_Name = svc_Name r, svc_Description = svc_Description r,
      svc_OwnerEmail = svc_OwnerEmail r, svc_RepositoryURL = svc_RepositoryURL r,
      svc_RunbookURL = svc_RunbookURL r, svc_HealthEndpointURL = svc_HealthEndpointURL r,
      svc_ObservabilityURL = svc_ObservabilityURL r, svc_DeploymentPipeline = svc_DeploymentPipeline r,
      svc_HasCI = svc_HasCI r, svc_HasTracing = svc_HasTracing r, svc_HasMetrics = svc_HasMetrics r,
      svc_Language = svc_Language r, svc_Tier = svc_Tier r, svc_Lifecycle = svc_Lifecycle r,
      svc_CreatedAt = svc_CreatedAt r, svc_UpdatedAt = svc_UpdatedAt r,
      svc_SLOPolicy = p\<lparr>slo_ServiceID := svc_ID r\<rparr>\<rparr>"

text \<open>The join of \<^verbatim>\<open>services\<close> and \<^verbatim>\<open>slo_policies\<close> for one identifier.\<close>

definition select_service :: "uuid \<Rightarrow> db \<Rightarrow> go_error + Service" where
  "select_service i d =
     (case row_of svc_ID i (t_services d) of
        None \<Rightarrow> Inl ErrNotFound
      | Some r \<Rightarrow> (case row_of slo_ServiceID i (t_slo_policies d) of
            None \<Rightarrow> Inl ErrNotFound
          | Some p \<Rightarrow> Inr (scanService r p)))"

text \<open>
  \<^verbatim>\<open>if errors.Is(err, pgx.ErrNoRows) { return ErrNotFound }; return fmt.Errorf("...: %w", err)\<close>:
  the missing row is reported as it is, any other error is wrapped.
\<close>

definition unless_not_found :: "string \<Rightarrow> go_error \<Rightarrow> go_error" where
  "unless_not_found pre e = (if e = ErrNotFound then ErrNotFound else wrap_prefix pre e)"

definition Store_GetService :: "uuid \<Rightarrow> (world, go_error, Service) io" where
  "Store_GetService serviceID =
     wrapM (unless_not_found ''postgres: scan service: '') (pg_read (select_service serviceID))"

definition Store_CreateService :: "Service \<Rightarrow> (world, go_error, Service) io" where
  "Store_CreateService s =
     tryM (with_tx ''postgres: begin create service: '' ''postgres: commit create service: ''
       (tryM (wrapM (wrap_prefix ''postgres: insert service: '')
           (pg_write (insert_service (services_row.truncate s)))) (\<lambda>_.
         wrapM (wrap_prefix ''postgres: insert slo policy: '')
           (pg_write (insert_slo_policy ((svc_SLOPolicy s)\<lparr>slo_ServiceID := svc_ID s\<rparr>))))))
     (\<lambda>_. Store_GetService (svc_ID s))"

text \<open>The optional fields of a patch replace the current ones.\<close>

definition set_or :: "'a option \<Rightarrow> 'a \<Rightarrow> 'a" where
  "set_or x current = (case x of None \<Rightarrow> current | Some v \<Rightarrow> v)"

definition patchSLO :: "SLOPolicyInput option \<Rightarrow> SLOPolicy \<Rightarrow> SLOPolicy" where
  "patchSLO x p =
     (case x of None \<Rightarrow> p
      | Some i \<Rightarrow> p\<lparr>slo_AvailabilityTargetPercent := sloin_AvailabilityTargetPercent i,
           slo_LatencyTargetMilliseconds := sloin_LatencyTargetMilliseconds i,
           slo_TimeWindow := sloin_Window i\<rparr>)"

definition applyServicePatch :: "Service \<Rightarrow> ServicePatch \<Rightarrow> Service" where
  "applyServicePatch s p = s\<lparr>
     svc_Description := set_or (p_Description p) (svc_Description s),
     svc_OwnerEmail := set_or (p_OwnerEmail p) (svc_OwnerEmail s),
     svc_RepositoryURL := set_or (p_RepositoryURL p) (svc_RepositoryURL s),
     svc_RunbookURL := set_or (p_RunbookURL p) (svc_RunbookURL s),
     svc_HealthEndpointURL := set_or (p_HealthEndpointURL p) (svc_HealthEndpointURL s),
     svc_ObservabilityURL := set_or (p_ObservabilityURL p) (svc_ObservabilityURL s),
     svc_DeploymentPipeline := set_or (p_DeploymentPipeline p) (svc_DeploymentPipeline s),
     svc_HasCI := set_or (p_HasCI p) (svc_HasCI s),
     svc_HasTracing := set_or (p_HasTracing p) (svc_HasTracing s),
     svc_HasMetrics := set_or (p_HasMetrics p) (svc_HasMetrics s),
     svc_Language := set_or (p_Language p) (svc_Language s),
     svc_Tier := set_or (p_Tier p) (svc_Tier s),
     svc_Lifecycle := set_or (p_Lifecycle p) (svc_Lifecycle s),
     svc_SLOPolicy := patchSLO (p_SLOPolicy p) (svc_SLOPolicy s)\<rparr>"

text \<open>
  The two updates of \<^verbatim>\<open>UpdateService\<close>: name and creation time are not written; the constraints are
  checked on the updated row, if there is one.
\<close>

definition update_service :: "Service \<Rightarrow> unit statement" where
  "update_service s d =
     (case require [int4_encodes (svc_Tier s),
        (svc_ID s \<in> svc_ID ` set (t_services d) \<longrightarrow> 0 \<le> svc_Tier s \<and> svc_Tier s \<le> 3,
           check_violation ''services_tier_check'')] of
        Some e \<Rightarrow> Inl e
      | None \<Rightarrow> Inr ((), d\<lparr>t_services := update_where (\<lambda>r. svc_ID r = svc_ID s)
          (\<lambda>r. (services_row.truncate s)\<lparr>svc_ID := svc_ID r, svc_Name := svc_Name r,
             svc_CreatedAt := svc_CreatedAt r\<rparr>) (t_services d)\<rparr>))"

definition update_slo_policy :: "uuid \<Rightarrow> SLOPolicy \<Rightarrow> unit statement" where
  "update_slo_policy serviceID p d =
     (case require [int4_encodes (slo_LatencyTargetMilliseconds p),
        (serviceID \<in> slo_ServiceID ` set (t_slo_policies d) \<longrightarrow>
           slo_AvailabilityTargetPercent p > 0 \<and> slo_AvailabilityTargetPercent p \<le> 100,
           check_violation ''slo_policies_availability_check''),
        (serviceID \<in> slo_ServiceID ` set (t_slo_policies d) \<longrightarrow> slo_LatencyTargetMilliseconds p > 0,
           check_violation ''slo_policies_latency_check'')] of
        Some e \<Rightarrow> Inl e
      | None \<Rightarrow> Inr ((), d\<lparr>t_slo_policies := update_where (\<lambda>r. slo_ServiceID r = serviceID)
          (\<lambda>r. r\<lparr>slo_AvailabilityTargetPercent := slo_AvailabilityTargetPercent p,
             slo_LatencyTargetMilliseconds := slo_LatencyTargetMilliseconds p,
             slo_TimeWindow := slo_TimeWindow p, slo_UpdatedAt := slo_UpdatedAt p\<rparr>) (t_slo_policies d)\<rparr>))"

definition Store_UpdateService :: "uuid \<Rightarrow> ServicePatch \<Rightarrow> (world, go_error, Service) io" where
  "Store_UpdateService serviceID patch =
     tryM (Store_GetService serviceID) (\<lambda>found.
     letM time_Now (\<lambda>now.
       let patched = applyServicePatch found patch;
           current = patched\<lparr>svc_UpdatedAt := now,
             svc_SLOPolicy := (svc_SLOPolicy patched)\<lparr>slo_UpdatedAt := now\<rparr>\<rparr>
       in tryM (with_tx ''postgres: begin update service: '' ''postgres: commit update service: ''
            (tryM (wrapM (wrap_prefix ''postgres: update service: '') (pg_write (update_service current))) (\<lambda>_.
              wrapM (wrap_prefix ''postgres: update slo policy: '')
                (pg_write (update_slo_policy (svc_ID current) (svc_SLOPolicy current))))))
          (\<lambda>_. Store_GetService (svc_ID current))))"

subsection \<open>Readiness evidence\<close>

text \<open>\<^verbatim>\<open>SELECT ... WHERE service_id = $1 ORDER BY evaluated_at DESC LIMIT 1\<close>.\<close>

definition select_latest_snapshot :: "uuid \<Rightarrow> db \<Rightarrow> go_error + ReadinessSnapshot" where
  "select_latest_snapshot serviceID d =
     (case newest_by snap_EvaluatedAt (filter (\<lambda>r. snap_ServiceID r = serviceID) (t_snapshots d)) of
        None \<Rightarrow> Inl ErrNotFound | Some r \<Rightarrow> Inr r)"

definition Store_GetLatestSnapshot :: "uuid \<Rightarrow> (world, go_error, ReadinessSnapshot) io" where
  "Store_GetLatestSnapshot serviceID =
     wrapM (unless_not_found ''postgres: get latest snapshot: '') (pg_read (select_latest_snapshot serviceID))"

fun insert_checks :: "ReadinessCheckResult list \<Rightarrow> (world, go_error, unit) io" where
  "insert_checks [] = okM ()"
| "insert_checks (c # cs) =
     tryM (wrapM (wrap_prefix ''postgres: insert readiness check result: '') (pg_write (insert_check c)))
       (\<lambda>_. insert_checks cs)"

definition Store_SaveReadinessEvaluation ::
  "ReadinessSnapshot \<Rightarrow> ReadinessCheckResult list \<Rightarrow> (world, go_error, unit) io" where
  "Store_SaveReadinessEvaluation snapshot checks =
     with_tx ''postgres: begin save readiness evaluation: '' ''postgres: commit readiness evaluation: ''
       (tryM (wrapM (wrap_prefix ''postgres: insert readiness snapshot: '') (pg_write (insert_snapshot snapshot))) (\<lambda>_.
        tryM (insert_checks checks) (\<lambda>_.
        wrapM (wrap_prefix ''postgres: close readiness evaluation batch: '') (pg_read (\<lambda>d. Inr ())))))"

text \<open>
  \<^verbatim>\<open>ORDER BY check_name ASC\<close> sorts by the byte order of the names, which is the order of a database
  in the \<^verbatim>\<open>C\<close> collation.
\<close>

definition name_key :: "string \<Rightarrow> nat list" where
  "name_key s = map of_char s"

definition select_checks :: "uuid \<Rightarrow> db \<Rightarrow> ReadinessCheckResult list" where
  "select_checks snapshotID d =
     sort_key (\<lambda>c. name_key (chk_CheckName c)) (filter (\<lambda>c. chk_SnapshotID c = snapshotID) (t_checks d))"

definition Store_GetLatestScorecard :: "uuid \<Rightarrow> (world, go_error, Scorecard) io" where
  "Store_GetLatestScorecard serviceID =
     tryM (Store_GetService serviceID) (\<lambda>service.
     tryM (wrapM (unless_not_found ''postgres: get latest scorecard snapshot: '')
         (pg_read (select_latest_snapshot serviceID))) (\<lambda>snapshot.
     tryM (wrapM (wrap_prefix ''postgres: get readiness check results: '')
         (pg_read (\<lambda>d. Inr (select_checks (snap_ID snapshot) d)))) (\<lambda>checks.
     okM \<lparr>sc_Service = service, sc_Snapshot = snapshot, sc_Checks = checks\<rparr>)))"

subsection \<open>Jobs\<close>

text \<open>A row as the struct: a null \<^verbatim>\<open>lock_owner\<close> or \<^verbatim>\<open>last_error\<close> reads as the empty string.\<close>

definition scanJob :: "jobs_row \<Rightarrow> Job" where
  "scanJob r = \<lparr>job_ID = job_ID r, job_Type = job_Type r, job_ResourceID = job_ResourceID r,
     job_Status = job_Status r, job_IdempotencyKey = job_IdempotencyKey r, job_Payload = job_Payload r,
     job_Attempts = job_Attempts r, job_MaxAttempts = job_MaxAttempts r,
     job_AvailableAt = job_AvailableAt r, job_LockedAt = job_LockedAt r,
     job_CreatedAt = job_CreatedAt r, job_UpdatedAt = job_UpdatedAt r,
     job_LockOwner = set_or (row_LockOwner r) [], job_LastError = set_or (row_LastError r) []\<rparr>"

definition new_job_row :: "Job \<Rightarrow> jobs_row" where
  "new_job_row j = \<lparr>job_ID = job_ID j, job_Type = job_Type j, job_ResourceID = job_ResourceID j,
     job_Status = job_Status j, job_IdempotencyKey = job_IdempotencyKey j, job_Payload = job_Payload j,
     job_Attempts = job_Attempts j, job_MaxAttempts = job_MaxAttempts j,
     job_AvailableAt = job_AvailableAt j, job_LockedAt = None,
     job_CreatedAt = job_CreatedAt j, job_UpdatedAt = job_UpdatedAt j,
     row_LockOwner = None, row_LastError = Some []\<rparr>"

definition same_key :: "Job \<Rightarrow> jobs_row \<Rightarrow> bool" where
  "same_key j r \<longleftrightarrow> job_Type r = job_Type j \<and> job_IdempotencyKey r = job_IdempotencyKey j"

text \<open>
  \<^verbatim>\<open>INSERT ... ON CONFLICT (type, idempotency_key) DO UPDATE SET updated_at ... RETURNING\<close>: the CHECK
  constraints come first, then the conflicting row, then the other unique index.
\<close>

definition enqueue_stmt :: "Job \<Rightarrow> jobs_row statement" where
  "enqueue_stmt j d =
     (case require [int4_encodes (job_Attempts j), int4_encodes (job_MaxAttempts j),
        (job_Attempts j \<ge> 0, check_violation ''jobs_attempts_check''),
        (job_MaxAttempts j > 0, check_violation ''jobs_max_attempts_check''),
        (job_Status j \<in> {JobStatusPending, JobStatusProcessing, JobStatusCompleted, JobStatusFailed},
           check_violation ''jobs_status_check''),
        (job_Type j = JobTypeServiceEvaluation, check_violation ''jobs_type_check'')] of
        Some e \<Rightarrow> Inl e
      | None \<Rightarrow>
          (case find (same_key j) (t_jobs d) of
             Some r \<Rightarrow> Inr (r\<lparr>job_UpdatedAt := job_UpdatedAt j\<rparr>,
               d\<lparr>t_jobs := update_where (same_key j) (\<lambda>r. r\<lparr>job_UpdatedAt := job_UpdatedAt j\<rparr>) (t_jobs d)\<rparr>)
           | None \<Rightarrow>
               if job_ID j \<in> job_ID ` set (t_jobs d) then Inl (unique_violation ''jobs_pkey'')
               else Inr (new_job_row j, d\<lparr>t_jobs := t_jobs d @ [new_job_row j]\<rparr>)))"

definition Store_EnqueueJob :: "Job \<Rightarrow> (world, go_error, Job) io" where
  "Store_EnqueueJob j =
     tryM (wrapM (wrap_prefix ''postgres: scan job: '') (pg_write (enqueue_stmt j))) (\<lambda>r. okM (scanJob r))"

text \<open>
  The claim: rows with attempts left that are due, or whose lease ran out, the oldest first, at most
  \<^verbatim>\<open>batchSize\<close> of them and none locked by another transaction.
\<close>

definition claimable :: "time \<Rightarrow> time \<Rightarrow> jobs_row \<Rightarrow> bool" where
  "claimable now expiredBefore r \<longleftrightarrow>
     job_Attempts r < job_MaxAttempts r \<and>
     ((job_Status r \<in> {JobStatusPending, JobStatusFailed} \<and> job_AvailableAt r \<le> now) \<or>
      (job_Status r = JobStatusProcessing \<and>
         (case job_LockedAt r of None \<Rightarrow> False | Some t \<Rightarrow> t < expiredBefore)))"

definition candidate_jobs :: "int \<Rightarrow> time \<Rightarrow> time \<Rightarrow> uuid list \<Rightarrow> db \<Rightarrow> jobs_row list" where
  "candidate_jobs batchSize now expiredBefore locked d =
     take (nat batchSize)
       (sort_key (\<lambda>r. (job_AvailableAt r, job_CreatedAt r))
         (filter (\<lambda>r. claimable now expiredBefore r \<and> job_ID r \<notin> set locked) (t_jobs d)))"

definition lease_row :: "string \<Rightarrow> time \<Rightarrow> jobs_row \<Rightarrow> jobs_row" where
  "lease_row workerID now r = r\<lparr>job_Status := JobStatusProcessing, job_LockedAt := Some now,
     row_LockOwner := Some workerID, job_Attempts := job_Attempts r + 1, job_UpdatedAt := now\<rparr>"

definition claim_stmt :: "string \<Rightarrow> int \<Rightarrow> time \<Rightarrow> time \<Rightarrow> uuid list \<Rightarrow> jobs_row list statement" where
  "claim_stmt workerID batchSize now expiredBefore locked d =
     (if batchSize < 0 then Inl (PgError ''2201W'' [])
      else let picked = job_ID ` set (candidate_jobs batchSize now expiredBefore locked d);
               jobs = update_where (\<lambda>r. job_ID r \<in> picked) (lease_row workerID now) (t_jobs d)
           in Inr (filter (\<lambda>r. job_ID r \<in> picked) jobs, d\<lparr>t_jobs := jobs\<rparr>))"

definition Store_ClaimJobs :: "string \<Rightarrow> int \<Rightarrow> int \<Rightarrow> (world, go_error, Job list) io" where
  "Store_ClaimJobs workerID batchSize lease =
     letM time_Now (\<lambda>t.
     letM pg_NOW (\<lambda>now.
     letM locked_rows (\<lambda>locked.
     tryM (wrapM (wrap_prefix ''postgres: claim jobs: '')
         (pg_write (claim_stmt workerID batchSize now (t - lease) locked))) (\<lambda>rows.
     okM (map scanJob rows)))))"

text \<open>An update of at most one row: no affected row is a state conflict.\<close>

definition update_one :: "(jobs_row \<Rightarrow> bool) \<Rightarrow> (jobs_row \<Rightarrow> jobs_row) \<Rightarrow> nat statement" where
  "update_one p f d = Inr (rows_where p (t_jobs d), d\<lparr>t_jobs := update_where p f (t_jobs d)\<rparr>)"

definition affected_one :: "nat \<Rightarrow> (world, go_error, unit) io" where
  "affected_one n = (if n \<noteq> 1 then errM ErrStateConflict else okM ())"

definition owned_by :: "uuid \<Rightarrow> string \<Rightarrow> jobs_row \<Rightarrow> bool" where
  "owned_by jobID workerID r \<longleftrightarrow>
     job_ID r = jobID \<and> job_Status r = JobStatusProcessing \<and> row_LockOwner r = Some workerID"

definition complete_row :: "time \<Rightarrow> jobs_row \<Rightarrow> jobs_row" where
  "complete_row now r = r\<lparr>job_Status := JobStatusCompleted, job_LockedAt := None,
     row_LockOwner := Some [], row_LastError := Some [], job_UpdatedAt := now\<rparr>"

definition Store_MarkJobCompleted :: "uuid \<Rightarrow> string \<Rightarrow> (world, go_error, unit) io" where
  "Store_MarkJobCompleted jobID workerID =
     letM pg_NOW (\<lambda>now.
     tryM (wrapM (wrap_prefix ''postgres: mark job completed: '')
         (pg_write (update_one (owned_by jobID workerID) (complete_row now)))) affected_one)"

definition go_min :: "int \<Rightarrow> int \<Rightarrow> int" where
  "go_min left right = (if left < right then left else right)"

text \<open>
  \<^verbatim>\<open>time.Duration(1<<min(job.Attempts, 6)) * time.Second\<close>, capped at a minute, as 64-bit
  nanoseconds. The attempts of a job are at least 0, so the shift count is not negative.
\<close>

definition backoff :: "int \<Rightarrow> 64 word" where
  "backoff attempts =
     (let b = push_bit (nat (go_min attempts 6)) 1 * 1000000000 in
      if word_sless 60000000000 b then 60000000000 else b)"

definition fail_row :: "string \<Rightarrow> time \<Rightarrow> time \<Rightarrow> jobs_row \<Rightarrow> jobs_row" where
  "fail_row message availableAt now r = r\<lparr>job_Status := JobStatusFailed, job_LockedAt := None,
     row_LockOwner := Some [], row_LastError := Some message, job_AvailableAt := availableAt,
     job_UpdatedAt := now\<rparr>"

definition Store_MarkJobFailed :: "(go_error \<Rightarrow> string) \<Rightarrow> Job \<Rightarrow> go_error \<Rightarrow> (world, go_error, unit) io" where
  "Store_MarkJobFailed lib_text job failure =
     letM time_Now (\<lambda>now.
     tryM (wrapM (wrap_prefix ''postgres: mark job failed: '')
         (pg_write (update_one (owned_by (job_ID job) (job_LockOwner job))
            (fail_row (error_text lib_text failure) (now + sint (backoff (job_Attempts job))) now))))
       affected_one)"

subsection \<open>Deployment candidates\<close>

definition scanCandidate :: "candidates_row \<Rightarrow> PromotionDecision option \<Rightarrow> DeploymentCandidate" where
  "scanCandidate c p =
     \<lparr>cand_ID = cand_ID c, cand_ServiceID = cand_ServiceID c, cand_Environment = cand_Environment c,
      cand_Version = cand_Version c, cand_CommitSHA = cand_CommitSHA c,
      cand_RequestedBy = cand_RequestedBy c, cand_Status = cand_Status c,
      cand_DecisionReason = cand_DecisionReason c, cand_LastSnapshotID = cand_LastSnapshotID c,
      cand_CreatedAt = cand_CreatedAt c, cand_UpdatedAt = cand_UpdatedAt c,
      cand_EvaluatedAt = cand_EvaluatedAt c, cand_PromotionDecision = p\<rparr>"

definition select_candidate :: "uuid \<Rightarrow> db \<Rightarrow> go_error + DeploymentCandidate" where
  "select_candidate i d =
     (case row_of cand_ID i (t_candidates d) of
        None \<Rightarrow> Inl ErrNotFound
      | Some c \<Rightarrow> Inr (scanCandidate c
          (map_option (\<lambda>p. p\<lparr>dec_CandidateID := cand_ID c\<rparr>) (row_of dec_CandidateID i (t_decisions d)))))"

definition Store_GetDeploymentCandidate :: "uuid \<Rightarrow> (world, go_error, DeploymentCandidate) io" where
  "Store_GetDeploymentCandidate candidateID =
     wrapM (unless_not_found ''postgres: get deployment candidate: '') (pg_read (select_candidate candidateID))"

definition Store_CreateDeploymentCandidate ::
  "DeploymentCandidate \<Rightarrow> (world, go_error, DeploymentCandidate) io" where
  "Store_CreateDeploymentCandidate c =
     tryM (wrapM (wrap_prefix ''postgres: insert deployment candidate: '')
         (pg_write (insert_candidate (candidates_row.truncate c)))) (\<lambda>_.
     Store_GetDeploymentCandidate (cand_ID c))"

text \<open>The guarded update of the candidate: the number of rows with that identifier still pending.\<close>

definition pending_with :: "uuid \<Rightarrow> candidates_row \<Rightarrow> bool" where
  "pending_with candidateID c \<longleftrightarrow> cand_ID c = candidateID \<and> cand_Status c = CandidateStatusPending"

definition decide_row ::
  "CandidateStatus \<Rightarrow> string \<Rightarrow> uuid option \<Rightarrow> time \<Rightarrow> candidates_row \<Rightarrow> candidates_row" where
  "decide_row status reason snapshotID now c = c\<lparr>cand_Status := status, cand_DecisionReason := reason,
     cand_LastSnapshotID := snapshotID, cand_UpdatedAt := now, cand_EvaluatedAt := Some now\<rparr>"

definition decide_stmt ::
  "uuid \<Rightarrow> CandidateStatus \<Rightarrow> string \<Rightarrow> uuid option \<Rightarrow> time \<Rightarrow> nat statement" where
  "decide_stmt candidateID status reason snapshotID now d =
     (let n = rows_where (pending_with candidateID) (t_candidates d) in
      case require
        [(n \<noteq> 0 \<longrightarrow> status \<in> {CandidateStatusPending, CandidateStatusApproved, CandidateStatusRejected},
            check_violation ''deployment_candidates_status_check''),
         (n \<noteq> 0 \<longrightarrow> ref_snapshot snapshotID d, fk_violation ''deployment_candidates_last_snapshot_id_fkey'')] of
        Some e \<Rightarrow> Inl e
      | None \<Rightarrow> Inr (n, d\<lparr>t_candidates := update_where (pending_with candidateID)
          (decide_row status reason snapshotID now) (t_candidates d)\<rparr>))"

text \<open>\<^verbatim>\<open>INSERT INTO promotion_decisions ... ON CONFLICT (candidate_id) DO UPDATE\<close>.\<close>

definition upsert_decision :: "PromotionDecision \<Rightarrow> unit statement" where
  "upsert_decision p d =
     (case require [(dec_Decision p \<in> {CandidateStatusApproved, CandidateStatusRejected},
         check_violation ''promotion_decisions_decision_check'')] of
        Some e \<Rightarrow> Inl e
      | None \<Rightarrow>
          if dec_CandidateID p \<in> dec_CandidateID ` set (t_decisions d)
          then (if ref_snapshot (dec_SnapshotID p) d
                then Inr ((), d\<lparr>t_decisions := update_where (\<lambda>r. dec_CandidateID r = dec_CandidateID p)
                  (\<lambda>r. r\<lparr>dec_SnapshotID := dec_SnapshotID p, dec_Decision := dec_Decision p,
                     dec_Summary := dec_Summary p, dec_CreatedAt := dec_CreatedAt p\<rparr>) (t_decisions d)\<rparr>)
                else Inl (fk_violation ''promotion_decisions_snapshot_id_fkey''))
          else insert_when
            [(dec_ID p \<notin> dec_ID ` set (t_decisions d), unique_violation ''promotion_decisions_pkey''),
             (dec_CandidateID p \<in> cand_ID ` set (t_candidates d),
                fk_violation ''promotion_decisions_candidate_id_fkey''),
             (ref_snapshot (dec_SnapshotID p) d, fk_violation ''promotion_decisions_snapshot_id_fkey'')]
            (d\<lparr>t_decisions := t_decisions d @ [p]\<rparr>))"

definition Store_SavePromotionDecision ::
  "uuid \<Rightarrow> ReadinessSnapshot option \<Rightarrow> PromotionDecision \<Rightarrow> CandidateStatus \<Rightarrow> string \<Rightarrow>
   (world, go_error, DeploymentCandidate) io" where
  "Store_SavePromotionDecision candidateID snapshot decision status reason =
     tryM (with_tx ''postgres: begin save promotion decision: '' ''postgres: commit promotion decision: ''
       (letM time_Now (\<lambda>now.
        tryM (wrapM (wrap_prefix ''postgres: update deployment candidate decision: '')
            (pg_write (decide_stmt candidateID status reason (map_option snap_ID snapshot) now))) (\<lambda>n.
        if n \<noteq> 1 then errM ErrStateConflict
        else wrapM (wrap_prefix ''postgres: upsert promotion decision: '') (pg_write (upsert_decision decision))))))
     (\<lambda>_. Store_GetDeploymentCandidate candidateID)"

subsection \<open>Audit events\<close>

definition Store_InsertAuditEvent :: "AuditEvent \<Rightarrow> (world, go_error, unit) io" where
  "Store_InsertAuditEvent event =
     wrapM (wrap_prefix ''postgres: insert audit event: '') (pg_write (insert_audit_event event))"

definition clamp_limit :: "int \<Rightarrow> int" where
  "clamp_limit limit = (let l = (if limit < 1 then 20 else limit) in if l > 100 then 100 else l)"

definition select_audit :: "string \<Rightarrow> uuid option \<Rightarrow> int \<Rightarrow> db \<Rightarrow> AuditEvent list" where
  "select_audit resourceType resourceID limit d =
     take (nat limit) (sort_key (\<lambda>e. - aud_CreatedAt e)
       (filter (\<lambda>e. (resourceType = [] \<or> aud_ResourceType e = resourceType) \<and>
          (case resourceID of None \<Rightarrow> True | Some i \<Rightarrow> aud_ResourceID e = i)) (t_audit d)))"

definition Store_ListAuditEvents ::
  "string \<Rightarrow> uuid option \<Rightarrow> int \<Rightarrow> (world, go_error, AuditEvent list) io" where
  "Store_ListAuditEvents resourceType resourceID limit =
     wrapM (wrap_prefix ''postgres: list audit events: '')
       (pg_read (\<lambda>d. Inr (select_audit resourceType resourceID (clamp_limit limit) d)))"

end
