(* ===== verification/Integrity.thy ===== *)
theory Integrity
  imports Store
begin

section \<open>What the tables promise\<close>

text \<open>
  The invariant of the tables in four layers: keys are unique, references resolve, every job row is a
  possible state of a lease, and every candidate and snapshot carries its evidence. Each layer is kept
  by every store operation; the operations that write evidence need what their caller guarantees.
\<close>

subsection \<open>The layers\<close>

definition wf_keys :: "db \<Rightarrow> bool" where
  "wf_keys d \<longleftrightarrow>
     distinct (map svc_ID (t_services d)) \<and> distinct (map svc_Name (t_services d)) \<and>
     distinct (map slo_ID (t_slo_policies d)) \<and> distinct (map slo_ServiceID (t_slo_policies d)) \<and>
     distinct (map job_ID (t_jobs d)) \<and>
     distinct (map (\<lambda>r. (job_Type r, job_IdempotencyKey r)) (t_jobs d)) \<and>
     distinct (map snap_ID (t_snapshots d)) \<and> distinct (map chk_ID (t_checks d)) \<and>
     distinct (map cand_ID (t_candidates d)) \<and> distinct (map dec_ID (t_decisions d)) \<and>
     distinct (map dec_CandidateID (t_decisions d)) \<and> distinct (map aud_ID (t_audit d))"

definition wf_refs :: "db \<Rightarrow> bool" where
  "wf_refs d \<longleftrightarrow>
     slo_ServiceID ` set (t_slo_policies d) = svc_ID ` set (t_services d) \<and>
     snap_ServiceID ` set (t_snapshots d) \<subseteq> svc_ID ` set (t_services d) \<and>
     snap_JobID ` set (t_snapshots d) \<subseteq> job_ID ` set (t_jobs d) \<and>
     chk_ServiceID ` set (t_checks d) \<subseteq> svc_ID ` set (t_services d) \<and>
     chk_SnapshotID ` set (t_checks d) \<subseteq> snap_ID ` set (t_snapshots d) \<and>
     cand_ServiceID ` set (t_candidates d) \<subseteq> svc_ID ` set (t_services d) \<and>
     dec_CandidateID ` set (t_decisions d) \<subseteq> cand_ID ` set (t_candidates d)"

definition job_row_ok :: "jobs_row \<Rightarrow> bool" where
  "job_row_ok r \<longleftrightarrow>
     0 \<le> job_Attempts r \<and> job_Attempts r \<le> job_MaxAttempts r \<and> 0 < job_MaxAttempts r \<and>
     int4 (job_MaxAttempts r) \<and> job_Type r = JobTypeServiceEvaluation \<and>
     job_Status r \<in> {JobStatusPending, JobStatusProcessing, JobStatusCompleted, JobStatusFailed} \<and>
     (job_Status r = JobStatusPending \<longrightarrow> job_Attempts r = 0) \<and>
     (job_Status r \<noteq> JobStatusPending \<longrightarrow> 1 \<le> job_Attempts r) \<and>
     (job_Status r = JobStatusProcessing \<longleftrightarrow> job_LockedAt r \<noteq> None) \<and>
     (job_Status r = JobStatusProcessing \<longrightarrow> row_LockOwner r \<noteq> None)"

definition jobs_ok :: "db \<Rightarrow> bool" where
  "jobs_ok d \<longleftrightarrow> (\<forall>r \<in> set (t_jobs d). job_row_ok r)"

text \<open>The verdict that belongs to a list of checks: what \<open>Evaluate\<close> returns and what is stored.\<close>

definition verdict_ok :: "ReadinessCheckResult list \<Rightarrow> ReadinessSnapshot \<Rightarrow> bool" where
  "verdict_ok cs s \<longleftrightarrow>
     chk_CheckName ` set cs = set check_names \<and> length cs = length check_names \<and>
     snap_Score s = max 0 (100 - 30 * int (status_count CheckStatusFail cs)
                                - 10 * int (status_count CheckStatusWarn cs)) \<and>
     (snap_State s = ReadinessBlocked \<longleftrightarrow> (\<exists>c \<in> set cs. chk_Status c = CheckStatusFail)) \<and>
     (snap_State s = ReadinessReady \<longleftrightarrow> (\<forall>c \<in> set cs. chk_Status c = CheckStatusPass))"

definition checks_of :: "uuid \<Rightarrow> db \<Rightarrow> ReadinessCheckResult list" where
  "checks_of i d = filter (\<lambda>c. chk_SnapshotID c = i) (t_checks d)"

definition snapshots_ok :: "db \<Rightarrow> bool" where
  "snapshots_ok d \<longleftrightarrow> (\<forall>s \<in> set (t_snapshots d). verdict_ok (checks_of (snap_ID s) d) s)"

definition evidence :: "ReadinessState \<Rightarrow> uuid \<Rightarrow> uuid \<Rightarrow> db \<Rightarrow> bool" where
  "evidence st serviceID i d \<longleftrightarrow>
     (\<exists>s \<in> set (t_snapshots d). snap_ID s = i \<and> snap_ServiceID s = serviceID \<and> snap_State s = st)"

definition decision_recorded :: "candidates_row \<Rightarrow> db \<Rightarrow> bool" where
  "decision_recorded c d \<longleftrightarrow> cand_EvaluatedAt c \<noteq> None \<and>
     (\<exists>p \<in> set (t_decisions d). dec_CandidateID p = cand_ID c \<and> dec_Decision p = cand_Status c \<and>
        dec_SnapshotID p = cand_LastSnapshotID c \<and> dec_Summary p = cand_DecisionReason c)"

fun candidate_ok :: "db \<Rightarrow> candidates_row \<Rightarrow> bool" where
  "candidate_ok d c =
     (case cand_Status c of
        CandidateStatusPending \<Rightarrow> cand_LastSnapshotID c = None \<and> cand_EvaluatedAt c = None \<and>
          cand_ID c \<notin> dec_CandidateID ` set (t_decisions d)
      | CandidateStatusApproved \<Rightarrow> decision_recorded c d \<and>
          (\<exists>i. cand_LastSnapshotID c = Some i \<and> evidence ReadinessReady (cand_ServiceID c) i d)
      | CandidateStatusRejected \<Rightarrow> decision_recorded c d \<and>
          (\<forall>i. cand_LastSnapshotID c = Some i \<longrightarrow>
             (\<exists>st. st \<noteq> ReadinessReady \<and> evidence st (cand_ServiceID c) i d))
      | CandidateStatusOther s \<Rightarrow> False)"

declare candidate_ok.simps [simp del]

definition candidates_ok :: "db \<Rightarrow> bool" where
  "candidates_ok d \<longleftrightarrow> (\<forall>c \<in> set (t_candidates d). candidate_ok d c)"

definition db_inv :: "db \<Rightarrow> bool" where
  "db_inv d \<longleftrightarrow> wf_keys d \<and> wf_refs d \<and> jobs_ok d \<and> snapshots_ok d \<and> candidates_ok d"

lemma db_inv_empty: "db_inv empty_db"
  by (simp add: db_inv_def empty_db_def wf_keys_def wf_refs_def jobs_ok_def snapshots_ok_def candidates_ok_def)

text \<open>A layer depends on its own tables only.\<close>

lemma jobs_ok_cong: "t_jobs d' = t_jobs d \<Longrightarrow> jobs_ok d' = jobs_ok d"
  by (simp add: jobs_ok_def)

lemma snapshots_ok_cong:
  "t_snapshots d' = t_snapshots d \<Longrightarrow> t_checks d' = t_checks d \<Longrightarrow> snapshots_ok d' = snapshots_ok d"
  by (simp add: snapshots_ok_def checks_of_def)

lemma candidate_ok_cong:
  "t_snapshots d' = t_snapshots d \<Longrightarrow> t_decisions d' = t_decisions d \<Longrightarrow> candidate_ok d' c = candidate_ok d c"
  by (simp add: candidate_ok.simps decision_recorded_def evidence_def split: CandidateStatus.split)

lemma candidates_ok_cong:
  "t_snapshots d' = t_snapshots d \<Longrightarrow> t_decisions d' = t_decisions d \<Longrightarrow> t_candidates d' = t_candidates d \<Longrightarrow>
   candidates_ok d' = candidates_ok d"
  by (simp add: candidates_ok_def candidate_ok_cong [of d' d])

lemma candidate_ok_more_snapshots:
  assumes "candidate_ok d c" "set (t_snapshots d) \<subseteq> set (t_snapshots d')" "t_decisions d' = t_decisions d"
  shows "candidate_ok d' c"
proof -
  have ev: "evidence st sid i d \<Longrightarrow> evidence st sid i d'" for st sid i
    using assms(2) by (auto simp: evidence_def)
  show ?thesis
    using assms(1,3) ev
    by (auto simp: candidate_ok.simps decision_recorded_def split: CandidateStatus.splits) blast+
qed

subsection \<open>Effects of the statements\<close>

lemma insert_service_Inr:
  "insert_service r d = Inr (u, d') \<longleftrightarrow>
     int4 (svc_Tier r) \<and> 0 \<le> svc_Tier r \<and> svc_Tier r \<le> 3 \<and> svc_ID r \<notin> svc_ID ` set (t_services d) \<and>
     svc_Name r \<notin> svc_Name ` set (t_services d) \<and> d' = d\<lparr>t_services := t_services d @ [r]\<rparr>"
  by (auto simp: insert_service_def insert_when_Inr int4_encodes_def require_None)

lemma insert_slo_policy_Inr:
  "insert_slo_policy p d = Inr (u, d') \<longleftrightarrow>
     int4 (slo_LatencyTargetMilliseconds p) \<and> 0 < slo_AvailabilityTargetPercent p \<and>
     slo_AvailabilityTargetPercent p \<le> 100 \<and> 0 < slo_LatencyTargetMilliseconds p \<and>
     slo_ID p \<notin> slo_ID ` set (t_slo_policies d) \<and> slo_ServiceID p \<notin> slo_ServiceID ` set (t_slo_policies d) \<and>
     slo_ServiceID p \<in> svc_ID ` set (t_services d) \<and> d' = d\<lparr>t_slo_policies := t_slo_policies d @ [p]\<rparr>"
  by (auto simp: insert_slo_policy_def insert_when_Inr int4_encodes_def require_None)

lemma insert_snapshot_Inr:
  "insert_snapshot s d = Inr (u, d') \<longleftrightarrow>
     int4 (snap_Score s) \<and> 0 \<le> snap_Score s \<and> snap_Score s \<le> 100 \<and>
     snap_State s \<in> {ReadinessReady, ReadinessDegraded, ReadinessBlocked} \<and>
     snap_ID s \<notin> snap_ID ` set (t_snapshots d) \<and> snap_JobID s \<in> job_ID ` set (t_jobs d) \<and>
     snap_ServiceID s \<in> svc_ID ` set (t_services d) \<and> d' = d\<lparr>t_snapshots := t_snapshots d @ [s]\<rparr>"
  by (auto simp: insert_snapshot_def insert_when_Inr int4_encodes_def require_None)

lemma insert_check_Inr:
  "insert_check c d = Inr (u, d') \<longleftrightarrow>
     chk_Status c \<in> {CheckStatusPass, CheckStatusWarn, CheckStatusFail} \<and>
     chk_ID c \<notin> chk_ID ` set (t_checks d) \<and> chk_ServiceID c \<in> svc_ID ` set (t_services d) \<and>
     chk_SnapshotID c \<in> snap_ID ` set (t_snapshots d) \<and> d' = d\<lparr>t_checks := t_checks d @ [c]\<rparr>"
  by (auto simp: insert_check_def insert_when_Inr require_None)

lemma insert_candidate_Inr:
  "insert_candidate c d = Inr (u, d') \<longleftrightarrow>
     cand_Status c \<in> {CandidateStatusPending, CandidateStatusApproved, CandidateStatusRejected} \<and>
     cand_ID c \<notin> cand_ID ` set (t_candidates d) \<and> ref_snapshot (cand_LastSnapshotID c) d \<and>
     cand_ServiceID c \<in> svc_ID ` set (t_services d) \<and> d' = d\<lparr>t_candidates := t_candidates d @ [c]\<rparr>"
  by (auto simp: insert_candidate_def insert_when_Inr require_None)

lemma insert_audit_event_Inr:
  "insert_audit_event e d = Inr (u, d') \<longleftrightarrow>
     aud_ID e \<notin> aud_ID ` set (t_audit d) \<and> d' = d\<lparr>t_audit := t_audit d @ [e]\<rparr>"
  by (auto simp: insert_audit_event_def insert_when_Inr require_None)

lemmas stmt_Inr = insert_service_Inr insert_slo_policy_Inr insert_snapshot_Inr insert_check_Inr
  insert_candidate_Inr insert_audit_event_Inr

text \<open>A transaction keeps what its successful bodies establish.\<close>

lemma with_tx_post:
  assumes "with_tx b c body w = (r, w')" and "Q (w_db w)"
    and "\<And>w1 a w2. w_db w1 = w_db w \<Longrightarrow> body w1 = (Inr a, w2) \<Longrightarrow> Q (w_db w2)"
  shows "Q (w_db w')"
  using assms(1) by (cases rule: with_tx_cases) (use assms(2,3) in auto)

lemma keeps_with_tx_ok:
  assumes "\<And>w a w'. I (w_db w) \<Longrightarrow> body w = (Inr a, w') \<Longrightarrow> I (w_db w')"
  shows "keeps (on_db I) (with_tx b c body)"
proof (rule keepsI)
  fix w r w'
  assume I: "on_db I w" and tx: "with_tx b c body w = (r, w')"
  show "on_db I w'"
    unfolding on_db_def by (rule with_tx_post [OF tx]) (use I assms in \<open>simp_all add: on_db_def, metis\<close>)
qed

subsection \<open>Statements on services\<close>

lemma db_inv_services:
  assumes "db_inv d" "map svc_ID rs = map svc_ID (t_services d)" "map svc_Name rs = map svc_Name (t_services d)"
  shows "db_inv (d\<lparr>t_services := rs\<rparr>)"
proof -
  have ids: "svc_ID ` set rs = svc_ID ` set (t_services d)"
    using arg_cong [OF assms(2), of set] by simp
  show ?thesis
    using assms(1) unfolding db_inv_def wf_keys_def wf_refs_def
    by (simp add: assms(2,3) ids jobs_ok_def snapshots_ok_def checks_of_def candidates_ok_def
        candidate_ok_cong [of "d\<lparr>t_services := rs\<rparr>" d])
qed

lemma db_inv_slo:
  assumes "db_inv d" "map slo_ID rs = map slo_ID (t_slo_policies d)"
    "map slo_ServiceID rs = map slo_ServiceID (t_slo_policies d)"
  shows "db_inv (d\<lparr>t_slo_policies := rs\<rparr>)"
proof -
  have ids: "slo_ServiceID ` set rs = slo_ServiceID ` set (t_slo_policies d)"
    using arg_cong [OF assms(3), of set] by simp
  show ?thesis
    using assms(1) unfolding db_inv_def wf_keys_def wf_refs_def
    by (simp add: assms(2,3) ids jobs_ok_def snapshots_ok_def checks_of_def candidates_ok_def
        candidate_ok_cong [of "d\<lparr>t_slo_policies := rs\<rparr>" d])
qed

lemma update_service_keeps: "stmt_keeps db_inv (update_service s)"
  by (rule stmt_keepsI)
     (auto simp: update_service_def split: option.splits
        intro!: db_inv_services map_update_where simp: services_row.defs)

lemma update_slo_policy_keeps: "stmt_keeps db_inv (update_slo_policy i p)"
  by (rule stmt_keepsI)
     (auto simp: update_slo_policy_def split: option.splits intro!: db_inv_slo map_update_where)

lemma keeps_UpdateService: "keeps (on_db db_inv) (Store_UpdateService i p)"
  unfolding Store_UpdateService_def Store_GetService_def Let_def
  by (intro keeps_rules keeps_with_tx update_service_keeps update_slo_policy_keeps)

text \<open>
  Registration writes the service and its policy in one transaction: after the first insert a service
  without a policy exists, so the layer of references holds only at the commit.
\<close>

lemma insert_service_and_slo:
  assumes "db_inv d" "insert_service r d = Inr (u, d1)" "insert_slo_policy p d1 = Inr (v, d2)"
    "slo_ServiceID p = svc_ID r"
  shows "db_inv d2"
proof -
  have d2: "d2 = d\<lparr>t_services := t_services d @ [r], t_slo_policies := t_slo_policies d @ [p]\<rparr>"
    and fresh: "svc_ID r \<notin> svc_ID ` set (t_services d)" "svc_Name r \<notin> svc_Name ` set (t_services d)"
      "slo_ID p \<notin> slo_ID ` set (t_slo_policies d)" "slo_ServiceID p \<notin> slo_ServiceID ` set (t_slo_policies d)"
    using assms(2,3) by (auto simp: insert_service_Inr insert_slo_policy_Inr)
  show ?thesis
    using assms(1) fresh unfolding d2 db_inv_def wf_keys_def wf_refs_def
    by (auto simp: assms(4) jobs_ok_def snapshots_ok_def checks_of_def candidates_ok_def
        candidate_ok_cong [of "d\<lparr>t_services := t_services d @ [r], t_slo_policies := t_slo_policies d @ [p]\<rparr>" d])
qed

lemma keeps_CreateService: "keeps (on_db db_inv) (Store_CreateService s)"
proof -
  have "keeps (on_db db_inv) (with_tx b c
      (tryM (wrapM e1 (pg_write (insert_service (services_row.truncate s)))) (\<lambda>_.
        wrapM e2 (pg_write (insert_slo_policy ((svc_SLOPolicy s)\<lparr>slo_ServiceID := svc_ID s\<rparr>))))))"
    for b c e1 e2
    by (rule keeps_with_tx_ok)
       (auto simp: io_simps pg_write_Inr services_row.defs dest: insert_service_and_slo)
  then show ?thesis
    unfolding Store_CreateService_def Store_GetService_def by (intro keeps_tryM keeps_wrapM keeps_pg_read)
qed

subsection \<open>Statements on jobs\<close>

abbreviation job_key :: "jobs_row \<Rightarrow> JobType \<times> string" where
  "job_key r \<equiv> (job_Type r, job_IdempotencyKey r)"

lemma db_inv_jobs:
  assumes "db_inv d" "job_ID ` set (t_jobs d) \<subseteq> job_ID ` set js" "distinct (map job_ID js)"
    "distinct (map job_key js)" "\<forall>r \<in> set js. job_row_ok r"
  shows "db_inv (d\<lparr>t_jobs := js\<rparr>)"
proof -
  have "snap_JobID ` set (t_snapshots d) \<subseteq> job_ID ` set js"
    using assms(1,2) unfolding db_inv_def wf_refs_def by (elim conjE) (rule order_trans)
  then show ?thesis
    using assms(1,3-5) unfolding db_inv_def wf_keys_def wf_refs_def
    by (simp add: jobs_ok_def snapshots_ok_def checks_of_def candidates_ok_def
        candidate_ok_cong [of "d\<lparr>t_jobs := js\<rparr>" d])
qed

lemma db_inv_jobs_update:
  assumes "db_inv d" "\<And>r. p r \<Longrightarrow> job_ID (f r) = job_ID r \<and> job_key (f r) = job_key r"
    "\<And>r. r \<in> set (t_jobs d) \<Longrightarrow> p r \<Longrightarrow> job_row_ok r \<Longrightarrow> job_row_ok (f r)"
  shows "db_inv (d\<lparr>t_jobs := update_where p f (t_jobs d)\<rparr>)"
proof (rule db_inv_jobs [OF assms(1)])
  have ids: "map job_ID (update_where p f (t_jobs d)) = map job_ID (t_jobs d)"
    by (rule map_update_where) (simp add: assms(2))
  have keys: "map job_key (update_where p f (t_jobs d)) = map job_key (t_jobs d)"
    by (rule map_update_where) (use assms(2) in auto)
  show "job_ID ` set (t_jobs d) \<subseteq> job_ID ` set (update_where p f (t_jobs d))"
    using arg_cong [OF ids, of set] by simp
  show "distinct (map job_ID (update_where p f (t_jobs d)))"
    "distinct (map job_key (update_where p f (t_jobs d)))"
    using assms(1) by (simp_all add: ids keys db_inv_def wf_keys_def)
  show "\<forall>r \<in> set (update_where p f (t_jobs d)). job_row_ok r"
    using assms(1,3) by (auto simp: set_update_where db_inv_def jobs_ok_def)
qed

definition fresh_job :: "Job \<Rightarrow> bool" where
  "fresh_job j \<longleftrightarrow> job_Status j = JobStatusPending \<and> job_Attempts j = 0"

lemma new_job_row_ok:
  "fresh_job j \<Longrightarrow> int4 (job_MaxAttempts j) \<Longrightarrow> 0 < job_MaxAttempts j \<Longrightarrow>
   job_Type j = JobTypeServiceEvaluation \<Longrightarrow> job_row_ok (new_job_row j)"
  by (simp add: job_row_ok_def new_job_row_def fresh_job_def)

lemma find_None_key: "find (same_key j) rows = None \<Longrightarrow>
    (job_Type j, job_IdempotencyKey j) \<notin> job_key ` set rows"
  by (auto simp: find_None_iff same_key_def)

lemma enqueue_keeps:
  assumes "fresh_job j"
  shows "stmt_keeps db_inv (enqueue_stmt j)"
proof (rule stmt_keepsI)
  fix d a d'
  assume inv: "db_inv d" and e: "enqueue_stmt j d = Inr (a, d')"
  show "db_inv d'"
  proof (cases "find (same_key j) (t_jobs d)")
    case (Some r)
    with e have "d' = d\<lparr>t_jobs := update_where (same_key j) (\<lambda>r. r\<lparr>job_UpdatedAt := job_UpdatedAt j\<rparr>) (t_jobs d)\<rparr>"
      by (auto simp: enqueue_stmt_def split: option.splits)
    then show ?thesis
      using inv by (auto intro!: db_inv_jobs_update simp: job_row_ok_def)
  next
    case None
    with e have d': "d' = d\<lparr>t_jobs := t_jobs d @ [new_job_row j]\<rparr>" "job_ID j \<notin> job_ID ` set (t_jobs d)"
      "int4 (job_MaxAttempts j)" "0 < job_MaxAttempts j" "job_Type j = JobTypeServiceEvaluation"
      by (auto simp: enqueue_stmt_def int4_encodes_def require_None split: option.splits if_splits)
    have k: "job_key (new_job_row j) \<notin> job_key ` set (t_jobs d)"
      using find_None_key [OF None] by (simp add: new_job_row_def)
    have i: "job_ID (new_job_row j) \<notin> job_ID ` set (t_jobs d)"
      using d'(2) by (simp add: new_job_row_def)
    show ?thesis unfolding d'(1)
    proof (rule db_inv_jobs [OF inv])
      show "distinct (map job_ID (t_jobs d @ [new_job_row j]))"
        "distinct (map job_key (t_jobs d @ [new_job_row j]))"
        using inv i k by (simp_all add: db_inv_def wf_keys_def)
      show "\<forall>r \<in> set (t_jobs d @ [new_job_row j]). job_row_ok r"
        using inv new_job_row_ok [OF assms d'(3-5)] by (auto simp: db_inv_def jobs_ok_def)
    qed auto
  qed
qed

lemma keeps_EnqueueJob: "fresh_job j \<Longrightarrow> keeps (on_db db_inv) (Store_EnqueueJob j)"
  unfolding Store_EnqueueJob_def by (intro keeps_rules enqueue_keeps)

lemma candidate_jobs_claimable:
  "r \<in> set (candidate_jobs n now expired locked d) \<Longrightarrow>
     r \<in> set (t_jobs d) \<and> claimable now expired r \<and> job_ID r \<notin> set locked"
  unfolding candidate_jobs_def by (auto dest: in_set_takeD)

text \<open>The rows a claim picks are exactly the selected candidates, by uniqueness of the identifier.\<close>

lemma picked_row:
  assumes "distinct (map job_ID (t_jobs d))" "r \<in> set (t_jobs d)"
  shows "job_ID r \<in> job_ID ` set (candidate_jobs n now expired locked d) \<longleftrightarrow>
     r \<in> set (candidate_jobs n now expired locked d)"
  using assms candidate_jobs_claimable by (auto simp: distinct_map dest: inj_onD)

lemma lease_row_ok: "job_row_ok r \<Longrightarrow> claimable now expired r \<Longrightarrow> job_row_ok (lease_row w now r)"
  by (auto simp: job_row_ok_def claimable_def lease_row_def)

lemma claim_keeps: "stmt_keeps db_inv (claim_stmt w n now expired locked)"
proof (rule stmt_keepsI)
  fix d a d'
  assume inv: "db_inv d" and c: "claim_stmt w n now expired locked d = Inr (a, d')"
  let ?picked = "job_ID ` set (candidate_jobs n now expired locked d)"
  have d': "d' = d\<lparr>t_jobs := update_where (\<lambda>r. job_ID r \<in> ?picked) (lease_row w now) (t_jobs d)\<rparr>"
    using c by (auto simp: claim_stmt_def Let_def split: if_splits)
  have "distinct (map job_ID (t_jobs d))" using inv by (simp add: db_inv_def wf_keys_def)
  then show "db_inv d'" unfolding d'
    by (intro db_inv_jobs_update [OF inv])
       (auto simp: lease_row_def [of w now] picked_row simp del: image_iff
          dest: candidate_jobs_claimable intro: lease_row_ok [unfolded lease_row_def])
qed

lemma keeps_ClaimJobs: "keeps (on_db db_inv) (Store_ClaimJobs w n lease)"
  unfolding Store_ClaimJobs_def by (intro keeps_rules claim_keeps)

lemma complete_keeps: "stmt_keeps db_inv (update_one (owned_by i w) (complete_row now))"
  by (rule stmt_keepsI)
     (auto simp: update_one_def complete_row_def owned_by_def job_row_ok_def intro!: db_inv_jobs_update)

lemma fail_keeps: "stmt_keeps db_inv (update_one (owned_by i w) (fail_row m t now))"
  by (rule stmt_keepsI)
     (auto simp: update_one_def fail_row_def owned_by_def job_row_ok_def intro!: db_inv_jobs_update)

lemma keeps_affected_one [keeps_rules]: "keeps (on_db I) (affected_one n)"
  unfolding affected_one_def by (intro keeps_rules)

lemma keeps_MarkJobCompleted: "keeps (on_db db_inv) (Store_MarkJobCompleted i w)"
  unfolding Store_MarkJobCompleted_def by (intro keeps_rules complete_keeps)

lemma keeps_MarkJobFailed: "keeps (on_db db_inv) (Store_MarkJobFailed lt j e)"
  unfolding Store_MarkJobFailed_def by (intro keeps_rules fail_keeps)

subsection \<open>Statements on evidence\<close>

lemma insert_checks_Inr:
  assumes "insert_checks cs w = (Inr u, w')" "distinct (map chk_ID (t_checks (w_db w)))"
  shows "w_db w' = (w_db w)\<lparr>t_checks := t_checks (w_db w) @ cs\<rparr>
    \<and> distinct (map chk_ID (t_checks (w_db w) @ cs))
    \<and> chk_ServiceID ` set cs \<subseteq> svc_ID ` set (t_services (w_db w))
    \<and> chk_SnapshotID ` set cs \<subseteq> snap_ID ` set (t_snapshots (w_db w))"
  using assms
proof (induction cs arbitrary: w)
  case Nil
  then show ?case by (simp add: okM_def)
next
  case (Cons c cs)
  from Cons.prems(1) obtain v w1 where
    first: "wrapM (wrap_prefix ''postgres: insert readiness check result: '') (pg_write (insert_check c)) w = (Inr v, w1)"
    and rest: "insert_checks cs w1 = (Inr u, w')"
    by (auto simp only: insert_checks.simps tryM_Inr)
  note ins = wrap_write [OF first, unfolded insert_check_Inr]
  have "distinct (map chk_ID (t_checks (w_db w1)))"
    using ins Cons.prems(2) by simp
  from Cons.IH [OF rest this] show ?case using ins by simp
qed

definition evaluation_ok :: "ReadinessSnapshot \<Rightarrow> ReadinessCheckResult list \<Rightarrow> bool" where
  "evaluation_ok s cs \<longleftrightarrow> verdict_ok cs s \<and> (\<forall>c \<in> set cs. chk_SnapshotID c = snap_ID s)"

lemma checks_of_append:
  assumes "\<forall>c \<in> set cs. chk_SnapshotID c = i" "k \<noteq> i"
  shows "filter (\<lambda>c. chk_SnapshotID c = k) (rows @ cs) = filter (\<lambda>c. chk_SnapshotID c = k) rows"
  using assms by (auto simp: filter_empty_conv)

lemma insert_evaluation:
  assumes inv: "db_inv d" and snap: "insert_snapshot s d = Inr (u, d1)" and ev: "evaluation_ok s cs"
    and cs: "distinct (map chk_ID (t_checks d @ cs))" "chk_ServiceID ` set cs \<subseteq> svc_ID ` set (t_services d)"
    and d2: "d2 = d1\<lparr>t_checks := t_checks d @ cs\<rparr>"
  shows "db_inv d2"
proof -
  from snap have d1: "d1 = d\<lparr>t_snapshots := t_snapshots d @ [s]\<rparr>"
    and new: "snap_ID s \<notin> snap_ID ` set (t_snapshots d)"
    and refs: "snap_JobID s \<in> job_ID ` set (t_jobs d)" "snap_ServiceID s \<in> svc_ID ` set (t_services d)"
    by (auto simp: insert_snapshot_Inr)
  have d2': "d2 = d\<lparr>t_snapshots := t_snapshots d @ [s], t_checks := t_checks d @ cs\<rparr>"
    by (simp add: d2 d1)
  have own: "\<forall>c \<in> set cs. chk_SnapshotID c = snap_ID s" using ev by (simp add: evaluation_ok_def)
  have "chk_SnapshotID ` set (t_checks d) \<subseteq> snap_ID ` set (t_snapshots d)"
    using inv by (simp add: db_inv_def wf_refs_def)
  then have none: "filter (\<lambda>c. chk_SnapshotID c = snap_ID s) (t_checks d) = []"
    unfolding filter_empty_conv using new by (metis image_eqI subsetD)
  have "filter (\<lambda>c. chk_SnapshotID c = snap_ID s) cs = cs"
    using own by (simp add: filter_id_conv)
  then have own_checks: "checks_of (snap_ID s) d2 = cs"
    by (simp add: checks_of_def d2' none)
  have old_checks: "checks_of (snap_ID t) d2 = checks_of (snap_ID t) d" if "t \<in> set (t_snapshots d)" for t
  proof -
    have "snap_ID t \<noteq> snap_ID s" using new that by (metis image_eqI)
    then show ?thesis unfolding checks_of_def d2' using checks_of_append [OF own] by simp
  qed
  have snaps: "snapshots_ok d2"
    unfolding snapshots_ok_def
  proof
    fix t assume "t \<in> set (t_snapshots d2)"
    then consider "t = s" | "t \<in> set (t_snapshots d)" by (auto simp: d2')
    then show "verdict_ok (checks_of (snap_ID t) d2) t"
    proof cases
      case 1
      then show ?thesis using ev by (simp add: own_checks evaluation_ok_def)
    next
      case 2
      then show ?thesis using inv old_checks by (simp add: db_inv_def snapshots_ok_def)
    qed
  qed
  have cands: "candidates_ok d2"
    using inv candidate_ok_more_snapshots [of d _ d2]
    by (auto simp: db_inv_def candidates_ok_def d2')
  have keys: "wf_keys d2" using inv new cs(1) by (simp add: db_inv_def wf_keys_def d2')
  have "chk_SnapshotID ` set cs \<subseteq> {snap_ID s}" using own by auto
  then have refs2: "wf_refs d2" using inv refs cs(2) by (auto simp: db_inv_def wf_refs_def d2')
  show ?thesis
    using inv keys refs2 snaps cands by (simp add: db_inv_def jobs_ok_def d2')
qed

lemma keeps_SaveReadinessEvaluation:
  assumes "evaluation_ok s cs"
  shows "keeps (on_db db_inv) (Store_SaveReadinessEvaluation s cs)"
  unfolding Store_SaveReadinessEvaluation_def
proof (rule keeps_with_tx_ok)
  fix w a w'
  assume inv: "db_inv (w_db w)"
    and body: "tryM (wrapM (wrap_prefix ''postgres: insert readiness snapshot: '') (pg_write (insert_snapshot s))) (\<lambda>_.
      tryM (insert_checks cs) (\<lambda>_.
      wrapM (wrap_prefix ''postgres: close readiness evaluation batch: '') (pg_read (\<lambda>d. Inr ())))) w = (Inr a, w')"
  from body obtain u w1 v w2 where
    first: "wrapM (wrap_prefix ''postgres: insert readiness snapshot: '') (pg_write (insert_snapshot s)) w = (Inr u, w1)"
    and c: "insert_checks cs w1 = (Inr v, w2)"
    and close: "wrapM (wrap_prefix ''postgres: close readiness evaluation batch: '') (pg_read (\<lambda>d. Inr ())) w2 = (Inr a, w')"
    by (auto simp only: tryM_Inr)
  note i = wrap_write [OF first]
  have w2: "w_db w' = w_db w2" using wrap_read [OF close] by simp
  have d1: "w_db w1 = (w_db w)\<lparr>t_snapshots := t_snapshots (w_db w) @ [s]\<rparr>"
    using i by (auto simp: insert_snapshot_Inr)
  have "distinct (map chk_ID (t_checks (w_db w1)))"
    using inv by (simp add: d1 db_inv_def wf_keys_def)
  from insert_checks_Inr [OF c this]
  show "db_inv (w_db w')"
    by (intro insert_evaluation [OF inv i assms]) (simp_all add: w2 d1)
qed

lemma insert_candidate_keeps:
  assumes "cand_Status c = CandidateStatusPending" "cand_LastSnapshotID c = None" "cand_EvaluatedAt c = None"
  shows "stmt_keeps db_inv (insert_candidate c)"
proof (rule stmt_keepsI)
  fix d a d'
  assume inv: "db_inv d" and i: "insert_candidate c d = Inr (a, d')"
  then have d': "d' = d\<lparr>t_candidates := t_candidates d @ [c]\<rparr>"
    and new: "cand_ID c \<notin> cand_ID ` set (t_candidates d)" "cand_ServiceID c \<in> svc_ID ` set (t_services d)"
    by (auto simp: insert_candidate_Inr)
  have "cand_ID c \<notin> dec_CandidateID ` set (t_decisions d)"
    using inv new(1) by (auto simp: db_inv_def wf_refs_def)
  then have "candidate_ok d c"
    by (simp add: candidate_ok.simps assms)
  then have "candidates_ok d'"
    using inv by (auto simp: candidates_ok_def d' db_inv_def candidate_ok_cong [of d' d, unfolded d'])
  then show "db_inv d'"
    using inv new by (auto simp: db_inv_def wf_keys_def wf_refs_def jobs_ok_def snapshots_ok_def checks_of_def d')
qed

lemma keeps_CreateDeploymentCandidate:
  assumes "cand_Status c = CandidateStatusPending" "cand_LastSnapshotID c = None" "cand_EvaluatedAt c = None"
  shows "keeps (on_db db_inv) (Store_CreateDeploymentCandidate c)"
  unfolding Store_CreateDeploymentCandidate_def Store_GetDeploymentCandidate_def
  by (intro keeps_rules insert_candidate_keeps) (simp_all add: candidates_row.defs assms)

lemma insert_audit_event_keeps: "stmt_keeps db_inv (insert_audit_event e)"
proof (rule stmt_keepsI)
  fix d a d'
  assume "db_inv d" and "insert_audit_event e d = Inr (a, d')"
  then show "db_inv d'"
    by (auto simp: insert_audit_event_Inr db_inv_def wf_keys_def wf_refs_def jobs_ok_def snapshots_ok_def
        checks_of_def candidates_ok_def candidate_ok_cong [of "d\<lparr>t_audit := t_audit d @ [e]\<rparr>" d])
qed

lemma keeps_InsertAuditEvent: "keeps (on_db db_inv) (Store_InsertAuditEvent e)"
  unfolding Store_InsertAuditEvent_def by (intro keeps_rules insert_audit_event_keeps)

subsection \<open>The decision\<close>

definition bound :: "uuid \<Rightarrow> uuid \<Rightarrow> db \<Rightarrow> bool" where
  "bound candidateID serviceID d \<longleftrightarrow>
     (\<exists>c \<in> set (t_candidates d). cand_ID c = candidateID \<and> cand_ServiceID c = serviceID)"

definition supported :: "CandidateStatus \<Rightarrow> uuid option \<Rightarrow> uuid \<Rightarrow> db \<Rightarrow> bool" where
  "supported status x serviceID d \<longleftrightarrow>
     (status = CandidateStatusApproved \<and> (\<exists>i. x = Some i \<and> evidence ReadinessReady serviceID i d)) \<or>
     (status = CandidateStatusRejected \<and>
        (\<forall>i. x = Some i \<longrightarrow> (\<exists>st. st \<noteq> ReadinessReady \<and> evidence st serviceID i d)))"

lemma candidate_ok_more_decisions:
  assumes "candidate_ok d c" "dec_CandidateID p \<noteq> cand_ID c" "t_decisions d' = t_decisions d @ [p]"
    "t_snapshots d' = t_snapshots d"
  shows "candidate_ok d' c"
  using assms by (auto simp: candidate_ok.simps decision_recorded_def evidence_def split: CandidateStatus.splits)

lemma decide_stmt_Inr:
  "decide_stmt i status reason x now d = Inr (n, d') \<Longrightarrow>
     n = rows_where (pending_with i) (t_candidates d) \<and>
     d' = d\<lparr>t_candidates := update_where (pending_with i) (decide_row status reason x now) (t_candidates d)\<rparr>"
  by (auto simp: decide_stmt_def Let_def split: option.splits)

lemma upsert_new_decision:
  assumes "upsert_decision p d = Inr (u, d')" "dec_CandidateID p \<notin> dec_CandidateID ` set (t_decisions d)"
  shows "d' = d\<lparr>t_decisions := t_decisions d @ [p]\<rparr>" "dec_ID p \<notin> dec_ID ` set (t_decisions d)"
    "dec_CandidateID p \<in> cand_ID ` set (t_candidates d)"
  using assms by (auto simp: upsert_decision_def insert_when_Inr require_None split: option.splits if_splits)

lemma decided_row_ok:
  assumes "supported status x (cand_ServiceID c) d" "t_snapshots d' = t_snapshots d"
    "p \<in> set (t_decisions d')" "dec_CandidateID p = cand_ID c" "dec_SnapshotID p = x"
    "dec_Decision p = status" "dec_Summary p = reason"
  shows "candidate_ok d' (decide_row status reason x now c)"
proof -
  have rec: "decision_recorded (decide_row status reason x now c) d'"
    unfolding decision_recorded_def decide_row_def using assms(3-7) by auto
  have ev: "evidence st sid i d' = evidence st sid i d" for st sid i
    by (simp add: evidence_def assms(2))
  show ?thesis
    using assms(1) rec by (auto simp: supported_def candidate_ok.simps ev decide_row_def)
qed

lemma decide_and_upsert:
  assumes inv: "db_inv d" and dec: "decide_stmt i status reason x now d = Inr (n, d1)" and n: "n = 1"
    and ups: "upsert_decision p d1 = Inr (u, d2)"
    and p: "dec_CandidateID p = i" "dec_SnapshotID p = x" "dec_Decision p = status" "dec_Summary p = reason"
    and b: "bound i serviceID d" and sup: "supported status x serviceID d"
  shows "db_inv d2"
proof -
  note d1 = decide_stmt_Inr [OF dec]
  have "rows_where (pending_with i) (t_candidates d) \<noteq> 0" using d1 n by simp
  then obtain c where c: "c \<in> set (t_candidates d)" "cand_ID c = i" "cand_Status c = CandidateStatusPending"
    unfolding rows_where_pos pending_with_def by blast
  have dist: "distinct (map cand_ID (t_candidates d))" using inv by (simp add: db_inv_def wf_keys_def)
  have uniq: "c' = c" if "c' \<in> set (t_candidates d)" "cand_ID c' = i" for c'
    using dist that c by (auto simp: distinct_map dest: inj_onD)
  have svc: "cand_ServiceID c = serviceID" using b uniq by (auto simp: bound_def)
  have "candidate_ok d c" using inv c(1) by (simp add: db_inv_def candidates_ok_def)
  then have undecided: "i \<notin> dec_CandidateID ` set (t_decisions d)"
    using c by (simp add: candidate_ok.simps)
  then have "dec_CandidateID p \<notin> dec_CandidateID ` set (t_decisions d1)" by (simp add: d1 p)
  note d2 = upsert_new_decision [OF ups this]
  have cs: "t_candidates d2 = update_where (pending_with i) (decide_row status reason x now) (t_candidates d)"
    and ds: "t_decisions d2 = t_decisions d @ [p]" and ss: "t_snapshots d2 = t_snapshots d"
    using d1 by (simp_all add: d2)
  have "candidates_ok d2"
    unfolding candidates_ok_def
  proof
    fix c' assume "c' \<in> set (t_candidates d2)"
    then obtain c0 where c0: "c0 \<in> set (t_candidates d)"
      and c': "c' = (if pending_with i c0 then decide_row status reason x now c0 else c0)"
      by (auto simp: cs set_update_where)
    show "candidate_ok d2 c'"
    proof (cases "pending_with i c0")
      case True
      with uniq c0 have "c0 = c" by (simp add: pending_with_def)
      then show ?thesis
        using True decided_row_ok [of status x c d d2 p reason now] sup svc ss ds p c c'
        by simp
    next
      case False
      have "cand_ID c0 \<noteq> i"
      proof
        assume "cand_ID c0 = i"
        with uniq c0 have "c0 = c" by blast
        with False c show False by (simp add: pending_with_def)
      qed
      with False c' show ?thesis
        using inv c0 candidate_ok_more_decisions [of d c0 p d2] ds ss p
        by (simp add: db_inv_def candidates_ok_def)
    qed
  qed
  moreover have "map cand_ID (t_candidates d2) = map cand_ID (t_candidates d)"
    "map cand_ServiceID (t_candidates d2) = map cand_ServiceID (t_candidates d)"
    unfolding cs by (rule map_update_where, simp add: decide_row_def)+
  moreover from this have "cand_ID ` set (t_candidates d2) = cand_ID ` set (t_candidates d)"
    "cand_ServiceID ` set (t_candidates d2) = cand_ServiceID ` set (t_candidates d)"
    by (metis set_map)+
  moreover have "i \<in> cand_ID ` set (t_candidates d)" using c by auto
  moreover have "dec_ID p \<notin> dec_ID ` set (t_decisions d)" using d2 d1 by simp
  ultimately show ?thesis
    using inv undecided d1
    by (simp add: db_inv_def wf_keys_def wf_refs_def jobs_ok_def snapshots_ok_def checks_of_def d2 p)
qed

lemma Store_SavePromotionDecision_inv:
  assumes inv: "db_inv (w_db w)"
    and run: "Store_SavePromotionDecision i snapshot p status reason w = (r, w')"
    and p: "dec_CandidateID p = i" "dec_SnapshotID p = map_option snap_ID snapshot"
      "dec_Decision p = status" "dec_Summary p = reason"
    and b: "bound i serviceID (w_db w)" and sup: "supported status (map_option snap_ID snapshot) serviceID (w_db w)"
  shows "db_inv (w_db w')"
proof -
  let ?body = "letM time_Now (\<lambda>now.
        tryM (wrapM (wrap_prefix ''postgres: update deployment candidate decision: '')
            (pg_write (decide_stmt i status reason (map_option snap_ID snapshot) now))) (\<lambda>n.
        if n \<noteq> 1 then errM ErrStateConflict
        else wrapM (wrap_prefix ''postgres: upsert promotion decision: '') (pg_write (upsert_decision p))))"
  let ?tx = "with_tx ''postgres: begin save promotion decision: '' ''postgres: commit promotion decision: '' ?body"
  obtain x w1 where tx: "?tx w = (x, w1)" by fastforce
  have "db_inv (w_db w1)"
  proof (rule with_tx_post [where Q = db_inv, OF tx inv])
    fix v a v' assume v: "w_db v = w_db w" and body: "?body v = (Inr a, v')"
    from body obtain now v1 n v2 where now: "time_Now v = (now, v1)"
      and d: "wrapM (wrap_prefix ''postgres: update deployment candidate decision: '')
            (pg_write (decide_stmt i status reason (map_option snap_ID snapshot) now)) v1 = (Inr n, v2)"
      and u: "(if n \<noteq> 1 then errM ErrStateConflict
        else wrapM (wrap_prefix ''postgres: upsert promotion decision: '') (pg_write (upsert_decision p))) v2 = (Inr a, v')"
      by (auto simp only: letM_eq tryM_Inr)
    have n: "n = 1" using u by (auto simp: errM_def split: if_splits)
    have v1: "w_db v1 = w_db w" using now v by (auto simp: time_Now_def)
    from u n have "wrapM (wrap_prefix ''postgres: upsert promotion decision: '') (pg_write (upsert_decision p)) v2 = (Inr a, v')"
      by simp
    from decide_and_upsert [OF inv wrap_write [OF d, unfolded v1] n wrap_write [OF this] p b sup]
    show "db_inv (w_db v')" .
  qed
  moreover have "w_db w' = w_db w1"
    using run tx unfolding Store_SavePromotionDecision_def Store_GetDeploymentCandidate_def
    by (auto simp: tryM_def wrapM_def split: sum.splits prod.splits dest: pg_read_db)
  ultimately show ?thesis by simp
qed

end
