(* ===== verification/Contract.thy ===== *)
theory Contract
  imports Worker Integrity
begin

section \<open>The contract between the control plane and its repository\<close>

text \<open>
  What the service layer and the worker need of a repository, as two locales: \<open>repository\<close> says which
  calls keep an invariant of the world unconditionally, \<open>evidence_repository\<close> adds the laws of the two
  calls that write evidence. The clients are proved once, inside the locales: whatever a handler
  returns, it leaves the invariant intact. The theory System interprets both on the PostgreSQL store.
\<close>

lemma keeps_letM_post:
  assumes "keeps I m" "\<And>w a w'. m w = (a, w') \<Longrightarrow> Q a" "\<And>a. Q a \<Longrightarrow> keeps I (k a)"
  shows "keeps I (letM m k)"
proof (rule keepsI)
  fix w r w' assume "I w" "letM m k w = (r, w')"
  then obtain a v where "m w = (a, v)" "k a v = (r, w')" by (auto simp: letM_eq)
  with \<open>I w\<close> show "I w'" using assms keepsD by metis
qed

lemma keeps_conj: "keeps I m \<Longrightarrow> keeps J m \<Longrightarrow> keeps (\<lambda>w. I w \<and> J w) m"
  by (auto simp: keeps_def)

lemma keeps_letM_pure: "keeps I m \<Longrightarrow> keeps I (letM m (\<lambda>a w. (f a, w)))"
  by (intro keeps_letM) (simp_all add: keeps_def)

text \<open>An invariant of the world is kept by what a worker does around it.\<close>

lemma keeps_watched:
  "keeps I m \<Longrightarrow> keeps (\<lambda>s. I (ws_world s)) (in_world m)"
  "keeps (\<lambda>s. I (ws_world s)) (log_worker entry)"
  "keeps (\<lambda>s. I (ws_world s)) (WorkerJobsTotal_Inc t outcome)"
  by (auto simp: keeps_def in_world_def log_worker_def WorkerJobsTotal_Inc_def split: prod.splits)

subsection \<open>What an evaluation hands to the repository\<close>

lemma Evaluate_evaluation_ok:
  assumes "Evaluate new s job tm w = (r, w')"
  shows "evaluation_ok (res_Snapshot r) (res_Checks r)"
proof -
  note c = evaluation_checks [OF assms]
  have "length (res_Checks r) = length check_names" "chk_CheckName ` set (res_Checks r) = set check_names"
    using c by (metis length_map) (metis c set_map)
  with c show ?thesis
    using evaluation_score [OF assms] evaluation_blocked [OF assms] evaluation_ready [OF assms]
    by (simp add: evaluation_ok_def verdict_ok_def)
qed

lemma keeps_Evaluate:
  "keeps I new \<Longrightarrow> keeps I (Evaluate new s job tm)"
  unfolding Evaluate_def Let_def
  by (intro keeps_rules) (auto simp: buildCheck_def keeps_letM keeps_def letM_def split: prod.splits)

subsection \<open>The plain laws\<close>

locale repository =
  fixes repo :: "'w Repository" and inv :: "'w \<Rightarrow> bool"
  assumes create_service: "keeps inv (CreateService repo s)"
    and update_service: "keeps inv (UpdateService repo i patch)"
    and get_service: "keeps inv (GetService repo i)"
    and get_scorecard: "keeps inv (GetLatestScorecard repo i)"
    and get_snapshot: "keeps inv (GetLatestSnapshot repo i)"
    and get_candidate: "keeps inv (GetDeploymentCandidate repo i)"
    and enqueue_job: "fresh_job j \<Longrightarrow> keeps inv (EnqueueJob repo j)"
    and create_candidate: "cand_Status c = CandidateStatusPending \<Longrightarrow> cand_LastSnapshotID c = None \<Longrightarrow>
      cand_EvaluatedAt c = None \<Longrightarrow> keeps inv (CreateDeploymentCandidate repo c)"
    and insert_audit: "keeps inv (InsertAuditEvent repo e)"
    and list_audit: "keeps inv (ListAuditEvents repo rt ro limit)"
    and claim_jobs: "keeps inv (ClaimJobs repo wid n lease)"
    and mark_completed: "keeps inv (MarkJobCompleted repo i wid)"
    and mark_failed: "keeps inv (MarkJobFailed repo job err)"
begin

lemmas plain = create_service update_service get_service get_scorecard get_snapshot get_candidate
  insert_audit list_audit claim_jobs mark_completed mark_failed

text \<open>A control plane wired to this repository, with draws that keep the invariant.\<close>

definition wired :: "'w ControlPlane \<Rightarrow> bool" where
  "wired c \<longleftrightarrow> cp_repo c = repo \<and> keeps inv (cp_now c) \<and> keeps inv (cp_uuid_New c)"

lemma wiredD: "wired c \<Longrightarrow> cp_repo c = repo" "wired c \<Longrightarrow> keeps inv (cp_now c)"
  "wired c \<Longrightarrow> keeps inv (cp_uuid_New c)"
  by (simp_all add: wired_def)

lemma audited: "wired c \<Longrightarrow> keeps inv (audited c tm pr rid et rt i dets)"
  unfolding audited_def auditEvent_def
  by (intro keeps_letM keeps_letM_pure) (simp_all add: wiredD insert_audit)

lemma key_keeps: "wired c \<Longrightarrow> keeps inv (idempotency_key c key)"
  unfolding idempotency_key_def by (intro keeps_if keeps_letM_pure) (simp_all add: wiredD, simp add: keeps_def)

lemma register_service: "wired c \<Longrightarrow> keeps inv (ControlPlane_RegisterService c input pr rid)"
  unfolding ControlPlane_RegisterService_def
  by (intro keeps_rules) (simp_all add: plain audited wiredD)

lemma patch_service: "wired c \<Longrightarrow> keeps inv (ControlPlane_UpdateService c i patch pr rid)"
  unfolding ControlPlane_UpdateService_def
  by (intro keeps_rules) (simp_all add: plain audited wiredD)

lemma queue_evaluation: "wired c \<Longrightarrow> keeps inv (ControlPlane_QueueServiceEvaluation c i key pr rid)"
  unfolding ControlPlane_QueueServiceEvaluation_def
  by (intro keeps_rules) (simp_all add: plain audited key_keeps wiredD enqueue_job fresh_job_def evaluation_job_def)

lemma request_candidate: "wired c \<Longrightarrow> keeps inv (ControlPlane_CreateDeploymentCandidate c input pr rid)"
  unfolding ControlPlane_CreateDeploymentCandidate_def
  by (intro keeps_rules) (simp_all add: plain audited wiredD create_candidate pending_candidate_def)

lemma queries:
  "wired c \<Longrightarrow> keeps inv (ControlPlane_GetScorecard c i)"
  "wired c \<Longrightarrow> keeps inv (ControlPlane_GetDeploymentCandidate c i)"
  "wired c \<Longrightarrow> keeps inv (ControlPlane_ListAuditEvents c rt ro limit)"
  by (simp_all add: ControlPlane_GetScorecard_def ControlPlane_GetDeploymentCandidate_def
      ControlPlane_ListAuditEvents_def plain wiredD)

end

subsection \<open>The laws of evidence\<close>

text \<open>
  \<open>stored s w\<close>: the snapshot is in the repository; \<open>owns i sid w\<close>: the candidate \<open>i\<close> belongs to the
  service \<open>sid\<close>. A decision may be saved when its status is justified by a stored snapshot of the
  candidate's own service.
\<close>

definition justified ::
  "(ReadinessSnapshot \<Rightarrow> 'w \<Rightarrow> bool) \<Rightarrow> CandidateStatus \<Rightarrow> ReadinessSnapshot option \<Rightarrow> uuid \<Rightarrow> 'w \<Rightarrow> bool" where
  "justified stored status x serviceID w \<longleftrightarrow>
     (status = CandidateStatusApproved \<or> status = CandidateStatusRejected) \<and>
     (status = CandidateStatusApproved \<longrightarrow> x \<noteq> None) \<and>
     (\<forall>s. x = Some s \<longrightarrow> stored s w \<and> snap_ServiceID s = serviceID \<and>
        (status = CandidateStatusApproved \<longleftrightarrow> snap_State s = ReadinessReady))"

definition decides ::
  "uuid \<Rightarrow> ReadinessSnapshot option \<Rightarrow> PromotionDecision \<Rightarrow> CandidateStatus \<Rightarrow> string \<Rightarrow> bool" where
  "decides i x p status reason \<longleftrightarrow> dec_CandidateID p = i \<and> dec_SnapshotID p = map_option snap_ID x \<and>
     dec_Decision p = status \<and> dec_Summary p = reason"

locale evidence_repository = repository repo inv for repo :: "'w Repository" and inv :: "'w \<Rightarrow> bool" +
  fixes stored :: "ReadinessSnapshot \<Rightarrow> 'w \<Rightarrow> bool" and owns :: "uuid \<Rightarrow> uuid \<Rightarrow> 'w \<Rightarrow> bool"
  assumes save_evaluation: "evaluation_ok snap cs \<Longrightarrow> keeps inv (SaveReadinessEvaluation repo snap cs)"
    and save_decision: "inv w \<Longrightarrow> decides i x p status reason \<Longrightarrow> owns i serviceID w \<Longrightarrow>
      justified stored status x serviceID w \<Longrightarrow>
      SavePromotionDecision repo i x p status reason w = (r, w') \<Longrightarrow> inv w'"
    and candidate_owned: "inv w \<Longrightarrow> GetDeploymentCandidate repo i w = (Inr c, w') \<Longrightarrow>
      owns (cand_ID c) (cand_ServiceID c) w'"
    and snapshot_stored: "inv w \<Longrightarrow> GetLatestSnapshot repo serviceID w = (Inr s, w') \<Longrightarrow>
      stored s w' \<and> snap_ServiceID s = serviceID"
    and still_owned: "inv w \<Longrightarrow> owns i k w \<Longrightarrow> GetLatestSnapshot repo serviceID w = (y, w') \<Longrightarrow> owns i k w'"
begin

definition quiet :: "('w \<Rightarrow> 'a \<times> 'w) \<Rightarrow> bool" where
  "quiet m \<longleftrightarrow> (\<forall>s. keeps (stored s) m) \<and> (\<forall>i k. keeps (owns i k) m)"

lemma verdict_justified:
  assumes "promotion_verdict x = Inr (status, reason, so)"
    and "\<And>s. x = Inr s \<Longrightarrow> stored s w \<and> snap_ServiceID s = serviceID"
  shows "justified stored status so serviceID w"
  using assms by (auto simp: promotion_verdict_def justified_def split: sum.splits if_splits)

lemma justified_keeps:
  "quiet m \<Longrightarrow> justified stored status so k w \<Longrightarrow> m w = (a, w') \<Longrightarrow> justified stored status so k w'"
  unfolding justified_def quiet_def by (blast dest: keepsD)

lemma owns_keeps: "quiet m \<Longrightarrow> owns i k w \<Longrightarrow> m w = (a, w') \<Longrightarrow> owns i k w'"
  unfolding quiet_def by (blast dest: keepsD)

lemma decide:
  assumes c: "wired c" and q: "quiet (cp_now c)" "quiet (cp_uuid_New c)"
    and I: "inv w" and o: "owns i k w" and j: "justified stored status so k w"
    and run: "letM (cp_now c) (\<lambda>now. letM (cp_uuid_New c) (\<lambda>new.
        tryM (SavePromotionDecision (cp_repo c) i so
                 \<lparr>dec_ID = new, dec_CandidateID = i, dec_SnapshotID = map_option snap_ID so,
                  dec_Decision = status, dec_Summary = reason, dec_CreatedAt = now\<rparr> status reason)
          (rest now))) w = (r, w')"
    and rest: "\<And>now u. keeps inv (rest now u)"
  shows "inv w'"
proof -
  obtain now w1 where w1: "cp_now c w = (now, w1)" by fastforce
  obtain new w2 where w2: "cp_uuid_New c w1 = (new, w2)" by fastforce
  have I2: "inv w2" by (rule keepsD [OF wiredD(3) [OF c] keepsD [OF wiredD(2) [OF c] I w1] w2])
  have o2: "owns i k w2" by (rule owns_keeps [OF q(2) owns_keeps [OF q(1) o w1] w2])
  have j2: "justified stored status so k w2"
    by (rule justified_keeps [OF q(2) justified_keeps [OF q(1) j w1] w2])
  let ?p = "\<lparr>dec_ID = new, dec_CandidateID = i, dec_SnapshotID = map_option snap_ID so,
                  dec_Decision = status, dec_Summary = reason, dec_CreatedAt = now\<rparr>"
  obtain x w3 where w3: "SavePromotionDecision repo i so ?p status reason w2 = (x, w3)" by fastforce
  have "decides i so ?p status reason" by (simp add: decides_def)
  from save_decision [OF I2 this o2 j2 w3] have "inv w3" .
  moreover have "case x of Inl e \<Rightarrow> w' = w3 | Inr u \<Rightarrow> rest now u w3 = (r, w')"
    using run w1 w2 w3 by (auto simp: letM_def tryM_def wiredD(1) [OF c] split: sum.splits)
  ultimately show "inv w'" using keepsD [OF rest] by (auto split: sum.splits)
qed

lemma evaluate_candidate:
  assumes c: "wired c" "quiet (cp_now c)" "quiet (cp_uuid_New c)"
  shows "keeps inv (ControlPlane_EvaluateDeploymentCandidate c i pr rid)"
proof (rule keepsI)
  fix w r w'
  assume I: "inv w" and run: "ControlPlane_EvaluateDeploymentCandidate c i pr rid w = (r, w')"
  obtain x w1 where get: "GetDeploymentCandidate repo i w = (x, w1)" by fastforce
  have I1: "inv w1" using I get get_candidate keepsD by metis
  show "inv w'"
  proof (cases x)
    case (Inl e)
    with run get I1 show ?thesis
      by (simp add: ControlPlane_EvaluateDeploymentCandidate_def tryM_def wiredD(1) [OF c(1)])
  next
    case (Inr cand)
    show ?thesis
    proof (cases "cand_Status cand = CandidateStatusPending")
      case False
      with run get Inr I1 show ?thesis
        by (simp add: ControlPlane_EvaluateDeploymentCandidate_def tryM_def errM_def wiredD(1) [OF c(1)])
    next
      case True
      obtain y w2 where snap: "GetLatestSnapshot repo (cand_ServiceID cand) w1 = (y, w2)" by fastforce
      have I2: "inv w2" using I1 snap get_snapshot keepsD by metis
      have owned: "owns (cand_ID cand) (cand_ServiceID cand) w2"
        using candidate_owned still_owned I I1 get snap Inr by blast
      show ?thesis
      proof (cases "promotion_verdict y")
        case (Inl e)
        with run get Inr True snap I2 show ?thesis
          by (simp add: ControlPlane_EvaluateDeploymentCandidate_def tryM_def catchM_def errM_def wiredD(1) [OF c(1)])
      next
        case v: (Inr v)
        obtain status reason so where v': "v = (status, reason, so)" by (cases v)
        have "justified stored status so (cand_ServiceID cand) w2"
        proof (rule verdict_justified)
          show "promotion_verdict y = Inr (status, reason, so)" using v v' by simp
          show "stored s w2 \<and> snap_ServiceID s = cand_ServiceID cand" if "y = Inr s" for s
            using snapshot_stored [OF I1] snap that by blast
        qed
        note decide = decide [OF c I2 owned this]
        show ?thesis
          by (rule decide [where rest = "\<lambda>now updated.
              tryM (audited c now pr rid ''deployment_candidate.evaluated'' ''deployment_candidate''
                 (cand_ID updated)
                 [(''decision'', AnyString (CandidateStatus_string (cand_Status updated))),
                  (''reason'', AnyString (cand_DecisionReason updated))]) (\<lambda>_. okM updated)"])
             (use run get Inr True snap v v' in \<open>simp add: ControlPlane_EvaluateDeploymentCandidate_def
                tryM_def [of "GetDeploymentCandidate _ _"] catchM_def wiredD(1) [OF c(1)]\<close>,
              intro keeps_rules audited c)
      qed
    qed
  qed
qed

lemma process_evaluation:
  assumes "wired c"
  shows "keeps inv (ControlPlane_ProcessServiceEvaluationJob c job wid)"
  unfolding ControlPlane_ProcessServiceEvaluationJob_def wiredD(1) [OF assms]
proof (rule keeps_tryM [OF get_service], rule keeps_letM [OF wiredD(2) [OF assms]])
  fix service now
  show "keeps inv (letM (Evaluate (cp_uuid_New c) service (job_ID job) now) (\<lambda>result.
     tryM (SaveReadinessEvaluation repo (res_Snapshot result) (res_Checks result)) (\<lambda>_.
     letM (cp_now c) (\<lambda>later.
     audited c later (worker_principal wid) (cp_uuid_String c (job_ID job))
       ''service.evaluated'' ''service'' (svc_ID service)
       [(''snapshot_id'', AnyString (cp_uuid_String c (snap_ID (res_Snapshot result)))),
        (''state'', AnyString (ReadinessState_string (snap_State (res_Snapshot result)))),
        (''score'', AnyInt (snap_Score (res_Snapshot result)))]))))"
    by (rule keeps_letM_post [where Q = "\<lambda>r. evaluation_ok (res_Snapshot r) (res_Checks r)"])
       (intro keeps_Evaluate wiredD assms, erule Evaluate_evaluation_ok,
        intro keeps_tryM keeps_letM save_evaluation audited wiredD assms)
qed

lemma process_job: "wired (wk_service wk) \<Longrightarrow> keeps inv (processJob wk job)"
  by (simp add: processJob_def process_evaluation keeps_errM split: JobType.split)

lemma process_loop:
  "wired (wk_service wk) \<Longrightarrow> wk_repo wk = repo \<Longrightarrow> keeps (\<lambda>s. inv (ws_world s)) (process_jobs wk jobs)"
proof (induction jobs)
  case Nil
  then show ?case by (simp add: keeps_okM)
next
  case (Cons job jobs)
  then show ?case
    by (simp only: process_jobs.simps)
       (intro keeps_rules keeps_watched process_job mark_completed mark_failed; simp)
qed

lemma run_once:
  "wired (wk_service wk) \<Longrightarrow> wk_repo wk = repo \<Longrightarrow> keeps (\<lambda>s. inv (ws_world s)) (runOnce wk)"
  unfolding runOnce_def by (intro keeps_tryM process_loop keeps_watched) (simp_all add: claim_jobs)

lemma run_iteration:
  assumes "wired (wk_service wk)" "wk_repo wk = repo"
  shows "keeps (\<lambda>s. inv (ws_world s)) (iteration wk)"
proof (rule keepsI)
  fix s u s' assume "inv (ws_world s)" "iteration wk s = (u, s')"
  then show "inv (ws_world s')"
    using keepsD [OF run_once [OF assms]] by (auto simp: iteration_def log_worker_def split: prod.splits sum.splits)
qed

lemma run_loop: "wired (wk_service wk) \<Longrightarrow> wk_repo wk = repo \<Longrightarrow> keeps (\<lambda>s. inv (ws_world s)) (Run wk n)"
  by (induction n) (simp_all add: keeps_letM keeps_errM run_iteration)

end

end
