(* ===== verification/History.thy ===== *)
theory History imports Integrity
begin

text \<open>
  What no operation of the store undoes.  \<open>grows\<close> relates a database to a later one: the evidence
  (snapshots, checks, audit events) is only added to, rows are never deleted and a decided
  candidate is final.  Every method of the store keeps it, whatever faults occur.
\<close>

subsection \<open>What never changes\<close>

text \<open>
  \<open>grows d d'\<close>: snapshots, checks and audit events are only added, services, jobs and candidates
  stay, a candidate keeps its service, a decided candidate does not change at all, a job keeps its key
  and its target, never loses an attempt, and stays completed once it is.
\<close>

definition job_stays :: "jobs_row \<Rightarrow> jobs_row \<Rightarrow> bool" where
  "job_stays r r' \<longleftrightarrow> job_ID r' = job_ID r \<and> job_Type r' = job_Type r \<and>
     job_IdempotencyKey r' = job_IdempotencyKey r \<and> job_ResourceID r' = job_ResourceID r \<and>
     job_MaxAttempts r' = job_MaxAttempts r \<and> job_Attempts r \<le> job_Attempts r' \<and>
     (job_Status r = JobStatusCompleted \<longrightarrow> job_Status r' = JobStatusCompleted \<and> job_Attempts r' = job_Attempts r)"

definition jobs_stay :: "jobs_row list \<Rightarrow> jobs_row list \<Rightarrow> bool" where
  "jobs_stay rs rs' \<longleftrightarrow> (\<forall>r \<in> set rs. \<exists>r' \<in> set rs'. job_stays r r')"

definition stays :: "candidates_row \<Rightarrow> candidates_row \<Rightarrow> bool" where
  "stays c c' \<longleftrightarrow> cand_ID c' = cand_ID c \<and> cand_ServiceID c' = cand_ServiceID c \<and>
     (cand_Status c \<noteq> CandidateStatusPending \<longrightarrow> c' = c)"

definition grows :: "db \<Rightarrow> db \<Rightarrow> bool" where
  "grows d d' \<longleftrightarrow>
     set (t_snapshots d) \<subseteq> set (t_snapshots d') \<and> set (t_checks d) \<subseteq> set (t_checks d') \<and>
     set (t_audit d) \<subseteq> set (t_audit d') \<and>
     svc_ID ` set (t_services d) \<subseteq> svc_ID ` set (t_services d') \<and>
     jobs_stay (t_jobs d) (t_jobs d') \<and>
     (\<forall>c \<in> set (t_candidates d). \<exists>c' \<in> set (t_candidates d'). stays c c')"

lemma stays_refl [simp]: "stays c c"
  by (simp add: stays_def)

lemma stays_trans: "stays c c' \<Longrightarrow> stays c' c'' \<Longrightarrow> stays c c''"
  by (auto simp: stays_def)

lemma job_stays_refl [simp]: "job_stays r r"
  by (simp add: job_stays_def)

lemma job_stays_trans: "job_stays r r' \<Longrightarrow> job_stays r' r'' \<Longrightarrow> job_stays r r''"
  by (auto simp: job_stays_def)

lemma jobs_stay_more [simp]: "jobs_stay rs (rs @ rs')"
  unfolding jobs_stay_def by (metis UnI1 job_stays_refl set_append)

lemma jobs_stay_refl [simp]: "jobs_stay rs rs"
  using jobs_stay_more [of rs "[]"] by simp

lemma jobs_stay_trans: "jobs_stay rs rs' \<Longrightarrow> jobs_stay rs' rs'' \<Longrightarrow> jobs_stay rs rs''"
  unfolding jobs_stay_def by (meson job_stays_trans)

lemma grows_refl: "grows d d"
  unfolding grows_def by (intro conjI ballI order_refl jobs_stay_refl) (blast intro: stays_refl)

lemma grows_trans: "grows d d' \<Longrightarrow> grows d' d'' \<Longrightarrow> grows d d''"
  unfolding grows_def by (elim conjE, intro conjI; (erule (1) order_trans | erule (1) jobs_stay_trans)?) (meson stays_trans)

lemma grows_same_candidates:
  "t_candidates d' = t_candidates d \<Longrightarrow> grows d d' \<longleftrightarrow>
     set (t_snapshots d) \<subseteq> set (t_snapshots d') \<and> set (t_checks d) \<subseteq> set (t_checks d') \<and>
     set (t_audit d) \<subseteq> set (t_audit d') \<and>
     svc_ID ` set (t_services d) \<subseteq> svc_ID ` set (t_services d') \<and>
     jobs_stay (t_jobs d) (t_jobs d')"
  unfolding grows_def by (auto intro: stays_refl)

lemma grows_decided:
  "grows d d' \<Longrightarrow> c \<in> set (t_candidates d) \<Longrightarrow> cand_Status c \<noteq> CandidateStatusPending \<Longrightarrow> c \<in> set (t_candidates d')"
  by (metis grows_def stays_def)

lemma grows_more: "t_candidates d' = t_candidates d @ cs \<Longrightarrow> grows d d' \<longleftrightarrow>
     set (t_snapshots d) \<subseteq> set (t_snapshots d') \<and> set (t_checks d) \<subseteq> set (t_checks d') \<and>
     set (t_audit d) \<subseteq> set (t_audit d') \<and>
     svc_ID ` set (t_services d) \<subseteq> svc_ID ` set (t_services d') \<and>
     jobs_stay (t_jobs d) (t_jobs d')"
  unfolding grows_def by (auto intro: stays_refl)

lemma stmt_growsI: "(\<And>d a d'. stmt d = Inr (a, d') \<Longrightarrow> grows d d') \<Longrightarrow> stmt_keeps (grows d0) stmt"
  by (rule stmt_keepsI) (blast intro: grows_trans)

lemma grows_jobs:
  assumes "\<And>r. r \<in> set (t_jobs d) \<Longrightarrow> p r \<Longrightarrow> job_stays r (f r)"
  shows "grows d (d\<lparr>t_jobs := update_where p f (t_jobs d)\<rparr>)"
proof -
  have "\<exists>r' \<in> set (update_where p f (t_jobs d)). job_stays r r'" if "r \<in> set (t_jobs d)" for r
    by (rule bexI [of _ "if p r then f r else r"]) (use assms that in \<open>auto simp: set_update_where\<close>)
  then show ?thesis by (simp add: grows_same_candidates jobs_stay_def)
qed

lemma grows_inserts:
  "stmt_keeps (grows d0) (insert_service r)" "stmt_keeps (grows d0) (insert_slo_policy p)"
  "stmt_keeps (grows d0) (insert_snapshot s)" "stmt_keeps (grows d0) (insert_check k)"
  "stmt_keeps (grows d0) (insert_candidate c)" "stmt_keeps (grows d0) (insert_audit_event e)"
  by (rule stmt_growsI; auto simp: stmt_Inr grows_same_candidates grows_more)+

lemma grows_services:
  "(\<And>r. p r \<Longrightarrow> svc_ID (f r) = svc_ID r) \<Longrightarrow> grows d (d\<lparr>t_services := update_where p f (t_services d)\<rparr>)"
  using grows_refl [of d] map_update_where [of p svc_ID f "t_services d"]
  by (simp add: grows_same_candidates) (metis order_refl set_map)

lemma grows_update_service: "stmt_keeps (grows d0) (update_service s)"
  by (rule stmt_growsI) (auto simp: update_service_def split: option.splits intro!: grows_services)

lemma grows_update_slo: "stmt_keeps (grows d0) (update_slo_policy i p)"
  by (rule stmt_growsI) (auto simp: update_slo_policy_def grows_same_candidates split: option.splits)

lemma grows_enqueue: "stmt_keeps (grows d0) (enqueue_stmt j)"
proof (rule stmt_growsI)
  fix d a d' assume e: "enqueue_stmt j d = Inr (a, d')"
  then consider "d' = d\<lparr>t_jobs := update_where (same_key j) (\<lambda>r. r\<lparr>job_UpdatedAt := job_UpdatedAt j\<rparr>) (t_jobs d)\<rparr>"
    | "d' = d\<lparr>t_jobs := t_jobs d @ [new_job_row j]\<rparr>"
    by (auto simp: enqueue_stmt_def split: option.splits if_splits)
  then show "grows d d'"
  proof cases
    case 1
    then show ?thesis by (auto simp: job_stays_def intro!: grows_jobs)
  next
    case 2
    then show ?thesis by (auto simp: grows_same_candidates)
  qed
qed

lemma claim_grows:
  assumes inv: "db_inv d" and claim: "claim_stmt w n now expired locked d = Inr (a, d')"
  shows "grows d d'"
proof -
  let ?picked = "job_ID ` set (candidate_jobs n now expired locked d)"
  have d': "d' = d\<lparr>t_jobs := update_where (\<lambda>r. job_ID r \<in> ?picked) (lease_row w now) (t_jobs d)\<rparr>"
    using claim by (auto simp: claim_stmt_def Let_def split: if_splits)
  have dist: "distinct (map job_ID (t_jobs d))" using inv by (simp add: db_inv_def wf_keys_def)
  show ?thesis
    unfolding d'
  proof (rule grows_jobs)
    fix r assume "r \<in> set (t_jobs d)" "job_ID r \<in> ?picked"
    then have "claimable now expired r" using picked_row [OF dist] candidate_jobs_claimable by blast
    then show "job_stays r (lease_row w now r)" by (auto simp: job_stays_def lease_row_def claimable_def)
  qed
qed

lemma grows_mark:
  "stmt_keeps (grows d0) (update_one (owned_by i w) (complete_row now))"
  "stmt_keeps (grows d0) (update_one (owned_by i w) (fail_row m t now))"
  by (rule stmt_growsI; auto simp: update_one_def complete_row_def fail_row_def owned_by_def job_stays_def
        intro!: grows_jobs)+

lemma grows_decide: "stmt_keeps (grows d0) (decide_stmt i status reason x now)"
proof (rule stmt_growsI)
  fix d a d' assume "decide_stmt i status reason x now d = Inr (a, d')"
  from decide_stmt_Inr [OF this]
  have d': "d' = d\<lparr>t_candidates := update_where (pending_with i) (decide_row status reason x now) (t_candidates d)\<rparr>"
    by simp
  let ?f = "\<lambda>c. if pending_with i c then decide_row status reason x now c else c"
  have "\<exists>c' \<in> set (t_candidates d'). stays c c'" if "c \<in> set (t_candidates d)" for c
    by (rule bexI [of _ "?f c"])
       (use that in \<open>auto simp: d' set_update_where stays_def decide_row_def pending_with_def\<close>)
  then show "grows d d'" by (simp add: grows_def d')
qed

lemma grows_upsert: "stmt_keeps (grows d0) (upsert_decision p)"
  by (rule stmt_growsI)
     (auto simp: upsert_decision_def insert_when_Inr grows_same_candidates split: option.splits if_splits)

lemmas grows_stmts = grows_inserts grows_update_service grows_update_slo grows_enqueue
  grows_mark grows_decide grows_upsert

lemma keeps_insert_checks: "(\<And>c. stmt_keeps I (insert_check c)) \<Longrightarrow> keeps (on_db I) (insert_checks cs)"
  by (induction cs) (simp_all add: keeps_rules)

lemmas store_defs = Store_CreateService_def Store_UpdateService_def Store_GetService_def
  Store_SaveReadinessEvaluation_def Store_GetLatestScorecard_def Store_EnqueueJob_def
  Store_CreateDeploymentCandidate_def Store_GetLatestSnapshot_def Store_SavePromotionDecision_def
  Store_GetDeploymentCandidate_def Store_InsertAuditEvent_def Store_ListAuditEvents_def
  Store_ClaimJobs_def Store_MarkJobCompleted_def Store_MarkJobFailed_def

lemma store_grows:
  "keeps (on_db (grows d0)) (Store_CreateService s)"
  "keeps (on_db (grows d0)) (Store_UpdateService i patch)"
  "keeps (on_db (grows d0)) (Store_GetService i)"
  "keeps (on_db (grows d0)) (Store_SaveReadinessEvaluation snap cs)"
  "keeps (on_db (grows d0)) (Store_GetLatestScorecard i)"
  "keeps (on_db (grows d0)) (Store_EnqueueJob j)"
  "keeps (on_db (grows d0)) (Store_CreateDeploymentCandidate c)"
  "keeps (on_db (grows d0)) (Store_GetLatestSnapshot i)"
  "keeps (on_db (grows d0)) (Store_SavePromotionDecision i so p st reason)"
  "keeps (on_db (grows d0)) (Store_GetDeploymentCandidate i)"
  "keeps (on_db (grows d0)) (Store_InsertAuditEvent e)"
  "keeps (on_db (grows d0)) (Store_ListAuditEvents rt ro limit)"
  "keeps (on_db (grows d0)) (Store_MarkJobCompleted i wid)"
  "keeps (on_db (grows d0)) (Store_MarkJobFailed lt job err)"
  unfolding store_defs Let_def
  by (intro keeps_rules keeps_with_tx grows_stmts keeps_insert_checks)+

text \<open>
  \<open>since d0\<close>: the tables are well-formed and nothing that \<open>d0\<close> recorded has been undone.
\<close>

definition since :: "db \<Rightarrow> db \<Rightarrow> bool" where
  "since d0 d \<longleftrightarrow> db_inv d \<and> grows d0 d"

lemma keeps_since:
  "keeps (on_db db_inv) m \<Longrightarrow> keeps (on_db (grows d0)) m \<Longrightarrow> keeps (on_db (since d0)) m"
  by (auto simp: keeps_def on_db_def since_def)

lemma ClaimJobs_since: "keeps (on_db (since d0)) (Store_ClaimJobs w n lease)"
proof -
  have "stmt_keeps (since d0) (claim_stmt w n now expired locked)" for now expired locked
    by (rule stmt_keepsI)
       (use claim_keeps claim_grows grows_trans in \<open>unfold since_def stmt_keeps_def, blast\<close>)
  then show ?thesis unfolding Store_ClaimJobs_def by (intro keeps_rules)
qed

end
