(* ===== verification/System.thy ===== *)
theory System
  imports Contract History
begin

section \<open>The processes over the PostgreSQL store\<close>

text \<open>
  The store as a \<open>Repository\<close>, the control plane the program builds on it, and the operations an API
  process or a worker performs. The locales of Contract are interpreted here on the store, twice:
  alone, and amid the calls of other processes, which act on the same tables between any two calls
  of an operation. \<open>reachable\<close> is the closure of the empty schema under operations.
\<close>

subsection \<open>Wiring\<close>

definition PostgresRepository :: "(go_error \<Rightarrow> string) \<Rightarrow> world Repository" where
  "PostgresRepository lib_text =
     \<lparr>CreateService = Store_CreateService, UpdateService = Store_UpdateService,
      GetService = Store_GetService, SaveReadinessEvaluation = Store_SaveReadinessEvaluation,
      GetLatestScorecard = Store_GetLatestScorecard, EnqueueJob = Store_EnqueueJob,
      CreateDeploymentCandidate = Store_CreateDeploymentCandidate,
      GetLatestSnapshot = Store_GetLatestSnapshot, SavePromotionDecision = Store_SavePromotionDecision,
      GetDeploymentCandidate = Store_GetDeploymentCandidate, InsertAuditEvent = Store_InsertAuditEvent,
      ListAuditEvents = Store_ListAuditEvents, ClaimJobs = Store_ClaimJobs,
      MarkJobCompleted = Store_MarkJobCompleted, MarkJobFailed = Store_MarkJobFailed lib_text\<rparr>"

text \<open>The library functions the processes share.\<close>

record libraries =
  lib_parsers :: parsers
  lib_uuid_String :: "uuid \<Rightarrow> string"
  lib_error_text :: "go_error \<Rightarrow> string"

definition NewControlPlane :: "libraries \<Rightarrow> int \<Rightarrow> world ControlPlane" where
  "NewControlPlane L jobMaxAttempts =
     \<lparr>cp_repo = PostgresRepository (lib_error_text L), cp_now = time_Now,
      cp_jobMaxAttempts = jobMaxAttempts, cp_parsers = lib_parsers L, cp_uuid_New = uuid_New,
      cp_uuid_String = lib_uuid_String L\<rparr>"

text \<open>A worker process: \<^verbatim>\<open>jobs.NewWorker\<close> over the control plane and its own store.\<close>

definition worker_of :: "libraries \<Rightarrow> 'w ControlPlane \<Rightarrow> uuid \<Rightarrow> int \<Rightarrow> int \<Rightarrow> 'w Worker" where
  "worker_of L c newID batchSize lease = NewWorker (lib_error_text L) newID c (cp_repo c) batchSize lease"

subsection \<open>Operations\<close>

datatype operation =
    Register ServiceInput Principal string
  | Patch uuid ServicePatch Principal string
  | Queue uuid string Principal string
  | Scorecard_of uuid
  | Request DeploymentCandidateInput Principal string
  | Decide uuid Principal string
  | Candidate_of uuid
  | Audit_trail string "uuid option" int
  | Work uuid int int

fun perform :: "libraries \<Rightarrow> 'w ControlPlane \<Rightarrow> operation \<Rightarrow> 'w \<Rightarrow> 'w" where
  "perform L c (Register input pr rid) w = snd (ControlPlane_RegisterService c input pr rid w)"
| "perform L c (Patch i patch pr rid) w = snd (ControlPlane_UpdateService c i patch pr rid w)"
| "perform L c (Queue i key pr rid) w = snd (ControlPlane_QueueServiceEvaluation c i key pr rid w)"
| "perform L c (Scorecard_of i) w = snd (ControlPlane_GetScorecard c i w)"
| "perform L c (Request input pr rid) w = snd (ControlPlane_CreateDeploymentCandidate c input pr rid w)"
| "perform L c (Decide i pr rid) w = snd (ControlPlane_EvaluateDeploymentCandidate c i pr rid w)"
| "perform L c (Candidate_of i) w = snd (ControlPlane_GetDeploymentCandidate c i w)"
| "perform L c (Audit_trail rt ro limit) w = snd (ControlPlane_ListAuditEvents c rt ro limit w)"
| "perform L c (Work wid n lease) w = ws_world (snd (runOnce (worker_of L c wid n lease) (watched w)))"

context evidence_repository
begin

lemma perform_keeps:
  assumes c: "wired c" "quiet (cp_now c)" "quiet (cp_uuid_New c)" and I: "inv w"
  shows "inv (perform L c op w)"
proof -
  have worker: "inv (ws_world (snd (runOnce (worker_of L c wid n lease) (watched w))))" for wid n lease
  proof -
    let ?wk = "worker_of L c wid n lease"
    obtain r s where run: "runOnce ?wk (watched w) = (r, s)" by fastforce
    have "keeps (\<lambda>s. inv (ws_world s)) (runOnce ?wk)"
      by (rule run_once) (simp_all add: worker_of_def NewWorker_def c wiredD(1) [OF c(1)])
    from keepsD [OF this _ run] I run show ?thesis by (simp add: watched_def)
  qed
  show ?thesis
    using I register_service [OF c(1)] patch_service [OF c(1)] queue_evaluation [OF c(1)]
      request_candidate [OF c(1)] queries [OF c(1)] evaluate_candidate [OF c] worker
    by (cases op) (simp_all add: keeps_def)
qed

end

subsection \<open>The store keeps the contract\<close>

definition in_store :: "ReadinessSnapshot \<Rightarrow> world \<Rightarrow> bool" where
  "in_store s w \<longleftrightarrow> s \<in> set (t_snapshots (w_db w))"

definition owned_candidate :: "uuid \<Rightarrow> uuid \<Rightarrow> world \<Rightarrow> bool" where
  "owned_candidate i k w \<longleftrightarrow> bound i k (w_db w)"

lemma keeps_read_store [simp]:
  "keeps (on_db I) (Store_GetService i)" "keeps (on_db I) (Store_GetLatestScorecard i)"
  "keeps (on_db I) (Store_GetLatestSnapshot i)" "keeps (on_db I) (Store_GetDeploymentCandidate i)"
  "keeps (on_db I) (Store_ListAuditEvents rt ro limit)"
  unfolding Store_GetService_def Store_GetLatestScorecard_def Store_GetLatestSnapshot_def
    Store_GetDeploymentCandidate_def Store_ListAuditEvents_def
  by (intro keeps_rules)+

lemma justified_supported:
  "justified in_store status so k w \<Longrightarrow> supported status (map_option snap_ID so) k (w_db w)"
  by (cases so) (auto simp: justified_def supported_def in_store_def evidence_def)

lemma truncate_scanCandidate [simp]: "candidates_row.truncate (scanCandidate r p) = r"
  by (cases r) (simp add: scanCandidate_def candidates_row.defs)

lemma truncate_candidate [simp]:
  "cand_ID (candidates_row.truncate c) = cand_ID c"
  "cand_ServiceID (candidates_row.truncate c) = cand_ServiceID c"
  "cand_Status (candidates_row.truncate c) = cand_Status c"
  "cand_LastSnapshotID (candidates_row.truncate c) = cand_LastSnapshotID c"
  "cand_DecisionReason (candidates_row.truncate c) = cand_DecisionReason c"
  by (simp_all add: candidates_row.defs)

lemma select_candidate_Inr:
  assumes "select_candidate i d = Inr c"
  shows "candidates_row.truncate c \<in> set (t_candidates d)" "cand_ID c = i"
proof -
  obtain r where r: "row_of cand_ID i (t_candidates d) = Some r"
    using assms unfolding select_candidate_def by (cases "row_of cand_ID i (t_candidates d)") simp_all
  obtain p where c: "c = scanCandidate r p"
    using assms [symmetric] unfolding select_candidate_def r by simp
  have "cand_ID c = cand_ID r" by (simp add: c scanCandidate_def)
  with row_of_Some [OF r] c show "candidates_row.truncate c \<in> set (t_candidates d)" "cand_ID c = i"
    by simp_all
qed

lemma candidate_read:
  assumes "Store_GetDeploymentCandidate i w = (Inr c, w')"
  shows "w_db w' = w_db w" "candidates_row.truncate c \<in> set (t_candidates (w_db w))" "cand_ID c = i"
  using wrap_read [OF assms [unfolded Store_GetDeploymentCandidate_def]] select_candidate_Inr [of i "w_db w" c]
  by simp_all

lemma read_owned:
  assumes "Store_GetDeploymentCandidate i w = (Inr c, w')"
  shows "owned_candidate (cand_ID c) (cand_ServiceID c) w'"
  unfolding owned_candidate_def bound_def
  by (rule bexI [of _ "candidates_row.truncate c"]) (simp_all add: candidate_read [OF assms])

lemma snapshot_read:
  "Store_GetLatestSnapshot k w = (Inr s, w') \<Longrightarrow>
     w_db w' = w_db w \<and> s \<in> set (t_snapshots (w_db w)) \<and> snap_ServiceID s = k"
  unfolding Store_GetLatestSnapshot_def
  by (drule wrap_read) (auto simp: select_latest_snapshot_def split: option.splits dest: newest_by_Some)

lemma save_decision_since:
  assumes "on_db (since d0) w" "decides i so p status reason" "owned_candidate i k w"
    "justified in_store status so k w" "Store_SavePromotionDecision i so p status reason w = (r, w')"
  shows "on_db (since d0) w'"
proof -
  have "db_inv (w_db w')"
    by (rule Store_SavePromotionDecision_inv [OF _ assms(5), where serviceID = k])
       (use assms(1-4) justified_supported in \<open>simp_all add: on_db_def since_def decides_def owned_candidate_def\<close>)
  moreover have "on_db (grows d0) w'"
    using keepsD [OF store_grows(9) _ assms(5)] assms(1) by (simp add: on_db_def since_def)
  ultimately show ?thesis by (simp add: on_db_def since_def)
qed

interpretation pg: evidence_repository "PostgresRepository lt" "on_db (since d0)" in_store owned_candidate
  for lt d0
proof (unfold_locales, goal_cases)
  case 14
  then show ?case by (simp add: PostgresRepository_def keeps_since keeps_SaveReadinessEvaluation store_grows)
next
  case 15
  then show ?case by (simp add: PostgresRepository_def) (rule save_decision_since)
next
  case 16
  then show ?case by (intro read_owned) (simp add: PostgresRepository_def)
next
  case 17
  then show ?case using snapshot_read by (auto simp: PostgresRepository_def in_store_def)
next
  case (18 w i k k' x w')
  then have "w_db w' = w_db w"
    by (auto simp: PostgresRepository_def Store_GetLatestSnapshot_def wrapM_def split: prod.splits sum.splits
        dest: pg_read_db)
  with 18 show ?case by (simp add: owned_candidate_def)
qed (simp_all add: PostgresRepository_def keeps_since keeps_CreateService keeps_UpdateService keeps_EnqueueJob
      keeps_CreateDeploymentCandidate keeps_InsertAuditEvent ClaimJobs_since keeps_MarkJobCompleted
      keeps_MarkJobFailed store_grows)

subsection \<open>Other processes between the calls\<close>

text \<open>
  The tables are shared. Between two calls of an operation other processes may run; what they do to
  the tables is a stream of functions, one before each call to the repository.
\<close>

type_synonym shared = "world \<times> (db \<Rightarrow> db) stream"

definition amid :: "(world, go_error, 'a) io \<Rightarrow> (shared, go_error, 'a) io" where
  "amid m s = (case s of (w, others) \<Rightarrow>
     case m (w\<lparr>w_db := shd others (w_db w)\<rparr>) of (r, w') \<Rightarrow> (r, (w', stl others)))"

text \<open>Reading the clock or drawing an identifier does not touch the tables.\<close>

definition local :: "(world \<Rightarrow> 'a \<times> world) \<Rightarrow> shared \<Rightarrow> 'a \<times> shared" where
  "local m s = (case s of (w, others) \<Rightarrow> case m w of (a, w') \<Rightarrow> (a, (w', others)))"

definition AmidOthers :: "world Repository \<Rightarrow> shared Repository" where
  "AmidOthers r =
     \<lparr>CreateService = (\<lambda>s. amid (CreateService r s)), UpdateService = (\<lambda>i p. amid (UpdateService r i p)),
      GetService = (\<lambda>i. amid (GetService r i)),
      SaveReadinessEvaluation = (\<lambda>s cs. amid (SaveReadinessEvaluation r s cs)),
      GetLatestScorecard = (\<lambda>i. amid (GetLatestScorecard r i)), EnqueueJob = (\<lambda>j. amid (EnqueueJob r j)),
      CreateDeploymentCandidate = (\<lambda>c. amid (CreateDeploymentCandidate r c)),
      GetLatestSnapshot = (\<lambda>i. amid (GetLatestSnapshot r i)),
      SavePromotionDecision = (\<lambda>i so p st rs. amid (SavePromotionDecision r i so p st rs)),
      GetDeploymentCandidate = (\<lambda>i. amid (GetDeploymentCandidate r i)),
      InsertAuditEvent = (\<lambda>e. amid (InsertAuditEvent r e)),
      ListAuditEvents = (\<lambda>rt ro l. amid (ListAuditEvents r rt ro l)),
      ClaimJobs = (\<lambda>wid n l. amid (ClaimJobs r wid n l)),
      MarkJobCompleted = (\<lambda>i wid. amid (MarkJobCompleted r i wid)),
      MarkJobFailed = (\<lambda>j e. amid (MarkJobFailed r j e))\<rparr>"

definition SharedControlPlane :: "libraries \<Rightarrow> int \<Rightarrow> shared ControlPlane" where
  "SharedControlPlane L jobMaxAttempts =
     \<lparr>cp_repo = AmidOthers (PostgresRepository (lib_error_text L)), cp_now = local time_Now,
      cp_jobMaxAttempts = jobMaxAttempts, cp_parsers = lib_parsers L, cp_uuid_New = local uuid_New,
      cp_uuid_String = lib_uuid_String L\<rparr>"

text \<open>What the other processes must respect, and what this one then guarantees.\<close>

definition lawful :: "(db \<Rightarrow> db) \<Rightarrow> bool" where
  "lawful f \<longleftrightarrow> (\<forall>d. db_inv d \<longrightarrow> db_inv (f d) \<and> grows d (f d))"

definition shared_inv :: "db \<Rightarrow> shared \<Rightarrow> bool" where
  "shared_inv d0 s \<longleftrightarrow> since d0 (w_db (fst s)) \<and> (\<forall>f \<in> sset (snd s). lawful f)"

lemma lawful_since: "lawful f \<Longrightarrow> since d0 d \<Longrightarrow> since d0 (f d)"
  unfolding lawful_def since_def by (blast intro: grows_trans)

lemma stl_lawful: "\<forall>f \<in> sset fs. P f \<Longrightarrow> P (shd fs) \<and> (\<forall>f \<in> sset (stl fs). P f)"
  by (auto intro: shd_sset stl_sset)

lemma amidE:
  assumes "amid m s = (r, s')" "shared_inv d0 s"
  obtains v w' where "m v = (r, w')" "w' = fst s'" "since d0 (w_db v)" "grows (w_db (fst s)) (w_db v)"
    "\<forall>f \<in> sset (snd s'). lawful f"
proof -
  obtain w fs where s: "s = (w, fs)" by (cases s)
  let ?v = "w\<lparr>w_db := shd fs (w_db w)\<rparr>"
  have law: "lawful (shd fs)" "\<forall>f \<in> sset (stl fs). lawful f" and I: "since d0 (w_db w)"
    using assms(2) stl_lawful [of fs lawful] by (simp_all add: s shared_inv_def)
  obtain x w' where m: "m ?v = (x, w')" by fastforce
  have "x = r" "s' = (w', stl fs)" using assms(1) by (simp_all add: amid_def s m)
  moreover have "since d0 (w_db ?v)" using lawful_since [OF law(1) I] by simp
  moreover have "grows (w_db w) (w_db ?v)" using law(1) I by (simp add: lawful_def since_def)
  ultimately show thesis by (intro that [of ?v w']) (simp_all add: m law(2) s)
qed

lemma keeps_amid: "keeps (on_db (since d0)) m \<Longrightarrow> keeps (shared_inv d0) (amid m)"
proof (rule keepsI)
  fix s r s' assume k: "keeps (on_db (since d0)) m" and I: "shared_inv d0 s" and run: "amid m s = (r, s')"
  obtain v w' where "m v = (r, w')" "w' = fst s'" "since d0 (w_db v)" "\<forall>f \<in> sset (snd s'). lawful f"
    by (rule amidE [OF run I])
  with keepsD [OF k, of v] show "shared_inv d0 s'" by (simp add: shared_inv_def on_db_def)
qed

lemma keeps_draws:
  "keeps (shared_inv d0) (local time_Now)" "keeps (shared_inv d0) (local uuid_New)"
  by (rule keepsI, auto simp: shared_inv_def local_def time_Now_def uuid_New_def split: prod.splits)+

lemma owned_grows: "owned_candidate i k w \<Longrightarrow> grows (w_db w) (w_db v) \<Longrightarrow> owned_candidate i k v"
  unfolding owned_candidate_def bound_def grows_def stays_def by metis

lemma stored_grows: "in_store s w \<Longrightarrow> grows (w_db w) (w_db v) \<Longrightarrow> in_store s v"
  unfolding in_store_def grows_def by blast

interpretation amidst: evidence_repository "AmidOthers (PostgresRepository lt)" "shared_inv d0"
    "\<lambda>s x. in_store s (fst x)" "\<lambda>i k x. owned_candidate i k (fst x)"
  for lt d0
proof (unfold_locales, goal_cases)
  case (7 j)
  then show ?case by (simp add: AmidOthers_def keeps_amid pg.enqueue_job)
next
  case (8 c)
  then show ?case by (simp add: AmidOthers_def keeps_amid pg.create_candidate)
next
  case (14 snap cs)
  then show ?case by (simp add: AmidOthers_def keeps_amid pg.save_evaluation)
next
  case (15 s i so p status reason k r s')
  obtain v w' where v: "SavePromotionDecision (PostgresRepository lt) i so p status reason v = (r, w')"
    "w' = fst s'" "since d0 (w_db v)" "grows (w_db (fst s)) (w_db v)" "\<forall>f \<in> sset (snd s'). lawful f"
    by (rule amidE [OF _ 15(1)]) (use 15(5) in \<open>simp add: AmidOthers_def\<close>)
  have "justified in_store status so k v"
    using 15(4) stored_grows [OF _ v(4)] by (auto simp: justified_def)
  with pg.save_decision [OF _ 15(2) owned_grows [OF 15(3) v(4)] _ v(1)] v
  show ?case by (simp add: shared_inv_def on_db_def)
next
  case (16 s i c s')
  obtain v w' where "GetDeploymentCandidate (PostgresRepository lt) i v = (Inr c, w')" "w' = fst s'" "since d0 (w_db v)"
    by (rule amidE [OF _ 16(1)]) (use 16(2) in \<open>simp add: AmidOthers_def\<close>)
  with pg.candidate_owned [of d0 v] show ?case by (simp add: on_db_def)
next
  case (17 s k x s')
  obtain v w' where "GetLatestSnapshot (PostgresRepository lt) k v = (Inr x, w')" "w' = fst s'" "since d0 (w_db v)"
    by (rule amidE [OF _ 17(1)]) (use 17(2) in \<open>simp add: AmidOthers_def\<close>)
  with pg.snapshot_stored [of d0 v] show ?case by (simp add: on_db_def)
next
  case (18 s i k j r s')
  obtain v w' where v: "GetLatestSnapshot (PostgresRepository lt) j v = (r, w')" "w' = fst s'" "since d0 (w_db v)"
    "grows (w_db (fst s)) (w_db v)"
    by (rule amidE [OF _ 18(1)]) (use 18(3) in \<open>simp add: AmidOthers_def\<close>)
  with pg.still_owned [of d0 v, OF _ owned_grows [OF 18(2) v(4)]] show ?case by (simp add: on_db_def)
qed (simp_all add: AmidOthers_def keeps_amid pg.plain)

lemma NewControlPlane_wired:
  "pg.wired (lib_error_text L) d0 (NewControlPlane L n)"
  by (simp add: pg.wired_def NewControlPlane_def keeps_time_Now keeps_uuid_New)

lemma NewControlPlane_quiet:
  "pg.quiet (cp_now (NewControlPlane L n))" "pg.quiet (cp_uuid_New (NewControlPlane L n))"
  by (simp_all add: pg.quiet_def NewControlPlane_def keeps_def time_Now_def uuid_New_def in_store_def
      owned_candidate_def)

lemma SharedControlPlane_wired:
  "amidst.wired (lib_error_text L) d0 (SharedControlPlane L n)"
  by (simp add: amidst.wired_def SharedControlPlane_def keeps_draws)

lemma SharedControlPlane_quiet:
  "amidst.quiet (cp_now (SharedControlPlane L n))" "amidst.quiet (cp_uuid_New (SharedControlPlane L n))"
  unfolding amidst.quiet_def
  by (auto simp: SharedControlPlane_def keeps_def local_def time_Now_def uuid_New_def in_store_def
      owned_candidate_def split: prod.splits)

lemma perform_since: "since d0 (w_db w) \<Longrightarrow> since d0 (w_db (perform L (NewControlPlane L n) op w))"
  using pg.perform_keeps [OF NewControlPlane_wired NewControlPlane_quiet] by (simp add: on_db_def)

lemma perform_shared:
  "shared_inv d0 s \<Longrightarrow> shared_inv d0 (perform L (SharedControlPlane L n) op s)"
  by (rule amidst.perform_keeps [OF SharedControlPlane_wired SharedControlPlane_quiet])

text \<open>Every operation is itself a lawful step for the others.\<close>

lemma perform_lawful: "lawful (\<lambda>d. w_db (perform L (NewControlPlane L n) op (w\<lparr>w_db := d\<rparr>)))"
  unfolding lawful_def
proof (intro allI impI)
  fix d assume "db_inv d"
  then have "since d (w_db (w\<lparr>w_db := d\<rparr>))" by (simp add: since_def grows_refl)
  from perform_since [OF this, of L n op]
  show "db_inv (w_db (perform L (NewControlPlane L n) op (w\<lparr>w_db := d\<rparr>))) \<and>
      grows d (w_db (perform L (NewControlPlane L n) op (w\<lparr>w_db := d\<rparr>)))"
    by (simp add: since_def)
qed

subsection \<open>Reachable tables\<close>

text \<open>
  Starting from the empty schema any API process or worker performs an operation, with any faults,
  clocks and draws, while between two of its calls other processes perform whole operations of their
  own (or do nothing).
\<close>

definition elsewhere :: "libraries \<Rightarrow> (db \<Rightarrow> db) \<Rightarrow> bool" where
  "elsewhere L f \<longleftrightarrow> f = id \<or>
     (\<exists>n op w. f = (\<lambda>d. w_db (perform L (NewControlPlane L n) op (w\<lparr>w_db := d\<rparr>))))"

inductive reachable :: "libraries \<Rightarrow> db \<Rightarrow> bool" for L where
  installed: "reachable L empty_db"
| operates: "reachable L (w_db w) \<Longrightarrow> \<forall>f \<in> sset others. elsewhere L f \<Longrightarrow>
    perform L (SharedControlPlane L n) op (w, others) = (w', others') \<Longrightarrow> reachable L (w_db w')"

inductive_cases reachableE: "reachable L d"

lemma elsewhere_lawful: "elsewhere L f \<Longrightarrow> lawful f"
  by (auto simp: elsewhere_def perform_lawful lawful_def [of id] grows_refl)

lemma operation_step:
  assumes "db_inv (w_db w)" "\<forall>f \<in> sset others. lawful f"
    "perform L (SharedControlPlane L n) op (w, others) = (w', others')"
  shows "since (w_db w) (w_db w')"
proof -
  have "shared_inv (w_db w) (w, others)"
    using assms(1,2) by (simp add: shared_inv_def since_def grows_refl)
  from perform_shared [OF this, of L n op] show ?thesis by (simp add: assms(3) shared_inv_def)
qed

lemma reachable_inv: "reachable L d \<Longrightarrow> db_inv d"
proof (induction rule: reachable.induct)
  case installed
  show ?case by (rule db_inv_empty)
next
  case (operates w others n op w' others')
  then have "\<forall>f \<in> sset others. lawful f" by (blast intro: elsewhere_lawful)
  from operation_step [OF _ this operates(3)] operates(4) show ?case by (simp add: since_def)
qed

lemma reachable_step:
  assumes "reachable L (w_db w)" "\<forall>f \<in> sset others. elsewhere L f"
    "perform L (SharedControlPlane L n) op (w, others) = (w', others')"
  shows "grows (w_db w) (w_db w')"
proof -
  have "\<forall>f \<in> sset others. lawful f" using assms(2) by (blast intro: elsewhere_lawful)
  from operation_step [OF reachable_inv [OF assms(1)] this assms(3)] show ?thesis by (simp add: since_def)
qed

end
