(* ===== verification/Scenario.thy ===== *)
theory Scenario
  imports System
begin

section \<open>A run of the whole program\<close>

text \<open>
  One service from registration to an approved promotion, through the handlers, the queue, the worker
  and the store, evaluated by the simplifier. The run shows that the hypotheses of the properties
  over reachable tables can hold, and is shared by their witnesses.
\<close>

subsection \<open>The inputs\<close>

definition L0 :: libraries where
  "L0 = \<lparr>lib_parsers = sample_parsers, lib_uuid_String = (\<lambda>u. ''uuid''), lib_error_text = (\<lambda>e. ''library error'')\<rparr>"

definition ready_input :: ServiceInput where
  "ready_input = \<lparr>in_Name = ''control-plane'', in_Description = ''cp'', in_OwnerEmail = ''owner@example.com'',
     in_RepositoryURL = ''https://github.com/example'', in_RunbookURL = ''https://example.com/runbook'',
     in_HealthEndpointURL = ''https://example.com/healthz'', in_ObservabilityURL = ''https://example.com/dashboard'',
     in_DeploymentPipeline = ''github-actions'', in_HasCI = True, in_HasTracing = True, in_HasMetrics = True,
     in_Language = ''go'', in_Tier = 1, in_Lifecycle = ''production'',
     in_SLOPolicy = \<lparr>sloin_AvailabilityTargetPercent = 999 / 10, sloin_LatencyTargetMilliseconds = 250,
       sloin_Window = ''30d''\<rparr>\<rparr>"

definition admin :: Principal where
  "admin = \<lparr>pr_Subject = ''admin'', pr_Role = RolePlatformAdmin, pr_Issuer = ''issuer''\<rparr>"

definition candidate_input :: "uuid \<Rightarrow> DeploymentCandidateInput" where
  "candidate_input sid = \<lparr>cin_ServiceID = sid, cin_Environment = ''production'', cin_Version = ''v1'',
     cin_CommitSHA = ''abc'', cin_RequestedBy = ''admin@example.com''\<rparr>"

text \<open>A process with working connections, clocks that read a fixed time and fresh identifiers from \<open>k\<close>.\<close>

definition process :: "uuid \<Rightarrow> time \<Rightarrow> db \<Rightarrow> world" where
  "process k t d = \<lparr>w_db = d, w_faults = sconst NoFault, w_clock = sconst t, w_pg_clock = sconst t,
     w_uuids = siterate (\<lambda>u. u + 1) k, w_locked = sconst []\<rparr>"

definition run :: "uuid \<Rightarrow> time \<Rightarrow> operation \<Rightarrow> db \<Rightarrow> db" where
  "run k t op d = w_db (fst (perform L0 (SharedControlPlane L0 5) op (process k t d, sconst id)))"

lemma run_reachable: "reachable L0 d \<Longrightarrow> reachable L0 (run k t op d)"
proof -
  assume r: "reachable L0 d"
  obtain w' o' where p: "perform L0 (SharedControlPlane L0 5) op (process k t d, sconst id) = (w', o')"
    by fastforce
  have "reachable L0 (w_db w')"
    by (rule reachable.operates [OF _ _ p]) (simp_all add: r process_def sset_sconst elsewhere_def)
  then show ?thesis by (simp add: run_def p)
qed

lemma trimmed_values: "TrimSpace v \<noteq> []" if "v \<in> {''control-plane'', ''cp'', ''github-actions'', ''go'', ''production'',
    ''30d'', ''v1'', ''abc'', ''owner@example.com'', ''admin@example.com'', ''https://github.com/example'',
    ''https://example.com/runbook'', ''https://example.com/healthz'', ''https://example.com/dashboard''}"
proof -
  have "graphic v" using that by (elim insertE emptyE; hypsubst; code_simp)
  then show ?thesis by (metis TrimSpace_graphic graphic_def)
qed

lemma ready_input_valid: "ServiceInput_Validate sample_parsers ready_input = None"
  unfolding ServiceInput_Validate_None
  by (simp add: ready_input_def email_ok_def url_ok_def slo_ok_def sample_parsers_def trimmed_values)

lemma ready_fields:
  "in_Name ready_input = ''control-plane''" "in_Tier ready_input = 1"
  "sloin_AvailabilityTargetPercent (in_SLOPolicy ready_input) = 999 / 10"
  "sloin_LatencyTargetMilliseconds (in_SLOPolicy ready_input) = 250"
  by (simp_all add: ready_input_def)

lemma siterate_draw: "shd (siterate f x) = x" "stl (siterate f x) = siterate f (f x)"
  by simp_all

lemma sconst_draw [simp]: "shd (sconst x) = x" "stl (sconst x) = sconst x"
  by simp_all

named_theorems run_simps \<open>evaluation of the scenario\<close>

declare combinator_defs [run_simps] perform.simps [run_simps] SharedControlPlane_def [run_simps]
  AmidOthers_def [run_simps] PostgresRepository_def [run_simps] amid_def [run_simps] local_def [run_simps]
  process_def [run_simps] L0_def [run_simps] pg_read_def [run_simps] pg_write_def [run_simps]
  with_tx_def [run_simps] next_trip_def [run_simps] time_Now_def [run_simps] pg_NOW_def [run_simps]
  uuid_New_def [run_simps] locked_rows_def [run_simps] audited_def [run_simps] auditEvent_def [run_simps]
  insert_when_def [run_simps] insert_defs [run_simps] int4_encodes_def [run_simps] int4_def [run_simps]
  empty_db_def [run_simps] admin_def [run_simps] Store_InsertAuditEvent_def [run_simps]
  Store_GetService_def [run_simps] select_service_def [run_simps]

definition service1 :: services_row where
  "service1 = services_row.truncate (service_from_input ready_input 10 1 2)"

definition policy1 :: SLOPolicy where
  "policy1 = svc_SLOPolicy (service_from_input ready_input 10 1 2)"

definition audit1 :: AuditEvent where
  "audit1 = \<lparr>aud_ID = 3, aud_ActorSubject = ''admin'', aud_ActorRole = RolePlatformAdmin,
     aud_EventType = ''service.registered'', aud_ResourceType = ''service'', aud_ResourceID = 1,
     aud_RequestID = ''req'', aud_Details = [(''name'', AnyString ''control-plane'')], aud_CreatedAt = 10\<rparr>"

definition d1 :: db where
  "d1 = empty_db\<lparr>t_services := [service1], t_slo_policies := [policy1], t_audit := [audit1]\<rparr>"

lemma run1: "run 1 10 (Register ready_input admin ''req'') empty_db = d1"
  unfolding run_def
  by (simp add: run_simps ControlPlane_RegisterService_def ready_input_valid Store_CreateService_def
      service_from_input_def ready_fields d1_def service1_def policy1_def audit1_def services_row.defs
      scanService_def)

definition job2 :: jobs_row where
  "job2 = \<lparr>job_ID = 20, job_Type = JobTypeServiceEvaluation, job_ResourceID = 1, job_Status = JobStatusPending,
     job_IdempotencyKey = ''key'', job_Payload = [(''service_id'', AnyString ''uuid'')], job_Attempts = 0,
     job_MaxAttempts = 5, job_AvailableAt = 20, job_LockedAt = None, job_CreatedAt = 20, job_UpdatedAt = 20,
     row_LockOwner = None, row_LastError = Some []\<rparr>"

definition audit2 :: AuditEvent where
  "audit2 = \<lparr>aud_ID = 21, aud_ActorSubject = ''admin'', aud_ActorRole = RolePlatformAdmin,
     aud_EventType = ''service.evaluation_requested'', aud_ResourceType = ''service'', aud_ResourceID = 1,
     aud_RequestID = ''req'', aud_Details = [(''job_id'', AnyString ''uuid'')], aud_CreatedAt = 20\<rparr>"

definition d2 :: db where
  "d2 = d1\<lparr>t_jobs := [job2], t_audit := [audit1, audit2]\<rparr>"

lemma row_fields:
  "svc_ID service1 = 1" "svc_Name service1 = ''control-plane''" "slo_ServiceID policy1 = 1"
  "svc_OwnerEmail service1 \<noteq> []" "svc_RepositoryURL service1 \<noteq> []" "svc_RunbookURL service1 \<noteq> []"
  "svc_HealthEndpointURL service1 \<noteq> []" "svc_ObservabilityURL service1 \<noteq> []"
  "svc_DeploymentPipeline service1 \<noteq> []" "svc_HasCI service1" "svc_HasTracing service1" "svc_HasMetrics service1"
  "slo_complete policy1" "aud_ID audit1 = 3" "aud_ID audit2 = 21"
  by (simp_all add: service1_def policy1_def audit1_def audit2_def service_from_input_def ready_input_def
      services_row.defs slo_complete_def)

lemma slo_complete_service [simp]: "slo_complete (p\<lparr>slo_ServiceID := i\<rparr>) = slo_complete p"
  by (simp add: slo_complete_def)

lemma run2: "run 20 20 (Queue 1 ''key'' admin ''req'') d1 = d2"
  unfolding run_def
  by (simp add: run_simps ControlPlane_QueueServiceEvaluation_def idempotency_key_def evaluation_job_def
      Store_EnqueueJob_def enqueue_stmt_def new_job_row_def scanJob_def set_or_def d1_def d2_def row_fields
      job2_def audit2_def)

text \<open>The worker claims the job, stores the evaluation and completes the job.\<close>

definition snapshot3 :: ReadinessSnapshot where
  "snapshot3 = \<lparr>snap_ID = 40, snap_ServiceID = 1, snap_State = ReadinessReady, snap_Score = 100,
     snap_Summary = ''Service is ready for promotion.'', snap_EvaluatedAt = 30, snap_JobID = 20,
     snap_CreatedAt = 30\<rparr>"

definition check3 :: "uuid \<Rightarrow> string \<Rightarrow> string \<Rightarrow> ReadinessCheckResult" where
  "check3 i name message = \<lparr>chk_ID = i, chk_SnapshotID = 40, chk_ServiceID = 1, chk_CheckName = TrimSpace name,
     chk_Status = CheckStatusPass, chk_Message = message, chk_RemediationHint = [], chk_CreatedAt = 30\<rparr>"

definition checks3 :: "ReadinessCheckResult list" where
  "checks3 =
     [check3 30 ''owner_declared'' ''Owner email present'', check3 31 ''repository_connected'' ''Repository URL present'',
      check3 32 ''runbook_present'' ''Runbook URL present'',
      check3 33 ''health_endpoint_present'' ''Health endpoint URL present'',
      check3 34 ''observability_dashboard_present'' ''Observability dashboard present'',
      check3 35 ''ci_enabled'' ''CI declared'', check3 36 ''tracing_enabled'' ''Tracing declared'',
      check3 37 ''metrics_enabled'' ''Metrics declared'',
      check3 38 ''deployment_pipeline_declared'' ''Deployment pipeline declared'',
      check3 39 ''slo_policy_declared'' ''SLO policy declared'']"

definition audit3 :: AuditEvent where
  "audit3 = \<lparr>aud_ID = 41, aud_ActorSubject = ''worker-uuid'', aud_ActorRole = RolePlatformAdmin,
     aud_EventType = ''service.evaluated'', aud_ResourceType = ''service'', aud_ResourceID = 1,
     aud_RequestID = ''uuid'', aud_Details = [(''snapshot_id'', AnyString ''uuid''),
       (''state'', AnyString ''ready''), (''score'', AnyInt 100)], aud_CreatedAt = 30\<rparr>"

definition d3 :: db where
  "d3 = d2\<lparr>t_jobs := [complete_row 30 (lease_row ''worker-uuid'' 30 job2)], t_snapshots := [snapshot3],
     t_checks := checks3, t_audit := [audit1, audit2, audit3]\<rparr>"

lemma evaluation3:
  "Evaluate (local uuid_New) (scanService service1 policy1) 20 30 (process 30 30 d, others) =
     (\<lparr>res_Snapshot = snapshot3, res_Checks = checks3\<rparr>, (process 41 30 d, others))"
  by (simp add: Evaluate_def findings_def passIf_def warnIf_def scanService_def row_fields buildCheck_def
      letM_def local_def uuid_New_def process_def score_of_def state_of_def Let_def snapshot3_def
      checks3_def check3_def)

lemma check3_fields:
  "chk_ID (check3 i n m) = i" "chk_SnapshotID (check3 i n m) = 40" "chk_ServiceID (check3 i n m) = 1"
  "chk_Status (check3 i n m) = CheckStatusPass"
  by (simp_all add: check3_def)

text \<open>The steps of the worker, call by call.\<close>

lemma claim3:
  "Store_ClaimJobs ''worker-uuid'' 10 60 (process 30 30 d2) =
     (Inr [scanJob (lease_row ''worker-uuid'' 30 job2)],
      (process 30 30 (d2\<lparr>t_jobs := [lease_row ''worker-uuid'' 30 job2]\<rparr>)))"
  by (simp add: run_simps Store_ClaimJobs_def claim_stmt_def candidate_jobs_def claimable_def Let_def
      d2_def d1_def job2_def lease_row_def)

lemma save3:
  "Store_SaveReadinessEvaluation snapshot3 checks3 (process 41 30 (d2\<lparr>t_jobs := [lease_row ''worker-uuid'' 30 job2]\<rparr>)) =
     (Inr (), process 41 30 (d2\<lparr>t_jobs := [lease_row ''worker-uuid'' 30 job2], t_snapshots := [snapshot3],
        t_checks := checks3\<rparr>))"
  by (simp add: run_simps Store_SaveReadinessEvaluation_def d2_def d1_def job2_def lease_row_def snapshot3_def
      checks3_def check3_fields row_fields)

lemma get3:
  "Store_GetService 1 (process k t (d2\<lparr>t_jobs := js\<rparr>)) =
     (Inr (scanService service1 policy1), process k t (d2\<lparr>t_jobs := js\<rparr>))"
  by (simp add: run_simps d2_def d1_def row_fields)

lemma complete3:
  "Store_MarkJobCompleted 20 ''worker-uuid'' (process 42 30 (d2\<lparr>t_jobs := [lease_row ''worker-uuid'' 30 job2],
        t_snapshots := [snapshot3], t_checks := checks3, t_audit := as\<rparr>)) =
     (Inr (), process 42 30 (d2\<lparr>t_jobs := [complete_row 30 (lease_row ''worker-uuid'' 30 job2)],
        t_snapshots := [snapshot3], t_checks := checks3, t_audit := as\<rparr>))"
  by (simp add: run_simps Store_MarkJobCompleted_def update_one_def affected_one_def owned_by_def rows_where_def
      job2_def lease_row_def)

lemma process_draws:
  "time_Now (process k t d) = (t, process k t d)"
  "uuid_New (process k t d) = (k, process (k + 1) t d)"
  by (simp_all add: process_def time_Now_def uuid_New_def)

lemma process_db [simp]: "w_db (process k t d) = d" "(process k t d)\<lparr>w_db := d'\<rparr> = process k t d'"
  by (simp_all add: process_def)

lemma audit3_insert:
  "Store_InsertAuditEvent audit3 (process 42 30 (d2\<lparr>t_jobs := js, t_snapshots := ss, t_checks := cs\<rparr>)) =
     (Inr (), process 42 30 (d2\<lparr>t_jobs := js, t_snapshots := ss, t_checks := cs, t_audit := [audit1, audit2, audit3]\<rparr>))"
  by (simp add: run_simps d2_def d1_def row_fields audit3_def)

lemma run3: "run 30 30 (Work 7 10 60) d2 = d3"
proof -
  let ?c = "SharedControlPlane L0 5" and ?js = "[lease_row ''worker-uuid'' 30 job2]"
  have job: "ControlPlane_ProcessServiceEvaluationJob ?c (scanJob (lease_row ''worker-uuid'' 30 job2)) ''worker-uuid''
      (process 30 30 (d2\<lparr>t_jobs := ?js\<rparr>), sconst id) =
    (Inr (), (process 42 30 (d2\<lparr>t_jobs := ?js, t_snapshots := [snapshot3], t_checks := checks3,
       t_audit := [audit1, audit2, audit3]\<rparr>), sconst id))"
  proof -
    have a: "\<lparr>aud_ID = 41, aud_ActorSubject = ''worker-uuid'', aud_ActorRole = RolePlatformAdmin,
      aud_EventType = ''service.evaluated'', aud_ResourceType = ''service'', aud_ResourceID = svc_ID (scanService service1 policy1),
      aud_RequestID = ''uuid'', aud_Details = [(''snapshot_id'', AnyString ''uuid''),
       (''state'', AnyString (ReadinessState_string (snap_State snapshot3))), (''score'', AnyInt (snap_Score snapshot3))],
      aud_CreatedAt = 30\<rparr> = audit3"
      by (simp add: audit3_def scanService_def row_fields snapshot3_def)
    have j: "job_ResourceID (scanJob (lease_row ''worker-uuid'' 30 job2)) = 1"
      "job_ID (scanJob (lease_row ''worker-uuid'' 30 job2)) = 20"
      by (simp_all add: scanJob_def lease_row_def job2_def)
    show ?thesis
      by (simp add: ControlPlane_ProcessServiceEvaluationJob_def SharedControlPlane_def AmidOthers_def
          PostgresRepository_def L0_def combinator_defs amid_def local_def [of time_Now] j get3 process_draws evaluation3
          save3 audited_def auditEvent_def local_def [of uuid_New] worker_principal_def a audit3_insert)
  qed
  have w: "wk_service (worker_of L0 ?c 7 10 60) = ?c" "wk_id (worker_of L0 ?c 7 10 60) = ''worker-uuid''"
    "wk_repo (worker_of L0 ?c 7 10 60) = AmidOthers (PostgresRepository (\<lambda>e. ''library error''))"
    "wk_batchSize (worker_of L0 ?c 7 10 60) = 10" "wk_lease (worker_of L0 ?c 7 10 60) = 60"
    by (simp_all add: worker_of_def NewWorker_def SharedControlPlane_def L0_def)
  have j: "job_Type (scanJob (lease_row ''worker-uuid'' 30 job2)) = JobTypeServiceEvaluation"
    "job_ID (scanJob (lease_row ''worker-uuid'' 30 job2)) = 20"
    by (simp_all add: scanJob_def lease_row_def job2_def)
  show ?thesis
    by (simp add: run_def runOnce_def watched_def in_world_def w AmidOthers_def PostgresRepository_def tryM_def amid_def
        claim3 process_jobs.simps processJob_def j catchM_def job wrapM_def complete3 letM_def WorkerJobsTotal_Inc_def
        log_worker_def okM_def d3_def)
qed

definition candidate4 :: candidates_row where
  "candidate4 = candidates_row.truncate (pending_candidate (candidate_input 1) 50 40)"

definition audit4 :: AuditEvent where
  "audit4 = \<lparr>aud_ID = 51, aud_ActorSubject = ''admin'', aud_ActorRole = RolePlatformAdmin,
     aud_EventType = ''deployment_candidate.created'', aud_ResourceType = ''deployment_candidate'',
     aud_ResourceID = 50, aud_RequestID = ''req'', aud_Details = [(''service_id'', AnyString ''uuid''),
       (''environment'', AnyString ''production''), (''version'', AnyString ''v1'')], aud_CreatedAt = 40\<rparr>"

definition d4 :: db where
  "d4 = d3\<lparr>t_candidates := [candidate4], t_audit := [audit1, audit2, audit3, audit4]\<rparr>"

lemma candidate_input_valid: "DeploymentCandidateInput_Validate sample_parsers (candidate_input 1) = None"
proof -
  have "TrimSpace ''production'' = ''production''"
    by (rule TrimSpace_graphic) (simp add: graphic_def space_lead_def space_tail_def space_encodings_def)
  then show ?thesis
    by (simp add: DeploymentCandidateInput_Validate_def candidate_input_def validateEmail_None email_ok_def
        sample_parsers_def trimmed_values uuid_Nil_def)
qed

lemma candidate_input_fields:
  "cin_ServiceID (candidate_input i) = i" "cin_Environment (candidate_input i) = ''production''"
  "cin_Version (candidate_input i) = ''v1''"
  by (simp_all add: candidate_input_def)

lemma run4: "run 50 40 (Request (candidate_input 1) admin ''req'') d3 = d4"
  unfolding run_def
  by (simp add: run_simps ControlPlane_CreateDeploymentCandidate_def candidate_input_valid
      Store_CreateDeploymentCandidate_def Store_GetDeploymentCandidate_def select_candidate_def scanCandidate_def
      ref_snapshot_def candidates_row.defs pending_candidate_def candidate_input_fields
      d4_def d3_def d2_def d1_def row_fields audit3_def candidate4_def audit4_def)

definition decision5 :: PromotionDecision where
  "decision5 = \<lparr>dec_ID = 60, dec_CandidateID = 50, dec_SnapshotID = Some 40,
     dec_Decision = CandidateStatusApproved, dec_Summary = ''Approved: latest readiness snapshot is ready.'',
     dec_CreatedAt = 50\<rparr>"

definition audit5 :: AuditEvent where
  "audit5 = \<lparr>aud_ID = 61, aud_ActorSubject = ''admin'', aud_ActorRole = RolePlatformAdmin,
     aud_EventType = ''deployment_candidate.evaluated'', aud_ResourceType = ''deployment_candidate'',
     aud_ResourceID = 50, aud_RequestID = ''req'', aud_Details = [(''decision'', AnyString ''approved''),
       (''reason'', AnyString ''Approved: latest readiness snapshot is ready.'')], aud_CreatedAt = 50\<rparr>"

definition candidate5 :: candidates_row where
  "candidate5 = decide_row CandidateStatusApproved ''Approved: latest readiness snapshot is ready.'' (Some 40) 50 candidate4"

definition d5 :: db where
  "d5 = d4\<lparr>t_candidates := [candidate5], t_decisions := [decision5],
     t_audit := [audit1, audit2, audit3, audit4, audit5]\<rparr>"

lemma run5: "run 60 50 (Decide 50 admin ''req'') d4 = d5"
  unfolding run_def
  by (simp add: run_simps ControlPlane_EvaluateDeploymentCandidate_def promotion_verdict_def
      Store_SavePromotionDecision_def Store_GetDeploymentCandidate_def Store_GetLatestSnapshot_def
      select_latest_snapshot_def select_candidate_def scanCandidate_def decide_stmt_def decide_row_def
      upsert_decision_def pending_with_def rows_where_def newest_by_def
      ref_snapshot_def candidates_row.defs pending_candidate_def candidate_input_def snapshot3_def Let_def
      d5_def d4_def d3_def d2_def d1_def row_fields audit3_def candidate4_def candidate5_def audit4_def
      audit5_def decision5_def)

lemma scenario_reachable: "reachable L0 d1" "reachable L0 d2" "reachable L0 d3" "reachable L0 d4" "reachable L0 d5"
proof -
  show 1: "reachable L0 d1" using run_reachable [OF reachable.installed, of 1 10 "Register ready_input admin ''req''"]
    by (simp only: run1)
  show 2: "reachable L0 d2" using run_reachable [OF 1, of 20 20 "Queue 1 ''key'' admin ''req''"] by (simp only: run2)
  show 3: "reachable L0 d3" using run_reachable [OF 2, of 30 30 "Work 7 10 60"] by (simp only: run3)
  show 4: "reachable L0 d4" using run_reachable [OF 3, of 50 40 "Request (candidate_input 1) admin ''req''"]
    by (simp only: run4)
  show "reachable L0 d5" using run_reachable [OF 4, of 60 50 "Decide 50 admin ''req''"] by (simp only: run5)
qed

lemma scenario_tables:
  "t_candidates d4 = [candidate4]" "t_candidates d5 = [candidate5]" "t_decisions d5 = [decision5]"
  "t_snapshots d5 = [snapshot3]" "t_checks d5 = checks3" "t_services d5 = [service1]"
  "t_jobs d5 = [complete_row 30 (lease_row ''worker-uuid'' 30 job2)]"
  by (simp_all add: d5_def d4_def d3_def d2_def d1_def)

lemma candidate_fields:
  "cand_ID candidate4 = 50" "cand_Status candidate4 = CandidateStatusPending" "cand_ServiceID candidate4 = 1"
  "cand_ID candidate5 = 50" "cand_Status candidate5 = CandidateStatusApproved" "cand_ServiceID candidate5 = 1"
  "cand_LastSnapshotID candidate5 = Some 40"
  by (simp_all add: candidate4_def candidate5_def decide_row_def pending_candidate_def candidate_input_fields
      candidates_row.defs)

text \<open>The same candidate decided before any evaluation: a rejection without a snapshot.\<close>

definition d6 :: db where
  "d6 = d1\<lparr>t_candidates := [candidate4], t_audit := [audit1, audit4]\<rparr>"

lemma run6: "run 50 40 (Request (candidate_input 1) admin ''req'') d1 = d6"
  unfolding run_def
  by (simp add: run_simps ControlPlane_CreateDeploymentCandidate_def candidate_input_valid
      Store_CreateDeploymentCandidate_def Store_GetDeploymentCandidate_def select_candidate_def scanCandidate_def
      ref_snapshot_def candidates_row.defs pending_candidate_def candidate_input_fields
      d6_def d1_def row_fields candidate4_def audit4_def)

definition no_snapshot :: string where
  "no_snapshot = ''Rejected: no readiness snapshot exists for this service yet.''"

definition candidate7 :: candidates_row where
  "candidate7 = decide_row CandidateStatusRejected no_snapshot None 50 candidate4"

definition d7 :: db where
  "d7 = d6\<lparr>t_candidates := [candidate7],
     t_decisions := [\<lparr>dec_ID = 60, dec_CandidateID = 50, dec_SnapshotID = None,
       dec_Decision = CandidateStatusRejected, dec_Summary = no_snapshot, dec_CreatedAt = 50\<rparr>],
     t_audit := [audit1, audit4, audit5\<lparr>aud_Details := [(''decision'', AnyString ''rejected''),
       (''reason'', AnyString no_snapshot)]\<rparr>]\<rparr>"

lemma run7: "run 60 50 (Decide 50 admin ''req'') d6 = d7"
  unfolding run_def
  by (simp add: run_simps ControlPlane_EvaluateDeploymentCandidate_def promotion_verdict_def
      Store_SavePromotionDecision_def Store_GetDeploymentCandidate_def Store_GetLatestSnapshot_def
      select_latest_snapshot_def select_candidate_def scanCandidate_def decide_stmt_def decide_row_def
      upsert_decision_def pending_with_def rows_where_def newest_by_def unless_not_found_def
      ref_snapshot_def candidates_row.defs pending_candidate_def candidate_input_def Let_def
      d7_def d6_def d1_def row_fields candidate4_def candidate7_def audit4_def audit5_def no_snapshot_def)

lemma unready_reachable: "reachable L0 d6" "reachable L0 d7"
proof -
  show 6: "reachable L0 d6" using run_reachable [OF scenario_reachable(1), of 50 40 "Request (candidate_input 1) admin ''req''"]
    by (simp only: run6)
  show "reachable L0 d7" using run_reachable [OF 6, of 60 50 "Decide 50 admin ''req''"] by (simp only: run7)
qed

lemma unready_fields:
  "t_candidates d7 = [candidate7]" "cand_ID candidate7 = 50" "cand_Status candidate7 = CandidateStatusRejected"
  "cand_LastSnapshotID candidate7 = None"
  by (simp_all add: d7_def candidate7_def decide_row_def candidate4_def pending_candidate_def
      candidate_input_fields candidates_row.defs)

end
