(* ===== verification/Calm.thy ===== *)
theory Calm
  imports System
begin

section \<open>Runs without faults\<close>

text \<open>
  In a calm world every round trip works, so the calls of the store are plain functions of the
  tables. The functional properties of the handlers are stated over calm worlds; the safety
  properties over all of them.
\<close>

definition calm :: "world \<Rightarrow> bool" where
  "calm w \<longleftrightarrow> w_faults w = sconst NoFault"

text \<open>The latest snapshot of a service.\<close>

definition latest_snapshot :: "uuid \<Rightarrow> db \<Rightarrow> ReadinessSnapshot option" where
  "latest_snapshot k d = newest_by snap_EvaluatedAt (filter (\<lambda>s. snap_ServiceID s = k) (t_snapshots d))"

lemma calm_read: "calm w \<Longrightarrow> pg_read q w = (q (w_db w), w)"
  by (cases w) (simp add: calm_def pg_read_def next_trip_def)

lemma calm_write: "calm w \<Longrightarrow> pg_write s w = (case s (w_db w) of Inl e \<Rightarrow> (Inl e, w) | Inr (a, d) \<Rightarrow> (Inr a, w\<lparr>w_db := d\<rparr>))"
  by (cases w) (simp add: calm_def pg_write_def next_trip_def split: sum.split)

lemma calm_tx: "calm w \<Longrightarrow> (\<And>r w'. body w = (r, w') \<Longrightarrow> calm w') \<Longrightarrow> 
   with_tx b c body w = (case body w of (Inl e, w') \<Rightarrow> (Inl e, w'\<lparr>w_db := w_db w\<rparr>) | (Inr a, w') \<Rightarrow> (Inr a, w'))"
  by (simp add: with_tx_def calm_read wrapM_def split: prod.split sum.split) (auto simp: calm_def next_trip_def)

lemma calm_simps [simp]:
  "calm (w\<lparr>w_db := d\<rparr>) = calm w" "calm (w\<lparr>w_clock := c\<rparr>) = calm w" "calm (w\<lparr>w_pg_clock := c\<rparr>) = calm w"
   "calm (w\<lparr>w_uuids := u\<rparr>) = calm w" "calm (w\<lparr>w_locked := l\<rparr>) = calm w"
  by (simp_all add: calm_def)

lemma GetDeploymentCandidate_calm:
  "calm w \<Longrightarrow> Store_GetDeploymentCandidate i w = (select_candidate i (w_db w), w)"
  by (simp add: Store_GetDeploymentCandidate_def wrapM_def calm_read select_candidate_def unless_not_found_def split: option.split)

lemma GetLatestSnapshot_calm:
  "calm w \<Longrightarrow> Store_GetLatestSnapshot k w =
     ((case latest_snapshot k (w_db w) of None \<Rightarrow> Inl ErrNotFound | Some s \<Rightarrow> Inr s), w)"
  by (simp add: Store_GetLatestSnapshot_def wrapM_def calm_read select_latest_snapshot_def latest_snapshot_def unless_not_found_def split: option.split)


lemma InsertAuditEvent_calm:
  "calm w \<Longrightarrow> aud_ID e \<notin> aud_ID ` set (t_audit (w_db w)) \<Longrightarrow>
     Store_InsertAuditEvent e w = (Inr (), w\<lparr>w_db := (w_db w)\<lparr>t_audit := t_audit (w_db w) @ [e]\<rparr>\<rparr>)"
  by (simp add: Store_InsertAuditEvent_def wrapM_def calm_write insert_audit_event_def insert_when_def)

lemma NewControlPlane_fields:
  "cp_repo (NewControlPlane L n) = PostgresRepository (lib_error_text L)"
  "cp_now (NewControlPlane L n) = time_Now" "cp_uuid_New (NewControlPlane L n) = uuid_New"
  "cp_jobMaxAttempts (NewControlPlane L n) = n" "cp_parsers (NewControlPlane L n) = lib_parsers L"
  "cp_uuid_String (NewControlPlane L n) = lib_uuid_String L"
  by (simp_all add: NewControlPlane_def)

lemma audited_calm:
  assumes "calm w" "shd (w_uuids w) \<notin> aud_ID ` set (t_audit (w_db w))"
  shows "audited (NewControlPlane L n) now pr rid et rt i ds w =
    (let e = \<lparr>aud_ID = shd (w_uuids w), aud_ActorSubject = pr_Subject pr, aud_ActorRole = pr_Role pr,
         aud_EventType = et, aud_ResourceType = rt, aud_ResourceID = i, aud_RequestID = rid, aud_Details = ds,
         aud_CreatedAt = now\<rparr>
     in (Inr (), w\<lparr>w_uuids := stl (w_uuids w), w_db := (w_db w)\<lparr>t_audit := t_audit (w_db w) @ [e]\<rparr>\<rparr>))"
  using assms by (simp add: audited_def auditEvent_def letM_def NewControlPlane_fields PostgresRepository_def
      uuid_New_def InsertAuditEvent_calm Let_def)

end
