(* ===== verification/Promotion.thy ===== *)
theory Promotion
  imports Scenario Calm
begin

section \<open>Promotion decisions\<close>

text \<open>
  What the program promises about deployment candidates: an approval rests on stored evidence, a
  decision is final, and the handler decides by the latest snapshot. The safety properties are about
  the tables every interleaving of API processes and workers can reach.
\<close>

lemma stored_verdict: "db_inv d \<Longrightarrow> s \<in> set (t_snapshots d) \<Longrightarrow> verdict_ok (checks_of (snap_ID s) d) s"
  by (simp add: db_inv_def snapshots_ok_def)

lemma approved_ok:
  assumes "candidate_ok d c" "cand_Status c = CandidateStatusApproved"
  shows "decision_recorded c d"
    "\<exists>i. cand_LastSnapshotID c = Some i \<and> evidence ReadinessReady (cand_ServiceID c) i d"
  using assms by (simp_all add: candidate_ok.simps)

lemma rejected_ok:
  assumes "candidate_ok d c" "cand_Status c = CandidateStatusRejected"
  shows "decision_recorded c d"
    "cand_LastSnapshotID c = Some i \<Longrightarrow> \<exists>st. st \<noteq> ReadinessReady \<and> evidence st (cand_ServiceID c) i d"
  using assms by (simp_all add: candidate_ok.simps)

lemma verdict_ready:
  assumes "verdict_ok cs s" "snap_State s = ReadinessReady"
  shows "snap_Score s = 100" "\<forall>c \<in> set cs. chk_Status c = CheckStatusPass"
proof -
  show pass: "\<forall>c \<in> set cs. chk_Status c = CheckStatusPass"
    using assms by (simp add: verdict_ok_def)
  have "status_count CheckStatusFail cs = 0" "status_count CheckStatusWarn cs = 0"
    using pass by (simp_all add: status_count_0)
  with assms(1) show "snap_Score s = 100" by (simp add: verdict_ok_def)
qed

text \<open>
  C1. No unsound approval. In every reachable state an approved candidate carries the identifier of a
  stored snapshot of its own service whose state is ready and whose score is 100, the ten named checks
  of that snapshot are stored and every one of them passes, and the decision is on record.
\<close>

theorem approved_has_evidence:
  assumes "reachable L d" and "c \<in> set (t_candidates d)" and "cand_Status c = CandidateStatusApproved"
  shows "\<exists>s \<in> set (t_snapshots d).
      cand_LastSnapshotID c = Some (snap_ID s) \<and> snap_ServiceID s = cand_ServiceID c \<and>
      snap_State s = ReadinessReady \<and> snap_Score s = 100 \<and>
      chk_CheckName ` set (checks_of (snap_ID s) d) = set check_names \<and> length (checks_of (snap_ID s) d) = 10 \<and>
      (\<forall>k \<in> set (checks_of (snap_ID s) d). chk_Status k = CheckStatusPass) \<and>
      (\<exists>p \<in> set (t_decisions d). dec_CandidateID p = cand_ID c \<and>
         dec_Decision p = CandidateStatusApproved \<and> dec_SnapshotID p = Some (snap_ID s))"
proof -
  have inv: "db_inv d" by (rule reachable_inv [OF assms(1)])
  then have "candidate_ok d c" using assms(2) by (simp add: db_inv_def candidates_ok_def)
  then obtain i where i: "cand_LastSnapshotID c = Some i" "evidence ReadinessReady (cand_ServiceID c) i d"
    and rec: "decision_recorded c d"
    using approved_ok assms(3) by blast
  then obtain s where s: "s \<in> set (t_snapshots d)" "snap_ID s = i" "snap_ServiceID s = cand_ServiceID c"
    "snap_State s = ReadinessReady"
    by (auto simp: evidence_def)
  note v = stored_verdict [OF inv s(1)]
  then have "length (checks_of (snap_ID s) d) = 10"
    "chk_CheckName ` set (checks_of (snap_ID s) d) = set check_names"
    by (simp_all add: verdict_ok_def check_names_def)
  moreover have "\<exists>p \<in> set (t_decisions d). dec_CandidateID p = cand_ID c \<and>
      dec_Decision p = CandidateStatusApproved \<and> dec_SnapshotID p = Some (snap_ID s)"
    using rec assms(3) i(1) s(2) unfolding decision_recorded_def by metis
  ultimately show ?thesis using s i verdict_ready [OF v s(4)] by blast
qed

theorem approved_has_evidence_witness:
  "candidate5 \<in> set (t_candidates d5) \<and> cand_LastSnapshotID candidate5 = Some 40 \<and>
   (\<exists>s \<in> set (t_snapshots d5). cand_LastSnapshotID candidate5 = Some (snap_ID s) \<and> snap_Score s = 100)"
  using approved_has_evidence [OF scenario_reachable(5), of candidate5] candidate_fields scenario_tables by auto



subsection \<open>Finality\<close>

lemma checks_fixed:
  assumes "db_inv d" "db_inv d'" "grows d d'" "s \<in> set (t_snapshots d)"
  shows "set (checks_of (snap_ID s) d') = set (checks_of (snap_ID s) d)"
proof -
  have s': "s \<in> set (t_snapshots d')" using assms(3,4) unfolding grows_def by blast
  have len: "length (checks_of (snap_ID s) e) = length check_names" if "db_inv e" "s \<in> set (t_snapshots e)" for e
    using stored_verdict [OF that] by (simp add: verdict_ok_def)
  have dist: "distinct (checks_of i e)" if "db_inv e" for i e
    using that by (simp add: db_inv_def wf_keys_def checks_of_def distinct_map)
  have "set (checks_of (snap_ID s) d) \<subseteq> set (checks_of (snap_ID s) d')"
    using assms(3) unfolding grows_def by (auto simp: checks_of_def)
  moreover have "card (set (checks_of (snap_ID s) d)) = card (set (checks_of (snap_ID s) d'))"
    using assms s' by (simp add: distinct_card dist len)
  ultimately show ?thesis by (metis List.finite_set card_subset_eq)
qed

lemma reachable_operation:
  assumes "reachable L (w_db w)" "\<forall>f \<in> sset others. elsewhere L f"
    "perform L (SharedControlPlane L n) op (w, others) = (w', others')"
  shows "db_inv (w_db w)" "db_inv (w_db w')" "grows (w_db w) (w_db w')"
  using reachable_inv reachable_step assms reachable.operates by metis+

lemma unique_candidate:
  "db_inv d \<Longrightarrow> c \<in> set (t_candidates d) \<Longrightarrow> c' \<in> set (t_candidates d) \<Longrightarrow> cand_ID c' = cand_ID c \<Longrightarrow> c' = c"
  by (auto simp: db_inv_def wf_keys_def distinct_map dest: inj_onD)

text \<open>
  C2. Decisions and evidence are final. Whatever operation runs in a reachable state, with any faults
  and with other processes acting between its calls, every decided candidate is afterwards exactly
  what it was and is still the only row with its identifier; every snapshot is still there with
  exactly the checks it had; and no audit event is lost.
\<close>

theorem decided_is_final:
  assumes "reachable L (w_db w)" and "\<forall>f \<in> sset others. elsewhere L f"
    and "perform L (SharedControlPlane L n) op (w, others) = (w', others')"
  shows "(\<forall>c \<in> set (t_candidates (w_db w)). cand_Status c \<noteq> CandidateStatusPending \<longrightarrow>
        {c' \<in> set (t_candidates (w_db w')). cand_ID c' = cand_ID c} = {c})
    \<and> (\<forall>s \<in> set (t_snapshots (w_db w)). s \<in> set (t_snapshots (w_db w')) \<and>
         set (checks_of (snap_ID s) (w_db w')) = set (checks_of (snap_ID s) (w_db w)))
    \<and> set (t_audit (w_db w)) \<subseteq> set (t_audit (w_db w'))"
proof -
  note step = reachable_operation [OF assms]
  have "{c' \<in> set (t_candidates (w_db w')). cand_ID c' = cand_ID c} = {c}"
    if c: "c \<in> set (t_candidates (w_db w))" "cand_Status c \<noteq> CandidateStatusPending" for c
    using grows_decided [OF step(3) c] unique_candidate [OF step(2)] by blast
  moreover have "s \<in> set (t_snapshots (w_db w'))" if "s \<in> set (t_snapshots (w_db w))" for s
    using step(3) that unfolding grows_def by blast
  moreover have "set (t_audit (w_db w)) \<subseteq> set (t_audit (w_db w'))" using step(3) by (simp add: grows_def)
  ultimately show ?thesis using checks_fixed [OF step] by blast
qed

theorem decided_is_final_witness:
  "\<exists>w' others'. perform L0 (SharedControlPlane L0 5) (Decide 50 admin ''again'') (process 70 60 d5, sconst id) = (w', others') \<and>
     {c' \<in> set (t_candidates (w_db w')). cand_ID c' = 50} = {candidate5} \<and>
     set (checks_of 40 (w_db w')) = set (checks_of 40 d5)"
proof -
  obtain w' o' where p: "perform L0 (SharedControlPlane L0 5) (Decide 50 admin ''again'')
      (process 70 60 d5, sconst id) = (w', o')" by fastforce
  have "reachable L0 (w_db (process 70 60 d5))" by (simp add: scenario_reachable)
  from decided_is_final [OF this _ p] p show ?thesis
    by (simp add: scenario_tables candidate_fields elsewhere_def snapshot3_def)
qed

text \<open>
  C13. The invariant of the tables under interference. If the tables are well-formed and whatever other
  processes do between this operation's calls keeps them so and undoes nothing, the operation, with
  any outcome of its own calls, keeps them so and undoes nothing, and so is a step the other processes
  can rely on. (\<open>db_inv\<close>: keys are unique, references resolve, job rows are states of a lease, and every
  snapshot and every decision carries its evidence.)
\<close>

theorem operation_amid_others:
  assumes "db_inv (w_db w)" and "\<forall>f \<in> sset others. lawful f"
    and "perform L (SharedControlPlane L n) op (w, others) = (w', others')"
  shows "db_inv (w_db w') \<and> grows (w_db w) (w_db w')
    \<and> lawful (\<lambda>d. w_db (perform L (NewControlPlane L n) op (w\<lparr>w_db := d\<rparr>)))"
  using operation_step [OF assms] perform_lawful by (simp add: since_def)

text \<open>Another process decides the same candidate before every call.\<close>

theorem operation_amid_others_witness:
  "\<exists>w' others'. perform L0 (SharedControlPlane L0 5) (Decide 50 admin ''req'')
       (process 60 50 d4, sconst (\<lambda>d. w_db (perform L0 (NewControlPlane L0 5) (Decide 50 admin ''other'')
          ((process 80 50 d4)\<lparr>w_db := d\<rparr>)))) = (w', others') \<and>
     db_inv (w_db w') \<and> snapshot3 \<in> set (t_snapshots (w_db w'))"
proof -
  let ?f = "\<lambda>d. w_db (perform L0 (NewControlPlane L0 5) (Decide 50 admin ''other'') ((process 80 50 d4)\<lparr>w_db := d\<rparr>))"
  obtain w' o' where p: "perform L0 (SharedControlPlane L0 5) (Decide 50 admin ''req'')
      (process 60 50 d4, sconst ?f) = (w', o')" by fastforce
  have inv: "db_inv (w_db (process 60 50 d4))" using reachable_inv scenario_reachable(4) by simp
  have "\<forall>f \<in> sset (sconst ?f). lawful f"
    by (simp only: sset_sconst ball_simps) (intro conjI perform_lawful TrueI)
  note kept = operation_amid_others [OF inv this p, unfolded process_db]
  have "snapshot3 \<in> set (t_snapshots d4)" by (simp add: d4_def d3_def)
  with kept have s: "snapshot3 \<in> set (t_snapshots (w_db w'))" unfolding grows_def by (elim conjE) (rule subsetD)
  show ?thesis by (intro exI conjI, rule p, rule conjunct1 [OF kept], rule s)
qed

subsection \<open>The handler\<close>

text \<open>The decision a latest snapshot leads to.\<close>

definition decision_for :: "ReadinessSnapshot option \<Rightarrow> CandidateStatus" where
  "decision_for so = (if \<exists>s. so = Some s \<and> snap_State s = ReadinessReady
     then CandidateStatusApproved else CandidateStatusRejected)"

definition decided_db ::
  "uuid \<Rightarrow> CandidateStatus \<Rightarrow> string \<Rightarrow> uuid option \<Rightarrow> time \<Rightarrow> PromotionDecision \<Rightarrow> db \<Rightarrow> db" where
  "decided_db i status reason x now p d = d\<lparr>
     t_candidates := update_where (pending_with i) (decide_row status reason x now) (t_candidates d),
     t_decisions := t_decisions d @ [p]\<rparr>"

lemma image_update_where:
  "(\<And>r. p r \<Longrightarrow> g (f r) = g r) \<Longrightarrow> g ` set (update_where p f rows) = g ` set rows"
  by (metis map_update_where list.set_map)

lemma row_of_candidate:
  "db_inv d \<Longrightarrow> c \<in> set (t_candidates d) \<Longrightarrow> row_of cand_ID (cand_ID c) (t_candidates d) = Some c"
  by (rule row_of_unique) (simp_all add: db_inv_def wf_keys_def)

lemma pending_count:
  assumes "db_inv d" "c \<in> set (t_candidates d)"
  shows "rows_where (pending_with (cand_ID c)) (t_candidates d) = of_bool (cand_Status c = CandidateStatusPending)"
  using rows_where_keyed [of cand_ID "t_candidates d" "cand_ID c" "\<lambda>c. cand_Status c = CandidateStatusPending"]
    row_of_candidate [OF assms] assms(1)
  by (simp add: pending_with_def [abs_def] db_inv_def wf_keys_def)

lemma undecided:
  assumes "db_inv d" "c \<in> set (t_candidates d)" "cand_Status c = CandidateStatusPending"
  shows "cand_ID c \<notin> dec_CandidateID ` set (t_decisions d)"
proof -
  have "candidate_ok d c" using assms(1,2) by (simp add: db_inv_def candidates_ok_def)
  then show ?thesis by (simp add: candidate_ok.simps assms(3))
qed

lemma SavePromotionDecision_calm:
  assumes calm: "calm w" and inv: "db_inv (w_db w)"
    and c: "c \<in> set (t_candidates (w_db w))" "cand_Status c = CandidateStatusPending"
    and p: "dec_CandidateID p = cand_ID c" "dec_SnapshotID p = map_option snap_ID so" "dec_Decision p = status"
    and fresh: "dec_ID p \<notin> dec_ID ` set (t_decisions (w_db w))"
    and ref: "ref_snapshot (map_option snap_ID so) (w_db w)"
    and status: "status \<in> {CandidateStatusApproved, CandidateStatusRejected}"
  shows "Store_SavePromotionDecision (cand_ID c) so p status reason w =
     (let d = decided_db (cand_ID c) status reason (map_option snap_ID so) (shd (w_clock w)) p (w_db w)
      in (select_candidate (cand_ID c) d, w\<lparr>w_clock := stl (w_clock w), w_db := d\<rparr>))"
proof -
  let ?now = "shd (w_clock w)"
  let ?d1 = "(w_db w)\<lparr>t_candidates := update_where (pending_with (cand_ID c))
      (decide_row status reason (map_option snap_ID so) ?now) (t_candidates (w_db w))\<rparr>"
  have one: "rows_where (pending_with (cand_ID c)) (t_candidates (w_db w)) = 1"
    using pending_count [OF inv c(1)] c(2) by simp
  have s: "decide_stmt (cand_ID c) status reason (map_option snap_ID so) ?now (w_db w) = Inr (1, ?d1)"
    using status ref by (auto simp: decide_stmt_def one)
  have same_ref: "ref_snapshot x ?d1 = ref_snapshot x (w_db w)" for x
    by (simp add: ref_snapshot_def split: option.split)
  have facts: "dec_CandidateID p \<notin> dec_CandidateID ` set (t_decisions ?d1)" "dec_ID p \<notin> dec_ID ` set (t_decisions ?d1)"
    "dec_CandidateID p \<in> cand_ID ` set (t_candidates ?d1)" "ref_snapshot (dec_SnapshotID p) ?d1"
    using undecided [OF inv c] fresh ref imageI [OF c(1), of cand_ID] p same_ref
    by (simp_all add: image_update_where decide_row_def)
  have u: "upsert_decision p ?d1 = Inr ((), ?d1\<lparr>t_decisions := t_decisions ?d1 @ [p]\<rparr>)"
    unfolding upsert_decision_def insert_when_def using facts status p by (simp only: require.simps if_True if_False) simp
  let ?w' = "w\<lparr>w_clock := stl (w_clock w), w_db := ?d1\<lparr>t_decisions := t_decisions ?d1 @ [p]\<rparr>\<rparr>"
  let ?body = "letM time_Now (\<lambda>now.
        tryM (wrapM (wrap_prefix ''postgres: update deployment candidate decision: '')
            (pg_write (decide_stmt (cand_ID c) status reason (map_option snap_ID so) now))) (\<lambda>n.
        if n \<noteq> 1 then errM ErrStateConflict
        else wrapM (wrap_prefix ''postgres: upsert promotion decision: '') (pg_write (upsert_decision p))))"
  have body: "?body w = (Inr (), ?w')"
    by (simp add: letM_def time_Now_def tryM_def wrapM_def calm_write calm s u)
  have tx: "with_tx b k ?body w = (Inr (), ?w')" for b k
    by (subst calm_tx [OF calm]) (simp_all only: body prod.case sum.case prod.inject, simp add: calm)
  show ?thesis
    unfolding Store_SavePromotionDecision_def
    by (subst tryM_def) (simp only: tx prod.case sum.case, simp add: GetDeploymentCandidate_calm calm Let_def decided_db_def)
qed


definition reason_for :: "ReadinessSnapshot option \<Rightarrow> string" where
  "reason_for so =
     (case so of None \<Rightarrow> ''Rejected: no readiness snapshot exists for this service yet.''
      | Some s \<Rightarrow> if snap_State s = ReadinessReady then ''Approved: latest readiness snapshot is ready.''
          else ''Rejected: latest readiness snapshot is '' @ ReadinessState_string (snap_State s) @ ''.'')"

lemma verdict_of_latest:
  "promotion_verdict (case so of None \<Rightarrow> Inl ErrNotFound | Some s \<Rightarrow> Inr s) =
     Inr (decision_for so, reason_for so, so)"
  by (auto simp: promotion_verdict_def decision_for_def reason_for_def split: option.split)

lemma select_candidate_row:
  "db_inv d \<Longrightarrow> c \<in> set (t_candidates d) \<Longrightarrow>
     select_candidate (cand_ID c) d = Inr (scanCandidate c
       (map_option (\<lambda>p. p\<lparr>dec_CandidateID := cand_ID c\<rparr>) (row_of dec_CandidateID (cand_ID c) (t_decisions d))))"
  by (simp add: select_candidate_def row_of_candidate)

lemma scanCandidate_fields [simp]:
  "cand_ID (scanCandidate c p) = cand_ID c" "cand_Status (scanCandidate c p) = cand_Status c"
  "cand_ServiceID (scanCandidate c p) = cand_ServiceID c"
  "cand_DecisionReason (scanCandidate c p) = cand_DecisionReason c"
  "cand_LastSnapshotID (scanCandidate c p) = cand_LastSnapshotID c"
  "cand_PromotionDecision (scanCandidate c p) = p"
  by (simp_all add: scanCandidate_def)

lemma latest_snapshot_stored: "latest_snapshot k d = Some s \<Longrightarrow> s \<in> set (t_snapshots d) \<and> snap_ServiceID s = k"
  by (auto simp: latest_snapshot_def dest: newest_by_Some)

lemma select_decided:
  assumes inv: "db_inv d" and c: "c \<in> set (t_candidates d)" "cand_Status c = CandidateStatusPending"
    and p: "dec_CandidateID p = cand_ID c"
  shows "select_candidate (cand_ID c) (decided_db (cand_ID c) status reason x now p d) =
    Inr (scanCandidate (decide_row status reason x now c) (Some p))"
proof -
  have "row_of dec_CandidateID (cand_ID c) (t_decisions d) = None"
    using undecided [OF inv c] by (simp add: row_of_None)
  moreover have same: "p\<lparr>dec_CandidateID := cand_ID c\<rparr> = p" using p by (cases p) simp
  ultimately show ?thesis
    using row_of_candidate [OF inv c(1)] c(2) p
    by (simp add: same select_candidate_def decided_db_def row_of_update_where row_of_append pending_with_def
        decide_row_def)
qed

lemma decide_update:
  assumes "db_inv d" "c \<in> set (t_candidates d)" "cand_Status c = CandidateStatusPending"
  shows "update_where (pending_with (cand_ID c)) f (t_candidates d) =
    map (\<lambda>x. if cand_ID x = cand_ID c then f c else x) (t_candidates d)"
  unfolding update_where_def
proof (rule map_cong [OF refl])
  fix x assume x: "x \<in> set (t_candidates d)"
  show "(if pending_with (cand_ID c) x then f x else x) = (if cand_ID x = cand_ID c then f c else x)"
  proof (cases "cand_ID x = cand_ID c")
    case True
    with unique_candidate [OF assms(1,2) x] have "x = c" by simp
    then show ?thesis using assms(3) by (simp add: pending_with_def)
  next
    case False
    then show ?thesis by (simp add: pending_with_def)
  qed
qed

lemma pending_reads:
  assumes "calm w" "db_inv (w_db w)" "c \<in> set (t_candidates (w_db w))" "cand_ID c = i"
    "cand_Status c = CandidateStatusPending" "so = latest_snapshot (cand_ServiceID c) (w_db w)"
  shows "Store_GetDeploymentCandidate i w = (Inr (scanCandidate c None), w)"
    "Store_GetLatestSnapshot (cand_ServiceID c) w = (case so of None \<Rightarrow> Inl ErrNotFound | Some s \<Rightarrow> Inr s, w)"
  using select_candidate_row [OF assms(2,3)] undecided [OF assms(2,3,5)] assms(4)
  by (simp_all add: GetDeploymentCandidate_calm GetLatestSnapshot_calm assms(1,6) row_of_None [THEN iffD2])

text \<open>
  C3. What an evaluation of a pending candidate does when nothing fails: it approves exactly when the
  service's latest snapshot is ready, otherwise rejects, with the matching reason; it records that very
  snapshot in the candidate row and in one new decision, appends one audit event by the caller, and
  touches nothing else; the returned candidate is the updated row with its decision.
\<close>

theorem EvaluateDeploymentCandidate_decides:
  assumes calm: "calm w" and inv: "reachable L (w_db w)"
    and c: "c \<in> set (t_candidates (w_db w))" "cand_ID c = i" "cand_Status c = CandidateStatusPending"
    and fresh: "shd (w_uuids w) \<notin> dec_ID ` set (t_decisions (w_db w))"
      "shd (stl (w_uuids w)) \<notin> aud_ID ` set (t_audit (w_db w))"
    and so: "so = latest_snapshot (cand_ServiceID c) (w_db w)"
    and r: "row = decide_row (decision_for so) (reason_for so) (map_option snap_ID so) (shd (stl (w_clock w))) c"
  shows "\<exists>w' p e. ControlPlane_EvaluateDeploymentCandidate (NewControlPlane L n) i pr rid w =
      (Inr (scanCandidate row (Some p)), w')
    \<and> dec_CandidateID p = i \<and> dec_SnapshotID p = map_option snap_ID so
    \<and> dec_Decision p = decision_for so \<and> dec_Summary p = reason_for so
    \<and> aud_ActorSubject e = pr_Subject pr \<and> aud_EventType e = ''deployment_candidate.evaluated''
    \<and> aud_ResourceID e = i \<and> aud_RequestID e = rid
    \<and> w_db w' = (w_db w)\<lparr>t_candidates := map (\<lambda>x. if cand_ID x = i then row else x) (t_candidates (w_db w)),
         t_decisions := t_decisions (w_db w) @ [p], t_audit := t_audit (w_db w) @ [e]\<rparr>"
proof -
  have db: "db_inv (w_db w)" by (rule reachable_inv [OF inv])
  let ?status = "decision_for so" and ?reason = "reason_for so" and ?x = "map_option snap_ID so"
  let ?p = "\<lparr>dec_ID = shd (w_uuids w), dec_CandidateID = i, dec_SnapshotID = ?x, dec_Decision = ?status,
    dec_Summary = ?reason, dec_CreatedAt = shd (w_clock w)\<rparr>"
  define w0 where "w0 = w\<lparr>w_clock := stl (w_clock w)\<rparr>"
  define w1 where "w1 = w0\<lparr>w_uuids := stl (w_uuids w)\<rparr>"
  define d where "d = decided_db i ?status ?reason ?x (shd (stl (w_clock w))) ?p (w_db w)"
  define w2 where "w2 = w1\<lparr>w_clock := stl (w_clock w1), w_db := d\<rparr>"
  have ref: "ref_snapshot ?x (w_db w)"
    using latest_snapshot_stored [of "cand_ServiceID c" "w_db w"] so by (auto simp: ref_snapshot_def split: option.split)
  have save: "Store_SavePromotionDecision i so ?p ?status ?reason w1 = (Inr (scanCandidate row (Some ?p)), w2)"
    using SavePromotionDecision_calm [of w1 c ?p so ?status ?reason] db c calm fresh(1) ref
      select_decided [OF db c(1,3), of ?p ?status ?reason ?x "shd (stl (w_clock w))"]
    by (simp add: Let_def r decision_for_def w1_def w0_def w2_def d_def)
  have calm2: "calm w2" and audit_fresh: "shd (w_uuids w2) \<notin> aud_ID ` set (t_audit (w_db w2))"
    using fresh(2) calm by (simp_all add: decided_db_def w1_def w0_def w2_def d_def)
  have draws: "time_Now w = (shd (w_clock w), w0)" "uuid_New w0 = (shd (w_uuids w), w1)"
    by (simp_all add: time_Now_def uuid_New_def w0_def w1_def)
  have map: "update_where (pending_with i) (decide_row ?status ?reason ?x (shd (stl (w_clock w)))) (t_candidates (w_db w))
      = map (\<lambda>x. if cand_ID x = i then row else x) (t_candidates (w_db w))"
    using decide_update [OF db c(1,3)] by (simp add: r c)
  obtain e where aud: "audited (NewControlPlane L n) (shd (w_clock w)) pr rid ''deployment_candidate.evaluated''
        ''deployment_candidate'' i [(''decision'', AnyString (CandidateStatus_string (cand_Status row))),
          (''reason'', AnyString (cand_DecisionReason row))] w2 =
      (Inr (), w2\<lparr>w_uuids := stl (w_uuids w2), w_db := (w_db w2)\<lparr>t_audit := t_audit (w_db w2) @ [e]\<rparr>\<rparr>)"
    and e: "aud_ActorSubject e = pr_Subject pr" "aud_EventType e = ''deployment_candidate.evaluated''"
      "aud_ResourceID e = i" "aud_RequestID e = rid"
    using audited_calm [OF calm2 audit_fresh] by (simp add: Let_def)
  have row: "cand_ID row = i" by (simp add: r decide_row_def c)
  have run: "ControlPlane_EvaluateDeploymentCandidate (NewControlPlane L n) i pr rid w = (Inr (scanCandidate row (Some ?p)),
      w2\<lparr>w_uuids := stl (w_uuids w2), w_db := (w_db w2)\<lparr>t_audit := t_audit (w_db w2) @ [e]\<rparr>\<rparr>)"
    by (simp add: ControlPlane_EvaluateDeploymentCandidate_def NewControlPlane_fields PostgresRepository_def
        tryM_def pending_reads [OF calm db c so] c catchM_def verdict_of_latest letM_def draws save row aud okM_def)
  have tabs: "w_db (w2\<lparr>w_uuids := stl (w_uuids w2), w_db := (w_db w2)\<lparr>t_audit := t_audit (w_db w2) @ [e]\<rparr>\<rparr>) =
      (w_db w)\<lparr>t_candidates := map (\<lambda>x. if cand_ID x = i then row else x) (t_candidates (w_db w)),
         t_decisions := t_decisions (w_db w) @ [?p], t_audit := t_audit (w_db w) @ [e]\<rparr>"
    by (simp add: w2_def d_def decided_db_def map)
  show ?thesis by (intro exI conjI, rule run, (rule e tabs | simp)+)
qed

theorem EvaluateDeploymentCandidate_decides_witness:
  "\<exists>w' p. ControlPlane_EvaluateDeploymentCandidate (NewControlPlane L0 5) 50 admin ''req'' (process 60 50 d4) =
      (Inr (scanCandidate (decide_row CandidateStatusApproved ''Approved: latest readiness snapshot is ready.''
         (Some 40) 50 candidate4) (Some p)), w') \<and> dec_SnapshotID p = Some 40"
proof -
  have l: "latest_snapshot 1 d4 = Some snapshot3" "t_decisions d4 = []" "61 \<notin> aud_ID ` set (t_audit d4)"
    by (simp_all add: latest_snapshot_def newest_by_def d4_def d3_def d2_def d1_def empty_db_def snapshot3_def
        audit3_def audit4_def row_fields)
  have "calm (process 60 50 d4)" by (simp add: calm_def process_def)
  from EvaluateDeploymentCandidate_decides [OF this _ _ _ candidate_fields(2) _ _ refl refl,
      where i = 50 and L = L0 and n = 5 and pr = admin and rid = "''req''"]
  show ?thesis
    using scenario_reachable(4) scenario_tables(1) candidate_fields l
    by (auto simp: process_def decision_for_def reason_for_def snapshot3_def)
qed

lemma evaluation_of_unknown:
  assumes "calm w" "i \<notin> cand_ID ` set (t_candidates (w_db w))"
  shows "ControlPlane_EvaluateDeploymentCandidate (NewControlPlane L n) i pr rid w = (Inl ErrNotFound, w)"
proof -
  have "select_candidate i (w_db w) = Inl ErrNotFound"
    using assms(2) by (simp add: select_candidate_def row_of_None [THEN iffD2])
  then show ?thesis
    by (simp add: ControlPlane_EvaluateDeploymentCandidate_def NewControlPlane_fields PostgresRepository_def
        tryM_def GetDeploymentCandidate_calm assms(1))
qed

lemma evaluation_of_decided:
  assumes "calm w" "db_inv (w_db w)" "c \<in> set (t_candidates (w_db w))" "cand_Status c \<noteq> CandidateStatusPending"
  shows "ControlPlane_EvaluateDeploymentCandidate (NewControlPlane L n) (cand_ID c) pr rid w =
    (Inl (StateConflictError (ErrorsNew (''deployment candidate '' @ lib_uuid_String L (cand_ID c) @
       '' is already in terminal status '' @ CandidateStatus_string (cand_Status c)))), w)"
  using select_candidate_row [OF assms(2,3)] assms(4)
  by (simp add: ControlPlane_EvaluateDeploymentCandidate_def NewControlPlane_fields PostgresRepository_def
      tryM_def GetDeploymentCandidate_calm assms(1) errM_def)

text \<open>
  C12. What an evaluation refuses: an unknown candidate is not found, and a candidate already decided
  is a state conflict naming its terminal status. Either way the tables stay as they are, so a
  second evaluation of a candidate never changes its decision.
\<close>

theorem EvaluateDeploymentCandidate_refuses:
  assumes "calm w" and "db_inv (w_db w)"
  shows "(i \<notin> cand_ID ` set (t_candidates (w_db w)) \<longrightarrow>
        ControlPlane_EvaluateDeploymentCandidate (NewControlPlane L n) i pr rid w = (Inl ErrNotFound, w))
    \<and> (\<forall>c \<in> set (t_candidates (w_db w)). cand_ID c = i \<and> cand_Status c \<noteq> CandidateStatusPending \<longrightarrow>
        ControlPlane_EvaluateDeploymentCandidate (NewControlPlane L n) i pr rid w =
          (Inl (StateConflictError (ErrorsNew (''deployment candidate '' @ lib_uuid_String L i @
             '' is already in terminal status '' @ CandidateStatus_string (cand_Status c)))), w))"
  using evaluation_of_unknown [OF assms(1)] evaluation_of_decided [OF assms] by blast

theorem EvaluateDeploymentCandidate_refuses_witness:
  "fst (ControlPlane_EvaluateDeploymentCandidate (NewControlPlane L0 5) 51 admin ''req'' (process 60 50 d5)) =
     Inl ErrNotFound
   \<and> w_db (snd (ControlPlane_EvaluateDeploymentCandidate (NewControlPlane L0 5) 50 admin ''req'' (process 60 50 d5))) = d5"
proof -
  have "calm (process 60 50 d5)" by (simp add: calm_def process_def)
  from EvaluateDeploymentCandidate_refuses [OF this, where L = L0 and n = 5 and pr = admin and rid = "''req''"]
  show ?thesis using reachable_inv [OF scenario_reachable(5)] by (simp add: scenario_tables candidate_fields)
qed

lemma no_pending_row:
  assumes "\<forall>c \<in> set (t_candidates d). cand_ID c = i \<longrightarrow> cand_Status c \<noteq> CandidateStatusPending"
  shows "decide_stmt i status reason x now d = Inr (0, d)"
proof -
  have none: "rows_where (pending_with i) (t_candidates d) = 0"
    using rows_where_pos [of "pending_with i" "t_candidates d"] assms by (auto simp: pending_with_def)
  moreover have "update_where (pending_with i) f (t_candidates d) = t_candidates d" for f
    unfolding update_where_def by (rule map_idI) (use assms in \<open>auto simp: pending_with_def\<close>)
  ultimately show ?thesis by (simp add: decide_stmt_def)
qed

text \<open>
  C11. The guard of a decision is the row in the database, not what the handler read before: if another
  process decided the candidate in the meantime, saving a decision is a state conflict, and whatever
  faults occur no table changes, so two concurrent evaluations cannot both take effect.
\<close>

theorem SavePromotionDecision_lost_race:
  assumes "\<forall>c \<in> set (t_candidates (w_db w)). cand_ID c = i \<longrightarrow> cand_Status c \<noteq> CandidateStatusPending"
    and "Store_SavePromotionDecision i so p status reason w = (r, w')"
  shows "w_db w' = w_db w \<and> (calm w \<longrightarrow> r = Inl ErrStateConflict) \<and> (\<exists>e. r = Inl e)"
proof -
  let ?body = "letM time_Now (\<lambda>now.
        tryM (wrapM (wrap_prefix ''postgres: update deployment candidate decision: '')
            (pg_write (decide_stmt i status reason (map_option snap_ID so) now))) (\<lambda>n.
        if n \<noteq> 1 then errM ErrStateConflict
        else wrapM (wrap_prefix ''postgres: upsert promotion decision: '') (pg_write (upsert_decision p))))"
  let ?b = "''postgres: begin save promotion decision: ''" and ?k = "''postgres: commit promotion decision: ''"
  have never: "\<exists>e. fst (?body v) = Inl e" if "w_db v = w_db w" for v
    using no_pending_row [OF assms(1)] that
    by (simp add: letM_def time_Now_def tryM_def wrapM_def pg_write_def errM_def split: fault.split)
  obtain x w1 where tx: "with_tx ?b ?k ?body w = (x, w1)" by fastforce
  then have x: "\<exists>e. x = Inl e" "w_db w1 = w_db w"
    by (cases rule: with_tx_cases; use never in force)+
  then obtain e where e: "x = Inl e" by blast
  then have run: "r = Inl e" "w' = w1"
    using assms(2) tx by (auto simp: Store_SavePromotionDecision_def tryM_def)
  have "x = Inl ErrStateConflict" if "calm w"
  proof -
    have "?body w = (Inl ErrStateConflict, w\<lparr>w_clock := stl (w_clock w)\<rparr>)"
      using no_pending_row [OF assms(1)] that
      by (simp add: letM_def time_Now_def tryM_def wrapM_def calm_write errM_def)
    moreover from this have "with_tx ?b ?k ?body w = (Inl ErrStateConflict, w\<lparr>w_clock := stl (w_clock w), w_db := w_db w\<rparr>)"
      by (subst calm_tx [OF that]) (simp_all only: prod.case sum.case prod.inject, simp add: that)
    ultimately show ?thesis using tx by simp
  qed
  with x e run show ?thesis by simp
qed

theorem SavePromotionDecision_lost_race_witness:
  "\<exists>w'. Store_SavePromotionDecision 50 None decision5 CandidateStatusRejected ''late'' (process 60 50 d5) =
     (Inl ErrStateConflict, w') \<and> w_db w' = d5"
proof -
  obtain r w' where run: "Store_SavePromotionDecision 50 None decision5 CandidateStatusRejected ''late'' (process 60 50 d5)
      = (r, w')" by fastforce
  have "calm (process 60 50 d5)" by (simp add: calm_def process_def)
  with SavePromotionDecision_lost_race [OF _ run] run show ?thesis
    by (simp add: scenario_tables candidate_fields)
qed

end
