(* ===== verification/Queue.thy ===== *)
theory Queue
  imports Promotion
begin

section \<open>The job queue\<close>

text \<open>
  What a claim takes, that two claims never hold the same lease, who may finish a job, how long a
  failed job waits, and what becomes of a job whose attempts are used up.
\<close>

subsection \<open>Claims\<close>

lemma ClaimJobs_run:
  assumes "Store_ClaimJobs wid n lease w = (Inr jobs, w')"
  obtains rows where
    "claim_stmt wid n (shd (w_pg_clock w)) (shd (w_clock w) - lease) (shd (w_locked w)) (w_db w) = Inr (rows, w_db w')"
    "jobs = map scanJob rows"
proof -
  from assms obtain t w1 now w2 locked w3 rows where
    d: "time_Now w = (t, w1)" "pg_NOW w1 = (now, w2)" "locked_rows w2 = (locked, w3)" and
    s: "wrapM (wrap_prefix ''postgres: claim jobs: '') (pg_write (claim_stmt wid n now (t - lease) locked)) w3 = (Inr rows, w')"
    and "jobs = map scanJob rows"
    unfolding Store_ClaimJobs_def by (auto simp only: letM_eq tryM_Inr okM_eq)
  moreover have "t = shd (w_clock w)" "now = shd (w_pg_clock w)" "locked = shd (w_locked w)" "w_db w3 = w_db w"
    using d by (auto simp: time_Now_def pg_NOW_def locked_rows_def)
  ultimately show thesis using that wrap_write [OF s] by simp
qed

lemma claim_effect:
  assumes inv: "db_inv d" and claim: "claim_stmt wid n now expired locked d = Inr (rows, d')"
  defines "cs \<equiv> candidate_jobs n now expired locked d"
  shows "0 \<le> n" "set rows = lease_row wid now ` set cs" "distinct (map job_ID rows)" "length rows = length cs"
    "d' = d\<lparr>t_jobs := map (\<lambda>r. if r \<in> set cs then lease_row wid now r else r) (t_jobs d)\<rparr>"
proof -
  have dist: "distinct (map job_ID (t_jobs d))" using inv by (simp add: db_inv_def wf_keys_def)
  let ?p = "\<lambda>r. job_ID r \<in> job_ID ` set cs"
  have upd: "update_where ?p (lease_row wid now) (t_jobs d) =
      map (\<lambda>r. if r \<in> set cs then lease_row wid now r else r) (t_jobs d)"
    unfolding update_where_def by (rule map_cong [OF refl]) (simp add: cs_def picked_row [OF dist])
  have rows: "rows = filter ?p (update_where ?p (lease_row wid now) (t_jobs d))" and n: "0 \<le> n"
    and d': "d' = d\<lparr>t_jobs := update_where ?p (lease_row wid now) (t_jobs d)\<rparr>"
    using claim by (auto simp: claim_stmt_def Let_def cs_def split: if_splits)
  have sub: "set cs \<subseteq> set (t_jobs d)" using candidate_jobs_claimable unfolding cs_def by blast
  have ids: "job_ID (lease_row wid now r) = job_ID r" for r by (simp add: lease_row_def)
  have rows': "rows = map (lease_row wid now) (filter (\<lambda>r. r \<in> set cs) (t_jobs d))"
  proof -
    have "filter ?p (map (\<lambda>r. if r \<in> set cs then lease_row wid now r else r) xs) =
        map (lease_row wid now) (filter (\<lambda>r. r \<in> set cs) xs)" if "set xs \<subseteq> set (t_jobs d)" for xs
      using that by (induction xs) (auto simp: ids cs_def picked_row [OF dist])
    from this [OF order_refl] show ?thesis by (simp only: rows upd)
  qed
  show "0 \<le> n" by (rule n)
  show "set rows = lease_row wid now ` set cs" using sub by (auto simp: rows')
  have fd: "distinct (filter (\<lambda>r. r \<in> set cs) (t_jobs d))" using dist by (simp add: distinct_map)
  have "map job_ID rows = map job_ID (filter (\<lambda>r. r \<in> set cs) (t_jobs d))" by (simp add: rows' ids comp_def)
  then show "distinct (map job_ID rows)" using dist by (simp add: distinct_map_filter)
  have "distinct cs" using dist by (auto simp: cs_def candidate_jobs_def distinct_map intro: distinct_take)
  moreover have "set (filter (\<lambda>r. r \<in> set cs) (t_jobs d)) = set cs" using sub by auto
  ultimately show "length rows = length cs" using fd by (metis rows' distinct_card length_map)
  show "d' = d\<lparr>t_jobs := map (\<lambda>r. if r \<in> set cs then lease_row wid now r else r) (t_jobs d)\<rparr>"
    by (simp only: d' upd)
qed

text \<open>The rows a claim of the store picks in a world, and its effect on them.\<close>

definition picked :: "int \<Rightarrow> int \<Rightarrow> world \<Rightarrow> jobs_row list" where
  "picked n lease w = candidate_jobs n (shd (w_pg_clock w)) (shd (w_clock w) - lease) (shd (w_locked w)) (w_db w)"

definition due :: "int \<Rightarrow> world \<Rightarrow> jobs_row \<Rightarrow> bool" where
  "due lease w r \<longleftrightarrow> r \<in> set (t_jobs (w_db w)) \<and> claimable (shd (w_pg_clock w)) (shd (w_clock w) - lease) r \<and>
     job_ID r \<notin> set (shd (w_locked w))"

lemma picked_due: "r \<in> set (picked n lease w) \<Longrightarrow> due lease w r"
  unfolding picked_def due_def by (rule candidate_jobs_claimable)

lemma row_ids [simp]: "job_ID (scanJob r) = job_ID r" "job_ID (lease_row wid t r) = job_ID r"
  by (simp_all add: scanJob_def lease_row_def)

lemma ClaimJobs_effect:
  assumes inv: "db_inv (w_db w)" and run: "Store_ClaimJobs wid n lease w = (Inr jobs, w')"
  shows "0 \<le> n" "set jobs = (\<lambda>r. scanJob (lease_row wid (shd (w_pg_clock w)) r)) ` set (picked n lease w)"
    "distinct (map job_ID jobs)" "length jobs = length (picked n lease w)"
    "w_db w' = (w_db w)\<lparr>t_jobs := map (\<lambda>r. if r \<in> set (picked n lease w)
       then lease_row wid (shd (w_pg_clock w)) r else r) (t_jobs (w_db w))\<rparr>"
proof -
  obtain rows where c: "claim_stmt wid n (shd (w_pg_clock w)) (shd (w_clock w) - lease) (shd (w_locked w)) (w_db w) = Inr (rows, w_db w')"
    and jobs: "jobs = map scanJob rows" by (rule ClaimJobs_run [OF run])
  note e = claim_effect [OF inv c, folded picked_def]
  show "0 \<le> n" "length jobs = length (picked n lease w)"
    "w_db w' = (w_db w)\<lparr>t_jobs := map (\<lambda>r. if r \<in> set (picked n lease w)
       then lease_row wid (shd (w_pg_clock w)) r else r) (t_jobs (w_db w))\<rparr>"
    using e by (simp_all add: jobs)
  show "set jobs = (\<lambda>r. scanJob (lease_row wid (shd (w_pg_clock w)) r)) ` set (picked n lease w)"
    by (simp add: jobs e(2) image_image)
  show "distinct (map job_ID jobs)" using e(3) by (simp add: jobs comp_def)
qed

lemma ClaimJobs_ids:
  assumes "db_inv (w_db w)" "Store_ClaimJobs wid n lease w = (Inr jobs, w')"
  shows "job_ID ` set jobs = job_ID ` set (picked n lease w)"
  by (simp add: ClaimJobs_effect(2) [OF assms] image_image)

lemma unique_job:
  "db_inv d \<Longrightarrow> r \<in> set (t_jobs d) \<Longrightarrow> q \<in> set (t_jobs d) \<Longrightarrow> job_ID q = job_ID r \<Longrightarrow> q = r"
  by (auto simp: db_inv_def wf_keys_def distinct_map dest: inj_onD)

lemma unpicked:
  assumes "db_inv (w_db w)" "Store_ClaimJobs wid n lease w = (Inr jobs, w')"
    "r \<in> set (t_jobs (w_db w))" "r \<notin> set (picked n lease w)"
  shows "r \<in> set (t_jobs (w_db w'))" "job_ID r \<notin> job_ID ` set jobs"
proof -
  show "r \<in> set (t_jobs (w_db w'))" using assms(3,4) by (auto simp: ClaimJobs_effect(5) [OF assms(1,2)])
  show "job_ID r \<notin> job_ID ` set jobs"
  proof
    assume "job_ID r \<in> job_ID ` set jobs"
    then obtain q where q: "q \<in> set (picked n lease w)" "job_ID q = job_ID r"
      unfolding ClaimJobs_ids [OF assms(1,2)] by auto
    then have "q = r" using unique_job [OF assms(1,3)] picked_due [OF q(1)] by (simp add: due_def)
    with q(1) assms(4) show False by simp
  qed
qed

text \<open>
  C16. A claim. In well-formed tables a successful claim returns at most the requested number of jobs,
  all different; each was due or had an expired lease, had attempts left and was not locked by another
  transaction; the row is now leased to this worker at the server's time with one attempt more, within
  its maximum, and what is returned is that row; every other row and every other table is unchanged.
\<close>

theorem ClaimJobs_leases:
  assumes "db_inv (w_db w)" and "Store_ClaimJobs wid n lease w = (Inr jobs, w')"
  shows "int (length jobs) \<le> n \<and> distinct (map job_ID jobs)
    \<and> (\<forall>j \<in> set jobs. \<exists>r \<in> set (t_jobs (w_db w)).
         claimable (shd (w_pg_clock w)) (shd (w_clock w) - lease) r \<and> job_ID r \<notin> set (shd (w_locked w)) \<and>
         lease_row wid (shd (w_pg_clock w)) r \<in> set (t_jobs (w_db w')) \<and>
         j = scanJob (lease_row wid (shd (w_pg_clock w)) r) \<and>
         job_Attempts j = job_Attempts r + 1 \<and> job_Attempts j \<le> job_MaxAttempts j)
    \<and> (\<forall>r \<in> set (t_jobs (w_db w)). job_ID r \<notin> job_ID ` set jobs \<longrightarrow> r \<in> set (t_jobs (w_db w')))
    \<and> (w_db w')\<lparr>t_jobs := t_jobs (w_db w)\<rparr> = w_db w"
proof -
  note e = ClaimJobs_effect [OF assms]
  let ?lease = "lease_row wid (shd (w_pg_clock w))"
  have "int (length jobs) \<le> n" using e(1,4) by (simp add: picked_def candidate_jobs_def)
  moreover have "\<exists>r \<in> set (t_jobs (w_db w)).
         claimable (shd (w_pg_clock w)) (shd (w_clock w) - lease) r \<and> job_ID r \<notin> set (shd (w_locked w)) \<and>
         ?lease r \<in> set (t_jobs (w_db w')) \<and> j = scanJob (?lease r) \<and>
         job_Attempts j = job_Attempts r + 1 \<and> job_Attempts j \<le> job_MaxAttempts j" if "j \<in> set jobs" for j
  proof -
    from that obtain r where r: "r \<in> set (picked n lease w)" "j = scanJob (?lease r)" unfolding e(2) by blast
    then have d: "due lease w r" by (simp add: picked_due)
    with r(1) have "?lease r \<in> set (t_jobs (w_db w'))" by (auto simp: e(5) due_def)
    then show ?thesis
      using d r(2) by (intro bexI [of _ r]) (auto simp: due_def claimable_def scanJob_def lease_row_def)
  qed
  moreover have "r \<in> set (t_jobs (w_db w'))" if "r \<in> set (t_jobs (w_db w))" "job_ID r \<notin> job_ID ` set jobs" for r
    using unpicked(1) [OF assms that(1)] that(2) ClaimJobs_ids [OF assms] by blast
  moreover have "(w_db w')\<lparr>t_jobs := t_jobs (w_db w)\<rparr> = w_db w" by (simp add: e(5))
  ultimately show ?thesis using e(3) by blast
qed

theorem ClaimJobs_leases_witness:
  "\<exists>w'. Store_ClaimJobs ''worker-uuid'' 10 60 (process 30 30 d2) =
     (Inr [scanJob (lease_row ''worker-uuid'' 30 job2)], w') \<and>
     lease_row ''worker-uuid'' 30 job2 \<in> set (t_jobs (w_db w'))"
proof -
  obtain w' where c: "Store_ClaimJobs ''worker-uuid'' 10 60 (process 30 30 d2) =
     (Inr [scanJob (lease_row ''worker-uuid'' 30 job2)], w')" using claim3 by blast
  have "db_inv (w_db (process 30 30 d2))" using reachable_inv [OF scenario_reachable(2)] by simp
  from ClaimJobs_leases [OF this c] c show ?thesis by (auto simp: process_def d2_def)
qed

lemma take_sorted_least:
  assumes "x \<in> set xs" "x \<notin> set (take n (sort_key k xs))"
  shows "length (take n (sort_key k xs)) = n" "\<forall>y \<in> set (take n (sort_key k xs)). k y \<le> k x"
proof -
  let ?s = "sort_key k xs"
  have "x \<in> set ?s" using assms(1) by simp
  then have x: "x \<in> set (drop n ?s)"
    using assms(2) by (metis Un_iff append_take_drop_id set_append)
  then show "length (take n ?s) = n" by (cases "n \<le> length ?s") auto
  have "sorted (map k (take n ?s @ drop n ?s))" by simp
  then show "\<forall>y \<in> set (take n ?s). k y \<le> k x" using x by (simp add: sorted_append del: append_take_drop_id)
qed

text \<open>
  C32. A claim is fair. If a job that was due, unlocked and had attempts left is not among the jobs a
  claim returns, then the batch is full and every claimed job was due no later than it (and was
  created no later, if due at the same time).
\<close>

theorem ClaimJobs_oldest_first:
  assumes "db_inv (w_db w)" and "Store_ClaimJobs wid n lease w = (Inr jobs, w')"
    and "r \<in> set (t_jobs (w_db w))" and "claimable (shd (w_pg_clock w)) (shd (w_clock w) - lease) r"
    and "job_ID r \<notin> set (shd (w_locked w))" and "job_ID r \<notin> job_ID ` set jobs"
  shows "int (length jobs) = n
    \<and> (\<forall>j \<in> set jobs. \<exists>q \<in> set (t_jobs (w_db w)). job_ID q = job_ID j \<and>
         (job_AvailableAt q, job_CreatedAt q) \<le> (job_AvailableAt r, job_CreatedAt r))"
proof -
  note e = ClaimJobs_effect [OF assms(1,2)] and ids = ClaimJobs_ids [OF assms(1,2)]
  have out: "r \<notin> set (picked n lease w)" using assms(6) ids by blast
  have "r \<in> set (filter (\<lambda>r. claimable (shd (w_pg_clock w)) (shd (w_clock w) - lease) r \<and>
      job_ID r \<notin> set (shd (w_locked w))) (t_jobs (w_db w)))" using assms(3-5) by simp
  note least = take_sorted_least [OF this out [unfolded picked_def candidate_jobs_def],
      folded candidate_jobs_def, folded picked_def]
  have "int (length jobs) = n" using least(1) e(1,4) by simp
  moreover have "\<exists>q \<in> set (t_jobs (w_db w)). job_ID q = job_ID j \<and>
      (job_AvailableAt q, job_CreatedAt q) \<le> (job_AvailableAt r, job_CreatedAt r)" if "j \<in> set jobs" for j
  proof -
    from that obtain q where q: "q \<in> set (picked n lease w)" "job_ID j = job_ID q"
      unfolding e(2) by (auto simp only: row_ids)
    then show ?thesis using least(2) picked_due [OF q(1)] unfolding due_def by metis
  qed
  ultimately show ?thesis by blast
qed

text \<open>A batch of size 0 takes nothing, although the job is due.\<close>

theorem ClaimJobs_oldest_first_witness:
  "\<exists>jobs w'. Store_ClaimJobs ''worker-uuid'' 0 60 (process 30 30 d2) = (Inr jobs, w') \<and> length jobs = 0"
proof -
  have c: "Store_ClaimJobs ''worker-uuid'' 0 60 (process 30 30 d2) = (Inr [], process 30 30 d2)"
    by (simp add: run_simps Store_ClaimJobs_def claim_stmt_def candidate_jobs_def update_where_def)
  have "db_inv (w_db (process 30 30 d2))" using reachable_inv [OF scenario_reachable(2)] by simp
  from ClaimJobs_oldest_first [OF this c, of job2] c show ?thesis
    by (simp add: process_def d2_def claimable_def job2_def)
qed

lemma leased_not_claimable:
  "claimable now expired (lease_row wid t r) \<longleftrightarrow> job_Attempts r + 1 < job_MaxAttempts r \<and> t < expired"
  by (simp add: claimable_def lease_row_def)



end
