(* ===== verification/Outcomes.thy ===== *)
theory Outcomes
  imports Queue
begin

section \<open>Outcomes of jobs and requests for them\<close>

text \<open>
  Who may finish a job, how long a failed job waits, what becomes of a job whose attempts are used up,
  the life of a job across the operations of the program, and what a request for an evaluation adds to
  the queue.
\<close>

subsection \<open>Outcomes\<close>

lemma owned_update:
  assumes "db_inv d"
  shows "rows_where (owned_by i wid) (t_jobs d) = (if \<exists>r \<in> set (t_jobs d). owned_by i wid r then 1 else 0)"
    "\<forall>r \<in> set (t_jobs d). \<not> owned_by i wid r \<Longrightarrow> update_where (owned_by i wid) f (t_jobs d) = t_jobs d"
proof -
  have dist: "distinct (map job_ID (t_jobs d))" using assms by (simp add: db_inv_def wf_keys_def)
  have "rows_where (owned_by i wid) (t_jobs d) = (case row_of job_ID i (t_jobs d) of
      Some r \<Rightarrow> (if owned_by i wid r then 1 else 0) | None \<Rightarrow> 0)"
    using rows_where_keyed [OF dist, of i "\<lambda>r. job_Status r = JobStatusProcessing \<and> row_LockOwner r = Some wid"]
    by (auto simp: owned_by_def [abs_def] dest!: row_of_Some split: option.splits)
  then show "rows_where (owned_by i wid) (t_jobs d) = (if \<exists>r \<in> set (t_jobs d). owned_by i wid r then 1 else 0)"
    using rows_where_pos [of "owned_by i wid" "t_jobs d"] by (auto split: option.splits if_splits)
  show "\<forall>r \<in> set (t_jobs d). \<not> owned_by i wid r \<Longrightarrow> update_where (owned_by i wid) f (t_jobs d) = t_jobs d"
    unfolding update_where_def by (rule map_idI) auto
qed

text \<open>An update of the row a worker owns, as both outcomes of a job are written.\<close>

lemma update_owned:
  assumes inv: "db_inv (w_db w)"
    and run: "tryM (wrapM (wrap_prefix msg) (pg_write (update_one (owned_by i wid) f))) affected_one w = (r, w')"
  shows "w_db w' = w_db w \<or> w_db w' = (w_db w)\<lparr>t_jobs := update_where (owned_by i wid) f (t_jobs (w_db w))\<rparr>"
    "r = Inr () \<Longrightarrow> (\<exists>q \<in> set (t_jobs (w_db w)). owned_by i wid q) \<and>
       w_db w' = (w_db w)\<lparr>t_jobs := update_where (owned_by i wid) f (t_jobs (w_db w))\<rparr>"
    "\<forall>q \<in> set (t_jobs (w_db w)). \<not> owned_by i wid q \<Longrightarrow> w_db w' = w_db w \<and> (\<exists>e. r = Inl e) \<and> (calm w \<longrightarrow> r = Inl ErrStateConflict)"
    "calm w \<Longrightarrow> \<exists>q \<in> set (t_jobs (w_db w)). owned_by i wid q \<Longrightarrow> r = Inr ()"
  using run owned_update [OF inv, of i wid]
  by (auto simp: tryM_def wrapM_def pg_write_def update_one_def affected_one_def errM_def okM_def calm_def
      split: fault.splits if_splits)

lemma MarkJobCompleted_run:
  assumes "Store_MarkJobCompleted i wid w = (r, w')"
  obtains v where "w_db v = w_db w" "calm v = calm w" "tryM (wrapM (wrap_prefix ''postgres: mark job completed: '')
      (pg_write (update_one (owned_by i wid) (complete_row (shd (w_pg_clock w)))))) affected_one v = (r, w')"
  using assms by (intro that [of "w\<lparr>w_pg_clock := stl (w_pg_clock w)\<rparr>"])
    (simp_all add: Store_MarkJobCompleted_def letM_def pg_NOW_def)

lemma MarkJobFailed_run:
  assumes "Store_MarkJobFailed lt job err w = (r, w')"
  obtains v where "w_db v = w_db w" "calm v = calm w" "tryM (wrapM (wrap_prefix ''postgres: mark job failed: '')
      (pg_write (update_one (owned_by (job_ID job) (job_LockOwner job)) (fail_row (error_text lt err)
         (shd (w_clock w) + sint (backoff (job_Attempts job))) (shd (w_clock w)))))) affected_one v = (r, w')"
  using assms by (intro that [of "w\<lparr>w_clock := stl (w_clock w)\<rparr>"])
    (simp_all add: Store_MarkJobFailed_def letM_def time_Now_def)

text \<open>
  C33. Only the holder of the lease completes a job. Marking a job completed changes at most the one
  row that is being processed under this worker's name; it succeeds only if there is such a row, which
  is then completed and unlocked; if there is none, because the lease ran out and another worker
  claimed the job or because it is finished, nothing changes and the call fails, with a state conflict
  when no fault intervenes.
\<close>

theorem MarkJobCompleted_only_owner:
  assumes "db_inv (w_db w)" and "Store_MarkJobCompleted i wid w = (r, w')"
  shows "(\<forall>q \<in> set (t_jobs (w_db w)). \<not> owned_by i wid q \<longrightarrow> q \<in> set (t_jobs (w_db w')))
    \<and> (r = Inr () \<longrightarrow> (\<exists>q \<in> set (t_jobs (w_db w)). owned_by i wid q \<and>
          complete_row (shd (w_pg_clock w)) q \<in> set (t_jobs (w_db w'))))
    \<and> ((\<forall>q \<in> set (t_jobs (w_db w)). \<not> owned_by i wid q) \<longrightarrow>
          w_db w' = w_db w \<and> r \<noteq> Inr () \<and> (calm w \<longrightarrow> r = Inl ErrStateConflict))"
proof -
  obtain v where v: "w_db v = w_db w" "calm v = calm w" and run: "tryM (wrapM (wrap_prefix ''postgres: mark job completed: '')
      (pg_write (update_one (owned_by i wid) (complete_row (shd (w_pg_clock w)))))) affected_one v = (r, w')"
    by (rule MarkJobCompleted_run [OF assms(2)])
  note u = update_owned [OF assms(1) [folded v(1)] run, unfolded v]
  show ?thesis
  proof (intro conjI impI ballI)
    fix q assume "q \<in> set (t_jobs (w_db w))" "\<not> owned_by i wid q"
    then show "q \<in> set (t_jobs (w_db w'))" using u(1) by (auto simp: set_update_where)
  next
    assume "r = Inr ()"
    with u(2) show "\<exists>q \<in> set (t_jobs (w_db w)). owned_by i wid q \<and>
          complete_row (shd (w_pg_clock w)) q \<in> set (t_jobs (w_db w'))"
      by (auto simp: set_update_where intro!: bexI)
  qed (use u(3) in auto)
qed

theorem MarkJobCompleted_only_owner_witness:
  "\<exists>r w'. Store_MarkJobCompleted 20 ''worker-2'' (process 42 30 d3) = (r, w') \<and> w_db w' = d3 \<and> r = Inl ErrStateConflict"
proof -
  obtain r w' where c: "Store_MarkJobCompleted 20 ''worker-2'' (process 42 30 d3) = (r, w')" by fastforce
  have "db_inv (w_db (process 42 30 d3))" using reachable_inv [OF scenario_reachable(3)] by simp
  from MarkJobCompleted_only_owner [OF this c] c show ?thesis
    by (simp add: d3_def owned_by_def complete_row_def calm_def process_def)
qed

text \<open>
  C34. The backoff never overflows: for any number of attempts (jobs have at least 0) the 64-bit
  duration of \<^verbatim>\<open>MarkJobFailed\<close> is two to the attempts in seconds, capped at one minute, so between one
  second and one minute, growing with the attempts; and a failed job becomes claimable only when
  that time has passed.
\<close>

theorem backoff_bounds:
  assumes "0 \<le> a"
  shows "sint (backoff a) = min 60 (2 ^ nat (min a 6)) * 1000000000
    \<and> 1000000000 \<le> sint (backoff a) \<and> sint (backoff a) \<le> 60000000000
    \<and> (a \<le> b \<longrightarrow> sint (backoff a) \<le> sint (backoff b))
    \<and> (claimable now expired (fail_row m (t + sint (backoff a)) t r) \<longleftrightarrow>
         job_Attempts r < job_MaxAttempts r \<and> t + min 60 (2 ^ nat (min a 6)) * 1000000000 \<le> now)"
proof -
  have val: "sint (backoff c) = min 60 (2 ^ nat (min c 6)) * 1000000000" if "0 \<le> c" for c
  proof -
    have "c = 0 \<or> c = 1 \<or> c = 2 \<or> c = 3 \<or> c = 4 \<or> c = 5 \<or> 6 \<le> c" using that by auto
    then show ?thesis
      by (elim disjE) (simp_all add: backoff_def go_min_def Let_def push_bit_of_1 word_sless_alt min_def)
  qed
  have "a = 0 \<or> a = 1 \<or> a = 2 \<or> a = 3 \<or> a = 4 \<or> a = 5 \<or> 6 \<le> a" using assms by auto
  then have range: "1000000000 \<le> sint (backoff a)" "sint (backoff a) \<le> 60000000000"
    by (elim disjE; simp add: val min_def)+
  have mono: "sint (backoff a) \<le> sint (backoff b)" if "a \<le> b"
  proof -
    have "nat (min a 6) \<le> nat (min b 6)" using that by simp
    then have "(2::int) ^ nat (min a 6) \<le> 2 ^ nat (min b 6)" by (simp add: power_increasing)
    then show ?thesis using assms that by (simp add: val min.coboundedI2 min.mono)
  qed
  show ?thesis
    using range mono by (simp add: val [OF assms]) (simp add: claimable_def fail_row_def)
qed

theorem backoff_bounds_witness:
  "sint (backoff 5) = 32000000000 \<and> sint (backoff 5) \<le> sint (backoff 9)"
  using backoff_bounds [of 5 9 0 0 "[]" 0 job2] by (auto simp: min_def)

text \<open>
  C18. The attempts of a job are a hard bound, also while it is being processed: once a job has used
  its last attempt no claim ever returns or changes it again, whatever its status and however long its
  lease has expired. A worker that dies during the last attempt therefore leaves the row in status
  \<^verbatim>\<open>processing\<close> for good, since only that worker's own name can complete or fail it.
\<close>

theorem exhausted_never_claimed:
  assumes "db_inv (w_db w)" and "Store_ClaimJobs wid n lease w = (Inr jobs, w')"
    and "r \<in> set (t_jobs (w_db w))" and "job_Attempts r = job_MaxAttempts r"
  shows "r \<in> set (t_jobs (w_db w')) \<and> job_ID r \<notin> job_ID ` set jobs
    \<and> (Store_MarkJobCompleted (job_ID r) wid' v = (Inr (), v') \<longrightarrow> w_db v = w_db w' \<longrightarrow> row_LockOwner r = Some wid')
    \<and> (job_ID job = job_ID r \<longrightarrow> Store_MarkJobFailed lt job err v = (Inr (), v') \<longrightarrow> w_db v = w_db w' \<longrightarrow>
         row_LockOwner r = Some (job_LockOwner job))"
proof -
  have "r \<notin> set (picked n lease w)"
    using picked_due assms(4) by (fastforce simp: due_def claimable_def)
  note out = unpicked [OF assms(1-3) this]
  have inv: "db_inv (w_db w')" using keepsD [OF keeps_ClaimJobs _ assms(2)] assms(1) by (simp add: on_db_def)
  have owner: "row_LockOwner r = Some o'" if "q \<in> set (t_jobs (w_db w'))" "owned_by (job_ID r) o' q" for q o'
    using unique_job [OF inv out(1) that(1)] that(2) by (simp add: owned_by_def)
  have "row_LockOwner r = Some wid'" if m: "Store_MarkJobCompleted (job_ID r) wid' v = (Inr (), v')" and v: "w_db v = w_db w'"
  proof -
    obtain u where u: "w_db u = w_db v" "tryM (wrapM (wrap_prefix ''postgres: mark job completed: '')
      (pg_write (update_one (owned_by (job_ID r) wid') (complete_row (shd (w_pg_clock v)))))) affected_one u = (Inr (), v')"
      by (rule MarkJobCompleted_run [OF m])
    then show ?thesis using update_owned(2) [OF _ u(2)] inv v owner by auto
  qed
  moreover have "row_LockOwner r = Some (job_LockOwner job)" if j: "job_ID job = job_ID r"
    and m: "Store_MarkJobFailed lt job err v = (Inr (), v')" and v: "w_db v = w_db w'"
  proof -
    obtain u where u: "w_db u = w_db v" "tryM (wrapM (wrap_prefix ''postgres: mark job failed: '')
      (pg_write (update_one (owned_by (job_ID job) (job_LockOwner job)) (fail_row (error_text lt err)
         (shd (w_clock v) + sint (backoff (job_Attempts job))) (shd (w_clock v)))))) affected_one u = (Inr (), v')"
      by (rule MarkJobFailed_run [OF m])
    then show ?thesis using update_owned(2) [OF _ u(2)] inv v owner j by auto
  qed
  ultimately show ?thesis using out by blast
qed

text \<open>A worker died during the fifth attempt; ten minutes later the row is still taken.\<close>

definition stuck_job :: jobs_row where
  "stuck_job = lease_row ''dead'' 30 (job2\<lparr>job_Attempts := 4\<rparr>)"

lemma stuck_inv: "db_inv (d2\<lparr>t_jobs := [stuck_job]\<rparr>)"
proof -
  have "db_inv d2" by (rule reachable_inv [OF scenario_reachable(2)])
  then show ?thesis
    by (simp add: db_inv_def wf_keys_def wf_refs_def jobs_ok_def snapshots_ok_def candidates_ok_def d2_def d1_def
        empty_db_def stuck_job_def job2_def lease_row_def job_row_ok_def int4_def)
qed

theorem exhausted_never_claimed_witness:
  "\<exists>jobs w'. Store_ClaimJobs ''worker-2'' 10 60 (process 30 600000000000 (d2\<lparr>t_jobs := [stuck_job]\<rparr>)) = (Inr jobs, w') \<and>
     stuck_job \<in> set (t_jobs (w_db w')) \<and> job_ID stuck_job \<notin> job_ID ` set jobs"
proof -
  let ?w = "process 30 600000000000 (d2\<lparr>t_jobs := [stuck_job]\<rparr>)"
  obtain jobs w' where c: "Store_ClaimJobs ''worker-2'' 10 60 ?w = (Inr jobs, w')"
    by (simp add: run_simps Store_ClaimJobs_def claim_stmt_def Let_def)
  have "stuck_job \<in> set (t_jobs (w_db ?w))" "job_Attempts stuck_job = job_MaxAttempts stuck_job"
    by (simp_all add: process_def stuck_job_def lease_row_def job2_def)
  from exhausted_never_claimed [OF _ c this, of _ ?w] c show ?thesis using stuck_inv by (auto simp: process_def)
qed

text \<open>
  C17. The life of a job. Across any operation in a reachable state, faults and other processes
  included, a job keeps its identifier, type, idempotency key, target service and maximum; its
  attempts never decrease and stay within the maximum; pending means no attempt yet, processing means
  locked by an owner; and a completed job stays completed.
\<close>

theorem job_lifecycle:
  assumes "reachable L (w_db w)" and "\<forall>f \<in> sset others. elsewhere L f"
    and "perform L (SharedControlPlane L n) op (w, others) = (w', others')"
    and "r \<in> set (t_jobs (w_db w))"
  shows "\<exists>r' \<in> set (t_jobs (w_db w')). job_ID r' = job_ID r \<and> job_Type r' = job_Type r \<and>
      job_IdempotencyKey r' = job_IdempotencyKey r \<and> job_ResourceID r' = job_ResourceID r \<and>
      job_MaxAttempts r' = job_MaxAttempts r \<and>
      job_Attempts r \<le> job_Attempts r' \<and> job_Attempts r' \<le> job_MaxAttempts r' \<and>
      (job_Status r' = JobStatusPending \<longrightarrow> job_Attempts r' = 0) \<and>
      (job_Status r' = JobStatusProcessing \<longleftrightarrow> job_LockedAt r' \<noteq> None) \<and>
      (job_Status r' = JobStatusProcessing \<longrightarrow> row_LockOwner r' \<noteq> None) \<and>
      (job_Status r = JobStatusCompleted \<longrightarrow> job_Status r' = JobStatusCompleted)"
proof -
  note step = reachable_operation [OF assms(1-3)]
  obtain r' where r': "r' \<in> set (t_jobs (w_db w'))" "job_stays r r'"
    using step(3) assms(4) unfolding grows_def jobs_stay_def by blast
  have "job_row_ok r'" using step(2) r'(1) by (simp add: db_inv_def jobs_ok_def)
  with r' show ?thesis by (intro bexI [OF _ r'(1)]) (simp add: job_stays_def job_row_ok_def)
qed

theorem job_lifecycle_witness:
  "\<exists>w' others'. perform L0 (SharedControlPlane L0 5) (Queue 1 ''key'' admin ''again'') (process 70 60 d5, sconst id) = (w', others') \<and>
     (\<exists>r' \<in> set (t_jobs (w_db w')). job_ID r' = 20 \<and> job_Status r' = JobStatusCompleted \<and> 1 \<le> job_Attempts r')"
proof -
  obtain w' o' where p: "perform L0 (SharedControlPlane L0 5) (Queue 1 ''key'' admin ''again'')
      (process 70 60 d5, sconst id) = (w', o')" by fastforce
  let ?r = "complete_row 30 (lease_row ''worker-uuid'' 30 job2)"
  have "reachable L0 (w_db (process 70 60 d5))" by (simp add: scenario_reachable)
  moreover have "?r \<in> set (t_jobs (w_db (process 70 60 d5)))" by (simp add: scenario_tables)
  ultimately have "\<exists>r' \<in> set (t_jobs (w_db w')). job_ID r' = job_ID ?r \<and> job_Attempts ?r \<le> job_Attempts r' \<and>
      (job_Status ?r = JobStatusCompleted \<longrightarrow> job_Status r' = JobStatusCompleted)"
    using job_lifecycle [OF _ _ p, of ?r] by (auto simp: elsewhere_def)
  then show ?thesis using p by (auto simp: complete_row_def lease_row_def job2_def)
qed

subsection \<open>Requests for an evaluation\<close>

lemma GetService_calm: "calm w \<Longrightarrow> Store_GetService i w = (select_service i (w_db w), w)"
  by (simp add: Store_GetService_def wrapM_def calm_read select_service_def unless_not_found_def split: option.split)

lemma select_service_known:
  assumes "db_inv d" "i \<in> svc_ID ` set (t_services d)"
  shows "\<exists>r p. row_of svc_ID i (t_services d) = Some r \<and> row_of slo_ServiceID i (t_slo_policies d) = Some p \<and>
     r \<in> set (t_services d) \<and> svc_ID r = i \<and> select_service i d = Inr (scanService r p)"
proof -
  obtain r where r: "row_of svc_ID i (t_services d) = Some r"
    using assms(2) row_of_None [of svc_ID i] by (metis not_Some_eq)
  have "i \<in> slo_ServiceID ` set (t_slo_policies d)" using assms by (simp add: db_inv_def wf_refs_def)
  then obtain p where p: "row_of slo_ServiceID i (t_slo_policies d) = Some p"
    using row_of_None [of slo_ServiceID i] by (metis not_Some_eq)
  from row_of_Some [OF r] p show ?thesis by (simp add: select_service_def r)
qed

definition accepts_jobs :: "int \<Rightarrow> bool" where
  "accepts_jobs n \<longleftrightarrow> 0 < n \<and> int4 n"

lemma EnqueueJob_calm:
  assumes "calm w" "fresh_job j" "accepts_jobs (job_MaxAttempts j)" "job_Type j = JobTypeServiceEvaluation"
  shows "Store_EnqueueJob j w = (case find (same_key j) (t_jobs (w_db w)) of
       Some r \<Rightarrow> (Inr (scanJob (r\<lparr>job_UpdatedAt := job_UpdatedAt j\<rparr>)), w\<lparr>w_db := (w_db w)\<lparr>t_jobs :=
          update_where (same_key j) (\<lambda>r. r\<lparr>job_UpdatedAt := job_UpdatedAt j\<rparr>) (t_jobs (w_db w))\<rparr>\<rparr>)
     | None \<Rightarrow> if job_ID j \<in> job_ID ` set (t_jobs (w_db w))
         then (Inl (wrap_prefix ''postgres: scan job: '' (unique_violation ''jobs_pkey'')), w)
         else (Inr (scanJob (new_job_row j)), w\<lparr>w_db := (w_db w)\<lparr>t_jobs := t_jobs (w_db w) @ [new_job_row j]\<rparr>\<rparr>))"
  using assms by (simp add: Store_EnqueueJob_def tryM_def wrapM_def calm_write enqueue_stmt_def int4_encodes_def
      fresh_job_def accepts_jobs_def okM_def int4_def split: option.split)

lemma audited_obtain:
  assumes "calm w" "shd (w_uuids w) \<notin> aud_ID ` set (t_audit (w_db w))"
  obtains e where "audited (NewControlPlane L n) now pr rid et rt i ds w =
      (Inr (), w\<lparr>w_uuids := stl (w_uuids w), w_db := (w_db w)\<lparr>t_audit := t_audit (w_db w) @ [e]\<rparr>\<rparr>)"
    "aud_ActorSubject e = pr_Subject pr" "aud_EventType e = et" "aud_ResourceID e = i" "aud_RequestID e = rid"
    "aud_Details e = ds"
  using audited_calm [OF assms, of L n now pr rid et rt i ds] by (simp add: Let_def)

text \<open>A request with a given key, in a calm world: the handler up to the store.\<close>

lemma QueueServiceEvaluation_calm:
  assumes calm: "calm w" and inv: "db_inv (w_db w)" and i: "i \<in> svc_ID ` set (t_services (w_db w))"
    and key: "key \<noteq> []" and n: "accepts_jobs n"
    and aud: "shd (stl (w_uuids w)) \<notin> aud_ID ` set (t_audit (w_db w))"
    and e: "Store_EnqueueJob (evaluation_job (NewControlPlane L n) (shd (w_uuids w)) i key (shd (w_clock w)))
        (w\<lparr>w_clock := stl (w_clock w), w_uuids := stl (w_uuids w)\<rparr>) = (Inr j, v)"
    and v: "calm v" "w_uuids v = stl (w_uuids w)" "t_audit (w_db v) = t_audit (w_db w)"
  obtains w' a where "ControlPlane_QueueServiceEvaluation (NewControlPlane L n) i key pr rid w = (Inr j, w')"
    "w_db w' = (w_db v)\<lparr>t_audit := t_audit (w_db w) @ [a]\<rparr>" "aud_ResourceID a = i"
    "aud_EventType a = ''service.evaluation_requested''" "aud_Details a = [(''job_id'', AnyString (lib_uuid_String L (job_ID j)))]"
proof -
  obtain s where s: "Store_GetService i w = (Inr s, w)"
    using select_service_known [OF inv i] by (auto simp: GetService_calm calm)
  have run: "ControlPlane_QueueServiceEvaluation (NewControlPlane L n) i key pr rid w =
     (case audited (NewControlPlane L n) (shd (w_clock w)) pr rid ''service.evaluation_requested'' ''service'' i
             [(''job_id'', AnyString (lib_uuid_String L (job_ID j)))] v of
        (Inl e, w') \<Rightarrow> (Inl e, w') | (Inr _, w') \<Rightarrow> (Inr j, w'))"
    using s e key
    by (simp add: ControlPlane_QueueServiceEvaluation_def NewControlPlane_fields PostgresRepository_def tryM_def
        letM_def time_Now_def uuid_New_def idempotency_key_def okM_def split: sum.split prod.split)
  have "shd (w_uuids v) \<notin> aud_ID ` set (t_audit (w_db v))" using aud v by simp
  then obtain a where a: "audited (NewControlPlane L n) (shd (w_clock w)) pr rid ''service.evaluation_requested'' ''service'' i
             [(''job_id'', AnyString (lib_uuid_String L (job_ID j)))] v =
      (Inr (), v\<lparr>w_uuids := stl (w_uuids v), w_db := (w_db v)\<lparr>t_audit := t_audit (w_db v) @ [a]\<rparr>\<rparr>)"
    "aud_ResourceID a = i" "aud_EventType a = ''service.evaluation_requested''"
    "aud_Details a = [(''job_id'', AnyString (lib_uuid_String L (job_ID j)))]"
    by (rule audited_obtain [OF v(1)])
  show thesis by (rule that [OF run [unfolded a(1), simplified] _ a(2-4)]) (simp add: v)
qed

text \<open>
  C35. Requests with a new key. If the idempotency key is not in use, a request for an existing
  service appends exactly one job: pending, for that service, with no attempt used and immediately due;
  it returns that job, records an audit event that names it, and touches no other table.
\<close>

theorem QueueServiceEvaluation_enqueues:
  assumes calm: "calm w" and inv: "db_inv (w_db w)" and i: "i \<in> svc_ID ` set (t_services (w_db w))"
    and key: "key \<noteq> []" and n: "0 < n" "n < 2 ^ 31"
    and new: "key \<notin> job_IdempotencyKey ` set (t_jobs (w_db w))"
    and ids: "shd (w_uuids w) \<notin> job_ID ` set (t_jobs (w_db w))"
      "shd (stl (w_uuids w)) \<notin> aud_ID ` set (t_audit (w_db w))"
  shows "\<exists>w' r a. ControlPlane_QueueServiceEvaluation (NewControlPlane L n) i key pr rid w = (Inr (scanJob r), w')
    \<and> w_db w' = (w_db w)\<lparr>t_jobs := t_jobs (w_db w) @ [r], t_audit := t_audit (w_db w) @ [a]\<rparr>
    \<and> job_ResourceID r = i \<and> job_IdempotencyKey r = key \<and> job_Status r = JobStatusPending \<and> job_Attempts r = 0
    \<and> (\<forall>now expired. shd (w_clock w) \<le> now \<longrightarrow> claimable now expired r)
    \<and> aud_ResourceID a = i \<and> aud_Details a = [(''job_id'', AnyString (lib_uuid_String L (job_ID r)))]"
proof -
  let ?j = "evaluation_job (NewControlPlane L n) (shd (w_uuids w)) i key (shd (w_clock w))"
  let ?v = "w\<lparr>w_clock := stl (w_clock w), w_uuids := stl (w_uuids w)\<rparr>"
  have ok: "accepts_jobs n" using n by (simp add: accepts_jobs_def int4_def)
  have "find (same_key ?j) (t_jobs (w_db w)) = None"
    using new by (auto simp: find_None_iff same_key_def evaluation_job_def)
  then have e: "Store_EnqueueJob ?j ?v = (Inr (scanJob (new_job_row ?j)),
      ?v\<lparr>w_db := (w_db w)\<lparr>t_jobs := t_jobs (w_db w) @ [new_job_row ?j]\<rparr>\<rparr>)"
    using ids(1) by (subst EnqueueJob_calm) (simp_all add: calm ok fresh_job_def evaluation_job_def NewControlPlane_fields)
  have "job_ResourceID (new_job_row ?j) = i" "job_IdempotencyKey (new_job_row ?j) = key" "job_ID (new_job_row ?j) = shd (w_uuids w)"
    "job_Status (new_job_row ?j) = JobStatusPending" "job_Attempts (new_job_row ?j) = 0"
    "\<forall>now expired. shd (w_clock w) \<le> now \<longrightarrow> claimable now expired (new_job_row ?j)"
    using n by (simp_all add: new_job_row_def evaluation_job_def claimable_def NewControlPlane_fields)
  note row = this
  obtain w' a where run: "ControlPlane_QueueServiceEvaluation (NewControlPlane L n) i key pr rid w = (Inr (scanJob (new_job_row ?j)), w')"
    and a: "w_db w' = (w_db w)\<lparr>t_jobs := t_jobs (w_db w) @ [new_job_row ?j], t_audit := t_audit (w_db w) @ [a]\<rparr>"
      "aud_ResourceID a = i" "aud_Details a = [(''job_id'', AnyString (lib_uuid_String L (job_ID (new_job_row ?j))))]"
    by (rule QueueServiceEvaluation_calm [OF calm inv i key ok ids(2) e, of pr rid]) (simp_all add: calm)
  show ?thesis by (intro exI conjI, rule run, rule a, (rule row a)+)
qed

theorem QueueServiceEvaluation_enqueues_witness:
  "\<exists>w' r a. ControlPlane_QueueServiceEvaluation (NewControlPlane L0 5) 1 ''key'' admin ''req'' (process 20 20 d1) = (Inr (scanJob r), w')
    \<and> w_db w' = d1\<lparr>t_jobs := [r], t_audit := [audit1, a]\<rparr> \<and> job_ResourceID r = 1 \<and> claimable 20 0 r"
proof -
  have "calm (process 20 20 d1)" by (simp add: calm_def process_def)
  moreover have "db_inv (w_db (process 20 20 d1))" using reachable_inv [OF scenario_reachable(1)] by simp
  ultimately show ?thesis
    using QueueServiceEvaluation_enqueues [of "process 20 20 d1" 1 "''key''" 5 L0 admin "''req''"]
    by (force simp: process_def d1_def empty_db_def row_fields)
qed

lemma find_unique: "x \<in> set xs \<Longrightarrow> (\<And>y. y \<in> set xs \<Longrightarrow> P y \<longleftrightarrow> y = x) \<Longrightarrow> find P xs = Some x"
  by (induction xs) auto

lemma job_type: "db_inv d \<Longrightarrow> q \<in> set (t_jobs d) \<Longrightarrow> job_Type q = JobTypeServiceEvaluation"
  by (simp add: db_inv_def jobs_ok_def job_row_ok_def)

lemma unique_key:
  assumes "db_inv d" "q \<in> set (t_jobs d)" "r \<in> set (t_jobs d)" "job_IdempotencyKey q = job_IdempotencyKey r"
  shows "q = r"
proof -
  have "inj_on (\<lambda>r. (job_Type r, job_IdempotencyKey r)) (set (t_jobs d))"
    using assms(1) by (simp add: db_inv_def wf_keys_def distinct_map)
  from inj_onD [OF this _ assms(2,3)] show ?thesis
    using assms(4) by (simp add: job_type [OF assms(1)] assms(2,3))
qed

text \<open>
  C36. Requests with a used key. If a job with the idempotency key exists, a request for an existing
  service creates no job: the queue keeps the same jobs with the same targets, statuses and attempts,
  and the caller gets the existing job. The key alone decides, so a request for one service with a key
  used for another returns the other service's job, and the audit trail says an evaluation of this
  service was requested although none will run.
\<close>

theorem QueueServiceEvaluation_repeats:
  assumes calm: "calm w" and inv: "db_inv (w_db w)" and i: "i \<in> svc_ID ` set (t_services (w_db w))"
    and key: "key \<noteq> []" and n: "0 < n" "n < 2 ^ 31"
    and r: "r \<in> set (t_jobs (w_db w))" "job_IdempotencyKey r = key"
    and aud: "shd (stl (w_uuids w)) \<notin> aud_ID ` set (t_audit (w_db w))"
  shows "\<exists>j w' a. ControlPlane_QueueServiceEvaluation (NewControlPlane L n) i key pr rid w = (Inr j, w')
    \<and> job_ID j = job_ID r \<and> job_ResourceID j = job_ResourceID r \<and> job_Status j = job_Status r
    \<and> (\<exists>t. t_jobs (w_db w') = map (\<lambda>q. if q = r then r\<lparr>job_UpdatedAt := t\<rparr> else q) (t_jobs (w_db w)))
    \<and> t_audit (w_db w') = t_audit (w_db w) @ [a] \<and> aud_ResourceID a = i
    \<and> aud_EventType a = ''service.evaluation_requested''"
proof -
  let ?j = "evaluation_job (NewControlPlane L n) (shd (w_uuids w)) i key (shd (w_clock w))"
  let ?v = "w\<lparr>w_clock := stl (w_clock w), w_uuids := stl (w_uuids w)\<rparr>" and ?t = "shd (w_clock w)"
  have ok: "accepts_jobs n" using n by (simp add: accepts_jobs_def int4_def)
  have j: "job_UpdatedAt ?j = ?t" by (simp add: evaluation_job_def)
  have same: "same_key ?j q \<longleftrightarrow> q = r" if "q \<in> set (t_jobs (w_db w))" for q
    using unique_key [OF inv that r(1)] r job_type [OF inv] that by (auto simp: evaluation_job_def same_key_def)
  have found: "find (same_key ?j) (t_jobs (w_db w)) = Some r"
    using r(1) same by (rule find_unique)
  have upd: "update_where (same_key ?j) (\<lambda>r. r\<lparr>job_UpdatedAt := ?t\<rparr>) (t_jobs (w_db w)) =
      map (\<lambda>q. if q = r then r\<lparr>job_UpdatedAt := ?t\<rparr> else q) (t_jobs (w_db w))"
    unfolding update_where_def by (rule map_cong [OF refl]) (simp add: same)
  have e: "Store_EnqueueJob ?j ?v = (Inr (scanJob (r\<lparr>job_UpdatedAt := ?t\<rparr>)),
      ?v\<lparr>w_db := (w_db w)\<lparr>t_jobs := map (\<lambda>q. if q = r then r\<lparr>job_UpdatedAt := ?t\<rparr> else q) (t_jobs (w_db w))\<rparr>\<rparr>)"
    by (subst EnqueueJob_calm) (simp_all add: calm ok fresh_job_def found j upd, simp_all add: evaluation_job_def NewControlPlane_fields ok)
  obtain w' a where run: "ControlPlane_QueueServiceEvaluation (NewControlPlane L n) i key pr rid w = (Inr (scanJob (r\<lparr>job_UpdatedAt := ?t\<rparr>)), w')"
    and a: "w_db w' = (w_db w)\<lparr>t_jobs := map (\<lambda>q. if q = r then r\<lparr>job_UpdatedAt := ?t\<rparr> else q) (t_jobs (w_db w)),
      t_audit := t_audit (w_db w) @ [a]\<rparr>" "aud_ResourceID a = i" "aud_EventType a = ''service.evaluation_requested''"
    by (rule QueueServiceEvaluation_calm [OF calm inv i key ok aud e, of pr rid]) (simp_all add: calm)
  have jobs: "t_jobs (w_db w') = map (\<lambda>q. if q = r then r\<lparr>job_UpdatedAt := ?t\<rparr> else q) (t_jobs (w_db w))"
    and audit: "t_audit (w_db w') = t_audit (w_db w) @ [a]"
    by (simp_all add: a(1))
  show ?thesis
    by (intro exI conjI, rule run, simp, simp add: scanJob_def, simp add: scanJob_def, rule jobs, rule audit, (rule a)+)
qed

text \<open>The job of service 1 is returned for service 9.\<close>

definition two_services :: db where
  "two_services = d2\<lparr>t_services := [service1, service1\<lparr>svc_ID := 9, svc_Name := ''other''\<rparr>],
     t_slo_policies := [policy1, policy1\<lparr>slo_ID := 9, slo_ServiceID := 9\<rparr>]\<rparr>"

lemma two_services_inv: "db_inv two_services"
proof -
  have "db_inv d2" by (rule reachable_inv [OF scenario_reachable(2)])
  moreover have "slo_ID policy1 = 2" by (simp add: policy1_def service_from_input_def)
  ultimately show ?thesis
    by (simp add: db_inv_def wf_keys_def wf_refs_def jobs_ok_def snapshots_ok_def candidates_ok_def two_services_def
        d2_def d1_def empty_db_def row_fields)
qed

theorem QueueServiceEvaluation_repeats_witness:
  "\<exists>j w'. ControlPlane_QueueServiceEvaluation (NewControlPlane L0 5) 9 ''key'' admin ''req'' (process 30 30 two_services) = (Inr j, w')
    \<and> job_ID j = 20 \<and> job_ResourceID j = 1 \<and> map job_ResourceID (t_jobs (w_db w')) = [1]"
proof -
  have "calm (process 30 30 two_services)" by (simp add: calm_def process_def)
  from QueueServiceEvaluation_repeats [OF this, of 9 "''key''" 5 job2 L0 admin "''req''"] two_services_inv
  obtain j w' t where "ControlPlane_QueueServiceEvaluation (NewControlPlane L0 5) 9 ''key'' admin ''req'' (process 30 30 two_services) = (Inr j, w')"
    "job_ID j = job_ID job2" "job_ResourceID j = job_ResourceID job2"
    "t_jobs (w_db w') = map (\<lambda>q. if q = job2 then job2\<lparr>job_UpdatedAt := t\<rparr> else q) (t_jobs two_services)"
    by (auto simp: process_def two_services_def d2_def d1_def empty_db_def row_fields job2_def)
  then show ?thesis by (simp add: two_services_def d2_def) (simp add: job2_def)
qed

end
