(* ===== verification/Draining.thy ===== *)
theory Draining
  imports Outcomes
begin

section \<open>A worker empties the queue\<close>

text \<open>
  When nothing fails and no other process interferes, every iteration of a worker completes all the
  jobs it claims, so a bounded number of ticks completes every job that was due: the retry loop ends.
\<close>

subsection \<open>Evaluating one job\<close>

text \<open>The identifiers in use, and a world whose next \<open>m\<close> draws are new.\<close>

definition used_ids :: "db \<Rightarrow> uuid set" where
  "used_ids d = snap_ID ` set (t_snapshots d) \<union> chk_ID ` set (t_checks d) \<union> aud_ID ` set (t_audit d)"

definition fresh_ids :: "nat \<Rightarrow> world \<Rightarrow> bool" where
  "fresh_ids m w \<longleftrightarrow> distinct (stake m (w_uuids w)) \<and> set (stake m (w_uuids w)) \<inter> used_ids (w_db w) = {}"

lemma buildCheck_draws:
  obtains c where "buildCheck uuid_New sid x w = (c, w\<lparr>w_uuids := stl (w_uuids w)\<rparr>)" "chk_ID c = shd (w_uuids w)"
  by (cases x) (simp add: buildCheck_def letM_def uuid_New_def)

lemma mapL_draws:
  "mapL (buildCheck uuid_New sid) xs w
     = (cs, w') \<Longrightarrow> w' = w\<lparr>w_uuids := sdrop (length xs) (w_uuids w)\<rparr> \<and> map chk_ID cs = stake (length xs) (w_uuids w)"
proof (induction xs arbitrary: w cs)
  case (Cons x xs)
  obtain c where c: "buildCheck uuid_New sid x w = (c, w\<lparr>w_uuids := stl (w_uuids w)\<rparr>)" "chk_ID c = shd (w_uuids w)"
    by (rule buildCheck_draws)
  with Cons.prems obtain ds where "mapL (buildCheck uuid_New sid) xs (w\<lparr>w_uuids := stl (w_uuids w)\<rparr>) = (ds, w')" "cs = c # ds"
    by (auto split: prod.splits)
  with Cons.IH [OF this(1)] c(2) show ?case by simp
qed simp

lemma Evaluate_draws:
  assumes "Evaluate uuid_New s job tm w = (r, w')"
  shows "w' = w\<lparr>w_uuids := sdrop 11 (w_uuids w)\<rparr>"
    "map chk_ID (res_Checks r) @ [snap_ID (res_Snapshot r)] = stake 11 (w_uuids w)"
proof -
  obtain cs w1 where m: "mapL (buildCheck uuid_New (svc_ID s)) (findings s) w = (cs, w1)" by fastforce
  have n: "length (findings s) = 10" by (simp add: findings_def)
  from mapL_draws [OF m] have w1: "w1 = w\<lparr>w_uuids := sdrop 10 (w_uuids w)\<rparr>" and ids: "map chk_ID cs = stake 10 (w_uuids w)"
    by (simp_all only: n)
  have "res_Checks r = map (\<lambda>c. c\<lparr>chk_SnapshotID := w_uuids w !! 10, chk_CreatedAt := tm\<rparr>) cs
      \<and> snap_ID (res_Snapshot r) = w_uuids w !! 10 \<and> w' = w\<lparr>w_uuids := stl (sdrop 10 (w_uuids w))\<rparr>"
    using assms by (auto simp: Evaluate_def letM_def m uuid_New_def w1 split: prod.splits)
  moreover have "stl (sdrop 10 u) = sdrop 11 u" "stake 11 u = stake 10 u @ [u !! 10]" for u :: "uuid stream"
    using stake_Suc [of 10 u] by (simp_all add: sdrop_stl numeral_eq_Suc)
  ultimately show "w' = w\<lparr>w_uuids := sdrop 11 (w_uuids w)\<rparr>"
    "map chk_ID (res_Checks r) @ [snap_ID (res_Snapshot r)] = stake 11 (w_uuids w)"
    using ids by (simp_all only:) (simp_all add: comp_def)
qed

lemma insert_checks_calm:
  assumes "calm w" "distinct (map chk_ID cs)" "chk_ID ` set cs \<inter> chk_ID ` set (t_checks (w_db w)) = {}"
    and "\<And>c. c \<in> set cs \<Longrightarrow> chk_Status c \<in> {CheckStatusPass, CheckStatusWarn, CheckStatusFail}
      \<and> chk_ServiceID c \<in> svc_ID ` set (t_services (w_db w)) \<and> chk_SnapshotID c \<in> snap_ID ` set (t_snapshots (w_db w))"
  shows "insert_checks cs w = (Inr (), w\<lparr>w_db := (w_db w)\<lparr>t_checks := t_checks (w_db w) @ cs\<rparr>\<rparr>)"
  using assms
proof (induction cs arbitrary: w)
  case Nil
  then show ?case by (simp add: okM_def)
next
  case (Cons c cs)
  let ?v = "w\<lparr>w_db := (w_db w)\<lparr>t_checks := t_checks (w_db w) @ [c]\<rparr>\<rparr>"
  have "insert_check c (w_db w) = Inr ((), (w_db w)\<lparr>t_checks := t_checks (w_db w) @ [c]\<rparr>)"
    unfolding insert_check_Inr using Cons.prems(3,4) by simp
  then have "insert_checks (c # cs) w = insert_checks cs ?v"
    using Cons.prems(1) by (simp add: tryM_def wrapM_def calm_write)
  also have "\<dots> = (Inr (), ?v\<lparr>w_db := (w_db ?v)\<lparr>t_checks := t_checks (w_db ?v) @ cs\<rparr>\<rparr>)"
    by (rule Cons.IH) (use Cons.prems in auto)
  finally show ?case by simp
qed

lemma SaveReadinessEvaluation_calm:
  assumes calm: "calm w" and snap: "insert_snapshot s (w_db w) = Inr ((), d)"
    and cs: "distinct (map chk_ID cs)" "chk_ID ` set cs \<inter> chk_ID ` set (t_checks d) = {}"
    "\<And>c. c \<in> set cs \<Longrightarrow> chk_Status c \<in> {CheckStatusPass, CheckStatusWarn, CheckStatusFail}
      \<and> chk_ServiceID c \<in> svc_ID ` set (t_services d) \<and> chk_SnapshotID c \<in> snap_ID ` set (t_snapshots d)"
  shows "Store_SaveReadinessEvaluation s cs w = (Inr (), w\<lparr>w_db := d\<lparr>t_checks := t_checks d @ cs\<rparr>\<rparr>)"
proof -
  define body where "body = tryM (wrapM (wrap_prefix ''postgres: insert readiness snapshot: '')
      (pg_write (insert_snapshot s))) (\<lambda>_. tryM (insert_checks cs) (\<lambda>_.
        wrapM (wrap_prefix ''postgres: close readiness evaluation batch: '') (pg_read (\<lambda>d. Inr ()))))"
  have "insert_checks cs (w\<lparr>w_db := d\<rparr>) = (Inr (), w\<lparr>w_db := d\<lparr>t_checks := t_checks d @ cs\<rparr>\<rparr>)"
    using insert_checks_calm [of "w\<lparr>w_db := d\<rparr>" cs] calm cs by simp
  then have b: "body w = (Inr (), w\<lparr>w_db := d\<lparr>t_checks := t_checks d @ cs\<rparr>\<rparr>)"
    using calm snap by (simp add: body_def tryM_def wrapM_def calm_write calm_read)
  have "calm w'" if "body w = (r, w')" for r w' using that b calm by auto
  from calm_tx [where body = body, OF calm this] show ?thesis
    unfolding Store_SaveReadinessEvaluation_def body_def [symmetric] by (simp add: b)
qed

lemma Evaluate_storable:
  assumes "Evaluate new s job tm w = (r, w')" "snap_ID (res_Snapshot r) \<notin> snap_ID ` set (t_snapshots d)"
    "job \<in> job_ID ` set (t_jobs d)" "svc_ID s \<in> svc_ID ` set (t_services d)"
  shows "insert_snapshot (res_Snapshot r) d = Inr ((), d\<lparr>t_snapshots := t_snapshots d @ [res_Snapshot r]\<rparr>)"
proof -
  note r = Evaluate_result(3,6,7) [OF assms(1)]
  have "0 \<le> snap_Score (res_Snapshot r) \<and> snap_Score (res_Snapshot r) \<le> 100"
    unfolding r(1) by (rule score_of_range) simp_all
  moreover have "snap_State (res_Snapshot r) \<in> {ReadinessReady, ReadinessDegraded, ReadinessBlocked}"
    by (simp add: Evaluate_state [OF assms(1)] state_of_def)
  ultimately show ?thesis
    unfolding insert_snapshot_Inr using assms(2-4) r(2,3) by (simp add: int4_def)
qed

text \<open>An evaluation draws twelve identifiers: the ten checks, the snapshot and the audit event.\<close>

lemma fresh_ids_split:
  assumes "fresh_ids (12 + m) w"
  shows "distinct (stake 11 (w_uuids w))" "set (stake 11 (w_uuids w)) \<inter> used_ids (w_db w) = {}"
    "shd (sdrop 11 (w_uuids w)) \<notin> used_ids (w_db w) \<union> set (stake 11 (w_uuids w))"
    "distinct (stake m (sdrop 12 (w_uuids w)))"
    "set (stake m (sdrop 12 (w_uuids w))) \<inter> (used_ids (w_db w) \<union> insert (shd (sdrop 11 (w_uuids w))) (set (stake 11 (w_uuids w)))) = {}"
proof -
  let ?u = "w_uuids w"
  have "stake (12 + m) ?u = stake 11 ?u @ shd (sdrop 11 ?u) # stake m (stl (sdrop 11 ?u))"
    using stake_add [of 11 ?u "Suc m"] by simp
  moreover have "stl (sdrop 11 ?u) = sdrop 12 ?u" by (simp add: sdrop_stl numeral_eq_Suc)
  ultimately have split: "stake (12 + m) ?u = stake 11 ?u @ shd (sdrop 11 ?u) # stake m (sdrop 12 ?u)" by simp
  note f = assms [unfolded fresh_ids_def split]
  show "distinct (stake 11 ?u)" "set (stake 11 ?u) \<inter> used_ids (w_db w) = {}"
    "shd (sdrop 11 ?u) \<notin> used_ids (w_db w) \<union> set (stake 11 ?u)" "distinct (stake m (sdrop 12 ?u))"
    "set (stake m (sdrop 12 ?u)) \<inter> (used_ids (w_db w) \<union> insert (shd (sdrop 11 ?u)) (set (stake 11 ?u))) = {}"
    using f by auto
qed

lemma ProcessServiceEvaluationJob_calm:
  assumes calm: "calm w" and inv: "db_inv (w_db w)" and ids: "fresh_ids (12 + m) w"
    and job: "job_ID job \<in> job_ID ` set (t_jobs (w_db w))" "job_ResourceID job \<in> svc_ID ` set (t_services (w_db w))"
  obtains w' s where "ControlPlane_ProcessServiceEvaluationJob (NewControlPlane L n) job wid w = (Inr (), w')"
    "calm w'" "w_locked w' = w_locked w" "w_pg_clock w' = w_pg_clock w" "fresh_ids m w'" "db_inv (w_db w')"
    "t_jobs (w_db w') = t_jobs (w_db w)" "t_services (w_db w') = t_services (w_db w)"
    "t_snapshots (w_db w') = t_snapshots (w_db w) @ [s]" "snap_JobID s = job_ID job"
    "snap_ServiceID s = job_ResourceID job"
proof -
  let ?d = "w_db w" and ?u = "w_uuids w"
  note f = fresh_ids_split [OF ids]
  obtain s where s: "Store_GetService (job_ResourceID job) w = (Inr s, w)" "svc_ID s = job_ResourceID job"
    using select_service_known [OF inv job(2)] by (auto simp: GetService_calm calm scanService_def)
  let ?w1 = "w\<lparr>w_clock := stl (w_clock w)\<rparr>"
  obtain r w2 where r: "Evaluate uuid_New s (job_ID job) (shd (w_clock w)) ?w1 = (r, w2)" by fastforce
  have w2: "w2 = ?w1\<lparr>w_uuids := sdrop 11 ?u\<rparr>" and new: "map chk_ID (res_Checks r) @ [snap_ID (res_Snapshot r)] = stake 11 ?u"
    using Evaluate_draws [OF r] by simp_all
  have drawn: "set (stake 11 ?u) = insert (snap_ID (res_Snapshot r)) (chk_ID ` set (res_Checks r))"
    "distinct (map chk_ID (res_Checks r))"
    using f(1) by (simp_all add: new [symmetric])
  let ?d1 = "?d\<lparr>t_snapshots := t_snapshots ?d @ [res_Snapshot r]\<rparr>"
  let ?d2 = "?d1\<lparr>t_checks := t_checks ?d1 @ res_Checks r\<rparr>"
  have snap: "insert_snapshot (res_Snapshot r) (w_db w2) = Inr ((), ?d1)"
    using Evaluate_storable [OF r, of ?d] f(2) drawn(1) job s(2) by (auto simp: w2 used_ids_def)
  have save: "Store_SaveReadinessEvaluation (res_Snapshot r) (res_Checks r) w2 = (Inr (), w2\<lparr>w_db := ?d2\<rparr>)"
  proof (rule SaveReadinessEvaluation_calm [OF _ snap drawn(2)])
    show "calm w2" by (simp add: w2 calm)
    show "chk_ID ` set (res_Checks r) \<inter> chk_ID ` set (t_checks ?d1) = {}"
      using f(2) by (auto simp: drawn(1) used_ids_def)
  qed (use evaluation_checks [OF r] Evaluate_statuses_known [OF r] job(2) s(2) in auto)
  let ?w4 = "w2\<lparr>w_db := ?d2, w_clock := stl (w_clock w2)\<rparr>"
  let ?details = "[(''snapshot_id'', AnyString (lib_uuid_String L (snap_ID (res_Snapshot r)))),
        (''state'', AnyString (ReadinessState_string (snap_State (res_Snapshot r)))),
        (''score'', AnyInt (snap_Score (res_Snapshot r)))]"
  have "calm ?w4" "shd (w_uuids ?w4) \<notin> aud_ID ` set (t_audit (w_db ?w4))"
    using f(3) calm by (auto simp: w2 used_ids_def)
  from audited_calm [OF this, of L n "shd (w_clock w2)" "worker_principal wid" "lib_uuid_String L (job_ID job)"
      "''service.evaluated''" "''service''" "svc_ID s" ?details]
  obtain e where audit: "audited (NewControlPlane L n) (shd (w_clock w2)) (worker_principal wid)
      (lib_uuid_String L (job_ID job)) ''service.evaluated'' ''service'' (svc_ID s) ?details ?w4
      = (Inr (), ?w4\<lparr>w_uuids := stl (w_uuids w2), w_db := ?d2\<lparr>t_audit := t_audit ?d @ [e]\<rparr>\<rparr>)"
    and e: "aud_ID e = shd (sdrop 11 ?u)"
    by (simp add: Let_def w2)
  let ?w5 = "?w4\<lparr>w_uuids := stl (w_uuids w2), w_db := ?d2\<lparr>t_audit := t_audit ?d @ [e]\<rparr>\<rparr>"
  have run: "ControlPlane_ProcessServiceEvaluationJob (NewControlPlane L n) job wid w = (Inr (), ?w5)"
    using s(1) r save audit
    by (simp add: ControlPlane_ProcessServiceEvaluationJob_def tryM_def letM_def NewControlPlane_fields
        PostgresRepository_def time_Now_def)
  have "w_uuids ?w5 = sdrop 12 ?u" by (simp add: w2 sdrop_stl numeral_eq_Suc)
  moreover have "used_ids (w_db ?w5) = used_ids ?d \<union> insert (shd (sdrop 11 ?u)) (set (stake 11 ?u))"
    by (auto simp: used_ids_def drawn(1) e)
  ultimately have "fresh_ids m ?w5" using f(4,5) by (simp only: fresh_ids_def)
  moreover have "db_inv (w_db ?w5)"
    using keepsD [OF pg.process_evaluation [OF NewControlPlane_wired] _ run, of ?d] inv
    by (simp add: on_db_def since_def grows_refl)
  ultimately show thesis
    using that [OF run] calm s(2) Evaluate_result(6,7) [OF r] by (simp add: w2)
qed

subsection \<open>One iteration\<close>

text \<open>
  A job is evaluated when it is completed and a snapshot of its service names it. \<open>finishes I d d'\<close>: from
  \<open>d\<close> to \<open>d'\<close> the jobs in \<open>I\<close> were evaluated and no other job changed.
\<close>

definition evaluated :: "jobs_row \<Rightarrow> db \<Rightarrow> bool" where
  "evaluated r d \<longleftrightarrow> (\<exists>q \<in> set (t_jobs d). job_ID q = job_ID r \<and> job_Status q = JobStatusCompleted)
     \<and> (\<exists>s \<in> set (t_snapshots d). snap_JobID s = job_ID r \<and> snap_ServiceID s = job_ResourceID r)"

definition finishes :: "uuid set \<Rightarrow> db \<Rightarrow> db \<Rightarrow> bool" where
  "finishes I d d' \<longleftrightarrow> map job_ID (t_jobs d') = map job_ID (t_jobs d)
     \<and> {r \<in> set (t_jobs d'). job_ID r \<notin> I} = {r \<in> set (t_jobs d). job_ID r \<notin> I}
     \<and> (\<forall>r \<in> set (t_jobs d). job_ID r \<in> I \<longrightarrow> evaluated r d')
     \<and> set (t_snapshots d) \<subseteq> set (t_snapshots d')"

lemma finishes_refl: "finishes {} d d"
  by (simp add: finishes_def)

lemma finishes_row:
  "finishes I d d' \<Longrightarrow> r \<in> set (t_jobs d) \<Longrightarrow> if job_ID r \<in> I then evaluated r d' else r \<in> set (t_jobs d')"
  unfolding finishes_def by auto

lemma finishes_row_back:
  "finishes I d d' \<Longrightarrow> r \<in> set (t_jobs d') \<Longrightarrow> job_ID r \<notin> I \<Longrightarrow> r \<in> set (t_jobs d)"
  unfolding finishes_def by blast

lemma evaluated_stays:
  assumes "evaluated r d" "finishes I d d'"
  shows "evaluated r d'"
proof -
  from assms(1) obtain q s where q: "q \<in> set (t_jobs d)" "job_ID q = job_ID r" "job_Status q = JobStatusCompleted"
    and s: "s \<in> set (t_snapshots d)" "snap_JobID s = job_ID r \<and> snap_ServiceID s = job_ResourceID r"
    unfolding evaluated_def by blast
  have "\<exists>q' \<in> set (t_jobs d'). job_ID q' = job_ID r \<and> job_Status q' = JobStatusCompleted"
    using finishes_row [OF assms(2) q(1)] q by (auto simp: evaluated_def split: if_splits)
  moreover have "s \<in> set (t_snapshots d')" using assms(2) s(1) by (auto simp: finishes_def)
  ultimately show ?thesis unfolding evaluated_def using s(2) by blast
qed

lemma finishes_trans:
  assumes "finishes A d d'" "finishes B d' d''"
  shows "finishes (A \<union> B) d d''"
proof -
  have "evaluated r d''" if "r \<in> set (t_jobs d)" "job_ID r \<in> A \<union> B" for r
  proof (cases "job_ID r \<in> A")
    case True
    then show ?thesis using assms that(1) evaluated_stays by (auto simp: finishes_def)
  next
    case False
    then have "r \<in> set (t_jobs d')" using assms(1) that(1) by (auto simp: finishes_def)
    then show ?thesis using assms(2) that(2) False by (auto simp: finishes_def)
  qed
  then show ?thesis using assms unfolding finishes_def by auto
qed

text \<open>
  A world in which nothing fails, nobody else locks a row, the database clock is past \<open>T\<close>, the next
  \<open>m\<close> draws are new, and every job is about a registered service.
\<close>

definition undisturbed :: "time \<Rightarrow> nat \<Rightarrow> world \<Rightarrow> bool" where
  "undisturbed T m w \<longleftrightarrow> calm w \<and> w_locked w = sconst [] \<and> (\<forall>k. T \<le> w_pg_clock w !! k) \<and> fresh_ids m w
     \<and> db_inv (w_db w) \<and> job_ResourceID ` set (t_jobs (w_db w)) \<subseteq> svc_ID ` set (t_services (w_db w))"

lemma later_clock: "\<forall>k. T \<le> c !! k \<Longrightarrow> \<forall>k. T \<le> stl c !! k"
  by (metis snth.simps(2))

lemma worker_fields:
  "wk_service (worker_of L c newID n lease) = c" "wk_repo (worker_of L c newID n lease) = cp_repo c"
  "wk_batchSize (worker_of L c newID n lease) = n" "wk_lease (worker_of L c newID n lease) = lease"
  by (simp_all add: worker_of_def NewWorker_def)

lemma update_owned_rows:
  assumes "db_inv d" "r \<in> set (t_jobs d)" "owned_by (job_ID r) wid r"
  shows "update_where (owned_by (job_ID r) wid) f (t_jobs d) = map (\<lambda>q. if q = r then f r else q) (t_jobs d)"
  unfolding update_where_def
  by (rule map_cong [OF refl]) (use assms unique_job [OF assms(1,2)] in \<open>auto simp: owned_by_def\<close>)

lemma finishes_one:
  assumes inv: "db_inv d" and r: "r \<in> set (t_jobs d)"
    and d': "t_jobs d' = map (\<lambda>q. if q = r then complete_row t r else q) (t_jobs d)" "t_snapshots d' = t_snapshots d @ [s]"
    and s: "snap_JobID s = job_ID r" "snap_ServiceID s = job_ResourceID r"
  shows "finishes {job_ID r} d d'" "job_ResourceID ` set (t_jobs d') = job_ResourceID ` set (t_jobs d)"
proof -
  have same: "job_ID (complete_row t r) = job_ID r" "job_ResourceID (complete_row t r) = job_ResourceID r"
    "job_Status (complete_row t r) = JobStatusCompleted" by (simp_all add: complete_row_def)
  have u: "q = r" if "q \<in> set (t_jobs d)" "job_ID q = job_ID r" for q using unique_job [OF inv r that] .
  have "evaluated r d'"
    unfolding evaluated_def d' using r s same by force
  moreover have "q = r" if "q \<in> set (t_jobs d)" "job_ID q \<in> {job_ID r}" for q using u that by simp
  ultimately have "\<forall>q \<in> set (t_jobs d). job_ID q \<in> {job_ID r} \<longrightarrow> evaluated q d'" by blast
  moreover have "map job_ID (t_jobs d') = map job_ID (t_jobs d)" by (simp add: d' same)
  moreover have "{q \<in> set (t_jobs d'). job_ID q \<notin> {job_ID r}} = {q \<in> set (t_jobs d). job_ID q \<notin> {job_ID r}}"
    by (auto simp: d' same split: if_splits)
  ultimately show "finishes {job_ID r} d d'" unfolding finishes_def by (simp add: d'(2) subset_insertI)
  have "map job_ResourceID (t_jobs d') = map job_ResourceID (t_jobs d)" by (simp add: d' same)
  then show "job_ResourceID ` set (t_jobs d') = job_ResourceID ` set (t_jobs d)" by (metis set_map)
qed

lemma undisturbed_less: "undisturbed T m w \<Longrightarrow> k \<le> m \<Longrightarrow> undisturbed T k w"
proof -
  assume w: "undisturbed T m w" "k \<le> m"
  have "stake k (w_uuids w) = take k (stake m (w_uuids w))" using w(2) by (simp add: take_stake min_absorb1)
  then have "fresh_ids k w"
    using w(1) set_take_subset [of k "stake m (w_uuids w)"] by (auto simp: undisturbed_def fresh_ids_def)
  then show ?thesis using w(1) by (simp add: undisturbed_def)
qed

lemma MarkJobCompleted_calm:
  assumes "calm w" "db_inv (w_db w)" "r \<in> set (t_jobs (w_db w))" "owned_by (job_ID r) wid r"
  shows "Store_MarkJobCompleted (job_ID r) wid w = (Inr (), w\<lparr>w_pg_clock := stl (w_pg_clock w), w_db := (w_db w)
    \<lparr>t_jobs := map (\<lambda>q. if q = r then complete_row (shd (w_pg_clock w)) r else q) (t_jobs (w_db w))\<rparr>\<rparr>)"
proof -
  have "rows_where (owned_by (job_ID r) wid) (t_jobs (w_db w)) = 1"
    using owned_update(1) [OF assms(2)] assms(3,4) by auto
  then show ?thesis
    using assms(1) by (simp add: Store_MarkJobCompleted_def letM_def pg_NOW_def tryM_def wrapM_def calm_write
        update_one_def update_owned_rows [OF assms(2-4)] affected_one_def okM_def)
qed

text \<open>A completed job is counted once; \<open>s\<close> and \<open>s'\<close> are states of a worker around the world.\<close>

definition one_completed :: "string \<times> string" where
  "one_completed = (JobType_string JobTypeServiceEvaluation, ''completed'')"

lemma job_step:
  assumes w: "undisturbed T (12 + m) (ws_world s)"
    and r: "r \<in> set (t_jobs (w_db (ws_world s)))" "owned_by (job_ID r) (wk_id wk) r"
    and wk: "wk_service wk = NewControlPlane L n" "wk_repo wk = PostgresRepository lt"
  obtains s' where "process_jobs wk (scanJob r # js) s = process_jobs wk js s'"
    "undisturbed T m (ws_world s')" "finishes {job_ID r} (w_db (ws_world s)) (w_db (ws_world s'))"
    "ws_jobs_total s' = ws_jobs_total s @ [one_completed]"
proof -
  let ?w = "ws_world s"
  note u = w [unfolded undisturbed_def]
  have type: "job_Type r = JobTypeServiceEvaluation" using job_type r(1) u by blast
  have job: "job_ID (scanJob r) \<in> job_ID ` set (t_jobs (w_db ?w))"
    "job_ResourceID (scanJob r) \<in> svc_ID ` set (t_services (w_db ?w))"
    using r(1) u by (auto simp: scanJob_def)
  obtain v snap where v: "ControlPlane_ProcessServiceEvaluationJob (NewControlPlane L n) (scanJob r) (wk_id wk) ?w = (Inr (), v)"
    "calm v" "w_locked v = w_locked ?w" "w_pg_clock v = w_pg_clock ?w" "fresh_ids m v" "db_inv (w_db v)"
    "t_jobs (w_db v) = t_jobs (w_db ?w)" "t_services (w_db v) = t_services (w_db ?w)"
    "t_snapshots (w_db v) = t_snapshots (w_db ?w) @ [snap]" "snap_JobID snap = job_ID (scanJob r)"
    "snap_ServiceID snap = job_ResourceID (scanJob r)"
    using ProcessServiceEvaluationJob_calm [OF _ _ _ job, of m L n "wk_id wk"] u by blast
  let ?d = "(w_db v)\<lparr>t_jobs := map (\<lambda>q. if q = r then complete_row (shd (w_pg_clock v)) r else q) (t_jobs (w_db v))\<rparr>"
  let ?v = "v\<lparr>w_pg_clock := stl (w_pg_clock v), w_db := ?d\<rparr>"
  have mark: "Store_MarkJobCompleted (job_ID r) (wk_id wk) v = (Inr (), ?v)"
    by (rule MarkJobCompleted_calm [OF v(2,6) _ r(2)]) (use v(7) r(1) in simp)
  let ?s = "s\<lparr>ws_world := ?v, ws_jobs_total := ws_jobs_total s @ [one_completed], ws_log := ws_log s @
      [WorkerJobCompleted (wk_id wk) (lib_uuid_String L (job_ID r)) (JobType_string JobTypeServiceEvaluation)]\<rparr>"
  have step: "process_jobs wk (scanJob r # js) s = process_jobs wk js ?s"
    using v(1) mark type wk
    by (simp add: catchM_def processJob_def in_world_def tryM_def wrapM_def letM_def WorkerJobsTotal_Inc_def log_worker_def
        PostgresRepository_def scanJob_def NewControlPlane_fields one_completed_def)
  have f: "finishes {job_ID r} (w_db ?w) ?d" "job_ResourceID ` set (t_jobs ?d) = job_ResourceID ` set (t_jobs (w_db ?w))"
    using finishes_one [of "w_db ?w" r ?d "shd (w_pg_clock v)" snap] u r(1) v(7,9-11) by (simp_all add: scanJob_def)
  have "db_inv (w_db ?v)" using keepsD [OF keeps_MarkJobCompleted _ mark] v(6) by (simp add: on_db_def)
  moreover have "\<forall>k. T \<le> stl (w_pg_clock ?w) !! k" using later_clock u by blast
  ultimately have "undisturbed T m ?v"
    using u v f(2) by (simp add: undisturbed_def fresh_ids_def used_ids_def)
  then show thesis using that [OF step] f(1) by simp
qed

lemma process_jobs_calm:
  assumes wk: "wk_service wk = NewControlPlane L n" "wk_repo wk = PostgresRepository lt"
  shows "undisturbed T (12 * length rows + m) (ws_world s) \<Longrightarrow> distinct (map job_ID rows)
     \<Longrightarrow> \<forall>r \<in> set rows. r \<in> set (t_jobs (w_db (ws_world s))) \<and> owned_by (job_ID r) (wk_id wk) r
     \<Longrightarrow> \<exists>s'. process_jobs wk (map scanJob rows) s = (Inr (), s') \<and> undisturbed T m (ws_world s')
           \<and> finishes (job_ID ` set rows) (w_db (ws_world s)) (w_db (ws_world s'))
           \<and> ws_jobs_total s' = ws_jobs_total s @ replicate (length rows) one_completed"
proof (induction rows arbitrary: s)
  case Nil
  then show ?case by (simp add: okM_def finishes_refl)
next
  case (Cons r rows)
  have "undisturbed T (12 + (12 * length rows + m)) (ws_world s)" using Cons.prems(1) by (simp add: algebra_simps)
  then obtain v where v: "process_jobs wk (scanJob r # map scanJob rows) s = process_jobs wk (map scanJob rows) v"
    "undisturbed T (12 * length rows + m) (ws_world v)" "finishes {job_ID r} (w_db (ws_world s)) (w_db (ws_world v))"
    "ws_jobs_total v = ws_jobs_total s @ [one_completed]"
    by (rule job_step [where r = r and wk = wk, OF _ _ _ wk]) (use Cons.prems(3) in auto)
  have "\<forall>q \<in> set rows. q \<in> set (t_jobs (w_db (ws_world v))) \<and> owned_by (job_ID q) (wk_id wk) q"
  proof
    fix q assume q: "q \<in> set rows"
    then have "job_ID q \<noteq> job_ID r" using Cons.prems(2) by (metis distinct.simps(2) image_eqI list.set_map list.simps(9))
    then show "q \<in> set (t_jobs (w_db (ws_world v))) \<and> owned_by (job_ID q) (wk_id wk) q"
      using finishes_row [OF v(3), of q] Cons.prems(3) q by auto
  qed
  then obtain s' where s': "process_jobs wk (map scanJob rows) v = (Inr (), s')" "undisturbed T m (ws_world s')"
    "finishes (job_ID ` set rows) (w_db (ws_world v)) (w_db (ws_world s'))"
    "ws_jobs_total s' = ws_jobs_total v @ replicate (length rows) one_completed"
    using Cons.IH [OF v(2)] Cons.prems(2) by auto
  show ?case using v(1,4) s'(1,2,4) finishes_trans [OF v(3) s'(3)] by auto
qed

text \<open>The jobs that are not completed, and the ones that were due before the clock's first reading.\<close>

definition unfinished :: "db \<Rightarrow> uuid set" where
  "unfinished d = job_ID ` {r \<in> set (t_jobs d). job_Status r \<noteq> JobStatusCompleted}"

definition waiting :: "time \<Rightarrow> db \<Rightarrow> jobs_row set" where
  "waiting T d = {r \<in> set (t_jobs d). job_Status r \<in> {JobStatusPending, JobStatusFailed}
     \<and> job_Attempts r < job_MaxAttempts r \<and> job_AvailableAt r \<le> T}"

lemma finite_unfinished: "finite (unfinished d)"
  by (simp add: unfinished_def)

lemma finishes_unfinished:
  assumes "finishes I d d'" "db_inv d'"
  shows "unfinished d' \<subseteq> unfinished d - I"
proof
  fix i assume "i \<in> unfinished d'"
  then obtain r where r: "r \<in> set (t_jobs d')" "job_Status r \<noteq> JobStatusCompleted" "i = job_ID r"
    by (auto simp: unfinished_def)
  have "map job_ID (t_jobs d') = map job_ID (t_jobs d)" using assms(1) by (simp add: finishes_def)
  then have "job_ID ` set (t_jobs d') = job_ID ` set (t_jobs d)" by (metis set_map)
  then have "job_ID r \<in> job_ID ` set (t_jobs d)" using r(1) by (metis imageI)
  then obtain q where q: "q \<in> set (t_jobs d)" "job_ID q = job_ID r" by auto
  have "job_ID r \<notin> I"
  proof
    assume "job_ID r \<in> I"
    then have "evaluated q d'" using finishes_row [OF assms(1) q(1)] q(2) by simp
    then obtain q' where q': "q' \<in> set (t_jobs d')" "job_ID q' = job_ID r" "job_Status q' = JobStatusCompleted"
      using q(2) by (auto simp: evaluated_def)
    have "q' = r" by (rule unique_job [OF assms(2) r(1) q'(1,2)])
    with q'(3) r(2) show False by simp
  qed
  with finishes_row_back [OF assms(1) r(1)] show "i \<in> unfinished d - I" using r(2,3) by (auto simp: unfinished_def)
qed

lemma finishes_claimed:
  assumes inv: "db_inv d" and cs: "set cs \<subseteq> set (t_jobs d)"
    and claimed: "claimed = d\<lparr>t_jobs := map (\<lambda>r. if r \<in> set cs then lease_row wid now r else r) (t_jobs d)\<rparr>"
    and f: "finishes (job_ID ` set cs) claimed d'"
  shows "finishes (job_ID ` set cs) d d'"
proof -
  have key: "r \<in> set cs" if r: "r \<in> set (t_jobs d)" "job_ID r \<in> job_ID ` set cs" for r
  proof -
    obtain q where q: "q \<in> set cs" "job_ID q = job_ID r" using r(2) by auto
    have "q = r" by (rule unique_job [OF inv r(1) _ q(2)]) (use cs q(1) in blast)
    with q(1) show ?thesis by simp
  qed
  then have out: "job_ID r \<notin> job_ID ` set cs \<longleftrightarrow> r \<notin> set cs" if "r \<in> set (t_jobs d)" for r
    using that by blast
  have "map job_ID (t_jobs claimed) = map job_ID (t_jobs d)" by (simp add: claimed)
  moreover have "{r \<in> set (t_jobs claimed). job_ID r \<notin> job_ID ` set cs} = {r \<in> set (t_jobs d). job_ID r \<notin> job_ID ` set cs}"
    using out by (auto simp: claimed split: if_splits)
  moreover have "evaluated r d'" if "r \<in> set (t_jobs d)" "job_ID r \<in> job_ID ` set cs" for r
  proof -
    have "r \<in> set cs" using out that by blast
    then have "lease_row wid now r \<in> set (t_jobs claimed)" using that(1) by (force simp: claimed)
    then have "evaluated (lease_row wid now r) d'" using finishes_row [OF f, of "lease_row wid now r"] that(2) by simp
    then show ?thesis by (simp add: evaluated_def) (simp add: lease_row_def)
  qed
  moreover have "t_snapshots claimed = t_snapshots d" by (simp add: claimed)
  ultimately show ?thesis using f unfolding finishes_def by simp
qed

lemma candidate_jobs_all:
  assumes "length (candidate_jobs n now expired [] d) < nat n" "r \<in> set (t_jobs d)" "claimable now expired r"
  shows "r \<in> set (candidate_jobs n now expired [] d)"
proof -
  let ?all = "sort_key (\<lambda>r. (job_AvailableAt r, job_CreatedAt r)) (filter (\<lambda>r. claimable now expired r \<and> job_ID r \<notin> set []) (t_jobs d))"
  have "candidate_jobs n now expired [] d = take (nat n) ?all" by (simp only: candidate_jobs_def)
  moreover from this assms(1) have "take (nat n) ?all = ?all" by simp
  moreover have "r \<in> set ?all" using assms(2,3) by simp
  ultimately show ?thesis by (simp only:)
qed

lemma ClaimJobs_calm:
  assumes w: "undisturbed T m w" and n: "0 \<le> n"
  obtains v rows cs where "Store_ClaimJobs wid n lease w = (Inr (map scanJob rows), v)" "undisturbed T m v"
    "set rows = lease_row wid (shd (w_pg_clock w)) ` set cs" "distinct (map job_ID rows)" "length rows = length cs"
    "set cs \<subseteq> set (t_jobs (w_db w))" "job_ID ` set cs \<subseteq> unfinished (w_db w)"
    "w_db v = (w_db w)\<lparr>t_jobs := map (\<lambda>r. if r \<in> set cs then lease_row wid (shd (w_pg_clock w)) r else r) (t_jobs (w_db w))\<rparr>"
    "length cs = nat n \<or> waiting T (w_db w) \<subseteq> set cs" "length cs \<le> nat n"
proof -
  let ?d = "w_db w" and ?now = "shd (w_pg_clock w)" and ?t = "shd (w_clock w) - lease"
  define cs where "cs = candidate_jobs n ?now ?t [] ?d"
  note u = w [unfolded undisturbed_def]
  obtain rows d1 where claim: "claim_stmt wid n ?now ?t [] ?d = Inr (rows, d1)"
    using n by (simp add: claim_stmt_def Let_def)
  have e: "set rows = lease_row wid ?now ` set cs" "distinct (map job_ID rows)" "length rows = length cs"
    "d1 = ?d\<lparr>t_jobs := map (\<lambda>r. if r \<in> set cs then lease_row wid ?now r else r) (t_jobs ?d)\<rparr>"
    using claim_effect(2-5) [OF _ claim, folded cs_def] u by blast+
  let ?v = "w\<lparr>w_clock := stl (w_clock w), w_pg_clock := stl (w_pg_clock w), w_locked := stl (w_locked w), w_db := d1\<rparr>"
  have run: "Store_ClaimJobs wid n lease w = (Inr (map scanJob rows), ?v)"
    using claim u by (simp add: Store_ClaimJobs_def letM_def time_Now_def pg_NOW_def locked_rows_def tryM_def wrapM_def
        calm_write okM_def)
  have picked: "r \<in> set (t_jobs ?d) \<and> claimable ?now ?t r" if "r \<in> set cs" for r
    using that candidate_jobs_claimable unfolding cs_def by blast
  have open_rows: "job_Status r \<noteq> JobStatusCompleted" if "r \<in> set cs" for r
    using picked [OF that] by (auto simp: claimable_def)
  have "db_inv (w_db ?v)" using keepsD [OF keeps_ClaimJobs _ run] u by (simp add: on_db_def)
  moreover have "map job_ResourceID (t_jobs d1) = map job_ResourceID (t_jobs ?d)" by (simp add: e(4) lease_row_def)
  then have "job_ResourceID ` set (t_jobs d1) = job_ResourceID ` set (t_jobs ?d)" by (metis set_map)
  moreover have "\<forall>k. T \<le> stl (w_pg_clock w) !! k" using later_clock u by blast
  ultimately have v: "undisturbed T m ?v" using u by (simp add: undisturbed_def fresh_ids_def used_ids_def e(4))
  have sub: "set cs \<subseteq> set (t_jobs ?d)" "job_ID ` set cs \<subseteq> unfinished ?d"
    using picked open_rows by (auto simp: unfinished_def)
  have "T \<le> ?now" using u by (metis snth.simps(1))
  then have "claimable ?now ?t r" if "r \<in> waiting T ?d" for r using that by (auto simp: waiting_def claimable_def)
  then have all: "length cs = nat n \<or> waiting T ?d \<subseteq> set cs" "length cs \<le> nat n"
    using candidate_jobs_all [of n ?now ?t ?d, folded cs_def] by (auto simp: cs_def candidate_jobs_def waiting_def)
  show thesis by (rule that [OF run v e(1-3) sub _ all]) (simp add: e(4))
qed

lemma runOnce_calm:
  assumes w: "undisturbed T (12 * card (unfinished (w_db (ws_world s)))) (ws_world s)" and n: "0 \<le> wk_batchSize wk"
    and wk: "wk_service wk = NewControlPlane L m" "wk_repo wk = PostgresRepository lt"
  obtains s' I where "iteration wk s = ((), s')"
    "undisturbed T (12 * card (unfinished (w_db (ws_world s')))) (ws_world s')"
    "finishes I (w_db (ws_world s)) (w_db (ws_world s'))" "I \<subseteq> unfinished (w_db (ws_world s))"
    "card (unfinished (w_db (ws_world s'))) + card I \<le> card (unfinished (w_db (ws_world s)))"
    "card I = nat (wk_batchSize wk) \<or> job_ID ` waiting T (w_db (ws_world s)) \<subseteq> I"
    "ws_jobs_total s' = ws_jobs_total s @ replicate (card I) one_completed"
proof -
  let ?w = "ws_world s"
  let ?now = "shd (w_pg_clock ?w)" and ?U = "unfinished (w_db ?w)"
  obtain v rows cs where c: "Store_ClaimJobs (wk_id wk) (wk_batchSize wk) (wk_lease wk) ?w = (Inr (map scanJob rows), v)"
    "undisturbed T (12 * card ?U) v" "set rows = lease_row (wk_id wk) ?now ` set cs" "distinct (map job_ID rows)"
    "length rows = length cs" "set cs \<subseteq> set (t_jobs (w_db ?w))" "job_ID ` set cs \<subseteq> ?U"
    "w_db v = (w_db ?w)\<lparr>t_jobs := map (\<lambda>r. if r \<in> set cs then lease_row (wk_id wk) ?now r else r) (t_jobs (w_db ?w))\<rparr>"
    "length cs = nat (wk_batchSize wk) \<or> waiting T (w_db ?w) \<subseteq> set cs" "length cs \<le> nat (wk_batchSize wk)"
    by (rule ClaimJobs_calm [OF w n])
  let ?I = "job_ID ` set cs"
  have ids: "job_ID ` set rows = ?I" by (simp add: c(3) image_image)
  have card: "card ?I = length cs" using distinct_card [OF c(4)] by (simp add: ids c(5))
  have le: "card ?I \<le> card ?U" by (rule card_mono [OF finite_unfinished c(7)])
  have owned: "\<forall>r \<in> set rows. r \<in> set (t_jobs (w_db v)) \<and> owned_by (job_ID r) (wk_id wk) r"
    using c(6) by (auto simp: c(3,8) owned_by_def lease_row_def)
  have "12 * card ?U = 12 * length rows + 12 * (card ?U - length rows)" using le by (simp add: card c(5))
  with c(2) have "undisturbed T (12 * length rows + 12 * (card ?U - length rows)) (ws_world (s\<lparr>ws_world := v\<rparr>))" by simp
  from process_jobs_calm [OF wk this c(4)] owned
  obtain s' where s': "process_jobs wk (map scanJob rows) (s\<lparr>ws_world := v\<rparr>) = (Inr (), s')"
    "undisturbed T (12 * (card ?U - card ?I)) (ws_world s')" "finishes ?I (w_db v) (w_db (ws_world s'))"
    "ws_jobs_total s' = ws_jobs_total s @ replicate (card ?I) one_completed"
    by (auto simp: ids card c(5))
  have inv: "db_inv (w_db ?w)" "db_inv (w_db (ws_world s'))" using w s'(2) by (simp_all add: undisturbed_def)
  have f: "finishes ?I (w_db ?w) (w_db (ws_world s'))" by (rule finishes_claimed [OF inv(1) c(6,8) s'(3)])
  have "card (unfinished (w_db (ws_world s'))) \<le> card (?U - ?I)"
    by (rule card_mono [OF _ finishes_unfinished [OF f inv(2)]]) (simp add: finite_unfinished)
  then have fewer: "card (unfinished (w_db (ws_world s'))) + card ?I \<le> card ?U"
    using card_Diff_subset [OF _ c(7)] le by simp
  have "iteration wk s = ((), s')"
    using c(1) s'(1) by (simp add: iteration_def runOnce_def in_world_def tryM_def wk PostgresRepository_def)
  moreover have "undisturbed T (12 * card (unfinished (w_db (ws_world s')))) (ws_world s')"
    by (rule undisturbed_less [OF s'(2)]) (use fewer in simp)
  moreover have "card ?I = nat (wk_batchSize wk) \<or> job_ID ` waiting T (w_db ?w) \<subseteq> ?I"
    unfolding card using c(9) by blast
  ultimately show thesis using that [OF _ _ f c(7) fewer _ s'(4)] by blast
qed

lemma waiting_progress:
  assumes "finishes I d d'" "r \<in> waiting T d"
  shows "if job_ID r \<in> I then evaluated r d' else r \<in> waiting T d' \<and> job_ID r \<in> unfinished d'"
  using finishes_row [OF assms(1), of r] assms(2) by (auto simp: waiting_def unfinished_def)

lemma Run_calm:
  assumes wk: "wk_service wk = NewControlPlane L m" "wk_repo wk = PostgresRepository lt" and n: "0 \<le> wk_batchSize wk"
  shows "undisturbed T (12 * card (unfinished (w_db (ws_world s)))) (ws_world s) \<Longrightarrow>
    \<exists>s' I. Run wk ticks s = (Inl (LibError ''context canceled''), s')
      \<and> finishes I (w_db (ws_world s)) (w_db (ws_world s')) \<and> I \<subseteq> unfinished (w_db (ws_world s))
      \<and> ws_jobs_total s' = ws_jobs_total s @ replicate (card I) one_completed
      \<and> (card (unfinished (w_db (ws_world s))) \<le> nat (wk_batchSize wk) * Suc ticks
          \<longrightarrow> job_ID ` waiting T (w_db (ws_world s)) \<subseteq> I)"
proof (induction ticks arbitrary: s)
  case 0
  let ?d = "w_db (ws_world s)"
  obtain s' I where r: "iteration wk s = ((), s')"
    "undisturbed T (12 * card (unfinished (w_db (ws_world s')))) (ws_world s')"
    "finishes I ?d (w_db (ws_world s'))" "I \<subseteq> unfinished ?d"
    "card (unfinished (w_db (ws_world s'))) + card I \<le> card (unfinished ?d)"
    "card I = nat (wk_batchSize wk) \<or> job_ID ` waiting T ?d \<subseteq> I"
    "ws_jobs_total s' = ws_jobs_total s @ replicate (card I) one_completed"
    by (rule runOnce_calm [OF 0 n wk])
  have "job_ID ` waiting T ?d \<subseteq> I" if few: "card (unfinished ?d) \<le> nat (wk_batchSize wk)"
  proof (rule ccontr)
    assume out: "\<not> job_ID ` waiting T ?d \<subseteq> I"
    then obtain q where q: "q \<in> waiting T ?d" "job_ID q \<notin> I" by blast
    have "card (unfinished (w_db (ws_world s'))) = 0" using r(5,6) few out by linarith
    then have "unfinished (w_db (ws_world s')) = {}" by (simp add: finite_unfinished)
    with waiting_progress [OF r(3) q(1)] q(2) show False by simp
  qed
  with r(1,3,4,7) show ?case by (auto simp: letM_def errM_def)
next
  case (Suc ticks)
  let ?d = "w_db (ws_world s)"
  obtain v I where r: "iteration wk s = ((), v)"
    "undisturbed T (12 * card (unfinished (w_db (ws_world v)))) (ws_world v)"
    "finishes I ?d (w_db (ws_world v))" "I \<subseteq> unfinished ?d"
    "card (unfinished (w_db (ws_world v))) + card I \<le> card (unfinished ?d)"
    "card I = nat (wk_batchSize wk) \<or> job_ID ` waiting T ?d \<subseteq> I"
    "ws_jobs_total v = ws_jobs_total s @ replicate (card I) one_completed"
    by (rule runOnce_calm [OF Suc.prems n wk])
  obtain s' J where s': "Run wk ticks v = (Inl (LibError ''context canceled''), s')"
    "finishes J (w_db (ws_world v)) (w_db (ws_world s'))" "J \<subseteq> unfinished (w_db (ws_world v))"
    "ws_jobs_total s' = ws_jobs_total v @ replicate (card J) one_completed"
    "card (unfinished (w_db (ws_world v))) \<le> nat (wk_batchSize wk) * Suc ticks \<Longrightarrow> job_ID ` waiting T (w_db (ws_world v)) \<subseteq> J"
    using Suc.IH [OF r(2)] by blast
  have left: "unfinished (w_db (ws_world v)) \<subseteq> unfinished ?d - I"
    by (rule finishes_unfinished [OF r(3)]) (use r(2) in \<open>simp add: undisturbed_def\<close>)
  have fin: "finite I" "finite J" using r(4) s'(3) finite_unfinished finite_subset by blast+
  have "I \<inter> J = {}" using left s'(3) by blast
  then have total: "ws_jobs_total s' = ws_jobs_total s @ replicate (card (I \<union> J)) one_completed"
    using s'(4) r(7) by (simp add: card_Un_disjoint [OF fin] replicate_add)
  have "job_ID q \<in> I \<union> J" if q: "q \<in> waiting T ?d"
    and few: "card (unfinished ?d) \<le> nat (wk_batchSize wk) * Suc (Suc ticks)" for q
  proof (rule ccontr)
    assume out: "job_ID q \<notin> I \<union> J"
    then have "card I = nat (wk_batchSize wk)" using r(6) q by blast
    then have "card (unfinished (w_db (ws_world v))) \<le> nat (wk_batchSize wk) * Suc ticks" using r(5) few by simp
    with s'(5) waiting_progress [OF r(3) q] out show False by auto
  qed
  then have all: "card (unfinished ?d) \<le> nat (wk_batchSize wk) * Suc (Suc ticks) \<longrightarrow> job_ID ` waiting T ?d \<subseteq> I \<union> J"
    by blast
  have "Run wk (Suc ticks) s = (Inl (LibError ''context canceled''), s')" using r(1) s'(1) by (simp add: letM_def)
  moreover have "I \<union> J \<subseteq> unfinished ?d" using r(4) s'(3) left by blast
  ultimately show ?case using finishes_trans [OF r(3) s'(2)] total all by blast
qed

text \<open>
  C10. The queue is emptied. A worker that runs undisturbed completes every job that was due when it
  started, and stores a snapshot of the job's service for it, within as many ticks as it takes to claim all
  unfinished jobs in batches; no job is retried for ever. Every job it completes is counted once, the
  jobs it does not complete stay as they were. It needs twelve new identifiers per job.
\<close>

theorem Run_drains_queue:
  assumes "undisturbed T (12 * card (unfinished (w_db w))) w" and "0 \<le> batch"
    and "card (unfinished (w_db w)) \<le> nat batch * Suc ticks"
  shows "\<exists>s' I. Run (worker_of L (NewControlPlane L m) newID batch lease) ticks (watched w)
        = (Inl (LibError ''context canceled''), s')
     \<and> job_ID ` waiting T (w_db w) \<subseteq> I \<and> I \<subseteq> unfinished (w_db w) \<and> finishes I (w_db w) (w_db (ws_world s'))
     \<and> ws_jobs_total s' = replicate (card I) one_completed"
proof -
  let ?wk = "worker_of L (NewControlPlane L m) newID batch lease"
  have "wk_service ?wk = NewControlPlane L m" "wk_repo ?wk = PostgresRepository (lib_error_text L)" "0 \<le> wk_batchSize ?wk"
    using assms(2) by (simp_all add: worker_fields NewControlPlane_fields)
  from Run_calm [OF this, of T "watched w" ticks] assms(1,3) show ?thesis
    by (auto simp: watched_def worker_fields)
qed

theorem Run_drains_queue_witness:
  "\<exists>s'. Run (worker_of L0 (NewControlPlane L0 5) 7 1 60) 0 (watched (process 30 30 d2)) = (Inl (LibError ''context canceled''), s')
     \<and> job_Status job2 = JobStatusPending \<and> evaluated job2 (w_db (ws_world s')) \<and> ws_jobs_total s' = [one_completed]"
proof -
  let ?w = "process 30 30 d2"
  have jobs: "t_jobs d2 = [job2]" by (simp add: d2_def d1_def)
  have pending: "job_Status job2 = JobStatusPending" by (simp add: job2_def)
  have u: "unfinished (w_db ?w) = {job_ID job2}" by (auto simp: unfinished_def jobs pending)
  have twelve: "(12 :: nat) = Suc (Suc (Suc (Suc (Suc (Suc (Suc (Suc (Suc (Suc (Suc (Suc 0)))))))))))" by simp
  have ids: "stake 12 (w_uuids ?w) = [30, 31, 32, 33, 34, 35, 36, 37, 38, 39, 40, 41]"
    unfolding twelve by (simp add: process_def siterate_draw del: stake_siterate)
  have used: "used_ids (w_db ?w) = {3, 21}"
    by (simp add: used_ids_def d2_def d1_def audit1_def audit2_def empty_db_def)
  have "fresh_ids 12 ?w" unfolding fresh_ids_def ids used by simp
  moreover have "db_inv d2" by (rule reachable_inv [OF scenario_reachable(2)])
  moreover have "job_ResourceID ` set (t_jobs d2) \<subseteq> svc_ID ` set (t_services d2)"
    by (simp add: d2_def d1_def job2_def row_fields)
  ultimately have "undisturbed 30 (12 * card (unfinished (w_db ?w))) ?w"
    unfolding u by (simp add: undisturbed_def calm_def) (simp add: process_def)
  moreover have "card (unfinished (w_db ?w)) \<le> nat 1 * Suc 0" unfolding u by simp
  ultimately obtain s' I where s': "Run (worker_of L0 (NewControlPlane L0 5) 7 1 60) 0 (watched ?w)
      = (Inl (LibError ''context canceled''), s')" "job_ID ` waiting 30 (w_db ?w) \<subseteq> I" "I \<subseteq> {job_ID job2}"
    "finishes I d2 (w_db (ws_world s'))" "ws_jobs_total s' = replicate (card I) one_completed"
    using Run_drains_queue [of 30 ?w 1 0 L0 5 7 60] u by (simp del: Run.simps) blast
  have "job2 \<in> waiting 30 (w_db ?w)" by (simp add: waiting_def jobs) (simp add: job2_def)
  with s'(2,3) have I: "I = {job_ID job2}" by blast
  then have "evaluated job2 (w_db (ws_world s'))" using finishes_row [OF s'(4), of job2] by (simp add: jobs)
  with s'(1,5) pending show ?thesis by (simp add: I)
qed

end
