(* ===== verification/Go_Strings.thy ===== *)
theory Go_Strings
  imports Go_Error
begin

section \<open>Strings and numbers of the Go standard library\<close>

text \<open>
  What the configuration, the authentication and the HTTP layer use of \<^verbatim>\<open>strings\<close> and \<^verbatim>\<open>strconv\<close>:
  case mapping, case folding against an ASCII constant, searching, splitting and \<^verbatim>\<open>strconv.Atoi\<close>.
\<close>

subsection \<open>Pure functions with an error result\<close>

text \<open>\<open>tryE r k\<close> is \<^verbatim>\<open>x, err := r; if err != nil { return err }; k(x)\<close> without state; \<open>checkE b e k\<close> an early
return of an error.\<close>

named_theorems res_simps \<open>unfolding rules of pure early returns\<close>

definition tryE :: "'e + 'a \<Rightarrow> ('a \<Rightarrow> 'e + 'b) \<Rightarrow> 'e + 'b" where
  "tryE r k = (case r of Inl e \<Rightarrow> Inl e | Inr a \<Rightarrow> k a)"

definition checkE :: "bool \<Rightarrow> 'e \<Rightarrow> 'e + 'b \<Rightarrow> 'e + 'b" where
  "checkE b e k = (if b then Inl e else k)"

text \<open>A pure call within a stateful function.\<close>

definition liftE :: "'e + 'a \<Rightarrow> ('w, 'e, 'a) io" where
  "liftE r = (case r of Inl e \<Rightarrow> errM e | Inr a \<Rightarrow> okM a)"

lemma liftE_eq [io_simps]: "liftE r w = (x, w') \<longleftrightarrow> x = r \<and> w' = w"
  by (auto simp: liftE_def errM_def okM_def split: sum.split)

lemma keeps_liftE [keeps_rules]: "keeps I (liftE r)"
  by (cases r) (simp_all add: liftE_def keeps_errM keeps_okM)

lemma tryE_simps [simp]: "tryE (Inl e) k = Inl e" "tryE (Inr a) k = k a"
  by (simp_all add: tryE_def)

lemma tryE_Inr [res_simps]: "tryE r k = Inr b \<longleftrightarrow> (\<exists>a. r = Inr a \<and> k a = Inr b)"
  by (simp add: tryE_def split: sum.split)

lemma tryE_Inl [res_simps]: "tryE r k = Inl e \<longleftrightarrow> r = Inl e \<or> (\<exists>a. r = Inr a \<and> k a = Inl e)"
  by (auto simp: tryE_def split: sum.split)

lemma checkE_simps [simp]: "checkE True e k = Inl e" "checkE False e k = k"
  by (simp_all add: checkE_def)

lemma checkE_Inr [res_simps]: "checkE b e k = Inr a \<longleftrightarrow> \<not> b \<and> k = Inr a"
  by (simp add: checkE_def)

lemma checkE_Inl [res_simps]: "checkE b e k = Inl e' \<longleftrightarrow> b \<and> e' = e \<or> \<not> b \<and> k = Inl e'"
  by (auto simp: checkE_def)

subsection \<open>Case\<close>

definition is_ascii :: "char \<Rightarrow> bool" where
  "is_ascii c \<longleftrightarrow> (of_char c :: nat) < 128"

definition lower_byte :: "char \<Rightarrow> char" where
  "lower_byte c = (let n = of_char c :: nat in if 65 \<le> n \<and> n \<le> 90 then char_of (n + 32) else c)"

definition upper_byte :: "char \<Rightarrow> char" where
  "upper_byte c = (let n = of_char c :: nat in if 97 \<le> n \<and> n \<le> 122 then char_of (n - 32) else c)"

text \<open>
  \<^verbatim>\<open>strings.ToLower\<close> and \<^verbatim>\<open>strings.ToUpper\<close> map an ASCII string byte by byte and any other string rune
  by rune with the Unicode tables, which are the argument \<open>unicode\<close>.
\<close>

definition ToLower :: "(string \<Rightarrow> string) \<Rightarrow> string \<Rightarrow> string" where
  "ToLower unicode s = (if list_all is_ascii s then map lower_byte s else unicode s)"

definition ToUpper :: "(string \<Rightarrow> string) \<Rightarrow> string \<Rightarrow> string" where
  "ToUpper unicode s = (if list_all is_ascii s then map upper_byte s else unicode s)"

text \<open>
  \<^verbatim>\<open>strings.EqualFold\<close> with an ASCII second argument: besides the two cases of a letter only two
  runes fold to an ASCII letter, the long s and the Kelvin sign.
\<close>

fun fold_bytes :: "string \<Rightarrow> string" where
  "fold_bytes [] = []"
| "fold_bytes (c # s) =
     (case strip_prefix [CHR 0xC5, CHR 0xBF] (c # s) of
        Some r \<Rightarrow> CHR ''s'' # fold_bytes (drop 1 s)
      | None \<Rightarrow> (case strip_prefix [CHR 0xE2, CHR 0x84, CHR 0xAA] (c # s) of
          Some r \<Rightarrow> CHR ''k'' # fold_bytes (drop 2 s)
        | None \<Rightarrow> lower_byte c # fold_bytes s))"

definition EqualFold :: "string \<Rightarrow> string \<Rightarrow> bool" where
  "EqualFold s t \<longleftrightarrow> fold_bytes s = map lower_byte t"

subsection \<open>Searching and splitting\<close>

text \<open>\<open>cut sep s\<close>: the parts before and after the first occurrence of \<open>sep\<close> (\<^verbatim>\<open>strings.Index\<close>).\<close>

fun cut :: "string \<Rightarrow> string \<Rightarrow> (string \<times> string) option" where
  "cut sep [] = (if sep = [] then Some ([], []) else None)"
| "cut sep (c # s) = (case strip_prefix sep (c # s) of
       Some r \<Rightarrow> Some ([], r)
     | None \<Rightarrow> map_option (\<lambda>(a, b). (c # a, b)) (cut sep s))"

definition Contains :: "string \<Rightarrow> string \<Rightarrow> bool" where
  "Contains s sep \<longleftrightarrow> cut sep s \<noteq> None"

definition HasPrefix :: "string \<Rightarrow> string \<Rightarrow> bool" where
  "HasPrefix s p \<longleftrightarrow> strip_prefix p s \<noteq> None"

definition HasSuffix :: "string \<Rightarrow> string \<Rightarrow> bool" where
  "HasSuffix s p \<longleftrightarrow> strip_prefix (rev p) (rev s) \<noteq> None"

definition TrimSuffix :: "string \<Rightarrow> string \<Rightarrow> string" where
  "TrimSuffix s p = (case strip_prefix (rev p) (rev s) of Some r \<Rightarrow> rev r | None \<Rightarrow> s)"

definition TrimPrefix :: "string \<Rightarrow> string \<Rightarrow> string" where
  "TrimPrefix s p = (case strip_prefix p s of Some r \<Rightarrow> r | None \<Rightarrow> s)"

text \<open>\<^verbatim>\<open>strings.Join\<close>.\<close>

fun Join :: "string list \<Rightarrow> string \<Rightarrow> string" where
  "Join [] sep = []"
| "Join [x] sep = x"
| "Join (x # y # ys) sep = x @ sep @ Join (y # ys) sep"

lemma cut_Some: "cut sep s = Some (a, b) \<Longrightarrow> s = a @ sep @ b"
  by (induction s arbitrary: a) (auto simp: strip_prefix_Some split: option.splits if_splits)

lemma cut_fresh:
  assumes "\<And>u v. a = u @ v \<Longrightarrow> v \<noteq> [] \<Longrightarrow> \<not> prefix sep (v @ sep @ b)"
  shows "cut sep (a @ sep @ b) = Some (a, b)"
  using assms
proof (induction a)
  case Nil
  then show ?case
  proof (cases "sep @ b")
    case (Cons c s)
    have "strip_prefix sep (c # s) = Some b" by (simp add: strip_prefix_Some Cons [symmetric])
    then show ?thesis by (simp add: Cons)
  qed simp
next
  case (Cons c a)
  have "\<not> prefix sep ((c # a) @ sep @ b)" using Cons.prems [of "[]" "c # a"] by simp
  then have "strip_prefix sep (c # a @ sep @ b) = None" by (simp add: strip_prefix_None)
  moreover have "cut sep (a @ sep @ b) = Some (a, b)"
    by (rule Cons.IH) (metis Cons.prems append_Cons)
  ultimately show ?case by simp
qed

lemma cut_single: "c' \<notin> set a \<Longrightarrow> cut [c'] (a @ c' # b) = Some (a, b)"
  by (induction a) auto

lemma cut_single_None: "cut [c'] a = None \<longleftrightarrow> c' \<notin> set a"
  by (induction a) auto

lemma HasPrefix_iff: "HasPrefix s p \<longleftrightarrow> prefix p s"
  using strip_prefix_None [of p s] by (auto simp: HasPrefix_def)

subsection \<open>\<^verbatim>\<open>strconv.Atoi\<close>\<close>

text \<open>
  Digits are consumed from the left; the first character that is no digit is a syntax error, the first
  digit at which the value leaves 64 bits is a range error, and the signed value must fit \<^verbatim>\<open>int64\<close>.
\<close>

datatype num_error = ErrSyntax | ErrRange

fun parse_digits :: "int \<Rightarrow> string \<Rightarrow> num_error + int" where
  "parse_digits n [] = Inr n"
| "parse_digits n (c # s) =
     (let d = int (of_char c) - 48 in
      if d < 0 \<or> 9 < d then Inl ErrSyntax
      else if n * 10 + d \<ge> 2 ^ 64 then Inl ErrRange
      else parse_digits (n * 10 + d) s)"

definition parse_unsigned :: "string \<Rightarrow> num_error + int" where
  "parse_unsigned s = (if s = [] then Inl ErrSyntax else parse_digits 0 s)"

definition parse_int64 :: "string \<Rightarrow> num_error + int" where
  "parse_int64 s =
     (let (neg, digits) = (case s of
        c # r \<Rightarrow> if c = CHR ''-'' then (True, r) else if c = CHR ''+'' then (False, r) else (False, s)
      | [] \<Rightarrow> (False, []))
      in case parse_unsigned digits of
           Inl e \<Rightarrow> Inl e
         | Inr n \<Rightarrow> if (if neg then n > 2 ^ 63 else n \<ge> 2 ^ 63) then Inl ErrRange
             else Inr (if neg then - n else n))"

definition Atoi :: "string \<Rightarrow> go_error + int" where
  "Atoi s = (case parse_int64 s of
       Inr n \<Rightarrow> Inr n
     | Inl ErrSyntax \<Rightarrow> Inl (LibError (''strconv.Atoi: parsing '' @ Quote s @ '': invalid syntax''))
     | Inl ErrRange \<Rightarrow> Inl (LibError (''strconv.Atoi: parsing '' @ Quote s @ '': value out of range'')))"

text \<open>\<^verbatim>\<open>Atoi\<close> reads back what \<^verbatim>\<open>Itoa\<close> prints.\<close>

lemma of_char_digit:
  fixes n :: nat
  assumes "n < 10"
  shows "of_char (char_of (48 + n) :: char) = 48 + n"
  using assms by (simp add: of_char_of take_bit_eq_mod)

lemma digits_of_step: "digits_of n = (if n < 10 then [] else digits_of (n div 10)) @ [char_of (48 + n mod 10)]"
  by (simp add: digits_of.simps [of n])

lemma digits_of_first: "\<exists>d ds. digits_of n = char_of (48 + d :: nat) # ds \<and> d < 10"
proof (induction n rule: digits_of.induct)
  case (1 n)
  show ?case
  proof (cases "n < 10")
    case True
    then have "digits_of n = [char_of (48 + n)]" by (simp add: digits_of.simps [of n])
    with True show ?thesis by blast
  next
    case False
    with 1 obtain d ds where "digits_of (n div 10) = char_of (48 + d :: nat) # ds" "d < 10" by blast
    moreover from this(1) False have "digits_of n = char_of (48 + d) # ds @ [char_of (48 + n mod 10)]"
      by (simp add: digits_of_step [of n])
    ultimately show ?thesis by blast
  qed
qed

lemma digits_of_Nil: "digits_of n \<noteq> []"
  by (simp add: digits_of_step [of n])

lemma parse_digits_digits: "int n < 2 ^ 64 \<Longrightarrow> parse_digits 0 (digits_of n @ s) = parse_digits (int n) s"
proof (induction n arbitrary: s rule: digits_of.induct)
  case (1 n)
  have eq: "int (n div 10) * 10 + int (n mod 10) = int n" by presburger
  define c where "c = (char_of (48 + n mod 10) :: char)"
  have c: "int (of_char c) - 48 = int (n mod 10)" unfolding c_def by (simp add: of_char_digit)
  have step: "parse_digits (int (n div 10)) (c # s) = parse_digits (int n) s"
  proof -
    have "n mod 10 \<le> 9" by presburger
    then show ?thesis using 1(2) eq by (simp add: c Let_def)
  qed
  show ?case
  proof (cases "n < 10")
    case True
    then show ?thesis using step by (simp add: digits_of_step [of n] c_def)
  next
    case False
    then have "parse_digits 0 (digits_of (n div 10) @ c # s) = parse_digits (int (n div 10)) (c # s)"
      using 1 by simp
    with step False show ?thesis by (simp add: digits_of_step [of n] c_def)
  qed
qed

lemma Atoi_Itoa:
  assumes "- (2 ^ 63) \<le> i" "i < 2 ^ 63"
  shows "Atoi (Itoa i) = Inr i"
proof -
  obtain d ds where d: "digits_of (nat \<bar>i\<bar>) = char_of (48 + d :: nat) # ds" "d < 10"
    using digits_of_first by blast
  have p: "parse_unsigned (char_of (48 + d :: nat) # ds) = Inr \<bar>i\<bar>"
    using parse_digits_digits [of "nat \<bar>i\<bar>" "[]"] assms d by (simp add: parse_unsigned_def)
  have "char_of (48 + d :: nat) \<noteq> CHR ''-''" "char_of (48 + d :: nat) \<noteq> CHR ''+''"
    using of_char_digit [OF d(2)] by (auto dest: arg_cong [where f = "of_char :: char \<Rightarrow> nat"])
  moreover have "Itoa i = (if i < 0 then CHR ''-'' # char_of (48 + d :: nat) # ds else char_of (48 + d :: nat) # ds)"
    using d(1) by (cases "i < 0") (simp_all add: Itoa_def)
  ultimately show ?thesis
    using p assms by (simp add: Atoi_def parse_int64_def)
qed

lemma parse_digits_nonneg: "parse_digits n s = Inr m \<Longrightarrow> 0 \<le> n \<Longrightarrow> 0 \<le> m"
  by (induction n s rule: parse_digits.induct) (auto simp: Let_def split: if_splits)

lemma parse_unsigned_nonneg: "parse_unsigned s = Inr m \<Longrightarrow> 0 \<le> m"
  by (auto simp: parse_unsigned_def intro: parse_digits_nonneg split: if_splits)

lemma Atoi_range: "Atoi s = Inr n \<Longrightarrow> - (2 ^ 63) \<le> n \<and> n < 2 ^ 63"
  by (auto simp: Atoi_def parse_int64_def Let_def dest!: parse_unsigned_nonneg
      split: sum.splits num_error.splits if_splits prod.splits)

text \<open>Printed numbers carry no space at either end.\<close>

lemma of_char_not_space:
  assumes "of_char c \<in> {33..127 :: nat}"
  shows "c \<notin> space_lead" "c \<notin> space_tail"
  using assms by (auto simp: space_lead_def space_tail_def space_encodings_def)

lemma Itoa_ends: "Itoa i \<noteq> []" "of_char (hd (Itoa i)) \<in> {33..127 :: nat}" "of_char (last (Itoa i)) \<in> {33..127 :: nat}"
proof -
  define m where "m = nat \<bar>i\<bar>"
  obtain d ds where d: "digits_of m = char_of (48 + d :: nat) # ds" "d < 10"
    using digits_of_first by blast
  have I: "Itoa i = (if i < 0 then CHR ''-'' # digits_of m else digits_of m)"
    by (simp add: Itoa_def m_def)
  show "Itoa i \<noteq> []" by (simp add: I digits_of_Nil)
  show "of_char (hd (Itoa i)) \<in> {33..127 :: nat}"
    using d(2) by (simp add: I d(1) of_char_digit)
  have "last (Itoa i) = char_of (48 + m mod 10 :: nat)"
    by (simp add: I digits_of_Nil) (simp add: digits_of_step [of m])
  then show "of_char (last (Itoa i)) \<in> {33..127 :: nat}"
    using of_char_digit [of "m mod 10"] by (simp del: of_char_of)
qed

lemma printable_trimmed:
  assumes "s \<noteq> []" "of_char (hd s) \<in> {33..127 :: nat}" "of_char (last s) \<in> {33..127 :: nat}"
  shows "TrimSpace s = s"
  using assms by (intro TrimSpace_graphic) (simp add: graphic_def of_char_not_space)

lemma Itoa_trimmed: "TrimSpace (Itoa i) = Itoa i"
  using Itoa_ends by (rule printable_trimmed)

subsection \<open>URL queries\<close>

text \<open>
  \<^verbatim>\<open>url.ParseQuery\<close> splits the raw query at \<^verbatim>\<open>&\<close>, skips a piece that is empty, holds a semicolon or
  has a bad escape, and \<^verbatim>\<open>Values.Get\<close> returns the first value of a key.
\<close>

fun split_byte :: "char \<Rightarrow> string \<Rightarrow> string list" where
  "split_byte b [] = [[]]"
| "split_byte b (c # s) = (if c = b then [] # split_byte b s
     else (case split_byte b s of [] \<Rightarrow> [[c]] | x # xs \<Rightarrow> (c # x) # xs))"

definition unhex :: "char \<Rightarrow> nat option" where
  "unhex c = (let n = of_char c :: nat in
     if 48 \<le> n \<and> n \<le> 57 then Some (n - 48) else if 97 \<le> n \<and> n \<le> 102 then Some (n - 87)
     else if 65 \<le> n \<and> n \<le> 70 then Some (n - 55) else None)"

fun query_unescape :: "string \<Rightarrow> string option" where
  "query_unescape [] = Some []"
| "query_unescape (c # s) =
     (if c = CHR ''%'' then
        (case s of a # b # r \<Rightarrow>
             (case (unhex a, unhex b) of
                (Some x, Some y) \<Rightarrow> map_option (Cons (char_of (16 * x + y))) (query_unescape r)
              | _ \<Rightarrow> None)
         | _ \<Rightarrow> None)
      else map_option (Cons (if c = CHR ''+'' then CHR '' '' else c)) (query_unescape s))"

definition query_pair :: "string \<Rightarrow> (string \<times> string) option" where
  "query_pair piece =
     (if piece = [] \<or> CHR '';'' \<in> set piece then None
      else let (k, v) = (case cut ''='' piece of Some kv \<Rightarrow> kv | None \<Rightarrow> (piece, []))
        in (case (query_unescape k, query_unescape v) of (Some k, Some v) \<Rightarrow> Some (k, v) | _ \<Rightarrow> None))"

definition ParseQuery :: "string \<Rightarrow> (string \<times> string) list" where
  "ParseQuery q = List.map_filter query_pair (split_byte CHR ''&'' q)"

definition Values_Get :: "(string \<times> string) list \<Rightarrow> string \<Rightarrow> string" where
  "Values_Get vs k = (case map_of vs k of Some v \<Rightarrow> v | None \<Rightarrow> [])"

end
