(* ===== verification/Go_Time.thy ===== *)
theory Go_Time
  imports Go_Strings
begin

section \<open>Durations of the Go standard library\<close>

text \<open>
  \<^verbatim>\<open>time.Duration\<close> is a signed 64-bit number of nanoseconds, here an \<^typ>\<open>int\<close> within its range.
  \<^verbatim>\<open>time.ParseDuration\<close> and \<^verbatim>\<open>Duration.String\<close> follow the standard library, with the overflow
  checks of its \<^verbatim>\<open>uint64\<close> arithmetic written out. A decimal fraction is scaled in \<^verbatim>\<open>float64\<close>: where
  every operand and the result are integers below \<open>2^53\<close> that arithmetic is exact, elsewhere its
  result is the argument \<open>flt\<close>.
\<close>

abbreviation Second :: int where "Second \<equiv> 1000000000"
abbreviation Minute :: int where "Minute \<equiv> 60 * Second"
abbreviation Hour :: int where "Hour \<equiv> 60 * Minute"

definition is_digit :: "char \<Rightarrow> bool" where
  "is_digit c \<longleftrightarrow> (let n = of_char c :: nat in 48 \<le> n \<and> n \<le> 57)"

definition digit_value :: "char \<Rightarrow> int" where
  "digit_value c = int (of_char c) - 48"

definition digit_char :: "int \<Rightarrow> char" where
  "digit_char d = char_of (48 + nat d)"

subsection \<open>Parsing\<close>

fun leading_int :: "int \<Rightarrow> string \<Rightarrow> (int \<times> string) option" where
  "leading_int x [] = Some (x, [])"
| "leading_int x (c # s) =
     (if \<not> is_digit c then Some (x, c # s)
      else if x > 2 ^ 63 div 10 then None
      else let y = x * 10 + digit_value c in if y > 2 ^ 63 then None else leading_int y s)"

fun leading_fraction :: "bool \<Rightarrow> int \<Rightarrow> int \<Rightarrow> string \<Rightarrow> int \<times> int \<times> string" where
  "leading_fraction over x scale [] = (x, scale, [])"
| "leading_fraction over x scale (c # s) =
     (if \<not> is_digit c then (x, scale, c # s)
      else if over \<or> x > (2 ^ 63 - 1) div 10 then leading_fraction True x scale s
      else let y = x * 10 + digit_value c in
        if y > 2 ^ 63 then leading_fraction True x scale s
        else leading_fraction False y (scale * 10) s)"

definition unit_map :: "string \<Rightarrow> int option" where
  "unit_map = map_of
     [(''ns'', 1), (''us'', 1000), ([CHR 0xC2, CHR 0xB5, CHR ''s''], 1000),
      ([CHR 0xCE, CHR 0xBC, CHR ''s''], 1000), (''ms'', 1000000), (''s'', Second), (''m'', Minute),
      (''h'', Hour)]"

definition unit_byte :: "char \<Rightarrow> bool" where
  "unit_byte c \<longleftrightarrow> c \<noteq> CHR ''.'' \<and> \<not> is_digit c"

definition time_quote_byte :: "char \<Rightarrow> string" where
  "time_quote_byte c =
     (let n = of_char c :: nat in
      if n \<ge> 128 \<or> n < 32 then [CHR 0x5C, CHR ''x'', hex_digit (n div 16), hex_digit (n mod 16)]
      else if c = CHR 0x22 \<or> c = CHR 0x5C then [CHR 0x5C, c] else [c])"

definition time_quote :: "string \<Rightarrow> string" where
  "time_quote s = CHR 0x22 # concat (map time_quote_byte s) @ [CHR 0x22]"

definition invalid_duration :: "string \<Rightarrow> go_error" where
  "invalid_duration orig = LibError (''time: invalid duration '' @ time_quote orig)"

definition scaled_fraction :: "(int \<Rightarrow> int \<Rightarrow> int \<Rightarrow> int) \<Rightarrow> int \<Rightarrow> int \<Rightarrow> int \<Rightarrow> int" where
  "scaled_fraction flt f unit scale =
     (if unit mod scale = 0 \<and> f < 2 ^ 53 \<and> f * (unit div scale) < 2 ^ 53
      then f * (unit div scale) else flt f unit scale)"

text \<open>
  The number before a unit: its integer part, the fraction and its scale, the rest, and whether a
  digit was read. One number with its unit is then the body of the parsing loop.
\<close>

definition split_fraction :: "string \<Rightarrow> int \<times> int \<times> string \<times> bool" where
  "split_fraction s =
     (case s of
        [] \<Rightarrow> (0, 1, [], False)
      | c # r \<Rightarrow>
          if c = CHR ''.'' then (case leading_fraction False 0 1 r of
               (f, scale, r') \<Rightarrow> (f, scale, r', length r' \<noteq> length r))
          else (0, 1, s, False))"

definition parse_unit ::
    "(int \<Rightarrow> int \<Rightarrow> int \<Rightarrow> int) \<Rightarrow> string \<Rightarrow> string \<Rightarrow> go_error + int \<times> string" where
  "parse_unit flt orig s =
     checkE (\<not> (hd s = CHR ''.'' \<or> is_digit (hd s))) (invalid_duration orig)
     (case leading_int 0 s of
        None \<Rightarrow> Inl (invalid_duration orig)
      | Some (v, s1) \<Rightarrow> (case split_fraction s1 of (f, scale, s3, post) \<Rightarrow>
          checkE (length s1 = length s \<and> \<not> post) (invalid_duration orig)
          (checkE (takeWhile unit_byte s3 = [])
             (LibError (''time: missing unit in duration '' @ time_quote orig))
           (case unit_map (takeWhile unit_byte s3) of
              None \<Rightarrow> Inl (LibError (''time: unknown unit '' @ time_quote (takeWhile unit_byte s3)
                                  @ '' in duration '' @ time_quote orig))
            | Some unit \<Rightarrow>
                checkE (v > 2 ^ 63 div unit) (invalid_duration orig)
                (let n = v * unit + (if f > 0 then scaled_fraction flt f unit scale else 0) in
                 checkE (f > 0 \<and> n > 2 ^ 63) (invalid_duration orig)
                   (Inr (n, dropWhile unit_byte s3)))))))"

lemma leading_int_rest: "leading_int x s = Some (v, r) \<Longrightarrow> length r \<le> length s"
  by (induction x s rule: leading_int.induct) (auto simp: Let_def split: if_splits)

lemma leading_fraction_rest: "leading_fraction b x sc s = (f, sc', r) \<Longrightarrow> length r \<le> length s"
proof (induction b x sc s rule: leading_fraction.induct)
  case (2 over x scale c s)
  then show ?case by (auto simp: Let_def split: if_splits intro: le_SucI)
qed simp

lemma split_fraction_rest: "split_fraction s = (f, sc, r, b) \<Longrightarrow> length r \<le> length s"
  using leading_fraction_rest
  by (fastforce simp: split_fraction_def split: list.splits if_splits prod.splits intro: le_SucI)

lemma dropWhile_shorter: "takeWhile p s \<noteq> [] \<Longrightarrow> length (dropWhile p s) < length s"
proof -
  assume "takeWhile p s \<noteq> []"
  moreover have "length s = length (takeWhile p s) + length (dropWhile p s)"
    by (simp only: length_append [symmetric] takeWhile_dropWhile_id)
  ultimately show ?thesis by simp
qed

lemma parse_unit_shorter:
  assumes h: "parse_unit flt orig s = Inr (v, r)"
  shows "length r < length s"
proof -
  obtain w s1 where s1: "leading_int 0 s = Some (w, s1)"
    using h by (auto simp: parse_unit_def res_simps split: option.splits)
  obtain f scale s3 post where s3: "split_fraction s1 = (f, scale, s3, post)"
    by (cases "split_fraction s1")
  have "r = dropWhile unit_byte s3" "takeWhile unit_byte s3 \<noteq> []"
    using h by (simp_all add: parse_unit_def s1 s3 Let_def res_simps split: option.splits)
  then have "length r < length s3" using dropWhile_shorter by blast
  with leading_int_rest [OF s1] split_fraction_rest [OF s3] show ?thesis by simp
qed

function parse_units ::
    "(int \<Rightarrow> int \<Rightarrow> int \<Rightarrow> int) \<Rightarrow> string \<Rightarrow> int \<Rightarrow> string \<Rightarrow> go_error + int" where
  "parse_units flt orig d s =
     (if s = [] then Inr d
      else case parse_unit flt orig s of
          Inl e \<Rightarrow> Inl e
        | Inr (v, r) \<Rightarrow>
            if (d + v) mod 2 ^ 64 > 2 ^ 63 then Inl (invalid_duration orig)
            else parse_units flt orig ((d + v) mod 2 ^ 64) r)"
  by pat_completeness auto
termination
  by (relation "measure (\<lambda>(flt, orig, d, s). length s)") (auto dest: parse_unit_shorter)

declare parse_units.simps [simp del]

definition ParseDuration :: "(int \<Rightarrow> int \<Rightarrow> int \<Rightarrow> int) \<Rightarrow> string \<Rightarrow> go_error + int" where
  "ParseDuration flt orig =
     (let (neg, s) = (case orig of
        c # r \<Rightarrow> if c = CHR ''-'' then (True, r) else if c = CHR ''+'' then (False, r) else (False, orig)
      | [] \<Rightarrow> (False, []))
      in if s = ''0'' then Inr 0
         else checkE (s = []) (invalid_duration orig)
           (tryE (parse_units flt orig 0 s) (\<lambda>d.
            if neg then Inr (- d)
            else checkE (d > 2 ^ 63 - 1) (invalid_duration orig) (Inr d))))"

subsection \<open>Formatting\<close>

fun fmt_frac :: "nat \<Rightarrow> bool \<Rightarrow> string \<Rightarrow> int \<Rightarrow> string \<times> int" where
  "fmt_frac 0 pr acc v = (if pr then CHR ''.'' # acc else acc, v)"
| "fmt_frac (Suc n) pr acc v =
     (let pr' = pr \<or> v mod 10 \<noteq> 0
      in fmt_frac n pr' (if pr' then digit_char (v mod 10) # acc else acc) (v div 10))"

definition format_magnitude :: "int \<Rightarrow> string" where
  "format_magnitude u =
     (if u < Second then
        (if u = 0 then ''0s''
         else let (prec, unit) = (if u < 1000 then (0, ''ns'')
                else if u < 1000000 then (3, [CHR 0xC2, CHR 0xB5, CHR ''s'']) else (6, ''ms''));
               (frac, v) = fmt_frac prec False unit u
              in Itoa v @ frac)
      else
        (let (frac, v) = fmt_frac 9 False ''s'' u;
             secs = Itoa (v mod 60) @ frac;
             m = v div 60
         in if m > 0 then
              (let mins = Itoa (m mod 60) @ ''m'' @ secs; h = m div 60
               in if h > 0 then Itoa h @ ''h'' @ mins else mins)
            else secs))"

definition Duration_String :: "int \<Rightarrow> string" where
  "Duration_String d =
     (if d < 0 then CHR ''-'' # format_magnitude (- d) else format_magnitude d)"

subsection \<open>Printing and parsing again\<close>

text \<open>A rest that no number continues.\<close>

definition stops :: "string \<Rightarrow> bool" where
  "stops s \<longleftrightarrow> s = [] \<or> \<not> is_digit (hd s)"

lemma stops_simps [simp]: "stops []" "stops (c # s) \<longleftrightarrow> \<not> is_digit c"
  by (simp_all add: stops_def)

lemma digit_char [simp]:
  assumes "0 \<le> d" "d < 10"
  shows "is_digit (digit_char d)" "digit_value (digit_char d) = d"
proof -
  have "of_char (digit_char d) = 48 + nat d"
    using assms by (simp add: digit_char_def of_char_of take_bit_eq_mod nat_less_iff)
  then show "is_digit (digit_char d)" "digit_value (digit_char d) = d"
    using assms by (simp_all add: is_digit_def digit_value_def)
qed

lemma digits_of_char: "digits_of n = (if n < 10 then [] else digits_of (n div 10)) @ [digit_char (int (n mod 10))]"
  by (simp add: digits_of.simps [of n] digit_char_def)

lemma leading_int_stops: "stops s \<Longrightarrow> leading_int x s = Some (x, s)"
  by (cases s) simp_all

lemma leading_int_step:
  assumes "0 \<le> x" "0 \<le> d" "d < 10" "x * 10 + d \<le> 2 ^ 63"
  shows "leading_int x (digit_char d # s) = leading_int (x * 10 + d) s"
  using assms by simp

lemma leading_int_digits: "int n \<le> 2 ^ 63 \<Longrightarrow> leading_int 0 (digits_of n @ s) = leading_int (int n) s"
proof (induction n arbitrary: s rule: digits_of.induct)
  case (1 n)
  have eq: "int (n div 10) * 10 + int (n mod 10) = int n" by presburger
  have step: "leading_int (int (n div 10)) (digit_char (int (n mod 10)) # s) = leading_int (int n) s"
    using leading_int_step [of "int (n div 10)" "int (n mod 10)" s] 1(2) by (simp only: eq)
  show ?case
  proof (cases "n < 10")
    case True
    then show ?thesis using step by (simp add: digits_of_char [of n])
  next
    case False
    then have "leading_int 0 (digits_of (n div 10) @ digit_char (int (n mod 10)) # s)
        = leading_int (int (n div 10)) (digit_char (int (n mod 10)) # s)"
      using 1 by simp
    with step False show ?thesis by (simp add: digits_of_char [of n])
  qed
qed

lemma leading_int_Itoa:
  "0 \<le> v \<Longrightarrow> v \<le> 2 ^ 63 \<Longrightarrow> stops s \<Longrightarrow> leading_int 0 (Itoa v @ s) = Some (v, s)"
  using leading_int_digits [of "nat v" s] by (simp add: Itoa_def leading_int_stops)

lemma Itoa_starts: "0 \<le> v \<Longrightarrow> \<exists>d ds. Itoa v = digit_char d # ds \<and> 0 \<le> d \<and> d < 10"
proof -
  have "\<exists>d ds. digits_of n = digit_char d # ds \<and> 0 \<le> d \<and> d < 10" for n
    using digits_of_first [of n] by (metis digit_char_def nat_int of_nat_0_le_iff of_nat_less_numeral_iff)
  then show "0 \<le> v \<Longrightarrow> ?thesis" by (simp add: Itoa_def)
qed

text \<open>The digits of a fraction and what reading them gives.\<close>

fun fraction_value :: "int \<Rightarrow> int list \<Rightarrow> int" where
  "fraction_value x [] = x"
| "fraction_value x (d # ds) = fraction_value (x * 10 + d) ds"

lemma fraction_value_lin: "fraction_value x ds = x * 10 ^ length ds + fraction_value 0 ds"
proof (induction ds arbitrary: x)
  case (Cons d ds)
  show ?case
    using Cons [of "x * 10 + d"] Cons [of d] by (simp add: algebra_simps)
qed simp

definition decimal :: "int list \<Rightarrow> bool" where
  "decimal ds \<longleftrightarrow> (\<forall>d \<in> set ds. 0 \<le> d \<and> d < 10)"

lemma decimal_simps [simp]: "decimal []" "decimal (d # ds) \<longleftrightarrow> 0 \<le> d \<and> d < 10 \<and> decimal ds"
  by (auto simp: decimal_def)

lemma fraction_value_nonneg: "decimal ds \<Longrightarrow> 0 \<le> x \<Longrightarrow> x \<le> fraction_value x ds"
proof (induction ds arbitrary: x)
  case (Cons d ds)
  then have "x * 10 + d \<le> fraction_value (x * 10 + d) ds" by simp
  with Cons.prems show ?case by simp
qed simp

lemma leading_fraction_digits:
  assumes "decimal ds" "stops s" "0 \<le> x" "fraction_value x ds < 2 ^ 60"
  shows "leading_fraction False x sc (map digit_char ds @ s)
           = (fraction_value x ds, sc * 10 ^ length ds, s)"
  using assms
proof (induction ds arbitrary: x sc)
  case Nil
  then show ?case by (cases s) simp_all
next
  case (Cons d ds)
  have "x * 10 + d \<le> fraction_value (x * 10 + d) ds"
    using Cons.prems by (intro fraction_value_nonneg) simp_all
  then have "x * 10 + d < 2 ^ 60" using Cons.prems by simp
  moreover from this have "x \<le> (2 ^ 63 - 1) div 10" using Cons.prems by simp
  ultimately show ?case using Cons by (simp add: ac_simps)
qed

lemma fmt_frac_True:
  "0 \<le> v \<Longrightarrow> \<exists>ds. fmt_frac n True acc v = (CHR ''.'' # map digit_char ds @ acc, v div 10 ^ n)
      \<and> decimal ds \<and> length ds = n \<and> fraction_value 0 ds = v mod 10 ^ n"
proof (induction n arbitrary: v acc)
  case (Suc n)
  have v10: "0 \<le> v div 10" using Suc.prems by simp
  obtain ds where ds: "fmt_frac n True (digit_char (v mod 10) # acc) (v div 10)
      = (CHR ''.'' # map digit_char ds @ digit_char (v mod 10) # acc, v div 10 div 10 ^ n)"
    "decimal ds" "length ds = n" "fraction_value 0 ds = v div 10 mod 10 ^ n"
    using Suc.IH [OF v10] by blast
  have snoc: "fraction_value x (ds @ [e]) = fraction_value x ds * 10 + e" for x e
    by (induction ds arbitrary: x) simp_all
  have "v mod 10 ^ Suc n = v div 10 mod 10 ^ n * 10 + v mod 10"
    using zmod_zmult2_eq [of "10 ^ n" v 10] by (simp add: mult.commute)
  with ds have "fraction_value 0 (ds @ [v mod 10]) = v mod 10 ^ Suc n" by (simp add: snoc)
  moreover have "decimal (ds @ [v mod 10])" using ds by (simp add: decimal_def ball_Un)
  moreover have "v div 10 div 10 ^ n = v div 10 ^ Suc n"
    by (simp add: zdiv_zmult2_eq [symmetric])
  ultimately show ?case
    using ds by (intro exI [of _ "ds @ [v mod 10]"]) simp
qed simp

lemma fmt_frac_False:
  "0 \<le> v \<Longrightarrow> \<exists>ds. fmt_frac n False acc v
        = ((if ds = [] then [] else CHR ''.'' # map digit_char ds) @ acc, v div 10 ^ n)
      \<and> decimal ds \<and> length ds \<le> n \<and> fraction_value 0 ds * 10 ^ (n - length ds) = v mod 10 ^ n"
proof (induction n arbitrary: v)
  case (Suc n)
  have m: "v mod 10 ^ Suc n = v div 10 mod 10 ^ n * 10 + v mod 10"
    using zmod_zmult2_eq [of "10 ^ n" v 10] by (simp add: mult.commute)
  have d: "v div 10 div 10 ^ n = v div 10 ^ Suc n"
    by (simp add: zdiv_zmult2_eq [symmetric])
  show ?case
  proof (cases "v mod 10 = 0")
    case True
    have v10: "0 \<le> v div 10" using Suc.prems by simp
    obtain ds where
      ds: "fmt_frac n False acc (v div 10)
        = ((if ds = [] then [] else CHR ''.'' # map digit_char ds) @ acc, v div 10 div 10 ^ n)"
      "decimal ds" "length ds \<le> n" "fraction_value 0 ds * 10 ^ (n - length ds) = v div 10 mod 10 ^ n"
      using Suc.IH [OF v10] by blast
    have "fraction_value 0 ds * 10 ^ (Suc n - length ds) = v mod 10 ^ Suc n"
      using m ds(3,4) True by (simp add: Suc_diff_le)
    with ds True d show ?thesis by (intro exI [of _ ds]) simp
  next
    case False
    obtain ds where ds: "fmt_frac (Suc n) True acc v
        = (CHR ''.'' # map digit_char ds @ acc, v div 10 ^ Suc n)"
      "decimal ds" "length ds = Suc n" "fraction_value 0 ds = v mod 10 ^ Suc n"
      using fmt_frac_True [OF Suc.prems] by blast
    have "fmt_frac (Suc n) False acc v = fmt_frac (Suc n) True acc v" using False by simp
    with ds show ?thesis by (intro exI [of _ ds]) auto
  qed
qed (auto intro: exI [of _ "[]"])

definition unit_name :: "string \<Rightarrow> bool" where
  "unit_name u \<longleftrightarrow> u \<noteq> [] \<and> list_all unit_byte u"

lemma unit_name_stops: "unit_name u \<Longrightarrow> stops (u @ r) \<and> u @ r \<noteq> [] \<and> hd (u @ r) \<noteq> CHR ''.''"
  by (cases u) (simp_all add: unit_name_def unit_byte_def)

lemma unit_name_split:
  assumes "unit_name u" "r = [] \<or> \<not> unit_byte (hd r)"
  shows "takeWhile unit_byte (u @ r) = u" "dropWhile unit_byte (u @ r) = r"
proof -
  have all: "\<forall>c \<in> set u. unit_byte c" using assms(1) by (simp add: unit_name_def list_all_iff)
  have "takeWhile unit_byte r = []" "dropWhile unit_byte r = r"
    using assms(2) by (cases r; simp)+
  with all show "takeWhile unit_byte (u @ r) = u" "dropWhile unit_byte (u @ r) = r"
    by simp_all
qed

definition fraction_text :: "int list \<Rightarrow> string" where
  "fraction_text ds = (if ds = [] then [] else CHR ''.'' # map digit_char ds)"

lemma split_fraction_text:
  assumes "unit_name u" "decimal ds" "fraction_value 0 ds < 2 ^ 60"
  shows "split_fraction (fraction_text ds @ u @ r)
    = (fraction_value 0 ds, 10 ^ length ds, u @ r, ds \<noteq> [])"
proof (cases ds)
  case Nil
  then show ?thesis
    using unit_name_stops [OF assms(1), of r] by (auto simp: split_fraction_def fraction_text_def split: list.split)
next
  case (Cons d es)
  have "leading_fraction False 0 1 (map digit_char ds @ u @ r)
      = (fraction_value 0 ds, 1 * 10 ^ length ds, u @ r)"
    using unit_name_stops [OF assms(1)] assms(2,3) by (intro leading_fraction_digits) simp_all
  moreover have "length (u @ r) \<noteq> length (map digit_char ds @ u @ r)" using Cons by simp
  moreover have "fraction_text ds = CHR ''.'' # map digit_char ds" using Cons by (simp add: fraction_text_def)
  ultimately show ?thesis using Cons by (simp add: split_fraction_def)
qed

lemma scaled_fraction_exact:
  assumes "0 \<le> f" "k \<le> p" "f * 10 ^ (p - k) < 2 ^ 53"
  shows "scaled_fraction flt f (10 ^ p) (10 ^ k) = f * 10 ^ (p - k)"
proof -
  have p: "(10 :: int) ^ p = 10 ^ (p - k) * 10 ^ k"
    using assms(2) by (simp add: power_add [symmetric])
  have "f * 1 \<le> f * 10 ^ (p - k)"
    by (rule mult_left_mono) (use assms(1) in simp_all)
  with assms(3) p show ?thesis by (simp add: scaled_fraction_def)
qed

lemma parse_unit_number:
  assumes v: "0 \<le> v" "v * unit + x \<le> 2 ^ 63"
    and u: "unit_name u" "unit_map u = Some unit" "0 < unit"
    and r: "r = [] \<or> \<not> unit_byte (hd r)"
    and ds: "decimal ds" "ds \<noteq> [] \<Longrightarrow> unit = 10 ^ p \<and> length ds \<le> p"
      "x = (if ds = [] then 0 else fraction_value 0 ds * 10 ^ (p - length ds))" "x < 2 ^ 53"
  shows "parse_unit flt orig (Itoa v @ fraction_text ds @ u @ r) = Inr (v * unit + x, r)"
proof -
  let ?s1 = "fraction_text ds @ u @ r"
  obtain c cs where c: "Itoa v = c # cs" "is_digit c"
    using Itoa_starts [OF v(1)] by force
  have F: "0 \<le> fraction_value 0 ds" using fraction_value_nonneg [OF ds(1), of 0] by simp
  have x: "0 \<le> x" using F ds(3) by simp
  have "v * 1 \<le> v * unit" by (rule mult_left_mono) (use v(1) u(3) in simp_all)
  then have v63: "v \<le> 2 ^ 63" using v(2) x by simp
  have vu: "v * unit \<le> 2 ^ 63" using v(2) x by simp
  have vunit: "v \<le> 2 ^ 63 div unit"
    using zdiv_mono1 [OF vu u(3)] u(3) by simp
  have st: "stops ?s1"
    using unit_name_stops [OF u(1), of r]
    by (cases "ds = []") (simp_all add: fraction_text_def is_digit_def)
  have l: "leading_int 0 (Itoa v @ ?s1) = Some (v, ?s1)" by (rule leading_int_Itoa [OF v(1) v63 st])
  have small: "fraction_value 0 ds < 2 ^ 60"
  proof (cases "ds = []")
    case False
    have "fraction_value 0 ds * 1 \<le> x"
      using False ds(3) F by (simp add: mult_le_cancel_left1)
    with ds(4) show ?thesis by simp
  qed simp
  have sf: "split_fraction ?s1 = (fraction_value 0 ds, 10 ^ length ds, u @ r, ds \<noteq> [])"
    by (rule split_fraction_text [OF u(1) ds(1) small])
  have n: "(if fraction_value 0 ds > 0 then scaled_fraction flt (fraction_value 0 ds) unit (10 ^ length ds) else 0) = x"
    using ds F scaled_fraction_exact [of "fraction_value 0 ds" "length ds" p flt] by auto
  have ne: "u \<noteq> []" using u(1) by (simp add: unit_name_def)
  define z where "z = Itoa v @ ?s1"
  have hd: "is_digit (hd z)" "length ?s1 \<noteq> length z" using c by (simp_all add: z_def)
  have "parse_unit flt orig z = Inr (v * unit + x, r)"
    using hd v(2) vunit ne
    by (simp add: parse_unit_def l [folded z_def] sf unit_name_split [OF u(1) r] u(2) n Let_def)
  then show ?thesis by (simp add: z_def)
qed

lemma Itoa_not_unit: "0 \<le> v \<Longrightarrow> \<not> unit_byte (hd (Itoa v @ s))"
  using Itoa_starts [of v] by (auto simp: unit_byte_def)

lemma parse_units_Nil: "parse_units flt orig d [] = Inr d"
  by (simp add: parse_units.simps)

lemma parse_units_step:
  assumes "parse_unit flt orig s = Inr (v, r)" "0 \<le> d" "0 \<le> v" "d + v \<le> 2 ^ 63"
  shows "parse_units flt orig d s = parse_units flt orig (d + v) r"
proof -
  have "s \<noteq> []" using parse_unit_shorter [OF assms(1)] by auto
  moreover have "(d + v) mod 2 ^ 64 = d + v" using assms(2-4) by (intro mod_pos_pos_trivial) simp_all
  ultimately show ?thesis using assms(1,4) by (simp add: parse_units.simps [of flt orig d s])
qed

text \<open>One component of a printed duration: a number, perhaps with a fraction, and its unit.\<close>

lemmas unit_facts = unit_name_def unit_byte_def unit_map_def is_digit_def

lemma parse_units_whole:
  assumes "0 \<le> v" "0 \<le> d" "d + v * unit \<le> 2 ^ 63" "unit_name u" "unit_map u = Some unit" "0 < unit"
    "r = [] \<or> \<not> unit_byte (hd r)"
  shows "parse_units flt orig d (Itoa v @ u @ r) = parse_units flt orig (d + v * unit) r"
proof -
  have "parse_unit flt orig (Itoa v @ fraction_text [] @ u @ r) = Inr (v * unit + 0, r)"
    by (rule parse_unit_number) (use assms in simp_all)
  then have "parse_unit flt orig (Itoa v @ u @ r) = Inr (v * unit, r)" by (simp add: fraction_text_def)
  then show ?thesis by (rule parse_units_step) (use assms in simp_all)
qed

lemma parse_units_fraction:
  assumes "0 \<le> u" "0 \<le> d" "d + u \<le> 2 ^ 63" "unit_name name" "unit_map name = Some (10 ^ p)" "p \<le> 15"
    and f: "fmt_frac p False name t = (suf, q)" "0 \<le> t" "u = v * 10 ^ p + t mod 10 ^ p" "0 \<le> v"
  shows "parse_units flt orig d (Itoa v @ suf) = Inr (d + u)"
proof -
  obtain ds where ds: "suf = fraction_text ds @ name" "decimal ds" "length ds \<le> p"
      "fraction_value 0 ds * 10 ^ (p - length ds) = t mod 10 ^ p"
    using fmt_frac_False [OF f(2), of p name] f(1) by (auto simp: fraction_text_def)
  have lt: "t mod 10 ^ p < 10 ^ p" by simp
  have "(10 :: int) ^ p \<le> 10 ^ 15" using assms(6) by (intro power_increasing) simp_all
  from less_le_trans [OF lt this] have small: "t mod 10 ^ p < 2 ^ 53" by simp
  have zero: "t mod 10 ^ p = (if ds = [] then 0 else fraction_value 0 ds * 10 ^ (p - length ds))"
    using ds(4) by auto
  have "parse_unit flt orig (Itoa v @ fraction_text ds @ name @ []) = Inr (v * 10 ^ p + t mod 10 ^ p, [])"
    using parse_unit_number [OF f(4) _ assms(4,5) _ _ ds(2) _ zero small, of "[]"] assms(2,3) ds(3)
    by (simp add: f(3))
  then have "parse_unit flt orig (Itoa v @ suf) = Inr (u, [])" by (simp add: ds(1) f(3))
  then have "parse_units flt orig d (Itoa v @ suf) = parse_units flt orig (d + u) []"
    by (rule parse_units_step) (use assms in simp_all)
  then show ?thesis by (simp add: parse_units_Nil)
qed

text \<open>The magnitude, component by component.\<close>

lemma fmt_frac_div: "0 \<le> v \<Longrightarrow> snd (fmt_frac n False acc v) = v div 10 ^ n"
  using fmt_frac_False [of v n acc] by auto

lemma format_magnitude_parses:
  assumes u: "0 \<le> u" "u \<le> 2 ^ 63"
  shows "parse_units flt orig 0 (format_magnitude u) = Inr u"
proof (cases "u < Second")
  case True
  show ?thesis
  proof (cases "u = 0")
    case True
    have "parse_units flt orig 0 (Itoa 0 @ ''s'' @ []) = parse_units flt orig (0 + 0 * Second) []"
      by (rule parse_units_whole) (simp_all add: unit_facts)
    moreover have "Itoa 0 = ''0''" by code_simp
    ultimately show ?thesis using True by (simp add: format_magnitude_def parse_units_Nil)
  next
    case False
    define name where "name = (if u < 1000 then ''ns''
      else if u < 1000000 then [CHR 0xC2, CHR 0xB5, CHR ''s''] else ''ms'')"
    define p :: nat where "p = (if u < 1000 then 0 else if u < 1000000 then 3 else 6)"
    obtain suf q where tq: "fmt_frac p False name u = (suf, q)" by fastforce
    have q: "q = u div 10 ^ p" using fmt_frac_div [OF u(1), of p name] by (simp add: tq)
    have "parse_units flt orig 0 (Itoa q @ suf) = Inr (0 + u)"
      by (rule parse_units_fraction [OF _ _ _ _ _ _ tq])
        (use u q in \<open>auto simp: name_def p_def unit_facts\<close>)
    moreover have "format_magnitude u = Itoa q @ suf"
      using True False tq by (simp add: format_magnitude_def name_def p_def split: if_splits)
    ultimately show ?thesis by simp
  qed
next
  case False
  obtain suf v where tv: "fmt_frac 9 False ''s'' u = (suf, v)" by fastforce
  have v: "v = u div Second" using fmt_frac_div [OF u(1), of 9 "''s''"] by (simp add: tv)
  define m where "m = v div 60"
  define h where "h = m div 60"
  define secs where "secs = (v mod 60) * Second + u mod Second"
  have nonneg: "0 \<le> v" "0 \<le> m" "0 \<le> h" "0 \<le> secs" using u by (simp_all add: v m_def h_def secs_def)
  have um: "u = m * Minute + secs" unfolding secs_def m_def v by presburger
  have mh: "m = h * 60 + m mod 60" by (simp add: h_def)
  have tail: "parse_units flt orig d (Itoa (v mod 60) @ suf) = Inr (d + secs)"
    if "0 \<le> d" "d + secs \<le> 2 ^ 63" for d
    by (rule parse_units_fraction [OF _ _ _ _ _ _ tv])
      (use that nonneg u in \<open>simp_all add: unit_facts secs_def\<close>)
  have mins: "parse_units flt orig d (Itoa k @ ''m'' @ Itoa (v mod 60) @ suf) = Inr (d + k * Minute + secs)"
    if "0 \<le> d" "0 \<le> k" "d + k * Minute + secs \<le> 2 ^ 63" for d k
    using that nonneg
    by (subst parse_units_whole) (auto simp: unit_facts Itoa_not_unit [unfolded unit_facts] tail)
  have hours: "parse_units flt orig 0 (Itoa h @ ''h'' @ Itoa (m mod 60) @ ''m'' @ Itoa (v mod 60) @ suf)
      = Inr (h * Hour + (m mod 60) * Minute + secs)"
  proof -
    have sum: "h * Hour + (m mod 60) * Minute + secs = u" using um mh by simp
    have "parse_units flt orig (0 + h * Hour) (Itoa (m mod 60) @ ''m'' @ Itoa (v mod 60) @ suf)
        = Inr (h * Hour + (m mod 60) * Minute + secs)"
      using mins [of "0 + h * Hour" "m mod 60"] sum u nonneg by simp
    moreover have "h * Hour \<le> 2 ^ 63" using sum u nonneg pos_mod_sign [of 60 m] by linarith
    ultimately show ?thesis
      using nonneg by (subst parse_units_whole) (simp_all add: unit_facts Itoa_not_unit [unfolded unit_facts])
  qed
  show ?thesis
  proof (cases "m > 0")
    case m: True
    show ?thesis
    proof (cases "h > 0")
      case True
      have "format_magnitude u = Itoa h @ ''h'' @ Itoa (m mod 60) @ ''m'' @ Itoa (v mod 60) @ suf"
        using False m True by (simp add: format_magnitude_def tv m_def h_def Let_def)
      moreover have "h * Hour + (m mod 60) * Minute + secs = u" using um mh by simp
      ultimately show ?thesis using hours by simp
    next
      case h0: False
      then have "m mod 60 = m" using mh nonneg by simp
      then have "format_magnitude u = Itoa m @ ''m'' @ Itoa (v mod 60) @ suf"
        using False m h0 by (simp add: format_magnitude_def tv m_def h_def Let_def)
      then show ?thesis using mins [of 0 m] um u nonneg by simp
    qed
  next
    case m0: False
    then have "format_magnitude u = Itoa (v mod 60) @ suf"
      using False by (simp add: format_magnitude_def tv m_def Let_def)
    moreover have "m = 0" using m0 nonneg by simp
    ultimately show ?thesis using tail [of 0] um u by simp
  qed
qed

lemma parse_units_starts:
  assumes "parse_units flt orig d s = Inr n" "s \<noteq> []"
  shows "hd s = CHR ''.'' \<or> is_digit (hd s)" "s \<noteq> ''0''"
proof -
  show "hd s = CHR ''.'' \<or> is_digit (hd s)"
    using assms by (auto simp: parse_units.simps [of flt orig d s] parse_unit_def res_simps split: sum.splits)
  show "s \<noteq> ''0''"
    using assms
    by (auto simp: parse_units.simps [of flt orig d s] parse_unit_def split_fraction_def is_digit_def
        digit_value_def)
qed

lemma format_magnitude_Nil: "format_magnitude u \<noteq> []"
proof -
  have "Itoa v \<noteq> []" for v by (simp add: Itoa_def digits_of_Nil)
  then show ?thesis by (simp add: format_magnitude_def Let_def case_prod_beta)
qed

text \<open>Printing a duration and parsing it again is the identity on the whole type.\<close>

lemma Duration_String_ParseDuration:
  assumes "- (2 ^ 63) \<le> d" "d < 2 ^ 63"
  shows "ParseDuration flt (Duration_String d) = Inr d"
proof -
  define m where "m = format_magnitude \<bar>d\<bar>"
  have p: "parse_units flt orig 0 m = Inr \<bar>d\<bar>" for orig
    unfolding m_def by (rule format_magnitude_parses) (use assms in simp_all)
  have ne: "m \<noteq> []" unfolding m_def by (rule format_magnitude_Nil)
  note st = parse_units_starts [OF p ne]
  obtain c cs where c: "m = c # cs" using ne by (cases m) auto
  have "c \<noteq> CHR ''-''" "c \<noteq> CHR ''+''" using st(1) c by (auto simp: is_digit_def)
  moreover have "c # cs \<noteq> ''0''" using st(2) c by simp
  moreover have "Duration_String d = (if d < 0 then CHR ''-'' # c # cs else c # cs)"
    using c by (simp add: Duration_String_def m_def abs_if split: if_splits)
  ultimately show ?thesis
    using p [unfolded c] assms by (auto simp add: ParseDuration_def checkE_def tryE_def)
qed

lemma parse_units_nonneg: "parse_units flt orig d s = Inr n \<Longrightarrow> 0 \<le> d \<Longrightarrow> 0 \<le> n"
proof (induction flt orig d s rule: parse_units.induct)
  case (1 flt orig d s)
  then show ?case
    by (auto simp: parse_units.simps [of flt orig d s] split: if_splits sum.splits)
qed

lemma ParseDuration_range: "ParseDuration flt s = Inr d \<Longrightarrow> d < 2 ^ 63"
  by (auto simp: ParseDuration_def Let_def res_simps split: prod.splits if_splits
      dest!: parse_units_nonneg)

text \<open>Printed durations carry no space at either end.\<close>

lemma fmt_frac_suffix: "\<exists>p. fst (fmt_frac n pr acc v) = p @ acc"
proof (induction n arbitrary: pr acc v)
  case (Suc n)
  then show ?case by (simp add: Let_def) (metis append.assoc append_Cons append_Nil)
qed (simp add: exI [of _ "[CHR ''.'']"])

lemma format_magnitude_last: "last (format_magnitude u) = CHR ''s''"
proof -
  have f: "last (fst (fmt_frac n False acc v)) = last acc \<and> fst (fmt_frac n False acc v) \<noteq> []"
    if "acc \<noteq> []" for n acc v
    using fmt_frac_suffix [of n False acc v] that by auto
  have "last (Itoa a @ fst (fmt_frac n False acc v)) = last acc" if "acc \<noteq> []" for a n acc v
    using f [OF that] by simp
  then show ?thesis by (simp add: format_magnitude_def Let_def case_prod_beta f)
qed

lemma Duration_String_trimmed: "TrimSpace (Duration_String d) = Duration_String d" "Duration_String d \<noteq> []"
proof -
  define m where "m = format_magnitude \<bar>d\<bar>"
  have D: "Duration_String d = (if d < 0 then CHR ''-'' # m else m)"
    by (simp add: Duration_String_def m_def)
  have ne: "m \<noteq> []" and last: "last m = CHR ''s''"
    by (simp_all add: m_def format_magnitude_Nil format_magnitude_last)
  have starts: "\<exists>a r. format_magnitude u = Itoa a @ r" for u
  proof (cases "u = 0")
    case True
    have "Itoa 0 = ''0''" by code_simp
    with True show ?thesis by (simp add: format_magnitude_def) (metis append_Cons append_Nil)
  next
    case False
    then show ?thesis by (auto simp: format_magnitude_def Let_def case_prod_beta)
  qed
  then obtain a r where "m = Itoa a @ r" unfolding m_def by blast
  then have "hd m = hd (Itoa a)" using Itoa_ends(1) by simp
  then have "of_char (hd m) \<in> {33..127 :: nat}" using Itoa_ends(2) [of a] by simp
  then show "TrimSpace (Duration_String d) = Duration_String d" "Duration_String d \<noteq> []"
    using ne last by (auto intro!: printable_trimmed simp: D)
qed

end
