(* ===== verification/Config.thy ===== *)
theory Config
  imports Go_Time
begin

section \<open>Configuration (\<^verbatim>\<open>internal/config\<close>)\<close>

text \<open>
  The configuration is read from the process environment, a function from names to values in which an
  unset variable is empty. The arguments collected in \<open>config_lib\<close> are what \<^verbatim>\<open>unicode\<close>, \<^verbatim>\<open>float64\<close>
  and \<^verbatim>\<open>url.Parse\<close> contribute: the case tables beyond ASCII, inexact scaling, and the raw query of a
  URL or its parse error.
\<close>

subsection \<open>Data\<close>

record config_lib =
  lib_ToLower :: "string \<Rightarrow> string"
  lib_ToUpper :: "string \<Rightarrow> string"
  lib_scale :: "int \<Rightarrow> int \<Rightarrow> int \<Rightarrow> int"
  lib_RawQuery :: "string \<Rightarrow> go_error + string"

record DatabaseConfig =
  db_URL :: string
  MaxOpenConns :: int
  MinIdleConns :: int
  MaxConnLifetime :: int
  MaxConnIdleTime :: int

record WorkerConfig =
  PollInterval :: int
  cfg_BatchSize :: int
  cfg_Lease :: int
  MaxAttempts :: int

record AuthConfig =
  Mode :: string
  Audience :: string
  Issuer :: string
  HMACSecret :: string
  OIDCIssuerURL :: string
  OIDCJWKSURL :: string

record ObservabilityConfig =
  ServiceName :: string
  OTLPEndpoint :: string
  Namespace :: string

record Config =
  AppEnv :: string
  AppLogLevel :: string
  HTTPAddr :: string
  HTTPReadTimeout :: int
  HTTPWriteTimeout :: int
  HTTPIdleTimeout :: int
  ShutdownTimeout :: int
  cfg_Database :: DatabaseConfig
  cfg_Worker :: WorkerConfig
  cfg_Auth :: AuthConfig
  cfg_Observability :: ObservabilityConfig
  IntegrationTestDB :: string

record TokenIssuerConfig =
  ti_Auth :: AuthConfig

definition authModeHMAC :: string where "authModeHMAC = ''hmac''"
definition authModeOIDC :: string where "authModeOIDC = ''oidc''"

subsection \<open>Reading the environment\<close>

type_synonym environ = "string \<Rightarrow> string"

definition getDefault :: "environ \<Rightarrow> string \<Rightarrow> string \<Rightarrow> string" where
  "getDefault env key fallback =
     (let val = TrimSpace (env key) in if val = [] then fallback else val)"

definition getInt :: "environ \<Rightarrow> string \<Rightarrow> int \<Rightarrow> go_error + int" where
  "getInt env key fallback =
     (let val = TrimSpace (env key) in
      if val = [] then Inr fallback
      else (case Atoi val of
          Inl e \<Rightarrow> Inl (wrap_prefix (''config: '' @ key @ '' must be an integer: '') e)
        | Inr n \<Rightarrow> Inr n))"

definition getDuration :: "config_lib \<Rightarrow> environ \<Rightarrow> string \<Rightarrow> int \<Rightarrow> go_error + int" where
  "getDuration lib env key fallback =
     (let val = TrimSpace (env key) in
      if val = [] then Inr fallback
      else (case ParseDuration (lib_scale lib) val of
          Inl e \<Rightarrow> Inl (wrap_prefix (''config: '' @ key @ '' must be a valid duration: '') e)
        | Inr d \<Rightarrow> Inr d))"

definition loadDatabase :: "config_lib \<Rightarrow> environ \<Rightarrow> go_error + DatabaseConfig" where
  "loadDatabase lib env =
     (let url = TrimSpace (env ''DATABASE_URL'') in
      checkE (url = []) (ErrorsNew ''config: DATABASE_URL must not be empty'')
      (tryE (getInt env ''DATABASE_MAX_OPEN_CONNS'' 10) (\<lambda>maxOpen.
       tryE (getInt env ''DATABASE_MIN_IDLE_CONNS'' 2) (\<lambda>minIdle.
       tryE (getDuration lib env ''DATABASE_MAX_CONN_LIFETIME'' (30 * Minute)) (\<lambda>lifetime.
       tryE (getDuration lib env ''DATABASE_MAX_CONN_IDLE_TIME'' (5 * Minute)) (\<lambda>idleTime.
       checkE (maxOpen < 1) (ErrorsNew ''config: DATABASE_MAX_OPEN_CONNS must be greater than zero'')
       (checkE (minIdle < 0) (ErrorsNew ''config: DATABASE_MIN_IDLE_CONNS must be zero or greater'')
       (checkE (minIdle > maxOpen)
          (ErrorsNew ''config: DATABASE_MIN_IDLE_CONNS must not exceed DATABASE_MAX_OPEN_CONNS'')
       (checkE (lifetime \<le> 0 \<or> idleTime \<le> 0)
          (ErrorsNew ''config: database connection lifetimes must be greater than zero'')
       (Inr \<lparr>db_URL = url, MaxOpenConns = maxOpen, MinIdleConns = minIdle,
             MaxConnLifetime = lifetime, MaxConnIdleTime = idleTime\<rparr>))))))))))"

definition loadWorker :: "config_lib \<Rightarrow> environ \<Rightarrow> go_error + WorkerConfig" where
  "loadWorker lib env =
     tryE (getDuration lib env ''WORKER_POLL_INTERVAL'' (2 * Second)) (\<lambda>poll.
     tryE (getInt env ''WORKER_BATCH_SIZE'' 5) (\<lambda>batch.
     tryE (getDuration lib env ''JOB_LEASE_DURATION'' (30 * Second)) (\<lambda>lease.
     tryE (getInt env ''JOB_MAX_ATTEMPTS'' 5) (\<lambda>attempts.
     Inr \<lparr>PollInterval = poll, cfg_BatchSize = batch, cfg_Lease = lease, MaxAttempts = attempts\<rparr>))))"

text \<open>
  \<^verbatim>\<open>loadAuth\<close>: an empty issuer falls back to the OIDC issuer URL in OIDC mode, then the mode's own
  requirements are checked. \<open>auth_mode_check\<close> is the final switch on the mode.
\<close>

definition auth_mode_check :: "config_lib \<Rightarrow> AuthConfig \<Rightarrow> go_error + AuthConfig" where
  "auth_mode_check lib cfg =
     (if Mode cfg = authModeHMAC then
        checkE (HMACSecret cfg = [])
          (ErrorsNew ''config: AUTH_HMAC_SECRET is required when AUTH_MODE=hmac'')
        (checkE (length (HMACSecret cfg) < 32)
          (ErrorsNew ''config: AUTH_HMAC_SECRET must be at least 32 characters'')
        (checkE (Contains (ToLower (lib_ToLower lib) (HMACSecret cfg)) ''replace-me'')
          (ErrorsNew ''config: AUTH_HMAC_SECRET contains a placeholder value'')
        (Inr cfg)))
      else if Mode cfg = authModeOIDC then
        (let cfg = (if OIDCIssuerURL cfg = [] then cfg\<lparr>OIDCIssuerURL := Issuer cfg\<rparr> else cfg) in
         checkE (Issuer cfg \<noteq> OIDCIssuerURL cfg)
          (ErrorsNew ''config: AUTH_ISSUER must match AUTH_OIDC_ISSUER_URL when AUTH_MODE=oidc'')
         (Inr cfg))
      else Inl (ErrorsNew (''config: AUTH_MODE must be one of '' @ authModeHMAC @ ''|'' @ authModeOIDC
                           @ '', got '' @ Quote (Mode cfg))))"

definition loadAuth :: "config_lib \<Rightarrow> environ \<Rightarrow> go_error + AuthConfig" where
  "loadAuth lib env =
     (let cfg = \<lparr>Mode = ToLower (lib_ToLower lib) (getDefault env ''AUTH_MODE'' authModeHMAC),
                 Audience = TrimSpace (env ''AUTH_AUDIENCE''),
                 Issuer = TrimSpace (env ''AUTH_ISSUER''),
                 HMACSecret = TrimSpace (env ''AUTH_HMAC_SECRET''),
                 OIDCIssuerURL = TrimSpace (env ''AUTH_OIDC_ISSUER_URL''),
                 OIDCJWKSURL = TrimSpace (env ''AUTH_OIDC_JWKS_URL'')\<rparr> in
      checkE (Audience cfg = []) (ErrorsNew ''config: AUTH_AUDIENCE must not be empty'')
      (if Issuer cfg = [] then
         (if Mode cfg = authModeOIDC \<and> OIDCIssuerURL cfg \<noteq> []
          then auth_mode_check lib (cfg\<lparr>Issuer := OIDCIssuerURL cfg\<rparr>)
          else Inl (ErrorsNew ''config: AUTH_ISSUER must not be empty''))
       else auth_mode_check lib cfg))"

subsection \<open>Validation\<close>

definition validateProductionDatabaseURL :: "config_lib \<Rightarrow> string \<Rightarrow> go_error option" where
  "validateProductionDatabaseURL lib rawURL =
     (case lib_RawQuery lib rawURL of
        Inl e \<Rightarrow> Some (wrap_prefix ''config: DATABASE_URL must be a valid URL in production: '' e)
      | Inr query \<Rightarrow>
          (let sslMode = TrimSpace (Values_Get (ParseQuery query) ''sslmode'') in
           if sslMode = [] \<or> EqualFold sslMode ''disable''
           then Some (ErrorsNew ''config: DATABASE_URL must set sslmode to a non-disable value when APP_ENV=production'')
           else None))"

definition Config_validate :: "config_lib \<Rightarrow> Config \<Rightarrow> go_error option" where
  "Config_validate lib c =
     (if AppEnv c \<notin> {''development'', ''test'', ''production''}
      then Some (ErrorsNew (''config: APP_ENV must be one of development|test|production, got '' @ Quote (AppEnv c)))
      else if AppLogLevel c \<notin> {''DEBUG'', ''INFO'', ''WARN'', ''ERROR''}
      then Some (ErrorsNew (''config: APP_LOG_LEVEL must be one of DEBUG|INFO|WARN|ERROR, got '' @ Quote (AppLogLevel c)))
      else if HTTPAddr c = [] then Some (ErrorsNew ''config: HTTP_ADDR must not be empty'')
      else if HTTPReadTimeout c \<le> 0 \<or> HTTPWriteTimeout c \<le> 0 \<or> HTTPIdleTimeout c \<le> 0 \<or> ShutdownTimeout c \<le> 0
      then Some (ErrorsNew ''config: HTTP and shutdown timeouts must be greater than zero'')
      else if ServiceName (cfg_Observability c) = []
      then Some (ErrorsNew ''config: OTEL_SERVICE_NAME must not be empty'')
      else if Namespace (cfg_Observability c) = []
      then Some (ErrorsNew ''config: PROMETHEUS_NAMESPACE must not be empty'')
      else if cfg_BatchSize (cfg_Worker c) < 1
      then Some (ErrorsNew ''config: WORKER_BATCH_SIZE must be greater than zero'')
      else if PollInterval (cfg_Worker c) \<le> 0 \<or> cfg_Lease (cfg_Worker c) \<le> 0
      then Some (ErrorsNew ''config: WORKER_POLL_INTERVAL and JOB_LEASE_DURATION must be greater than zero'')
      else if MaxAttempts (cfg_Worker c) < 1
      then Some (ErrorsNew ''config: JOB_MAX_ATTEMPTS must be greater than zero'')
      else if Audience (cfg_Auth c) = [] then Some (ErrorsNew ''config: AUTH_AUDIENCE must not be empty'')
      else if Issuer (cfg_Auth c) = [] then Some (ErrorsNew ''config: AUTH_ISSUER must not be empty'')
      else if AppEnv c = ''production'' then
        (if Mode (cfg_Auth c) = authModeHMAC
         then Some (ErrorsNew ''config: AUTH_MODE=hmac is not allowed when APP_ENV=production'')
         else validateProductionDatabaseURL lib (db_URL (cfg_Database c)))
      else None)"

definition Load :: "config_lib \<Rightarrow> environ \<Rightarrow> go_error + Config" where
  "Load lib env =
     tryE (getDuration lib env ''HTTP_READ_TIMEOUT'' (10 * Second)) (\<lambda>readTimeout.
     tryE (getDuration lib env ''HTTP_WRITE_TIMEOUT'' (15 * Second)) (\<lambda>writeTimeout.
     tryE (getDuration lib env ''HTTP_IDLE_TIMEOUT'' (60 * Second)) (\<lambda>idleTimeout.
     tryE (getDuration lib env ''SHUTDOWN_TIMEOUT'' (20 * Second)) (\<lambda>shutdown.
     tryE (loadDatabase lib env) (\<lambda>database.
     tryE (loadWorker lib env) (\<lambda>worker.
     tryE (loadAuth lib env) (\<lambda>auth.
     let cfg = \<lparr>AppEnv = getDefault env ''APP_ENV'' ''development'',
                AppLogLevel = ToUpper (lib_ToUpper lib) (getDefault env ''APP_LOG_LEVEL'' ''INFO''),
                HTTPAddr = getDefault env ''HTTP_ADDR'' '':8080'',
                HTTPReadTimeout = readTimeout, HTTPWriteTimeout = writeTimeout,
                HTTPIdleTimeout = idleTimeout, ShutdownTimeout = shutdown,
                cfg_Database = database, cfg_Worker = worker, cfg_Auth = auth,
                cfg_Observability =
                  \<lparr>ServiceName = getDefault env ''OTEL_SERVICE_NAME'' ''golden-path-control-plane'',
                   OTLPEndpoint = TrimSpace (env ''OTEL_EXPORTER_OTLP_ENDPOINT''),
                   Namespace = getDefault env ''PROMETHEUS_NAMESPACE'' ''goldenpath''\<rparr>,
                IntegrationTestDB = TrimSpace (env ''CONTROL_PLANE_INTEGRATION_DATABASE_URL'')\<rparr>
     in (case Config_validate lib cfg of Some e \<Rightarrow> Inl e | None \<Rightarrow> Inr cfg))))))))"

definition LoadTokenIssuerConfig :: "config_lib \<Rightarrow> environ \<Rightarrow> go_error + TokenIssuerConfig" where
  "LoadTokenIssuerConfig lib env = tryE (loadAuth lib env) (\<lambda>auth. Inr \<lparr>ti_Auth = auth\<rparr>)"

subsection \<open>Redaction\<close>

text \<open>The values of a \<^verbatim>\<open>map[string]any\<close>, and \<^verbatim>\<open>strings.LastIndex\<close> as a split at the last occurrence.\<close>

datatype any_value = GoString string | GoInt int | GoMap "(string \<times> any_value) list"

definition cut_last :: "char \<Rightarrow> string \<Rightarrow> (string \<times> string) option" where
  "cut_last c s = map_option (\<lambda>(a, b). (rev b, rev a)) (cut [c] (rev s))"

definition redactSecret :: "string \<Rightarrow> string" where
  "redactSecret v = (if v = [] then [] else ''***redacted***'')"

definition redactURL :: "string \<Rightarrow> string" where
  "redactURL v =
     (if v = [] then []
      else (case cut_last CHR ''@'' v of
          None \<Rightarrow> v
        | Some (_, host) \<Rightarrow>
            (case cut ''://'' v of
               None \<Rightarrow> ''***redacted***''
             | Some (scheme, _) \<Rightarrow> scheme @ ''://'' @ ''***redacted***'' @ ''@'' @ host)))"

definition Redacted :: "Config \<Rightarrow> any_value" where
  "Redacted c = GoMap
     [(''app_env'', GoString (AppEnv c)),
      (''app_log_level'', GoString (AppLogLevel c)),
      (''http_addr'', GoString (HTTPAddr c)),
      (''http_read_timeout'', GoString (Duration_String (HTTPReadTimeout c))),
      (''http_write_timeout'', GoString (Duration_String (HTTPWriteTimeout c))),
      (''http_idle_timeout'', GoString (Duration_String (HTTPIdleTimeout c))),
      (''shutdown_timeout'', GoString (Duration_String (ShutdownTimeout c))),
      (''database'', let d = cfg_Database c in GoMap
        [(''url'', GoString (redactURL (db_URL d))),
         (''max_open_conns'', GoInt (MaxOpenConns d)),
         (''min_idle_conns'', GoInt (MinIdleConns d)),
         (''max_conn_lifetime'', GoString (Duration_String (MaxConnLifetime d))),
         (''max_conn_idle_time'', GoString (Duration_String (MaxConnIdleTime d)))]),
      (''worker'', let w = cfg_Worker c in GoMap
        [(''poll_interval'', GoString (Duration_String (PollInterval w))),
         (''batch_size'', GoInt (cfg_BatchSize w)),
         (''lease'', GoString (Duration_String (cfg_Lease w))),
         (''max_attempts'', GoInt (MaxAttempts w))]),
      (''auth'', let a = cfg_Auth c in GoMap
        [(''mode'', GoString (Mode a)),
         (''audience'', GoString (Audience a)),
         (''issuer'', GoString (Issuer a)),
         (''hmac_secret'', GoString (redactSecret (HMACSecret a))),
         (''oidc_issuer_url'', GoString (OIDCIssuerURL a)),
         (''oidc_jwks_url'', GoString (OIDCJWKSURL a))]),
      (''observability'', let b = cfg_Observability c in GoMap
        [(''service_name'', GoString (ServiceName b)),
         (''otlp_endpoint'', GoString (OTLPEndpoint b)),
         (''namespace'', GoString (Namespace b))])]"

end
