(* ===== verification/Loading.thy ===== *)
theory Loading
  imports Config
begin

section \<open>What a loaded configuration guarantees\<close>

text \<open>
  The configurations the program can start with, as a predicate, and an environment that describes
  one. Every loaded configuration satisfies the predicate, and every configuration that satisfies it
  is loaded from the environment describing it. The second half is what the redacted rendering, the
  one that is logged, can reveal.
\<close>

subsection \<open>The acceptable configurations\<close>

definition trimmed :: "string \<Rightarrow> bool" where
  "trimmed s \<longleftrightarrow> TrimSpace s = s"

definition positive_duration :: "int \<Rightarrow> bool" where
  "positive_duration d \<longleftrightarrow> 0 < d \<and> d < 2 ^ 63"

definition database_ok :: "DatabaseConfig \<Rightarrow> bool" where
  "database_ok d \<longleftrightarrow> trimmed (db_URL d) \<and> db_URL d \<noteq> [] \<and> 1 \<le> MaxOpenConns d \<and> MaxOpenConns d < 2 ^ 63
     \<and> 0 \<le> MinIdleConns d \<and> MinIdleConns d \<le> MaxOpenConns d
     \<and> positive_duration (MaxConnLifetime d) \<and> positive_duration (MaxConnIdleTime d)"

definition worker_ok :: "WorkerConfig \<Rightarrow> bool" where
  "worker_ok w \<longleftrightarrow> positive_duration (PollInterval w) \<and> positive_duration (cfg_Lease w)
     \<and> 1 \<le> cfg_BatchSize w \<and> cfg_BatchSize w < 2 ^ 63 \<and> 1 \<le> MaxAttempts w \<and> MaxAttempts w < 2 ^ 63"

definition auth_ok :: "config_lib \<Rightarrow> AuthConfig \<Rightarrow> bool" where
  "auth_ok lib a \<longleftrightarrow> trimmed (Audience a) \<and> Audience a \<noteq> [] \<and> trimmed (Issuer a) \<and> Issuer a \<noteq> []
     \<and> trimmed (HMACSecret a) \<and> trimmed (OIDCIssuerURL a) \<and> trimmed (OIDCJWKSURL a)
     \<and> (Mode a = ''hmac'' \<and> 32 \<le> length (HMACSecret a)
          \<and> \<not> Contains (ToLower (lib_ToLower lib) (HMACSecret a)) ''replace-me''
        \<or> Mode a = ''oidc'' \<and> OIDCIssuerURL a = Issuer a)"

definition tls_database :: "config_lib \<Rightarrow> string \<Rightarrow> bool" where
  "tls_database lib url \<longleftrightarrow>
     (case lib_RawQuery lib url of
        Inl _ \<Rightarrow> False
      | Inr query \<Rightarrow> (let m = TrimSpace (Values_Get (ParseQuery query) ''sslmode'') in
                       m \<noteq> [] \<and> \<not> EqualFold m ''disable''))"

definition config_ok :: "config_lib \<Rightarrow> Config \<Rightarrow> bool" where
  "config_ok lib c \<longleftrightarrow>
     AppEnv c \<in> {''development'', ''test'', ''production''}
   \<and> AppLogLevel c \<in> {''DEBUG'', ''INFO'', ''WARN'', ''ERROR''}
   \<and> trimmed (HTTPAddr c) \<and> HTTPAddr c \<noteq> [] \<and> trimmed (IntegrationTestDB c)
   \<and> positive_duration (HTTPReadTimeout c) \<and> positive_duration (HTTPWriteTimeout c)
   \<and> positive_duration (HTTPIdleTimeout c) \<and> positive_duration (ShutdownTimeout c)
   \<and> database_ok (cfg_Database c) \<and> worker_ok (cfg_Worker c) \<and> auth_ok lib (cfg_Auth c)
   \<and> (let b = cfg_Observability c in trimmed (ServiceName b) \<and> ServiceName b \<noteq> []
        \<and> trimmed (OTLPEndpoint b) \<and> trimmed (Namespace b) \<and> Namespace b \<noteq> [])
   \<and> (AppEnv c = ''production'' \<longrightarrow>
        Mode (cfg_Auth c) = ''oidc'' \<and> tls_database lib (db_URL (cfg_Database c)))"

lemma trimmed_TrimSpace [simp]: "trimmed (TrimSpace s)"
  by (simp add: trimmed_def TrimSpace_idem)

lemma tls_database_iff: "tls_database lib url \<longleftrightarrow> validateProductionDatabaseURL lib url = None"
  by (simp add: tls_database_def validateProductionDatabaseURL_def Let_def split: sum.split)

subsection \<open>A concrete environment\<close>

definition no_lib :: config_lib where
  "no_lib = \<lparr>lib_ToLower = (\<lambda>s. s), lib_ToUpper = (\<lambda>s. s), lib_scale = (\<lambda>f unit scale. f * unit div scale),
     lib_RawQuery = (\<lambda>s. case cut ''?'' s of Some (_, q) \<Rightarrow> Inr q | None \<Rightarrow> Inr [])\<rparr>"

definition sample_environment :: environ where
  "sample_environment key =
     (case map_of
        [(''DATABASE_URL'', ''postgres://cp:pw@db:5432/cp?sslmode=disable''),
         (''AUTH_AUDIENCE'', ''control-plane''), (''AUTH_ISSUER'', ''local''),
         (''AUTH_HMAC_SECRET'', ''0123456789abcdef0123456789abcdef'')] key of
        Some v \<Rightarrow> v | None \<Rightarrow> [])"

definition sample_config :: Config where
  "sample_config =
     \<lparr>AppEnv = ''production'', AppLogLevel = ''INFO'', HTTPAddr = '':8080'', HTTPReadTimeout = 10 * Second,
      HTTPWriteTimeout = 1500000000, HTTPIdleTimeout = 90 * Second, ShutdownTimeout = 20 * Second,
      cfg_Database = \<lparr>db_URL = ''postgres://cp:pw@db:5432/cp?sslmode=require'', MaxOpenConns = 10,
        MinIdleConns = 2, MaxConnLifetime = 30 * Minute, MaxConnIdleTime = 5 * Minute\<rparr>,
      cfg_Worker = \<lparr>PollInterval = 2 * Second, cfg_BatchSize = 5, cfg_Lease = 30 * Second, MaxAttempts = 5\<rparr>,
      cfg_Auth = \<lparr>Mode = ''oidc'', Audience = ''control-plane'', Issuer = ''https://id.example.com'',
        HMACSecret = [], OIDCIssuerURL = ''https://id.example.com'', OIDCJWKSURL = []\<rparr>,
      cfg_Observability = \<lparr>ServiceName = ''cp'', OTLPEndpoint = [], Namespace = ''goldenpath''\<rparr>,
      IntegrationTestDB = []\<rparr>"

subsection \<open>Loading gives an acceptable configuration\<close>

lemma getInt_range: "getInt env k n = Inr i \<Longrightarrow> n < 2 ^ 63 \<Longrightarrow> i < 2 ^ 63"
  by (auto simp: getInt_def Let_def dest!: Atoi_range split: if_splits sum.splits)

lemma getDuration_range: "getDuration lib env k n = Inr i \<Longrightarrow> n < 2 ^ 63 \<Longrightarrow> i < 2 ^ 63"
  by (auto simp: getDuration_def Let_def dest!: ParseDuration_range split: if_splits sum.splits)

lemma getDefault_trimmed: "trimmed fallback \<Longrightarrow> trimmed (getDefault env k fallback)"
  by (simp add: getDefault_def Let_def)

lemma getDefault_Nil: "fallback \<noteq> [] \<Longrightarrow> getDefault env k fallback \<noteq> []"
  by (simp add: getDefault_def Let_def)

lemma loadDatabase_ok:
  assumes "loadDatabase lib env = Inr d"
  shows "database_ok d"
proof -
  let ?url = "TrimSpace (env ''DATABASE_URL'')"
  obtain mo mi lt it where
    l: "getInt env ''DATABASE_MAX_OPEN_CONNS'' 10 = Inr mo" "getInt env ''DATABASE_MIN_IDLE_CONNS'' 2 = Inr mi"
       "getDuration lib env ''DATABASE_MAX_CONN_LIFETIME'' (30 * Minute) = Inr lt"
       "getDuration lib env ''DATABASE_MAX_CONN_IDLE_TIME'' (5 * Minute) = Inr it"
    and c: "?url \<noteq> []" "1 \<le> mo" "0 \<le> mi" "mi \<le> mo" "0 < lt" "0 < it"
    and d: "d = \<lparr>db_URL = ?url, MaxOpenConns = mo, MinIdleConns = mi, MaxConnLifetime = lt, MaxConnIdleTime = it\<rparr>"
    using assms by (auto simp: loadDatabase_def Let_def res_simps)
  have "mo < 2 ^ 63" by (rule getInt_range [OF l(1)]) simp
  moreover have "lt < 2 ^ 63" "it < 2 ^ 63"
    using getDuration_range [OF l(3)] getDuration_range [OF l(4)] by simp_all
  ultimately show ?thesis using c by (simp add: d database_ok_def positive_duration_def)
qed

lemma loadWorker_range:
  assumes "loadWorker lib env = Inr w"
  shows "PollInterval w < 2 ^ 63 \<and> cfg_Lease w < 2 ^ 63 \<and> cfg_BatchSize w < 2 ^ 63 \<and> MaxAttempts w < 2 ^ 63"
  using assms by (auto simp: loadWorker_def res_simps dest!: getInt_range getDuration_range)

lemma auth_mode_check_ok:
  assumes "auth_mode_check lib a0 = Inr a" "trimmed (Audience a0)" "Audience a0 \<noteq> []" "trimmed (Issuer a0)"
    "Issuer a0 \<noteq> []" "trimmed (HMACSecret a0)" "trimmed (OIDCIssuerURL a0)" "trimmed (OIDCJWKSURL a0)"
  shows "auth_ok lib a"
  using assms
  by (auto simp: auth_mode_check_def auth_ok_def authModeHMAC_def authModeOIDC_def Let_def res_simps
      split: if_splits)

lemma loadAuth_ok: "loadAuth lib env = Inr a \<Longrightarrow> auth_ok lib a"
  by (auto simp: loadAuth_def Let_def res_simps intro: auth_mode_check_ok split: if_splits)

lemma guard_None: "((if b then Some e else x) = None) = (\<not> b \<and> x = None)"
  by simp

lemma Config_validate_ok:
  assumes "Config_validate lib c = None"
  shows "AppEnv c \<in> {''development'', ''test'', ''production''}"
    "AppLogLevel c \<in> {''DEBUG'', ''INFO'', ''WARN'', ''ERROR''}" "HTTPAddr c \<noteq> []"
    "0 < HTTPReadTimeout c" "0 < HTTPWriteTimeout c" "0 < HTTPIdleTimeout c" "0 < ShutdownTimeout c"
    "ServiceName (cfg_Observability c) \<noteq> []" "Namespace (cfg_Observability c) \<noteq> []"
    "1 \<le> cfg_BatchSize (cfg_Worker c)" "0 < PollInterval (cfg_Worker c)" "0 < cfg_Lease (cfg_Worker c)"
    "1 \<le> MaxAttempts (cfg_Worker c)"
    "AppEnv c = ''production'' \<Longrightarrow> Mode (cfg_Auth c) \<noteq> ''hmac'' \<and> tls_database lib (db_URL (cfg_Database c))"
  using assms unfolding Config_validate_def authModeHMAC_def tls_database_iff guard_None Let_def
  by (simp_all only: not_le not_less de_Morgan_disj not_not if_True if_False simp_thms split: if_splits) simp_all?

lemma constants_trimmed [simp]:
  "trimmed '':8080''" "trimmed ''golden-path-control-plane''" "trimmed ''goldenpath''"
  unfolding trimmed_def by (rule TrimSpace_graphic, code_simp)+

lemma Load_acceptable:
  assumes "Load lib env = Inr c"
  shows "config_ok lib c"
proof -
  obtain rt wt it st d w a where
    l: "getDuration lib env ''HTTP_READ_TIMEOUT'' (10 * Second) = Inr rt"
      "getDuration lib env ''HTTP_WRITE_TIMEOUT'' (15 * Second) = Inr wt"
      "getDuration lib env ''HTTP_IDLE_TIMEOUT'' (60 * Second) = Inr it"
      "getDuration lib env ''SHUTDOWN_TIMEOUT'' (20 * Second) = Inr st"
      "loadDatabase lib env = Inr d" "loadWorker lib env = Inr w" "loadAuth lib env = Inr a"
    and v: "Config_validate lib c = None"
    and f: "HTTPReadTimeout c = rt" "HTTPWriteTimeout c = wt" "HTTPIdleTimeout c = it" "ShutdownTimeout c = st"
      "cfg_Database c = d" "cfg_Worker c = w" "cfg_Auth c = a"
    and t: "trimmed (HTTPAddr c)" "trimmed (IntegrationTestDB c)" "trimmed (ServiceName (cfg_Observability c))"
      "trimmed (OTLPEndpoint (cfg_Observability c))" "trimmed (Namespace (cfg_Observability c))"
    using assms
    by (auto simp: Load_def Let_def res_simps getDefault_trimmed split: option.splits)
  note v = Config_validate_ok [OF v]
  have r: "rt < 2 ^ 63" "wt < 2 ^ 63" "it < 2 ^ 63" "st < 2 ^ 63"
    using l(1-4)[THEN getDuration_range] by simp_all
  have w: "worker_ok w"
    using loadWorker_range [OF l(6)] v(10-13) by (simp add: worker_ok_def positive_duration_def f)
  have m: "Mode a = ''hmac'' \<or> Mode a = ''oidc''"
    using loadAuth_ok [OF l(7)] by (auto simp: auth_ok_def)
  have "AppEnv c = ''production'' \<longrightarrow> Mode a = ''oidc'' \<and> tls_database lib (db_URL d)"
    using v(14) m by (auto simp: f)
  then show ?thesis
    unfolding config_ok_def positive_duration_def Let_def
    using v(1-9) r w t loadDatabase_ok [OF l(5)] loadAuth_ok [OF l(7)] by (simp add: f)
qed

text \<open>
  C8. Every configuration that \<^verbatim>\<open>Load\<close> returns is acceptable.
\<close>

theorem Load_ok:
  assumes "Load lib env = Inr c"
  shows "config_ok lib c"
  using assms by (rule Load_acceptable)

theorem Load_ok_witness: "\<exists>c. Load no_lib sample_environment = Inr c \<and> config_ok no_lib c"
proof -
  have "isl (Load no_lib sample_environment) = False" by code_simp
  then obtain c where "Load no_lib sample_environment = Inr c" by (cases "Load no_lib sample_environment") auto
  with Load_ok [OF this] show ?thesis by blast
qed

subsection \<open>Every acceptable configuration can be loaded\<close>

definition environment_of :: "Config \<Rightarrow> environ" where
  "environment_of c key =
     (let d = cfg_Database c; w = cfg_Worker c; a = cfg_Auth c; b = cfg_Observability c in
      case map_of
        [(''APP_ENV'', AppEnv c), (''APP_LOG_LEVEL'', AppLogLevel c), (''HTTP_ADDR'', HTTPAddr c),
         (''CONTROL_PLANE_INTEGRATION_DATABASE_URL'', IntegrationTestDB c),
         (''HTTP_READ_TIMEOUT'', Duration_String (HTTPReadTimeout c)),
         (''HTTP_WRITE_TIMEOUT'', Duration_String (HTTPWriteTimeout c)),
         (''HTTP_IDLE_TIMEOUT'', Duration_String (HTTPIdleTimeout c)),
         (''SHUTDOWN_TIMEOUT'', Duration_String (ShutdownTimeout c)),
         (''DATABASE_URL'', db_URL d),
         (''DATABASE_MAX_OPEN_CONNS'', Itoa (MaxOpenConns d)),
         (''DATABASE_MIN_IDLE_CONNS'', Itoa (MinIdleConns d)),
         (''DATABASE_MAX_CONN_LIFETIME'', Duration_String (MaxConnLifetime d)),
         (''DATABASE_MAX_CONN_IDLE_TIME'', Duration_String (MaxConnIdleTime d)),
         (''WORKER_POLL_INTERVAL'', Duration_String (PollInterval w)),
         (''WORKER_BATCH_SIZE'', Itoa (cfg_BatchSize w)),
         (''JOB_LEASE_DURATION'', Duration_String (cfg_Lease w)),
         (''JOB_MAX_ATTEMPTS'', Itoa (MaxAttempts w)),
         (''AUTH_MODE'', Mode a), (''AUTH_AUDIENCE'', Audience a), (''AUTH_ISSUER'', Issuer a),
         (''AUTH_HMAC_SECRET'', HMACSecret a), (''AUTH_OIDC_ISSUER_URL'', OIDCIssuerURL a),
         (''AUTH_OIDC_JWKS_URL'', OIDCJWKSURL a),
         (''OTEL_SERVICE_NAME'', ServiceName b), (''OTEL_EXPORTER_OTLP_ENDPOINT'', OTLPEndpoint b),
         (''PROMETHEUS_NAMESPACE'', Namespace b)] key of
        Some v \<Rightarrow> v | None \<Rightarrow> [])"

lemma getDefault_given: "env k = v \<Longrightarrow> trimmed v \<Longrightarrow> v \<noteq> [] \<Longrightarrow> getDefault env k f = v"
  by (simp add: getDefault_def trimmed_def)

lemma getInt_given: "env k = Itoa n \<Longrightarrow> - (2 ^ 63) \<le> n \<Longrightarrow> n < 2 ^ 63 \<Longrightarrow> getInt env k f = Inr n"
  using Itoa_ends(1) by (simp add: getInt_def Itoa_trimmed Atoi_Itoa)

lemma getDuration_given:
  "env k = Duration_String d \<Longrightarrow> - (2 ^ 63) \<le> d \<Longrightarrow> d < 2 ^ 63 \<Longrightarrow> getDuration lib env k f = Inr d"
  by (simp add: getDuration_def Duration_String_trimmed Duration_String_ParseDuration)

lemma getDuration_positive:
  "env k = Duration_String d \<Longrightarrow> positive_duration d \<Longrightarrow> getDuration lib env k f = Inr d"
  by (rule getDuration_given) (simp_all add: positive_duration_def)

lemma known_trimmed:
  assumes "s \<in> {''development'', ''test'', ''production'', ''DEBUG'', ''INFO'', ''WARN'', ''ERROR'', ''hmac'', ''oidc''}"
  shows "trimmed s" "s \<noteq> []" "list_all is_ascii s"
proof -
  have "graphic s" using assms by (elim insertE emptyE; hypsubst; code_simp)
  then show "trimmed s" "s \<noteq> []" by (simp_all add: trimmed_def TrimSpace_graphic graphic_def)
  show "list_all is_ascii s" using assms by (elim insertE emptyE; hypsubst; code_simp)
qed

lemma ToLower_mode: "m \<in> {''hmac'', ''oidc''} \<Longrightarrow> ToLower u m = m"
  by (elim insertE emptyE) (simp_all add: ToLower_def is_ascii_def lower_byte_def)

lemma ToUpper_level: "l \<in> {''DEBUG'', ''INFO'', ''WARN'', ''ERROR''} \<Longrightarrow> ToUpper u l = l"
  by (elim insertE emptyE) (simp_all add: ToUpper_def is_ascii_def upper_byte_def)

lemma loadDatabase_environment:
  assumes "database_ok (cfg_Database c)"
  shows "loadDatabase lib (environment_of c) = Inr (cfg_Database c)"
proof -
  let ?d = "cfg_Database c"
  have "getInt (environment_of c) ''DATABASE_MAX_OPEN_CONNS'' n = Inr (MaxOpenConns ?d)"
    "getInt (environment_of c) ''DATABASE_MIN_IDLE_CONNS'' n = Inr (MinIdleConns ?d)" for n
    using assms by (auto intro!: getInt_given simp: environment_of_def database_ok_def)
  moreover have "getDuration lib (environment_of c) ''DATABASE_MAX_CONN_LIFETIME'' n = Inr (MaxConnLifetime ?d)"
    "getDuration lib (environment_of c) ''DATABASE_MAX_CONN_IDLE_TIME'' n = Inr (MaxConnIdleTime ?d)" for n
    using assms by (auto intro!: getDuration_positive simp: environment_of_def database_ok_def)
  moreover have "environment_of c ''DATABASE_URL'' = db_URL ?d" by (simp add: environment_of_def)
  ultimately show ?thesis
    using assms by (simp add: loadDatabase_def database_ok_def positive_duration_def trimmed_def)
qed

lemma loadWorker_environment:
  assumes "worker_ok (cfg_Worker c)"
  shows "loadWorker lib (environment_of c) = Inr (cfg_Worker c)"
proof -
  let ?w = "cfg_Worker c"
  have "getInt (environment_of c) ''WORKER_BATCH_SIZE'' n = Inr (cfg_BatchSize ?w)"
    "getInt (environment_of c) ''JOB_MAX_ATTEMPTS'' n = Inr (MaxAttempts ?w)" for n
    using assms by (auto intro!: getInt_given simp: environment_of_def worker_ok_def)
  moreover have "getDuration lib (environment_of c) ''WORKER_POLL_INTERVAL'' n = Inr (PollInterval ?w)"
    "getDuration lib (environment_of c) ''JOB_LEASE_DURATION'' n = Inr (cfg_Lease ?w)" for n
    using assms by (auto intro!: getDuration_positive simp: environment_of_def worker_ok_def)
  ultimately show ?thesis by (simp add: loadWorker_def)
qed

lemma auth_mode_check_fixed:
  assumes "auth_ok lib a"
  shows "auth_mode_check lib a = Inr a"
proof (cases "Mode a = ''hmac''")
  case True
  then have "32 \<le> length (HMACSecret a)" "HMACSecret a \<noteq> []"
    "\<not> Contains (ToLower (lib_ToLower lib) (HMACSecret a)) ''replace-me''"
    using assms by (auto simp: auth_ok_def)
  with True show ?thesis by (simp add: auth_mode_check_def authModeHMAC_def)
next
  case False
  with assms have "Mode a = ''oidc''" "OIDCIssuerURL a = Issuer a" "Issuer a \<noteq> []"
    by (auto simp: auth_ok_def)
  then show ?thesis by (simp add: auth_mode_check_def authModeHMAC_def authModeOIDC_def)
qed

lemma loadAuth_environment:
  assumes "auth_ok lib (cfg_Auth c)"
  shows "loadAuth lib (environment_of c) = Inr (cfg_Auth c)"
proof -
  define a where "a = cfg_Auth c"
  have m: "Mode a \<in> {''hmac'', ''oidc''}" using assms by (auto simp: auth_ok_def a_def)
  have t: "trimmed (Audience a)" "trimmed (Issuer a)" "trimmed (HMACSecret a)" "trimmed (OIDCIssuerURL a)"
      "trimmed (OIDCJWKSURL a)" "Audience a \<noteq> []" "Issuer a \<noteq> []"
    using assms by (simp_all add: auth_ok_def a_def)
  have mode: "getDefault (environment_of c) ''AUTH_MODE'' d = Mode a" for d
    by (rule getDefault_given) (use m known_trimmed in \<open>auto simp: environment_of_def a_def\<close>)
  have reads: "environment_of c ''AUTH_AUDIENCE'' = Audience a" "environment_of c ''AUTH_ISSUER'' = Issuer a"
    "environment_of c ''AUTH_HMAC_SECRET'' = HMACSecret a"
    "environment_of c ''AUTH_OIDC_ISSUER_URL'' = OIDCIssuerURL a"
    "environment_of c ''AUTH_OIDC_JWKS_URL'' = OIDCJWKSURL a"
    by (simp_all add: environment_of_def a_def)
  have whole: "\<lparr>Mode = Mode a, Audience = Audience a, Issuer = Issuer a, HMACSecret = HMACSecret a,
      OIDCIssuerURL = OIDCIssuerURL a, OIDCJWKSURL = OIDCJWKSURL a\<rparr> = a"
    by (cases a) simp
  have "loadAuth lib (environment_of c) = auth_mode_check lib a"
    using ToLower_mode [OF m] t by (simp add: loadAuth_def trimmed_def mode reads) (simp only: whole)
  then show ?thesis using auth_mode_check_fixed [OF assms] by (simp add: a_def)
qed

lemma Config_validate_acceptable:
  assumes "config_ok lib c"
  shows "Config_validate lib c = None"
proof -
  have env: "AppEnv c \<in> {''development'', ''test'', ''production''}"
    "AppLogLevel c \<in> {''DEBUG'', ''INFO'', ''WARN'', ''ERROR''}"
    using assms by (simp_all add: config_ok_def)
  have pos: "(HTTPReadTimeout c \<le> 0 \<or> HTTPWriteTimeout c \<le> 0 \<or> HTTPIdleTimeout c \<le> 0 \<or> ShutdownTimeout c \<le> 0) = False"
    "(PollInterval (cfg_Worker c) \<le> 0 \<or> cfg_Lease (cfg_Worker c) \<le> 0) = False"
    "(cfg_BatchSize (cfg_Worker c) < 1) = False" "(MaxAttempts (cfg_Worker c) < 1) = False"
    using assms by (simp_all add: config_ok_def worker_ok_def positive_duration_def)
  have ne: "(HTTPAddr c = []) = False" "(ServiceName (cfg_Observability c) = []) = False"
    "(Namespace (cfg_Observability c) = []) = False" "(Audience (cfg_Auth c) = []) = False"
    "(Issuer (cfg_Auth c) = []) = False"
    using assms by (simp_all add: config_ok_def auth_ok_def Let_def)
  have "AppEnv c = ''production'' \<Longrightarrow> Mode (cfg_Auth c) = ''oidc'' \<and> tls_database lib (db_URL (cfg_Database c))"
    using assms by (simp add: config_ok_def)
  then have prod: "(if AppEnv c = ''production'' then
        (if Mode (cfg_Auth c) = authModeHMAC then Some e
         else validateProductionDatabaseURL lib (db_URL (cfg_Database c))) else None) = None" for e
    by (simp add: tls_database_iff authModeHMAC_def)
  show ?thesis
    by (simp only: Config_validate_def env pos ne prod not_True_eq_False if_False)
qed

lemma environment_durations:
  assumes "config_ok lib c"
  shows "getDuration lib (environment_of c) ''HTTP_READ_TIMEOUT'' n = Inr (HTTPReadTimeout c)"
    "getDuration lib (environment_of c) ''HTTP_WRITE_TIMEOUT'' n = Inr (HTTPWriteTimeout c)"
    "getDuration lib (environment_of c) ''HTTP_IDLE_TIMEOUT'' n = Inr (HTTPIdleTimeout c)"
    "getDuration lib (environment_of c) ''SHUTDOWN_TIMEOUT'' n = Inr (ShutdownTimeout c)"
proof -
  let ?e = "environment_of c"
  have times: "?e ''HTTP_READ_TIMEOUT'' = Duration_String (HTTPReadTimeout c)"
    "?e ''HTTP_WRITE_TIMEOUT'' = Duration_String (HTTPWriteTimeout c)"
    "?e ''HTTP_IDLE_TIMEOUT'' = Duration_String (HTTPIdleTimeout c)"
    "?e ''SHUTDOWN_TIMEOUT'' = Duration_String (ShutdownTimeout c)"
    by (simp_all add: environment_of_def)
  have spans: "positive_duration (HTTPReadTimeout c)" "positive_duration (HTTPWriteTimeout c)"
    "positive_duration (HTTPIdleTimeout c)" "positive_duration (ShutdownTimeout c)"
    using assms by (simp_all add: config_ok_def Let_def)
  show "getDuration lib ?e ''HTTP_READ_TIMEOUT'' n = Inr (HTTPReadTimeout c)"
    "getDuration lib ?e ''HTTP_WRITE_TIMEOUT'' n = Inr (HTTPWriteTimeout c)"
    "getDuration lib ?e ''HTTP_IDLE_TIMEOUT'' n = Inr (HTTPIdleTimeout c)"
    "getDuration lib ?e ''SHUTDOWN_TIMEOUT'' n = Inr (ShutdownTimeout c)"
    using spans by (simp_all only: getDuration_positive times)
qed

lemma environment_names:
  assumes "config_ok lib c"
  shows "getDefault (environment_of c) ''APP_ENV'' d = AppEnv c" "getDefault (environment_of c) ''APP_LOG_LEVEL'' d = AppLogLevel c"
    "getDefault (environment_of c) ''HTTP_ADDR'' d = HTTPAddr c"
    "getDefault (environment_of c) ''OTEL_SERVICE_NAME'' d = ServiceName (cfg_Observability c)"
    "getDefault (environment_of c) ''PROMETHEUS_NAMESPACE'' d = Namespace (cfg_Observability c)"
    "TrimSpace (environment_of c ''OTEL_EXPORTER_OTLP_ENDPOINT'') = OTLPEndpoint (cfg_Observability c)"
    "TrimSpace (environment_of c ''CONTROL_PLANE_INTEGRATION_DATABASE_URL'') = IntegrationTestDB c"
proof -
  let ?e = "environment_of c" and ?b = "cfg_Observability c"
  have env: "?e ''APP_ENV'' = AppEnv c" "?e ''APP_LOG_LEVEL'' = AppLogLevel c" "?e ''HTTP_ADDR'' = HTTPAddr c"
    "?e ''OTEL_SERVICE_NAME'' = ServiceName ?b" "?e ''PROMETHEUS_NAMESPACE'' = Namespace ?b"
    "?e ''OTEL_EXPORTER_OTLP_ENDPOINT'' = OTLPEndpoint ?b"
    "?e ''CONTROL_PLANE_INTEGRATION_DATABASE_URL'' = IntegrationTestDB c"
    by (simp_all add: environment_of_def)
  have known: "AppEnv c \<in> {''development'', ''test'', ''production''}"
    "AppLogLevel c \<in> {''DEBUG'', ''INFO'', ''WARN'', ''ERROR''}"
    using assms by (simp_all add: config_ok_def)
  have t: "trimmed (AppEnv c)" "AppEnv c \<noteq> []" "trimmed (AppLogLevel c)" "AppLogLevel c \<noteq> []"
    using known known_trimmed(1,2) by blast+
  have u: "trimmed (HTTPAddr c)" "HTTPAddr c \<noteq> []" "trimmed (ServiceName ?b)" "ServiceName ?b \<noteq> []"
    "trimmed (Namespace ?b)" "Namespace ?b \<noteq> []" "trimmed (OTLPEndpoint ?b)" "trimmed (IntegrationTestDB c)"
    using assms by (simp_all add: config_ok_def Let_def)
  show "getDefault ?e ''APP_ENV'' d = AppEnv c" "getDefault ?e ''APP_LOG_LEVEL'' d = AppLogLevel c"
    "getDefault ?e ''HTTP_ADDR'' d = HTTPAddr c" "getDefault ?e ''OTEL_SERVICE_NAME'' d = ServiceName ?b"
    "getDefault ?e ''PROMETHEUS_NAMESPACE'' d = Namespace ?b"
    using t u by (simp_all add: getDefault_given env)
  show "TrimSpace (?e ''OTEL_EXPORTER_OTLP_ENDPOINT'') = OTLPEndpoint ?b"
    "TrimSpace (?e ''CONTROL_PLANE_INTEGRATION_DATABASE_URL'') = IntegrationTestDB c"
    using u(7,8) by (simp_all only: env trimmed_def)
qed

text \<open>
  C21. Every acceptable configuration is loaded from the environment that describes it, the durations as
  \<^verbatim>\<open>Duration.String\<close> prints them.
\<close>

theorem Load_environment_of:
  assumes "config_ok lib c"
  shows "Load lib (environment_of c) = Inr c"
proof -
  let ?e = "environment_of c" and ?b = "cfg_Observability c"
  have parts: "loadDatabase lib ?e = Inr (cfg_Database c)" "loadWorker lib ?e = Inr (cfg_Worker c)"
    "loadAuth lib ?e = Inr (cfg_Auth c)"
    using assms loadDatabase_environment loadWorker_environment loadAuth_environment
    by (simp_all add: config_ok_def)
  have level: "ToUpper (lib_ToUpper lib) (AppLogLevel c) = AppLogLevel c"
    using assms by (intro ToUpper_level) (simp add: config_ok_def)
  have observed: "\<lparr>ServiceName = ServiceName ?b, OTLPEndpoint = OTLPEndpoint ?b, Namespace = Namespace ?b\<rparr> = ?b"
    by (cases ?b) simp
  have whole: "\<lparr>AppEnv = AppEnv c, AppLogLevel = AppLogLevel c, HTTPAddr = HTTPAddr c,
      HTTPReadTimeout = HTTPReadTimeout c, HTTPWriteTimeout = HTTPWriteTimeout c,
      HTTPIdleTimeout = HTTPIdleTimeout c, ShutdownTimeout = ShutdownTimeout c,
      cfg_Database = cfg_Database c, cfg_Worker = cfg_Worker c, cfg_Auth = cfg_Auth c,
      cfg_Observability = ?b, IntegrationTestDB = IntegrationTestDB c\<rparr> = c"
    by (cases c) simp
  show ?thesis
    by (simp add: Load_def environment_durations [OF assms] environment_names [OF assms] parts level observed)
      (simp only: whole Let_def Config_validate_acceptable [OF assms] option.case)
qed

theorem Load_environment_of_witness: "Load no_lib (environment_of sample_config) = Inr sample_config"
proof -
  have "config_ok no_lib sample_config" by code_simp
  then show ?thesis by (rule Load_environment_of)
qed

subsection \<open>What the logged configuration reveals\<close>

definition with_secrets :: "Config \<Rightarrow> string \<Rightarrow> string \<Rightarrow> Config" where
  "with_secrets c url secret =
     c\<lparr>cfg_Database := (cfg_Database c)\<lparr>db_URL := url\<rparr>, cfg_Auth := (cfg_Auth c)\<lparr>HMACSecret := secret\<rparr>\<rparr>"

lemma cut_last_single:
  assumes "c \<notin> set b"
  shows "cut_last c (a @ c # b) = Some (a, b)"
  using cut_single [of c "rev b" "rev a"] assms by (simp add: cut_last_def)

lemma cut_scheme:
  assumes "CHR '':'' \<notin> set scheme"
  shows "cut ''://'' (scheme @ ''://'' @ r) = Some (scheme, r)"
proof (rule cut_fresh)
  fix u v assume "scheme = u @ v" "v \<noteq> []"
  with assms show "\<not> prefix ''://'' (v @ ''://'' @ r)" by (cases v) auto
qed

lemma redactURL_userinfo:
  assumes "CHR '':'' \<notin> set scheme" "CHR ''@'' \<notin> set host"
  shows "redactURL (scheme @ ''://'' @ cred @ ''@'' @ host) = scheme @ ''://'' @ ''***redacted***'' @ ''@'' @ host"
proof -
  define v where "v = scheme @ ''://'' @ cred @ ''@'' @ host"
  have "v \<noteq> []" by (simp add: v_def)
  moreover have "cut_last CHR ''@'' v = Some (scheme @ ''://'' @ cred, host)"
    using cut_last_single [OF assms(2), of "scheme @ ''://'' @ cred"] by (simp add: v_def)
  moreover have "cut ''://'' v = Some (scheme, cred @ ''@'' @ host)"
    unfolding v_def by (rule cut_scheme [OF assms(1)])
  ultimately have "redactURL v = scheme @ ''://'' @ ''***redacted***'' @ ''@'' @ host"
    by (simp add: redactURL_def)
  then show ?thesis by (simp only: v_def)
qed



text \<open>
  A connection string in the keyword form, which the driver accepts as well, is not redacted: it holds no
  \<^verbatim>\<open>@\<close>, so the password is part of the rendering.
\<close>

lemma redactURL_keyword_form: "CHR ''@'' \<notin> set v \<Longrightarrow> redactURL v = v"
  by (simp add: redactURL_def cut_last_def cut_single_None [THEN iffD2])

end
