(* ===== verification/Httpx.thy ===== *)
theory Httpx
  imports ControlPlane Config
begin

section \<open>The HTTP toolkit (\<^verbatim>\<open>internal/httpx\<close>)\<close>

text \<open>
  Requests, responses, the error envelope and the two middlewares. A request carries what the program
  reads of it; a header is a function on names with the empty string for an absent one. A payload is
  the Go value handed to the JSON encoder. The context of a request holds its id and, after
  authentication, the principal.
\<close>

record HttpRequest =
  rq_Method :: string
  rq_Path :: string
  rq_RawQuery :: string
  rq_Header :: "string \<Rightarrow> string"
  rq_Body :: string

record HttpContext =
  cx_RequestID :: string
  cx_Principal :: "Principal option"

record ErrorBody =
  eb_Code :: string
  eb_Message :: string
  eb_RequestID :: string
  eb_Remediation :: string
  eb_Details :: "(string \<times> string) list"

datatype payload =
    ErrorEnvelope ErrorBody
  | ServicePayload Service
  | JobPayload uuid JobStatus string
  | ScorecardPayload Scorecard
  | CandidatePayload DeploymentCandidate
  | ItemsPayload "AuditEvent list"
  | StatusPayload string
  | LibraryPayload string

record HttpResponse =
  rs_Status :: int
  rs_ContentType :: string
  rs_RequestID :: string
  rs_Body :: payload

text \<open>What the server writes besides the response: log entries and the request counter.\<close>

datatype log_entry =
    HttpRequestLogged string string string string int
  | RequestFailedLogged string string

record 'w server_state =
  ss_world :: 'w
  ss_log :: "log_entry list"
  ss_requests_total :: "(string \<times> string \<times> string) list"

type_synonym 'w handler = "HttpContext \<Rightarrow> HttpRequest \<Rightarrow> 'w server_state \<Rightarrow> HttpResponse \<times> 'w server_state"

definition on_world :: "('w \<Rightarrow> 'a \<times> 'w) \<Rightarrow> 'w server_state \<Rightarrow> 'a \<times> 'w server_state" where
  "on_world m st = (case m (ss_world st) of (a, w') \<Rightarrow> (a, st\<lparr>ss_world := w'\<rparr>))"

subsection \<open>Decoding\<close>

text \<open>
  A decoder over a body: the result of its first \<^verbatim>\<open>Decode\<close>, with unknown fields disallowed, into the
  target, and the error, if any, of a second \<^verbatim>\<open>Decode\<close>.
\<close>

record 'a json_decoder =
  dec_first :: "string \<Rightarrow> go_error + 'a"
  dec_second :: "string \<Rightarrow> go_error option"

definition io_EOF :: go_error where "io_EOF = LibError ''EOF''"

definition DecodeJSON :: "'a json_decoder \<Rightarrow> HttpRequest \<Rightarrow> go_error + 'a" where
  "DecodeJSON dec r =
     (case dec_first dec (rq_Body r) of
        Inl err \<Rightarrow> Inl err
      | Inr target \<Rightarrow>
          (case dec_second dec (rq_Body r) of
             Some err \<Rightarrow> if errors_Is err io_EOF then Inr target
               else Inl (ErrorsNew ''request body must contain a single JSON document'')
           | None \<Rightarrow> Inl (ErrorsNew ''request body must contain a single JSON document'')))"

subsection \<open>Responding\<close>

definition WriteJSON :: "int \<Rightarrow> payload \<Rightarrow> HttpResponse" where
  "WriteJSON status body =
     \<lparr>rs_Status = status, rs_ContentType = ''application/json'', rs_RequestID = [], rs_Body = body\<rparr>"

definition defaultRemediation :: "string \<Rightarrow> string" where
  "defaultRemediation code =
     (if code = ''invalid_json''
      then ''Send exactly one JSON document that matches the endpoint schema and retry.''
      else if code \<in> {''invalid_service_id'', ''invalid_candidate_id'', ''invalid_resource_id''}
      then ''Provide a valid UUID for the requested resource and retry.''
      else if code = ''invalid_limit'' then ''Provide an integer limit value and retry.''
      else if code = ''missing_bearer_token''
      then ''Set an Authorization header with a Bearer token and retry.''
      else if code = ''unauthorized''
      then ''Request a valid token with the expected issuer, audience, expiry, and role claims, then retry.''
      else if code = ''forbidden''
      then ''Use a principal with the required role for this endpoint and retry.''
      else if code = ''validation_failed''
      then ''Correct the request payload so it satisfies the API validation rules, then retry.''
      else if code = ''not_found''
      then ''Verify the resource identifier exists in the current environment and retry.''
      else if code = ''state_conflict'' \<or> code = ''conflict''
      then ''Refresh the resource state, resolve the conflict, and retry with a new request if needed.''
      else if code = ''database_unavailable''
      then ''Restore database connectivity and retry once the runtime is healthy.''
      else ''Retry after correcting the request or investigating the attached error details.'')"

definition RespondErrorWithRemediation ::
    "HttpContext \<Rightarrow> int \<Rightarrow> string \<Rightarrow> string \<Rightarrow> string \<Rightarrow> (string \<times> string) list \<Rightarrow> HttpResponse" where
  "RespondErrorWithRemediation cx status code message remediation dets =
     WriteJSON status (ErrorEnvelope
       \<lparr>eb_Code = code, eb_Message = message, eb_RequestID = cx_RequestID cx,
        eb_Remediation = remediation, eb_Details = dets\<rparr>)"

definition RespondError :: "HttpContext \<Rightarrow> int \<Rightarrow> string \<Rightarrow> string \<Rightarrow> (string \<times> string) list \<Rightarrow> HttpResponse" where
  "RespondError cx status code message dets =
     RespondErrorWithRemediation cx status code message (defaultRemediation code) dets"

subsection \<open>Request ids\<close>

definition EnsureRequestID :: "'w ControlPlane \<Rightarrow> string \<Rightarrow> 'w \<Rightarrow> string \<times> 'w" where
  "EnsureRequestID c val =
     (if val \<noteq> [] then (\<lambda>w. (val, w)) else letM (cp_uuid_New c) (\<lambda>new w. (cp_uuid_String c new, w)))"

text \<open>The header set on the response writer is part of whatever the next handler writes.\<close>

definition RequestIDMiddleware :: "'w ControlPlane \<Rightarrow> 'w handler \<Rightarrow> 'w handler" where
  "RequestIDMiddleware c next_handler cx r =
     letM (on_world (EnsureRequestID c (rq_Header r ''X-Request-Id''))) (\<lambda>requestID.
     letM (next_handler (cx\<lparr>cx_RequestID := requestID\<rparr>) r) (\<lambda>response st.
       (response\<lparr>rs_RequestID := requestID\<rparr>, st)))"

text \<open>
  The route pattern of the routing context: \<open>pattern\<close> is chi's, absent without a routing context.
\<close>

definition RoutePattern :: "(HttpRequest \<Rightarrow> string option) \<Rightarrow> HttpRequest \<Rightarrow> string" where
  "RoutePattern pattern r =
     (case pattern r of None \<Rightarrow> rq_Path r | Some p \<Rightarrow> if p = [] then rq_Path r else p)"

text \<open>The log line of a request, without its duration and remote address.\<close>

definition LoggingMiddleware :: "(HttpRequest \<Rightarrow> string option) \<Rightarrow> 'w handler \<Rightarrow> 'w handler" where
  "LoggingMiddleware pattern next_handler cx r =
     letM (next_handler cx r) (\<lambda>response st.
       (response, st\<lparr>ss_log := ss_log st @
          [HttpRequestLogged (cx_RequestID cx) (rq_Method r) (RoutePattern pattern r) (rq_Path r)
             (rs_Status response)]\<rparr>))"

end
