(* ===== verification/Validators.thy ===== *)
theory Validators
  imports Auth Config
begin

section \<open>Token issuance and validation (\<^verbatim>\<open>internal/auth\<close>)\<close>

text \<open>
  The JWT and OIDC libraries are not part of the program. The record \<open>auth_lib\<close> holds the calls the
  program makes to them; \<open>jwt_library\<close> below states what it relies on.
\<close>

record Claims =
  cl_Role :: string
  cl_Subject :: string
  cl_Issuer :: string
  cl_Audience :: "string list"
  cl_ExpiresAt :: "int option"
  cl_IssuedAt :: "int option"
  cl_NotBefore :: "int option"

record oidcClaims =
  oc_Role :: string
  oc_Sub :: string
  oc_Iss :: string

text \<open>An \<^verbatim>\<open>oidc.IDTokenVerifier\<close>: the issuer it expects, where the keys come from, the client id.\<close>

record oidc_verifier =
  ov_Issuer :: string
  ov_JWKS :: string
  ov_ClientID :: string

text \<open>
  \<open>lib_ParseWithClaims now raw keyfunc audience issuer\<close> is \<^verbatim>\<open>jwt.ParseWithClaims\<close> with its two options:
  the claims and \<^verbatim>\<open>token.Valid\<close>. \<open>lib_NewProvider insecure issuer\<close> fetches the discovery document: the
  provider's issuer and key location. \<open>lib_Verify\<close> is \<^verbatim>\<open>Verify\<close> and then \<^verbatim>\<open>idToken.Claims\<close>.
\<close>

record auth_lib =
  lib_SignHS256 :: "Claims \<Rightarrow> string \<Rightarrow> go_error + string"
  lib_ParseWithClaims ::
    "int \<Rightarrow> string \<Rightarrow> (string \<Rightarrow> go_error + string) \<Rightarrow> string \<Rightarrow> string \<Rightarrow> go_error + Claims \<times> bool"
  lib_NewProvider :: "bool \<Rightarrow> string \<Rightarrow> go_error + string \<times> string"
  lib_Verify :: "int \<Rightarrow> oidc_verifier \<Rightarrow> string \<Rightarrow> go_error + (go_error + oidcClaims)"
  lib_auth_text :: "go_error \<Rightarrow> string"

subsection \<open>The bearer header\<close>

definition ParseBearerToken :: "string \<Rightarrow> go_error + string" where
  "ParseBearerToken header =
     (let val = TrimSpace header in
      if val = [] then Inl ErrUnauthorized
      else (case cut '' '' val of
          None \<Rightarrow> Inl ErrUnauthorized
        | Some (scheme, rest) \<Rightarrow>
            if \<not> EqualFold scheme ''Bearer'' \<or> TrimSpace rest = [] then Inl ErrUnauthorized
            else Inr (TrimSpace rest)))"

subsection \<open>Issuing a token\<close>

text \<open>A \<^verbatim>\<open>jwt.NumericDate\<close> is whole seconds; the clock counts nanoseconds.\<close>

definition numeric_date :: "int \<Rightarrow> int" where
  "numeric_date t = t div Second"

definition hmac_claims :: "AuthConfig \<Rightarrow> int \<Rightarrow> string \<Rightarrow> Role \<Rightarrow> int \<Rightarrow> Claims" where
  "hmac_claims cfg now subject r ttl =
     \<lparr>cl_Role = Role_string r, cl_Subject = subject, cl_Issuer = Issuer cfg, cl_Audience = [Audience cfg],
      cl_ExpiresAt = Some (numeric_date (now + ttl)), cl_IssuedAt = Some (numeric_date now),
      cl_NotBefore = Some (numeric_date (now - Minute))\<rparr>"

definition IssueHMACToken :: "auth_lib \<Rightarrow> AuthConfig \<Rightarrow> int \<Rightarrow> string \<Rightarrow> Role \<Rightarrow> int \<Rightarrow> go_error + string" where
  "IssueHMACToken lib cfg now subject r ttl =
     (if Mode cfg \<noteq> ''hmac'' then Inl (ErrorsNew ''auth: HMAC token issuance requires AUTH_MODE=hmac'')
      else if subject = [] then Inl (ErrorsNew ''auth: subject is required'')
      else if r \<noteq> RoleEngineer \<and> r \<noteq> RolePlatformAdmin
      then Inl (ErrorsNew (''auth: unsupported role '' @ Quote (Role_string r)))
      else if ttl \<le> 0 then Inl (ErrorsNew ''auth: ttl must be greater than zero'')
      else lib_SignHS256 lib (hmac_claims cfg now subject r ttl) (HMACSecret cfg))"

subsection \<open>Validators\<close>

datatype Validator = hmacValidator AuthConfig | oidcValidator oidc_verifier

definition newOIDCValidator :: "auth_lib \<Rightarrow> AuthConfig \<Rightarrow> go_error + Validator" where
  "newOIDCValidator lib cfg =
     (let insecure = HasPrefix (OIDCIssuerURL cfg) ''http://'' in
      if OIDCJWKSURL cfg \<noteq> []
      then Inr (oidcValidator \<lparr>ov_Issuer = OIDCIssuerURL cfg, ov_JWKS = OIDCJWKSURL cfg,
                               ov_ClientID = Audience cfg\<rparr>)
      else (case lib_NewProvider lib insecure (OIDCIssuerURL cfg) of
          Inl e \<Rightarrow> Inl (wrap_prefix ''auth: build oidc provider: '' e)
        | Inr (issuer, jwks) \<Rightarrow>
            Inr (oidcValidator \<lparr>ov_Issuer = issuer, ov_JWKS = jwks, ov_ClientID = Audience cfg\<rparr>)))"

definition NewValidator :: "auth_lib \<Rightarrow> AuthConfig \<Rightarrow> go_error + Validator" where
  "NewValidator lib cfg =
     (if Mode cfg = ''hmac'' then Inr (hmacValidator cfg)
      else if Mode cfg = ''oidc'' then newOIDCValidator lib cfg
      else Inl (ErrorsNew (''auth: unsupported mode '' @ Quote (Mode cfg))))"

text \<open>\<^verbatim>\<open>fmt.Errorf("%w: ...", ErrUnauthorized)\<close>.\<close>

definition unauthorized :: "string \<Rightarrow> go_error" where
  "unauthorized why = Wrapf [] ErrUnauthorized ('': '' @ why)"

definition hmac_keyfunc :: "AuthConfig \<Rightarrow> string \<Rightarrow> go_error + string" where
  "hmac_keyfunc cfg alg =
     (if alg \<noteq> ''HS256'' then Inl (ErrorsNew (''auth: unexpected signing method '' @ alg))
      else Inr (HMACSecret cfg))"

definition known_role :: "Role \<Rightarrow> bool" where
  "known_role r \<longleftrightarrow> r = RoleEngineer \<or> r = RolePlatformAdmin"

definition hmac_Validate :: "auth_lib \<Rightarrow> AuthConfig \<Rightarrow> int \<Rightarrow> string \<Rightarrow> go_error + Principal" where
  "hmac_Validate lib cfg now rawToken =
     (case lib_ParseWithClaims lib now rawToken (hmac_keyfunc cfg) (Audience cfg) (Issuer cfg) of
        Inl e \<Rightarrow> Inl (unauthorized (error_text (lib_auth_text lib) e))
      | Inr (claims, valid) \<Rightarrow>
          if \<not> valid then Inl ErrUnauthorized
          else (let r = Role_of (cl_Role claims) in
            if \<not> known_role r then Inl (unauthorized ''invalid role claim'')
            else Inr \<lparr>pr_Subject = cl_Subject claims, pr_Role = r, pr_Issuer = cl_Issuer claims\<rparr>))"

definition oidc_Validate :: "auth_lib \<Rightarrow> oidc_verifier \<Rightarrow> int \<Rightarrow> string \<Rightarrow> go_error + Principal" where
  "oidc_Validate lib verifier now rawToken =
     (case lib_Verify lib now verifier rawToken of
        Inl e \<Rightarrow> Inl (unauthorized (error_text (lib_auth_text lib) e))
      | Inr (Inl e) \<Rightarrow> Inl (unauthorized (''parse claims: '' @ error_text (lib_auth_text lib) e))
      | Inr (Inr claims) \<Rightarrow>
          if oc_Sub claims = [] then Inl (unauthorized ''subject claim is required'')
          else if oc_Iss claims = [] then Inl (unauthorized ''issuer claim is required'')
          else (let r = Role_of (oc_Role claims) in
            if \<not> known_role r then Inl (unauthorized ''invalid role claim'')
            else Inr \<lparr>pr_Subject = oc_Sub claims, pr_Role = r, pr_Issuer = oc_Iss claims\<rparr>))"

fun Validate :: "auth_lib \<Rightarrow> Validator \<Rightarrow> int \<Rightarrow> string \<Rightarrow> go_error + Principal" where
  "Validate lib (hmacValidator cfg) now raw = hmac_Validate lib cfg now raw"
| "Validate lib (oidcValidator verifier) now raw = oidc_Validate lib verifier now raw"

subsection \<open>The contract of a validator\<close>

text \<open>
  What the HTTP layer relies on: an accepted token names a principal with one of the two roles, a
  refused one gives an error that is \<^verbatim>\<open>ErrUnauthorized\<close>.
\<close>

locale validator =
  fixes validate :: "string \<Rightarrow> go_error + Principal"
  assumes accepts: "validate raw = Inr p \<Longrightarrow> known_role (pr_Role p)"
    and refuses: "validate raw = Inl e \<Longrightarrow> errors_Is e ErrUnauthorized"
begin

lemma accepts_or_refuses:
  "(\<exists>p. validate raw = Inr p \<and> known_role (pr_Role p)) \<or>
   (\<exists>e. validate raw = Inl e \<and> errors_Is e ErrUnauthorized)"
  by (cases "validate raw") (auto simp: accepts refuses)

end

lemma unauthorized_Is [simp]: "errors_Is (unauthorized why) ErrUnauthorized"
  by (simp add: unauthorized_def)

lemma hmac_Validate_Inr:
  "hmac_Validate lib cfg now raw = Inr p \<longleftrightarrow>
     (\<exists>claims. lib_ParseWithClaims lib now raw (hmac_keyfunc cfg) (Audience cfg) (Issuer cfg) = Inr (claims, True)
        \<and> known_role (Role_of (cl_Role claims))
        \<and> p = \<lparr>pr_Subject = cl_Subject claims, pr_Role = Role_of (cl_Role claims), pr_Issuer = cl_Issuer claims\<rparr>)"
  by (auto simp: hmac_Validate_def Let_def split: sum.splits if_splits)

lemma oidc_Validate_Inr:
  "oidc_Validate lib verifier now raw = Inr p \<longleftrightarrow>
     (\<exists>claims. lib_Verify lib now verifier raw = Inr (Inr claims) \<and> oc_Sub claims \<noteq> [] \<and> oc_Iss claims \<noteq> []
        \<and> known_role (Role_of (oc_Role claims))
        \<and> p = \<lparr>pr_Subject = oc_Sub claims, pr_Role = Role_of (oc_Role claims), pr_Issuer = oc_Iss claims\<rparr>)"
  by (auto simp: oidc_Validate_def Let_def split: sum.splits if_splits)

interpretation issued: validator "Validate lib v now" for lib v now
proof
  show "Validate lib v now raw = Inr p \<Longrightarrow> known_role (pr_Role p)" for raw p
    by (cases v) (auto simp: hmac_Validate_Inr oidc_Validate_Inr)
  show "Validate lib v now raw = Inl e \<Longrightarrow> errors_Is e ErrUnauthorized" for raw e
    by (cases v) (auto simp: hmac_Validate_def oidc_Validate_def Let_def split: sum.splits if_splits)
qed

subsection \<open>What the JWT library promises\<close>

text \<open>
  \<open>genuine alg key raw claims\<close> stands for: \<open>raw\<close> carries the claims with a signature that verifies under
  the algorithm and the key. The library accepts a token only with a key the key function released for
  the token's algorithm, checks issuer, audience and times, and accepts what it signed.
\<close>

definition in_force :: "int \<Rightarrow> Claims \<Rightarrow> bool" where
  "in_force now c \<longleftrightarrow>
     (case cl_ExpiresAt c of None \<Rightarrow> True | Some e \<Rightarrow> now < e * Second)
   \<and> (case cl_NotBefore c of None \<Rightarrow> True | Some b \<Rightarrow> b * Second \<le> now)"

definition jwt_sound :: "(string \<Rightarrow> string \<Rightarrow> string \<Rightarrow> Claims \<Rightarrow> bool) \<Rightarrow> auth_lib \<Rightarrow> bool" where
  "jwt_sound genuine lib \<longleftrightarrow>
     (\<forall>now raw kf aud iss c. lib_ParseWithClaims lib now raw kf aud iss = Inr (c, True) \<longrightarrow>
        (\<exists>alg key. kf alg = Inr key \<and> genuine alg key raw c)
        \<and> cl_Issuer c = iss \<and> aud \<in> set (cl_Audience c) \<and> in_force now c)"

definition jwt_complete :: "auth_lib \<Rightarrow> bool" where
  "jwt_complete lib \<longleftrightarrow>
     (\<forall>c key raw kf now. lib_SignHS256 lib c key = Inr raw \<and> kf ''HS256'' = Inr key \<and> in_force now c \<longrightarrow>
        (\<forall>aud \<in> set (cl_Audience c). lib_ParseWithClaims lib now raw kf aud (cl_Issuer c) = Inr (c, True)))"

text \<open>
  C23. An HMAC validator accepts a token only if it is signed with HS256 under the configured secret,
  for the configured issuer and audience, in force at that moment, and with one of the two roles; the
  principal is read off the claims.
\<close>

theorem hmac_Validate_sound:
  assumes "jwt_sound genuine lib" "Validate lib (hmacValidator cfg) now raw = Inr p"
  shows "\<exists>claims. genuine ''HS256'' (HMACSecret cfg) raw claims \<and> in_force now claims
           \<and> cl_Issuer claims = Issuer cfg \<and> Audience cfg \<in> set (cl_Audience claims)
           \<and> known_role (pr_Role p)
           \<and> p = \<lparr>pr_Subject = cl_Subject claims, pr_Role = Role_of (cl_Role claims), pr_Issuer = Issuer cfg\<rparr>"
proof -
  obtain claims where
    parse: "lib_ParseWithClaims lib now raw (hmac_keyfunc cfg) (Audience cfg) (Issuer cfg) = Inr (claims, True)"
    and r: "known_role (Role_of (cl_Role claims))"
    and p: "p = \<lparr>pr_Subject = cl_Subject claims, pr_Role = Role_of (cl_Role claims), pr_Issuer = cl_Issuer claims\<rparr>"
    using assms(2) by (auto simp: hmac_Validate_Inr)
  from assms(1) parse obtain alg key where
    k: "hmac_keyfunc cfg alg = Inr key" "genuine alg key raw claims"
    and c: "cl_Issuer claims = Issuer cfg" "Audience cfg \<in> set (cl_Audience claims)" "in_force now claims"
    unfolding jwt_sound_def by blast
  have "alg = ''HS256''" "key = HMACSecret cfg"
    using k(1) by (simp_all add: hmac_keyfunc_def split: if_splits)
  with k(2) c r p show ?thesis by auto
qed

lemma hmac_token_accepted:
  assumes "jwt_complete lib" "IssueHMACToken lib cfg now subject r ttl = Inr token"
    "now - Minute \<le> later" "later < (now + ttl) div Second * Second"
  shows "Validate lib (hmacValidator cfg) later token
       = Inr \<lparr>pr_Subject = subject, pr_Role = r, pr_Issuer = Issuer cfg\<rparr>"
proof -
  let ?c = "hmac_claims cfg now subject r ttl"
  have sign: "lib_SignHS256 lib ?c (HMACSecret cfg) = Inr token" and r: "known_role r"
    using assms(2) by (auto simp: IssueHMACToken_def known_role_def split: if_splits)
  have "(now - Minute) div Second * Second \<le> now - Minute"
    using minus_mod_eq_div_mult [of "now - Minute" Second] by simp
  with assms(3,4) have "in_force later ?c"
    by (simp add: in_force_def hmac_claims_def numeric_date_def)
  moreover have "hmac_keyfunc cfg ''HS256'' = Inr (HMACSecret cfg)" by (simp add: hmac_keyfunc_def)
  ultimately have "\<forall>aud \<in> set (cl_Audience ?c).
      lib_ParseWithClaims lib later token (hmac_keyfunc cfg) aud (cl_Issuer ?c) = Inr (?c, True)"
    using assms(1) sign unfolding jwt_complete_def by blast
  then have parse: "lib_ParseWithClaims lib later token (hmac_keyfunc cfg) (Audience cfg) (Issuer cfg) = Inr (?c, True)"
    by (simp add: hmac_claims_def)
  moreover have "Role_of (Role_string r) = r" using r by (auto simp: known_role_def Role_of_def)
  ultimately show ?thesis
    using r by (simp add: hmac_Validate_Inr) (simp add: hmac_claims_def)
qed

text \<open>
  C24. A token issued by \<^verbatim>\<open>IssueHMACToken\<close> is accepted by the validator of the same configuration, as the
  principal it was issued for, from a minute before its issue until the second in which it expires.
\<close>

theorem IssueHMACToken_validates:
  assumes "jwt_complete lib" "IssueHMACToken lib cfg now subject r ttl = Inr token"
    "now - Minute \<le> later" "later < (now + ttl) div Second * Second"
  shows "Validate lib (hmacValidator cfg) later token
       = Inr \<lparr>pr_Subject = subject, pr_Role = r, pr_Issuer = Issuer cfg\<rparr>"
  using assms by (rule hmac_token_accepted)

subsection \<open>A concrete library\<close>

definition paper_config :: AuthConfig where
  "paper_config = \<lparr>Mode = ''hmac'', Audience = ''control-plane'', Issuer = ''local'',
     HMACSecret = ''0123456789abcdef0123456789abcdef'', OIDCIssuerURL = [], OIDCJWKSURL = []\<rparr>"

definition paper_now :: int where "paper_now = 1700000000 * Second"

definition paper_claims :: Claims where
  "paper_claims = hmac_claims paper_config paper_now ''ann@example.com'' RoleEngineer Hour"

definition paper_genuine :: "string \<Rightarrow> string \<Rightarrow> string \<Rightarrow> Claims \<Rightarrow> bool" where
  "paper_genuine alg key raw c \<longleftrightarrow>
     alg = ''HS256'' \<and> key = HMACSecret paper_config \<and> raw = ''a.b.c'' \<and> c = paper_claims"

definition paper_lib :: auth_lib where
  "paper_lib =
     \<lparr>lib_SignHS256 = (\<lambda>c key. if c = paper_claims \<and> key = HMACSecret paper_config then Inr ''a.b.c''
        else Inl (LibError ''cannot sign'')),
      lib_ParseWithClaims = (\<lambda>now raw kf aud iss.
        if raw = ''a.b.c'' \<and> kf ''HS256'' = Inr (HMACSecret paper_config) \<and> in_force now paper_claims
           \<and> aud \<in> set (cl_Audience paper_claims) \<and> iss = cl_Issuer paper_claims
        then Inr (paper_claims, True) else Inl (LibError ''token is malformed'')),
      lib_NewProvider = (\<lambda>insecure issuer. Inr (issuer, issuer @ ''/keys'')),
      lib_Verify = (\<lambda>now v raw. if raw = ''d.e.f''
        then Inr (Inr \<lparr>oc_Role = ''engineer'', oc_Sub = ''ann@example.com'', oc_Iss = ov_Issuer v\<rparr>)
        else Inl (LibError ''failed to verify'')),
      lib_auth_text = (\<lambda>_. ''library error'')\<rparr>"

lemma paper_sound: "jwt_sound paper_genuine paper_lib"
  by (auto simp: jwt_sound_def paper_lib_def paper_genuine_def split: if_splits)

lemma paper_complete: "jwt_complete paper_lib"
  by (auto simp: jwt_complete_def paper_lib_def split: if_splits)

lemma paper_issue:
  "IssueHMACToken paper_lib paper_config paper_now ''ann@example.com'' RoleEngineer Hour = Inr ''a.b.c''"
  by (simp add: IssueHMACToken_def paper_lib_def paper_claims_def) (simp add: paper_config_def)

lemma paper_validate:
  "Validate paper_lib (hmacValidator paper_config) (paper_now + Second) ''a.b.c''
     = Inr \<lparr>pr_Subject = ''ann@example.com'', pr_Role = RoleEngineer, pr_Issuer = ''local''\<rparr>"
  by (simp add: hmac_Validate_def hmac_keyfunc_def paper_lib_def in_force_def paper_claims_def hmac_claims_def
      paper_config_def paper_now_def numeric_date_def known_role_def Role_of_def)

theorem hmac_Validate_sound_witness:
  "\<exists>claims. paper_genuine ''HS256'' (HMACSecret paper_config) ''a.b.c'' claims
     \<and> in_force (paper_now + Second) claims \<and> cl_Subject claims = ''ann@example.com''"
  using hmac_Validate_sound [OF paper_sound paper_validate] by auto

theorem IssueHMACToken_validates_witness:
  "Validate paper_lib (hmacValidator paper_config) (paper_now + 10 * Second) ''a.b.c''
     = Inr \<lparr>pr_Subject = ''ann@example.com'', pr_Role = RoleEngineer, pr_Issuer = Issuer paper_config\<rparr>"
  by (rule IssueHMACToken_validates [OF paper_complete paper_issue]) (simp_all add: paper_now_def)

subsection \<open>Parsing the header a client sends\<close>

lemma space_inside:
  assumes "prefix (rev e) (a @ CHR '' '' # b)" "e \<in> set space_encodings" "a \<noteq> []"
  shows "prefix (rev e) a"
proof (cases "length e \<le> length a")
  case True
  show ?thesis
    by (rule prefix_length_prefix [OF assms(1) prefixI [OF refl]]) (use True in simp)
next
  case False
  have "prefix (a @ [CHR '' '']) (a @ CHR '' '' # b)" by (rule prefixI [of _ _ b]) simp
  then have "prefix (a @ [CHR '' '']) (rev e)"
    by (rule prefix_length_prefix [OF _ assms(1)]) (use False in simp)
  then have "set (a @ [CHR '' '']) \<subseteq> set (rev e)" "length (a @ [CHR '' '']) \<le> length (rev e)"
    using set_mono_prefix prefix_length_le by blast+
  then have "CHR '' '' \<in> set e" "length e \<noteq> 1"
    using assms(3) by (auto simp: Suc_le_eq)
  with assms(2) show ?thesis by (auto simp: space_encodings_def)
qed

lemma TrimSpace_prefixed:
  assumes "TrimSpace t = t" "t \<noteq> []" "c \<notin> space_lead"
  shows "TrimSpace (c # s @ CHR '' '' # t) = c # s @ CHR '' '' # t"
proof -
  let ?v = "c # s @ CHR '' '' # t"
  have "strip_one space_encodings ?v = None"
    unfolding strip_one_None using assms(3) by (auto simp: space_lead_def prefix_Cons image_iff)
  moreover have tail: "strip_one (map rev space_encodings) (rev t) = None"
  proof -
    have "trim_left (map rev space_encodings) (rev (trim_left space_encodings t)) = rev t"
      using assms(1) unfolding TrimSpace_def Let_def by (metis rev_swap)
    then show ?thesis by (metis trim_left_stops)
  qed
  have "strip_one (map rev space_encodings) (rev ?v) = None"
    unfolding strip_one_None
  proof (intro ballI impI notI)
    fix e assume "e \<in> set (map rev space_encodings)" "e \<noteq> []" "prefix e (rev ?v)"
    then obtain f where f: "e = rev f" "f \<in> set space_encodings" by auto
    have "prefix (rev f) (rev t)"
      using \<open>prefix e (rev ?v)\<close> f(2) assms(2) by (intro space_inside [of f "rev t" "rev s @ [c]"]) (simp_all add: f)
    with tail f \<open>e \<noteq> []\<close> show False by (auto simp: strip_one_None)
  qed
  ultimately show ?thesis by (simp add: TrimSpace_def trim_left_fixed)
qed

text \<open>
  The header a client builds from a token gives that token back: \<^verbatim>\<open>ParseBearerToken\<close> inverts the
  \<^verbatim>\<open>"Bearer " + token\<close> of the command line client, for every nonempty token without outer space.
\<close>

lemma ParseBearerToken_roundtrip:
  assumes "TrimSpace token = token" "token \<noteq> []"
  shows "ParseBearerToken (''Bearer '' @ token) = Inr token"
proof -
  let ?h = "''Bearer'' @ CHR '' '' # token"
  have "TrimSpace (CHR ''B'' # ''earer'' @ CHR '' '' # token) = CHR ''B'' # ''earer'' @ CHR '' '' # token"
    by (rule TrimSpace_prefixed [OF assms]) (simp add: space_lead_def space_encodings_def)
  then have t: "TrimSpace ?h = ?h" by simp
  have c: "cut '' '' ?h = Some (''Bearer'', token)" by (rule cut_single) simp
  have "EqualFold ''Bearer'' ''Bearer''" by code_simp
  then have "ParseBearerToken ?h = Inr token"
    unfolding ParseBearerToken_def t c by (simp add: assms)
  then show ?thesis by simp
qed

end
