(* ===== verification/Server.thy ===== *)
theory Server
  imports Httpx Validators
begin

section \<open>The API server (\<^verbatim>\<open>internal/api/server.go\<close>)\<close>

text \<open>
  The handlers over the control plane, the middlewares and the route table. Parameters are what chi,
  the UUID package, \<^verbatim>\<open>encoding/json\<close> and Prometheus contribute (\<open>http_lib\<close>): the matching of a request
  against the route table, the response of chi when nothing matches, the parsers, the metrics page.
  The validator is the function of the token that \<^verbatim>\<open>Validate\<close> is at the moment of the request.
\<close>

datatype endpoint =
    Healthz | Readyz | MetricsPage
  | RegisterService_ep | UpdateService_ep | QueueEvaluation_ep | GetScorecard_ep
  | CreateDeploymentCandidate_ep | EvaluateDeploymentCandidate_ep | GetDeploymentCandidate_ep
  | ListAuditEvents_ep

record http_lib =
  lib_uuid_Parse :: "string \<Rightarrow> go_error + uuid"
  lib_decode_service :: "ServiceInput json_decoder"
  lib_decode_patch :: "ServicePatch json_decoder"
  lib_decode_candidate :: "DeploymentCandidateInput json_decoder"
  lib_route :: "(string \<times> string \<times> endpoint) list \<Rightarrow> string \<Rightarrow> string \<Rightarrow> (endpoint \<times> (string \<Rightarrow> string)) option"
  lib_pattern :: "HttpRequest \<Rightarrow> string option"
  lib_unrouted :: "HttpRequest \<Rightarrow> HttpResponse"
  lib_metrics_page :: "HttpRequest \<Rightarrow> HttpResponse"
  lib_http_text :: "go_error \<Rightarrow> string"
  lib_pg_Message :: "string \<Rightarrow> string \<Rightarrow> string"

record 'w Server =
  sv_service :: "'w ControlPlane"
  sv_validate :: "string \<Rightarrow> go_error + Principal"
  sv_Ping :: "('w, go_error, unit) io"
  sv_lib :: http_lib

subsection \<open>Errors\<close>

definition writeError :: "'w Server \<Rightarrow> HttpContext \<Rightarrow> go_error \<Rightarrow> 'w server_state \<Rightarrow> HttpResponse \<times> 'w server_state" where
  "writeError s cx err st =
     (let error_string = error_text (lib_http_text (sv_lib s)) in
      if errors_Is err ErrUnauthorized
      then (RespondError cx 401 ''unauthorized'' ''Authentication failed.'' [(''cause'', error_string err)], st)
      else if errors_Is err ErrNotFound
      then (RespondError cx 404 ''not_found'' ''Requested resource was not found.'' [(''cause'', error_string err)], st)
      else (case as_ValidationError err of
          Some validationErr \<Rightarrow>
            (RespondError cx 400 ''validation_failed'' (error_string (ValidationError validationErr)) [], st)
        | None \<Rightarrow>
            if as_StateConflictError err \<noteq> None \<or> errors_Is err ErrStateConflict
            then (RespondError cx 409 ''state_conflict'' (error_string err) [], st)
            else (case as_PgError err of
                Some (code, constraint) \<Rightarrow>
                  if code = ''23505''
                  then (RespondError cx 409 ''conflict'' ''Resource already exists or violates a uniqueness constraint.''
                         [(''cause'', lib_pg_Message (sv_lib s) code constraint)], st)
                  else (RespondError cx 500 ''internal_error'' ''The server could not complete the request.'' [],
                         st\<lparr>ss_log := ss_log st @ [RequestFailedLogged (cx_RequestID cx) (error_string err)]\<rparr>)
              | None \<Rightarrow>
                  (RespondError cx 500 ''internal_error'' ''The server could not complete the request.'' [],
                   st\<lparr>ss_log := ss_log st @ [RequestFailedLogged (cx_RequestID cx) (error_string err)]\<rparr>))))"

text \<open>\<^verbatim>\<open>x, err := s.service.M(...); if err != nil { s.writeError(...); return }; WriteJSON(...)\<close>.\<close>

definition respond_with ::
    "'w Server \<Rightarrow> HttpContext \<Rightarrow> ('w, go_error, 'a) io \<Rightarrow> int \<Rightarrow> ('a \<Rightarrow> payload) \<Rightarrow> 'w server_state \<Rightarrow> HttpResponse \<times> 'w server_state" where
  "respond_with s cx m status body =
     letM (on_world m) (\<lambda>r st. case r of
       Inl err \<Rightarrow> writeError s cx err st
     | Inr a \<Rightarrow> (WriteJSON status (body a), st))"

definition principalFromContext :: "HttpContext \<Rightarrow> Principal" where
  "principalFromContext cx =
     (case cx_Principal cx of Some p \<Rightarrow> p
      | None \<Rightarrow> \<lparr>pr_Subject = [], pr_Role = RoleOther [], pr_Issuer = []\<rparr>)"

definition parseUUIDParam :: "'w Server \<Rightarrow> (string \<Rightarrow> string) \<Rightarrow> string \<Rightarrow> go_error + uuid" where
  "parseUUIDParam s params name = lib_uuid_Parse (sv_lib s) (params name)"

definition bad_id :: "'w Server \<Rightarrow> HttpContext \<Rightarrow> string \<Rightarrow> go_error \<Rightarrow> HttpResponse" where
  "bad_id s cx code err = RespondError cx 400 code (error_text (lib_http_text (sv_lib s)) err) []"

definition bad_json :: "'w Server \<Rightarrow> HttpContext \<Rightarrow> go_error \<Rightarrow> HttpResponse" where
  "bad_json s cx err = RespondError cx 400 ''invalid_json'' ''Request body must be valid JSON.''
     [(''cause'', error_text (lib_http_text (sv_lib s)) err)]"

subsection \<open>Handlers\<close>

type_synonym 'w route_handler = "(string \<Rightarrow> string) \<Rightarrow> 'w handler"

definition registerService :: "'w Server \<Rightarrow> 'w route_handler" where
  "registerService s params cx r st =
     (case DecodeJSON (lib_decode_service (sv_lib s)) r of
        Inl err \<Rightarrow> (bad_json s cx err, st)
      | Inr input \<Rightarrow> respond_with s cx
          (ControlPlane_RegisterService (sv_service s) input (principalFromContext cx) (cx_RequestID cx))
          201 ServicePayload st)"

definition updateService :: "'w Server \<Rightarrow> 'w route_handler" where
  "updateService s params cx r st =
     (case parseUUIDParam s params ''serviceID'' of
        Inl err \<Rightarrow> (bad_id s cx ''invalid_service_id'' err, st)
      | Inr serviceID \<Rightarrow>
          (case DecodeJSON (lib_decode_patch (sv_lib s)) r of
             Inl err \<Rightarrow> (bad_json s cx err, st)
           | Inr patch \<Rightarrow> respond_with s cx
               (ControlPlane_UpdateService (sv_service s) serviceID patch (principalFromContext cx) (cx_RequestID cx))
               200 ServicePayload st))"

definition queueEvaluation :: "'w Server \<Rightarrow> 'w route_handler" where
  "queueEvaluation s params cx r st =
     (case parseUUIDParam s params ''serviceID'' of
        Inl err \<Rightarrow> (bad_id s cx ''invalid_service_id'' err, st)
      | Inr serviceID \<Rightarrow> respond_with s cx
          (ControlPlane_QueueServiceEvaluation (sv_service s) serviceID (rq_Header r ''Idempotency-Key'')
             (principalFromContext cx) (cx_RequestID cx))
          202 (\<lambda>job. JobPayload (job_ID job) (job_Status job) (job_IdempotencyKey job)) st)"

definition getScorecard :: "'w Server \<Rightarrow> 'w route_handler" where
  "getScorecard s params cx r st =
     (case parseUUIDParam s params ''serviceID'' of
        Inl err \<Rightarrow> (bad_id s cx ''invalid_service_id'' err, st)
      | Inr serviceID \<Rightarrow> respond_with s cx (ControlPlane_GetScorecard (sv_service s) serviceID) 200 ScorecardPayload st)"

definition createDeploymentCandidate :: "'w Server \<Rightarrow> 'w route_handler" where
  "createDeploymentCandidate s params cx r st =
     (case DecodeJSON (lib_decode_candidate (sv_lib s)) r of
        Inl err \<Rightarrow> (bad_json s cx err, st)
      | Inr input \<Rightarrow> respond_with s cx
          (ControlPlane_CreateDeploymentCandidate (sv_service s) input (principalFromContext cx) (cx_RequestID cx))
          201 CandidatePayload st)"

definition evaluateDeploymentCandidate :: "'w Server \<Rightarrow> 'w route_handler" where
  "evaluateDeploymentCandidate s params cx r st =
     (case parseUUIDParam s params ''candidateID'' of
        Inl err \<Rightarrow> (bad_id s cx ''invalid_candidate_id'' err, st)
      | Inr candidateID \<Rightarrow> respond_with s cx
          (ControlPlane_EvaluateDeploymentCandidate (sv_service s) candidateID (principalFromContext cx) (cx_RequestID cx))
          200 CandidatePayload st)"

definition getDeploymentCandidate :: "'w Server \<Rightarrow> 'w route_handler" where
  "getDeploymentCandidate s params cx r st =
     (case parseUUIDParam s params ''candidateID'' of
        Inl err \<Rightarrow> (bad_id s cx ''invalid_candidate_id'' err, st)
      | Inr candidateID \<Rightarrow> respond_with s cx
          (ControlPlane_GetDeploymentCandidate (sv_service s) candidateID) 200 CandidatePayload st)"

text \<open>The query parameters of \<^verbatim>\<open>listAuditEvents\<close>: absent or empty ones have defaults.\<close>

definition audit_resource :: "'w Server \<Rightarrow> HttpRequest \<Rightarrow> go_error + uuid option" where
  "audit_resource s r =
     (let val = Values_Get (ParseQuery (rq_RawQuery r)) ''resource_id'' in
      if val = [] then Inr None else tryE (lib_uuid_Parse (sv_lib s) val) (\<lambda>i. Inr (Some i)))"

definition audit_limit :: "HttpRequest \<Rightarrow> go_error + int" where
  "audit_limit r =
     (let val = Values_Get (ParseQuery (rq_RawQuery r)) ''limit'' in if val = [] then Inr 20 else Atoi val)"

definition listAuditEvents :: "'w Server \<Rightarrow> 'w route_handler" where
  "listAuditEvents s params cx r st =
     (case audit_resource s r of
        Inl err \<Rightarrow> (RespondError cx 400 ''invalid_resource_id'' ''resource_id must be a valid UUID.'' [], st)
      | Inr resourceID \<Rightarrow>
          (case audit_limit r of
             Inl err \<Rightarrow> (RespondError cx 400 ''invalid_limit'' ''limit must be an integer.'' [], st)
           | Inr limit \<Rightarrow> respond_with s cx
               (ControlPlane_ListAuditEvents (sv_service s)
                  (Values_Get (ParseQuery (rq_RawQuery r)) ''resource_type'') resourceID limit)
               200 ItemsPayload st))"

definition healthz :: "'w Server \<Rightarrow> 'w route_handler" where
  "healthz s params cx r st = (WriteJSON 200 (StatusPayload ''ok''), st)"

definition readyz :: "'w Server \<Rightarrow> 'w route_handler" where
  "readyz s params cx r =
     letM (on_world (sv_Ping s)) (\<lambda>pinged st. case pinged of
       Inl err \<Rightarrow> (RespondError cx 503 ''database_unavailable'' ''Database ping failed.''
                      [(''cause'', error_text (lib_http_text (sv_lib s)) err)], st)
     | Inr u \<Rightarrow> (WriteJSON 200 (StatusPayload ''ready''), st))"

subsection \<open>Middleware\<close>

definition authMiddleware :: "'w Server \<Rightarrow> 'w handler \<Rightarrow> 'w handler" where
  "authMiddleware s next_handler cx r st =
     (case ParseBearerToken (rq_Header r ''Authorization'') of
        Inl err \<Rightarrow> (RespondError cx 401 ''missing_bearer_token''
                      ''Authorization header must contain a Bearer token.'' [], st)
      | Inr rawToken \<Rightarrow>
          (case sv_validate s rawToken of
             Inl err \<Rightarrow> (RespondError cx 401 ''unauthorized'' ''Bearer token validation failed.''
                           [(''cause'', error_text (lib_http_text (sv_lib s)) err)], st)
           | Inr p \<Rightarrow> next_handler (cx\<lparr>cx_Principal := Some p\<rparr>) r st))"

definition authorize :: "Role list \<Rightarrow> 'w handler \<Rightarrow> 'w handler" where
  "authorize roles next_handler cx r st =
     (if pr_Role (principalFromContext cx) \<notin> set roles
      then (RespondError cx 403 ''forbidden'' ''Caller is not authorized for this endpoint.'' [], st)
      else next_handler cx r st)"

definition metricsMiddleware :: "(HttpRequest \<Rightarrow> string option) \<Rightarrow> 'w handler \<Rightarrow> 'w handler" where
  "metricsMiddleware pattern next_handler cx r =
     letM (next_handler cx r) (\<lambda>response st.
       (response, st\<lparr>ss_requests_total := ss_requests_total st @
          [(RoutePattern pattern r, rq_Method r, Itoa (rs_Status response))]\<rparr>))"

subsection \<open>The route table\<close>

definition routes :: "(string \<times> string \<times> endpoint) list" where
  "routes =
     [(''GET'', ''/healthz'', Healthz), (''GET'', ''/readyz'', Readyz), ([], ''/metrics'', MetricsPage),
      (''POST'', ''/v1/services'', RegisterService_ep),
      (''PATCH'', ''/v1/services/{serviceID}'', UpdateService_ep),
      (''POST'', ''/v1/services/{serviceID}/evaluations'', QueueEvaluation_ep),
      (''GET'', ''/v1/services/{serviceID}/scorecard'', GetScorecard_ep),
      (''POST'', ''/v1/deployment-candidates'', CreateDeploymentCandidate_ep),
      (''POST'', ''/v1/deployment-candidates/{candidateID}/evaluate'', EvaluateDeploymentCandidate_ep),
      (''GET'', ''/v1/deployment-candidates/{candidateID}'', GetDeploymentCandidate_ep),
      (''GET'', ''/v1/audit-events'', ListAuditEvents_ep)]"

text \<open>The handler of a route with its own middlewares: \<open>protected\<close> routes are those of the group.\<close>

definition protected :: "'w Server \<Rightarrow> Role list \<Rightarrow> 'w handler \<Rightarrow> 'w handler" where
  "protected s roles h = authMiddleware s (authorize roles h)"

fun endpoint_handler :: "'w Server \<Rightarrow> endpoint \<Rightarrow> 'w route_handler" where
  "endpoint_handler s Healthz params = healthz s params"
| "endpoint_handler s Readyz params = readyz s params"
| "endpoint_handler s MetricsPage params = (\<lambda>cx r st. (lib_metrics_page (sv_lib s) r, st))"
| "endpoint_handler s RegisterService_ep params =
     protected s [RoleEngineer, RolePlatformAdmin] (registerService s params)"
| "endpoint_handler s UpdateService_ep params =
     protected s [RoleEngineer, RolePlatformAdmin] (updateService s params)"
| "endpoint_handler s QueueEvaluation_ep params =
     protected s [RoleEngineer, RolePlatformAdmin] (queueEvaluation s params)"
| "endpoint_handler s GetScorecard_ep params =
     protected s [RoleEngineer, RolePlatformAdmin] (getScorecard s params)"
| "endpoint_handler s CreateDeploymentCandidate_ep params =
     protected s [RoleEngineer, RolePlatformAdmin] (createDeploymentCandidate s params)"
| "endpoint_handler s EvaluateDeploymentCandidate_ep params =
     protected s [RoleEngineer, RolePlatformAdmin] (evaluateDeploymentCandidate s params)"
| "endpoint_handler s GetDeploymentCandidate_ep params =
     protected s [RoleEngineer, RolePlatformAdmin] (getDeploymentCandidate s params)"
| "endpoint_handler s ListAuditEvents_ep params = protected s [RolePlatformAdmin] (listAuditEvents s params)"

definition router :: "'w Server \<Rightarrow> 'w handler" where
  "router s cx r st =
     (case lib_route (sv_lib s) routes (rq_Method r) (rq_Path r) of
        None \<Rightarrow> (lib_unrouted (sv_lib s) r, st)
      | Some (e, params) \<Rightarrow> endpoint_handler s e params cx r st)"

text \<open>\<^verbatim>\<open>NewHandler\<close>: the middlewares in the order of \<^verbatim>\<open>router.Use\<close> around the routes.\<close>

definition NewHandler :: "'w Server \<Rightarrow> 'w handler" where
  "NewHandler s =
     RequestIDMiddleware (sv_service s)
       (metricsMiddleware (lib_pattern (sv_lib s)) (LoggingMiddleware (lib_pattern (sv_lib s)) (router s)))"

definition ServeHTTP :: "'w Server \<Rightarrow> HttpRequest \<Rightarrow> 'w server_state \<Rightarrow> HttpResponse \<times> 'w server_state" where
  "ServeHTTP s r = NewHandler s \<lparr>cx_RequestID = [], cx_Principal = None\<rparr> r"

end
