(* ===== verification/Requests.thy ===== *)
theory Requests
  imports Server Promotion
begin

section \<open>Requests as operations\<close>

text \<open>
  An abstract reading of the API: which operation of the control plane a request stands for, and on
  whose behalf. The server refines it: serving a request changes the world exactly as that operation
  does, and not at all when the request stands for none.
\<close>

definition authenticated :: "'w Server \<Rightarrow> HttpRequest \<Rightarrow> Principal option" where
  "authenticated s r =
     (case tryE (ParseBearerToken (rq_Header r ''Authorization'')) (sv_validate s) of
        Inl _ \<Rightarrow> None | Inr p \<Rightarrow> Some p)"

definition guarded :: "endpoint \<Rightarrow> bool" where
  "guarded e \<longleftrightarrow> e \<notin> {Healthz, Readyz, MetricsPage}"

definition allowed_roles :: "endpoint \<Rightarrow> Role list" where
  "allowed_roles e = (if e = ListAuditEvents_ep then [RolePlatformAdmin] else [RoleEngineer, RolePlatformAdmin])"

definition right_option :: "'e + 'a \<Rightarrow> 'a option" where
  "right_option r = (case r of Inl _ \<Rightarrow> None | Inr a \<Rightarrow> Some a)"

fun endpoint_operation ::
    "'w Server \<Rightarrow> HttpRequest \<Rightarrow> (string \<Rightarrow> string) \<Rightarrow> Principal \<Rightarrow> string \<Rightarrow> endpoint \<Rightarrow> operation option" where
  "endpoint_operation s r params p rid RegisterService_ep =
     map_option (\<lambda>input. Register input p rid) (right_option (DecodeJSON (lib_decode_service (sv_lib s)) r))"
| "endpoint_operation s r params p rid UpdateService_ep =
     Option.bind (right_option (parseUUIDParam s params ''serviceID'')) (\<lambda>i.
       map_option (\<lambda>patch. Patch i patch p rid) (right_option (DecodeJSON (lib_decode_patch (sv_lib s)) r)))"
| "endpoint_operation s r params p rid QueueEvaluation_ep =
     map_option (\<lambda>i. Queue i (rq_Header r ''Idempotency-Key'') p rid)
       (right_option (parseUUIDParam s params ''serviceID''))"
| "endpoint_operation s r params p rid GetScorecard_ep =
     map_option Scorecard_of (right_option (parseUUIDParam s params ''serviceID''))"
| "endpoint_operation s r params p rid CreateDeploymentCandidate_ep =
     map_option (\<lambda>input. Request input p rid) (right_option (DecodeJSON (lib_decode_candidate (sv_lib s)) r))"
| "endpoint_operation s r params p rid EvaluateDeploymentCandidate_ep =
     map_option (\<lambda>i. Decide i p rid) (right_option (parseUUIDParam s params ''candidateID''))"
| "endpoint_operation s r params p rid GetDeploymentCandidate_ep =
     map_option Candidate_of (right_option (parseUUIDParam s params ''candidateID''))"
| "endpoint_operation s r params p rid ListAuditEvents_ep =
     Option.bind (right_option (audit_resource s r)) (\<lambda>i.
       map_option (Audit_trail (Values_Get (ParseQuery (rq_RawQuery r)) ''resource_type'') i)
         (right_option (audit_limit r)))"
| "endpoint_operation s r params p rid _ = None"

definition request_operation :: "'w Server \<Rightarrow> HttpRequest \<Rightarrow> string \<Rightarrow> operation option" where
  "request_operation s r rid =
     Option.bind (lib_route (sv_lib s) routes (rq_Method r) (rq_Path r)) (\<lambda>(e, params).
     Option.bind (authenticated s r) (\<lambda>p.
       if guarded e \<and> pr_Role p \<in> set (allowed_roles e) then endpoint_operation s r params p rid e else None))"

definition is_readyz :: "'w Server \<Rightarrow> HttpRequest \<Rightarrow> bool" where
  "is_readyz s r \<longleftrightarrow>
     (case lib_route (sv_lib s) routes (rq_Method r) (rq_Path r) of Some (e, _) \<Rightarrow> e = Readyz | None \<Rightarrow> False)"

definition request_effect :: "libraries \<Rightarrow> 'w Server \<Rightarrow> HttpRequest \<Rightarrow> 'w \<Rightarrow> 'w" where
  "request_effect L s r w =
     (case EnsureRequestID (sv_service s) (rq_Header r ''X-Request-Id'') w of
        (rid, w1) \<Rightarrow>
          (case request_operation s r rid of
             Some op \<Rightarrow> perform L (sv_service s) op w1
           | None \<Rightarrow> if is_readyz s r then snd (sv_Ping s w1) else w1))"

subsection \<open>The handlers\<close>

lemma letM_snd: "snd (letM m k w) = snd (k (fst (m w)) (snd (m w)))"
  by (simp add: letM_def case_prod_beta)

lemma letM_fst: "fst (letM m k w) = fst (k (fst (m w)) (snd (m w)))"
  by (simp add: letM_def case_prod_beta)

lemma on_world_simps [simp]: "ss_world (snd (on_world m st)) = snd (m (ss_world st))"
  "fst (on_world m st) = fst (m (ss_world st))" "ss_log (snd (on_world m st)) = ss_log st"
  "ss_requests_total (snd (on_world m st)) = ss_requests_total st"
  by (simp_all add: on_world_def case_prod_beta)

lemma writeError_state [simp]: "ss_world (snd (writeError s cx err st)) = ss_world st"
  "ss_requests_total (snd (writeError s cx err st)) = ss_requests_total st"
  by (auto simp: writeError_def Let_def split: option.splits)

lemma respond_with_world [simp]: "ss_world (snd (respond_with s cx m status body st)) = snd (m (ss_world st))"
  by (simp add: respond_with_def letM_snd split: sum.split)

lemma right_option_simps [simp]: "right_option (Inl e) = None" "right_option (Inr a) = Some a"
  by (simp_all add: right_option_def)

lemmas handler_defs = registerService_def updateService_def queueEvaluation_def getScorecard_def
  createDeploymentCandidate_def evaluateDeploymentCandidate_def getDeploymentCandidate_def listAuditEvents_def
  healthz_def readyz_def

lemma protected_state:
  "snd (protected s roles h cx r st) =
     (case authenticated s r of
        Some p \<Rightarrow> if pr_Role p \<in> set roles then snd (h (cx\<lparr>cx_Principal := Some p\<rparr>) r st) else st
      | None \<Rightarrow> st)"
  by (auto simp: protected_def authMiddleware_def authorize_def principalFromContext_def authenticated_def
      split: sum.split)

lemma endpoint_world:
  "ss_world (snd (endpoint_handler s e params cx r st)) =
     (if guarded e
      then (case Option.bind (authenticated s r) (\<lambda>p. if pr_Role p \<in> set (allowed_roles e)
               then endpoint_operation s r params p (cx_RequestID cx) e else None) of
          Some op \<Rightarrow> perform L (sv_service s) op (ss_world st) | None \<Rightarrow> ss_world st)
      else if e = Readyz then snd (sv_Ping s (ss_world st)) else ss_world st)"
  by (cases e)
    (auto simp: guarded_def allowed_roles_def protected_state handler_defs principalFromContext_def letM_snd
      split: option.split sum.split)

lemma router_world:
  "ss_world (snd (router s cx r st)) =
     (case request_operation s r (cx_RequestID cx) of
        Some op \<Rightarrow> perform L (sv_service s) op (ss_world st)
      | None \<Rightarrow> if is_readyz s r then snd (sv_Ping s (ss_world st)) else ss_world st)"
proof (cases "lib_route (sv_lib s) routes (rq_Method r) (rq_Path r)")
  case None
  then show ?thesis by (simp add: router_def request_operation_def is_readyz_def)
next
  case (Some ep)
  obtain e params where ep: "ep = (e, params)" by (cases ep)
  show ?thesis
    by (cases "authenticated s r")
      (auto simp: router_def request_operation_def is_readyz_def Some ep endpoint_world [where L = L] guarded_def
        split: option.split)
qed

definition request_id :: "'w Server \<Rightarrow> HttpRequest \<Rightarrow> 'w \<Rightarrow> string" where
  "request_id s r w = fst (EnsureRequestID (sv_service s) (rq_Header r ''X-Request-Id'') w)"

definition identified :: "'w Server \<Rightarrow> HttpRequest \<Rightarrow> 'w \<Rightarrow> 'w" where
  "identified s r w = snd (EnsureRequestID (sv_service s) (rq_Header r ''X-Request-Id'') w)"

text \<open>Serving a request is the router's step between the draw of the id and the bookkeeping.\<close>

lemma ServeHTTP_unfold:
  assumes "ServeHTTP s r st = (resp, st')"
  obtains resp1 st1 where
    "router s \<lparr>cx_RequestID = request_id s r (ss_world st), cx_Principal = None\<rparr> r
       (st\<lparr>ss_world := identified s r (ss_world st)\<rparr>) = (resp1, st1)"
    "resp = resp1\<lparr>rs_RequestID := request_id s r (ss_world st)\<rparr>"
    "st' = st1\<lparr>ss_log := ss_log st1 @ [HttpRequestLogged (request_id s r (ss_world st)) (rq_Method r)
        (RoutePattern (lib_pattern (sv_lib s)) r) (rq_Path r) (rs_Status resp1)],
      ss_requests_total := ss_requests_total st1 @
        [(RoutePattern (lib_pattern (sv_lib s)) r, rq_Method r, Itoa (rs_Status resp1))]\<rparr>"
proof -
  obtain resp1 st1 where r1: "router s \<lparr>cx_RequestID = request_id s r (ss_world st), cx_Principal = None\<rparr> r
       (st\<lparr>ss_world := identified s r (ss_world st)\<rparr>) = (resp1, st1)" by fastforce
  show thesis
    by (rule that [OF r1])
      (use assms r1 in \<open>simp_all add: ServeHTTP_def NewHandler_def RequestIDMiddleware_def metricsMiddleware_def
        LoggingMiddleware_def letM_def on_world_def request_id_def identified_def case_prod_beta\<close>)
qed

lemma request_effect_eq:
  "request_effect L s r w =
     (case request_operation s r (request_id s r w) of
        Some op \<Rightarrow> perform L (sv_service s) op (identified s r w)
      | None \<Rightarrow> if is_readyz s r then snd (sv_Ping s (identified s r w)) else identified s r w)"
  by (simp add: request_effect_def request_id_def identified_def case_prod_beta split: option.split)

lemma ServeHTTP_world: "ss_world (snd (ServeHTTP s r st)) = request_effect L s r (ss_world st)"
proof -
  let ?cx = "\<lparr>cx_RequestID = request_id s r (ss_world st), cx_Principal = None\<rparr>"
    and ?st = "st\<lparr>ss_world := identified s r (ss_world st)\<rparr>"
  obtain resp st' where run: "ServeHTTP s r st = (resp, st')" by fastforce
  obtain resp1 st1 where step: "router s ?cx r ?st = (resp1, st1)" and w: "ss_world st' = ss_world st1"
    by (rule ServeHTTP_unfold [OF run]) simp
  show ?thesis
    using router_world [where L = L and s = s and r = r and cx = ?cx and st = ?st]
    by (simp add: run step w request_effect_eq split: option.split)
qed

text \<open>
  C4. Serving a request changes the world exactly as the operation the request stands for, performed on
  behalf of the authenticated caller under the request's id; a request that stands for no operation
  (unrouted, not authenticated, not authorised, or malformed) leaves it alone but for the readiness ping.
\<close>

theorem ServeHTTP_refines: "ss_world (snd (ServeHTTP s r st)) = request_effect L s r (ss_world st)"
  by (rule ServeHTTP_world)

subsection \<open>Authorisation\<close>

text \<open>The principal and the request id an operation is recorded under.\<close>

fun operation_actor :: "operation \<Rightarrow> (Principal \<times> string) option" where
  "operation_actor (Register input p rid) = Some (p, rid)"
| "operation_actor (Patch i patch p rid) = Some (p, rid)"
| "operation_actor (Queue i key p rid) = Some (p, rid)"
| "operation_actor (Request input p rid) = Some (p, rid)"
| "operation_actor (Decide i p rid) = Some (p, rid)"
| "operation_actor op = None"

fun reads_audit :: "operation \<Rightarrow> bool" where
  "reads_audit (Audit_trail rt i n) = True"
| "reads_audit op = False"

lemma authenticated_Some:
  "authenticated s r = Some p \<longleftrightarrow>
     (\<exists>token. ParseBearerToken (rq_Header r ''Authorization'') = Inr token \<and> sv_validate s token = Inr p)"
  by (auto simp: authenticated_def tryE_def split: sum.splits)

lemma endpoint_operation_actor:
  assumes "endpoint_operation s r params p rid e = Some op"
  shows "operation_actor op \<in> {None, Some (p, rid)}" "reads_audit op \<longleftrightarrow> e = ListAuditEvents_ep"
    "\<forall>k n l. op \<noteq> Work k n l"
  using assms by (cases e; auto split: Option.bind_splits)+

lemma request_operation_authorised:
  assumes "request_operation s r rid = Some op"
  shows "\<exists>token p. ParseBearerToken (rq_Header r ''Authorization'') = Inr token \<and> sv_validate s token = Inr p
           \<and> known_role (pr_Role p) \<and> operation_actor op \<in> {None, Some (p, rid)}
           \<and> (reads_audit op \<longrightarrow> pr_Role p = RolePlatformAdmin) \<and> (\<forall>k n l. op \<noteq> Work k n l)"
proof -
  obtain e params p where p: "authenticated s r = Some p" and role: "pr_Role p \<in> set (allowed_roles e)"
    and op: "endpoint_operation s r params p rid e = Some op"
    using assms by (auto simp: request_operation_def split: Option.bind_splits if_splits)
  obtain token where "ParseBearerToken (rq_Header r ''Authorization'') = Inr token" "sv_validate s token = Inr p"
    using p by (auto simp: authenticated_Some)
  moreover have "known_role (pr_Role p)"
    using role by (auto simp: known_role_def allowed_roles_def split: if_splits)
  moreover have "reads_audit op \<longrightarrow> pr_Role p = RolePlatformAdmin"
    using role endpoint_operation_actor(2) [OF op] by (auto simp: allowed_roles_def)
  ultimately show ?thesis using endpoint_operation_actor(1,3) [OF op] by blast
qed

subsection \<open>Who can change the tables\<close>

lemma keeps_db_read: "keeps (\<lambda>w. w_db w = d) (pg_read q)"
  by (rule keepsI) (auto dest: pg_read_db)

lemma reads_keep_db:
  assumes "operation_actor op = None" "\<forall>k n l. op \<noteq> Work k n l"
  shows "w_db (perform L (NewControlPlane L n) op w) = w_db w"
proof -
  have card: "keeps (\<lambda>v. w_db v = w_db w) (Store_GetLatestScorecard i)" for i
    unfolding Store_GetLatestScorecard_def Store_GetService_def by (intro keeps_rules keeps_db_read)
  have cand: "keeps (\<lambda>v. w_db v = w_db w) (Store_GetDeploymentCandidate i)" for i
    unfolding Store_GetDeploymentCandidate_def by (intro keeps_rules keeps_db_read)
  have audit: "keeps (\<lambda>v. w_db v = w_db w) (Store_ListAuditEvents rt i l)" for rt i l
    unfolding Store_ListAuditEvents_def by (intro keeps_rules keeps_db_read)
  show ?thesis
    using assms card cand audit
    by (cases op) (auto simp: keeps_def ControlPlane_GetScorecard_def ControlPlane_GetDeploymentCandidate_def
        ControlPlane_ListAuditEvents_def NewControlPlane_def PostgresRepository_def)
qed

lemma identified_db: "sv_service s = NewControlPlane L n \<Longrightarrow> w_db (identified s r w) = w_db w"
  by (simp add: identified_def EnsureRequestID_def letM_def NewControlPlane_fields uuid_New_def)


subsection \<open>Refusals\<close>

lemma ServeHTTP_routed:
  assumes "lib_route (sv_lib s) routes (rq_Method r) (rq_Path r) = Some (e, params)"
    "ServeHTTP s r st = (resp, st')"
  obtains resp1 st1 where
    "endpoint_handler s e params \<lparr>cx_RequestID = request_id s r (ss_world st), cx_Principal = None\<rparr> r
       (st\<lparr>ss_world := identified s r (ss_world st)\<rparr>) = (resp1, st1)"
    "resp = resp1\<lparr>rs_RequestID := request_id s r (ss_world st)\<rparr>" "ss_world st' = ss_world st1"
  by (rule ServeHTTP_unfold [OF assms(2)]) (use assms(1) that in \<open>simp add: router_def\<close>)

lemma guarded_handler:
  assumes "guarded e"
  obtains h where "endpoint_handler s e params = protected s (allowed_roles e) h"
  by (cases e) (use assms in \<open>auto simp: guarded_def allowed_roles_def intro: that\<close>)

text \<open>
  C6. On a guarded route, a request without a bearer token that validates is answered 401 and one whose
  principal lacks the route's role 403, as JSON error envelopes carrying the request id; the tables are
  not touched.
\<close>

theorem unauthorised_request_refused:
  assumes "lib_route (sv_lib s) routes (rq_Method r) (rq_Path r) = Some (e, params)" "guarded e"
    and "\<forall>p. authenticated s r = Some p \<longrightarrow> pr_Role p \<notin> set (allowed_roles e)"
    and "sv_service s = NewControlPlane L n" "ServeHTTP s r st = (resp, st')"
  shows "rs_Status resp = (if authenticated s r = None then 401 else 403)
       \<and> (\<exists>b. rs_Body resp = ErrorEnvelope b \<and> eb_RequestID b = rs_RequestID resp
              \<and> eb_Code b \<in> {''missing_bearer_token'', ''unauthorized'', ''forbidden''})
       \<and> w_db (ss_world st') = w_db (ss_world st)"
proof -
  obtain resp1 st1 where h: "endpoint_handler s e params
      \<lparr>cx_RequestID = request_id s r (ss_world st), cx_Principal = None\<rparr> r
      (st\<lparr>ss_world := identified s r (ss_world st)\<rparr>) = (resp1, st1)"
    and resp: "resp = resp1\<lparr>rs_RequestID := request_id s r (ss_world st)\<rparr>" and st': "ss_world st' = ss_world st1"
    by (rule ServeHTTP_routed [OF assms(1,5)])
  obtain g where "endpoint_handler s e params = protected s (allowed_roles e) g"
    by (rule guarded_handler [OF assms(2)])
  with h assms(3) have "rs_Status resp1 = (if authenticated s r = None then 401 else 403)
      \<and> (\<exists>b. rs_Body resp1 = ErrorEnvelope b \<and> eb_RequestID b = request_id s r (ss_world st)
              \<and> eb_Code b \<in> {''missing_bearer_token'', ''unauthorized'', ''forbidden''})
      \<and> ss_world st1 = identified s r (ss_world st)"
    by (auto simp: protected_def authMiddleware_def authorize_def principalFromContext_def authenticated_def
        RespondError_def RespondErrorWithRemediation_def WriteJSON_def split: sum.splits if_splits)
  with resp st' identified_db [OF assms(4)] show ?thesis by simp
qed

end
