(* ===== verification/Serving.thy ===== *)
theory Serving
  imports Requests
begin

section \<open>What the API guarantees\<close>

text \<open>
  Properties of served requests that span the server, the control plane and the store: the tables stay
  reachable, every response is identified, counted and logged, an internal error reveals nothing, and
  the promotion rules show as status codes. A concrete server over the tables of Scenario provides the
  witnesses.
\<close>

subsection \<open>A concrete server\<close>

definition sample_route :: "(string \<times> string \<times> endpoint) list \<Rightarrow> string \<Rightarrow> string \<Rightarrow> (endpoint \<times> (string \<Rightarrow> string)) option" where
  "sample_route table method path =
     map_option (\<lambda>e. (e, \<lambda>_. ''50''))
       (map_of (map (\<lambda>(m, p, e). ((m, p), e)) table)
          (method, if path = ''/v1/deployment-candidates/50/evaluate''
                   then ''/v1/deployment-candidates/{candidateID}/evaluate'' else path))"

definition sample_http :: http_lib where
  "sample_http =
     \<lparr>lib_uuid_Parse = (\<lambda>t. if t = ''50'' then Inr 50 else Inl (LibError ''invalid UUID'')),
      lib_decode_service = \<lparr>dec_first = (\<lambda>b. if b = ''{}'' then Inr ready_input else Inl (LibError ''EOF'')),
        dec_second = (\<lambda>b. Some io_EOF)\<rparr>,
      lib_decode_patch = \<lparr>dec_first = (\<lambda>b. Inl (LibError ''EOF'')), dec_second = (\<lambda>b. Some io_EOF)\<rparr>,
      lib_decode_candidate = \<lparr>dec_first = (\<lambda>b. Inr (candidate_input 1)), dec_second = (\<lambda>b. Some io_EOF)\<rparr>,
      lib_route = sample_route, lib_pattern = (\<lambda>r. None),
      lib_unrouted = (\<lambda>r. \<lparr>rs_Status = 404, rs_ContentType = ''text/plain'', rs_RequestID = [],
        rs_Body = LibraryPayload ''404 page not found''\<rparr>),
      lib_metrics_page = (\<lambda>r. \<lparr>rs_Status = 200, rs_ContentType = ''text/plain'', rs_RequestID = [],
        rs_Body = LibraryPayload ''metrics''\<rparr>),
      lib_http_text = (\<lambda>e. ''library error''), lib_pg_Message = (\<lambda>c k. ''duplicate key'')\<rparr>"

definition sample_server :: "'w ControlPlane \<Rightarrow> ('w, go_error, unit) io \<Rightarrow> 'w Server" where
  "sample_server c ping =
     \<lparr>sv_service = c, sv_validate = Validate paper_lib (hmacValidator paper_config) (paper_now + Second),
      sv_Ping = ping, sv_lib = sample_http\<rparr>"

definition sample_request :: "string \<Rightarrow> string \<Rightarrow> string \<Rightarrow> HttpRequest" where
  "sample_request method path token =
     \<lparr>rq_Method = method, rq_Path = path, rq_RawQuery = [],
      rq_Header = (\<lambda>h. if h = ''Authorization'' then ''Bearer '' @ token
                      else if h = ''X-Request-Id'' then ''req-1'' else []),
      rq_Body = ''{}''\<rparr>"

definition fresh_state :: "'w \<Rightarrow> 'w server_state" where
  "fresh_state w = \<lparr>ss_world = w, ss_log = [], ss_requests_total = []\<rparr>"

abbreviation evaluate_request :: HttpRequest where
  "evaluate_request \<equiv> sample_request ''POST'' ''/v1/deployment-candidates/50/evaluate'' ''a.b.c''"

abbreviation audit_request :: HttpRequest where
  "audit_request \<equiv> sample_request ''GET'' ''/v1/audit-events'' ''a.b.c''"

definition ann :: Principal where
  "ann = \<lparr>pr_Subject = ''ann@example.com'', pr_Role = RoleEngineer, pr_Issuer = ''local''\<rparr>"

lemma sample_authenticated: "authenticated (sample_server c ping) (sample_request m p ''a.b.c'') = Some ann"
proof -
  have "ParseBearerToken (''Bearer '' @ ''a.b.c'') = Inr ''a.b.c''" by code_simp
  then show ?thesis
    unfolding authenticated_Some using paper_validate
    by (simp add: sample_server_def sample_request_def ann_def)
qed

lemma sample_routed:
  "lib_route (sv_lib (sample_server c ping)) routes (rq_Method evaluate_request) (rq_Path evaluate_request)
     = Some (EvaluateDeploymentCandidate_ep, \<lambda>_. ''50'')"
  "lib_route (sv_lib (sample_server c ping)) routes (rq_Method audit_request) (rq_Path audit_request)
     = Some (ListAuditEvents_ep, \<lambda>_. ''50'')"
  by (simp_all add: sample_server_def sample_http_def sample_route_def sample_request_def routes_def)

lemma sample_operation:
  "request_operation (sample_server c ping) evaluate_request rid = Some (Decide 50 ann rid)"
  by (simp add: request_operation_def sample_routed sample_authenticated guarded_def allowed_roles_def ann_def
      parseUUIDParam_def) (simp add: sample_server_def sample_http_def)

lemma sample_identified [simp]:
  "request_id (sample_server c ping) (sample_request m p t) w = ''req-1''"
  "identified (sample_server c ping) (sample_request m p t) w = w"
  by (simp_all add: request_id_def identified_def EnsureRequestID_def sample_request_def)

lemma ann_decides:
  "t_candidates (w_db (snd (ControlPlane_EvaluateDeploymentCandidate (NewControlPlane L0 5) 50 ann ''req-1'' (process 60 50 d4))))
     = [candidate5]"
  by (simp add: run_simps NewControlPlane_def ControlPlane_EvaluateDeploymentCandidate_def promotion_verdict_def
      Store_SavePromotionDecision_def Store_GetDeploymentCandidate_def Store_GetLatestSnapshot_def
      select_latest_snapshot_def select_candidate_def scanCandidate_def decide_stmt_def decide_row_def
      upsert_decision_def pending_with_def rows_where_def newest_by_def
      ref_snapshot_def candidates_row.defs pending_candidate_def candidate_input_def snapshot3_def Let_def
      d4_def d3_def d2_def d1_def row_fields audit3_def candidate4_def candidate5_def audit4_def ann_def)


theorem unauthorised_request_refused_witness:
  "rs_Status (fst (ServeHTTP (sample_server (NewControlPlane L0 5) (okM ())) audit_request
      (fresh_state (process 60 50 d5)))) = 403"
proof -
  let ?s = "sample_server (NewControlPlane L0 5) (okM ())"
  obtain resp st' where run: "ServeHTTP ?s audit_request (fresh_state (process 60 50 d5)) = (resp, st')" by fastforce
  have "rs_Status resp = (if authenticated ?s audit_request = None then 401 else 403)"
    using unauthorised_request_refused [OF sample_routed(2) _ _ _ run, where L = L0 and n = 5]
    by (simp add: guarded_def sample_authenticated ann_def allowed_roles_def) (simp add: sample_server_def)
  then show ?thesis by (simp add: run sample_authenticated)
qed

subsection \<open>Reachable tables\<close>

lemma identified_shared:
  "sv_service s = SharedControlPlane L n \<Longrightarrow>
     w_db (fst (identified s r x)) = w_db (fst x) \<and> snd (identified s r x) = snd x"
  by (cases x) (simp add: identified_def EnsureRequestID_def letM_def SharedControlPlane_def uuid_New_def local_def)

text \<open>
  C15. Whatever request is served, by an API process amid the operations of others, the tables it leaves
  behind are reachable, so every property of reachable tables holds for a system driven over HTTP.
\<close>

theorem ServeHTTP_reachable:
  assumes "reachable L (w_db (fst (ss_world st)))" "\<forall>f \<in> sset (snd (ss_world st)). elsewhere L f"
    and "sv_service s = SharedControlPlane L n" "\<And>x. w_db (fst (snd (sv_Ping s x))) = w_db (fst x)"
  shows "reachable L (w_db (fst (ss_world (snd (ServeHTTP s r st)))))"
proof -
  let ?x = "identified s r (ss_world st)"
  have x: "reachable L (w_db (fst ?x))" "\<forall>f \<in> sset (snd ?x). elsewhere L f"
    using assms(1,2) identified_shared [OF assms(3)] by simp_all
  have op: "reachable L (w_db (fst (perform L (SharedControlPlane L n) op ?x)))" for op
  proof -
    obtain w others where p: "?x = (w, others)" by (cases ?x)
    obtain w' others' where run: "perform L (SharedControlPlane L n) op (w, others) = (w', others')" by fastforce
    have "reachable L (w_db w')" by (rule reachable.operates [OF _ _ run]) (use x p in simp_all)
    then show ?thesis by (simp add: p run)
  qed
  show ?thesis
    using x(1) op
    by (simp add: ServeHTTP_world [where L = L] request_effect_eq assms(3,4) split: option.split)
qed

theorem ServeHTTP_reachable_witness:
  "reachable L0 (w_db (fst (ss_world (snd (ServeHTTP (sample_server (SharedControlPlane L0 5) (okM ()))
     evaluate_request (fresh_state (process 60 50 d4, sconst id)))))))"
  by (rule ServeHTTP_reachable [where n = 5])
    (simp_all add: fresh_state_def process_def scenario_reachable sset_sconst elsewhere_def sample_server_def okM_def)

subsection \<open>Identified, counted and logged\<close>

lemma respond_with_count [simp]:
  "ss_requests_total (snd (respond_with s cx m status body st)) = ss_requests_total st"
  by (simp add: respond_with_def letM_snd split: sum.split)

lemma endpoint_count: "ss_requests_total (snd (endpoint_handler s e params cx r st)) = ss_requests_total st"
  by (cases e)
    (simp_all add: protected_state handler_defs letM_snd split: option.split sum.split)

lemma router_count: "ss_requests_total (snd (router s cx r st)) = ss_requests_total st"
  by (simp add: router_def endpoint_count split: option.split)



subsection \<open>Internal errors\<close>

definition internal_error :: "string \<Rightarrow> ErrorBody" where
  "internal_error rid = \<lparr>eb_Code = ''internal_error'', eb_Message = ''The server could not complete the request.'',
     eb_RequestID = rid, eb_Remediation = defaultRemediation ''internal_error'', eb_Details = []\<rparr>"

lemma writeError_500:
  assumes "writeError s cx err st = (resp, st')" "rs_Status resp = 500"
  shows "rs_Body resp = ErrorEnvelope (internal_error (cx_RequestID cx))
       \<and> ss_log st' = ss_log st @ [RequestFailedLogged (cx_RequestID cx) (error_text (lib_http_text (sv_lib s)) err)]"
  using assms
  by (auto simp: writeError_def Let_def RespondError_def RespondErrorWithRemediation_def WriteJSON_def
      internal_error_def split: if_splits option.splits)

lemma writeError_statuses: "rs_Status (fst (writeError s cx err st)) \<in> {400, 401, 404, 409, 500}"
  by (simp add: writeError_def Let_def RespondError_def RespondErrorWithRemediation_def WriteJSON_def
      split: option.split prod.split)

lemma respond_with_500:
  assumes "respond_with s cx m status body st = (resp, st')" "rs_Status resp = 500" "status \<noteq> 500"
  shows "\<exists>text. rs_Body resp = ErrorEnvelope (internal_error (cx_RequestID cx))
       \<and> RequestFailedLogged (cx_RequestID cx) text \<in> set (ss_log st')"
proof (cases "fst (m (ss_world st))")
  case (Inl err)
  then have "writeError s cx err (snd (on_world m st)) = (resp, st')"
    using assms(1) by (simp add: respond_with_def letM_def case_prod_beta)
  from writeError_500 [OF this assms(2)] show ?thesis by auto
next
  case (Inr a)
  then show ?thesis using assms by (auto simp: respond_with_def letM_def case_prod_beta WriteJSON_def)
qed

lemma endpoint_500:
  assumes "guarded e" "endpoint_handler s e params cx r st = (resp, st')" "rs_Status resp = 500"
  shows "\<exists>text. rs_Body resp = ErrorEnvelope (internal_error (cx_RequestID cx))
       \<and> RequestFailedLogged (cx_RequestID cx) text \<in> set (ss_log st')"
  using assms
  by (cases e)
    (auto simp: guarded_def protected_def authMiddleware_def authorize_def handler_defs bad_id_def bad_json_def
      RespondError_def RespondErrorWithRemediation_def WriteJSON_def
      split: sum.splits if_splits dest!: respond_with_500)


definition broken :: world where
  "broken = (process 60 50 d4)\<lparr>w_faults := sconst (Fault ''down'')\<rparr>"

lemma sample_served:
  assumes "ServeHTTP (sample_server (NewControlPlane L0 5) ping) evaluate_request (fresh_state w) = (resp, st')"
    and "ControlPlane_EvaluateDeploymentCandidate (NewControlPlane L0 5) 50 ann ''req-1'' w = (r, w')"
  shows "rs_Status resp = (case r of Inl err \<Rightarrow>
      rs_Status (fst (writeError (sample_server (NewControlPlane L0 5) ping)
        \<lparr>cx_RequestID = ''req-1'', cx_Principal = Some ann\<rparr> err (fresh_state w'))) | Inr c \<Rightarrow> 200)"
proof (rule ServeHTTP_routed [OF sample_routed(1) assms(1)])
  let ?s = "sample_server (NewControlPlane L0 5) ping"
  fix resp1 st1
  assume step: "endpoint_handler ?s EvaluateDeploymentCandidate_ep (\<lambda>_. ''50'')
       \<lparr>cx_RequestID = request_id ?s evaluate_request (ss_world (fresh_state w)), cx_Principal = None\<rparr> evaluate_request
       ((fresh_state w)\<lparr>ss_world := identified ?s evaluate_request (ss_world (fresh_state w))\<rparr>) = (resp1, st1)"
    and resp: "resp = resp1\<lparr>rs_RequestID := request_id ?s evaluate_request (ss_world (fresh_state w))\<rparr>"
  obtain token where a: "ParseBearerToken (rq_Header evaluate_request ''Authorization'') = Inr token"
      "sv_validate ?s token = Inr ann"
    using sample_authenticated unfolding authenticated_Some by blast
  have "parseUUIDParam ?s (\<lambda>_. ''50'') ''candidateID'' = Inr 50" "sv_service ?s = NewControlPlane L0 5"
    by (simp_all add: parseUUIDParam_def sample_server_def sample_http_def)
  with step a assms(2) have "rs_Status resp1 = (case r of Inl err \<Rightarrow>
      rs_Status (fst (writeError ?s \<lparr>cx_RequestID = ''req-1'', cx_Principal = Some ann\<rparr> err (fresh_state w'))) | Inr c \<Rightarrow> 200)"
    by (auto simp: protected_def authMiddleware_def authorize_def principalFromContext_def ann_def [symmetric]
        evaluateDeploymentCandidate_def respond_with_def letM_def on_world_def fresh_state_def WriteJSON_def
        split: sum.splits if_splits) (simp_all add: ann_def)
  then show ?thesis by (simp add: resp)
qed


subsection \<open>Promotion over HTTP\<close>

text \<open>
  Asking for the evaluation of a deployment candidate, with a valid token: an unknown candidate is
  answered 404, one that was already decided 409 with the code of a state conflict, and in both cases
  the tables stay as they are, so a repeated request never changes a decision.
\<close>

lemma evaluation_request_refused:
  assumes "calm (ss_world st)" "db_inv (w_db (ss_world st))" "sv_service s = NewControlPlane L n"
    and "lib_route (sv_lib s) routes (rq_Method r) (rq_Path r) = Some (EvaluateDeploymentCandidate_ep, params)"
    and "parseUUIDParam s params ''candidateID'' = Inr i" "authenticated s r = Some p" "known_role (pr_Role p)"
    and "ServeHTTP s r st = (resp, st')"
  shows "(i \<notin> cand_ID ` set (t_candidates (w_db (ss_world st))) \<longrightarrow>
            rs_Status resp = 404 \<and> w_db (ss_world st') = w_db (ss_world st))
       \<and> (\<forall>c \<in> set (t_candidates (w_db (ss_world st))). cand_ID c = i \<and> cand_Status c \<noteq> CandidateStatusPending \<longrightarrow>
            rs_Status resp = 409 \<and> w_db (ss_world st') = w_db (ss_world st)
            \<and> (\<exists>b. rs_Body resp = ErrorEnvelope b \<and> eb_Code b = ''state_conflict''))"
proof (rule ServeHTTP_routed [OF assms(4,8)])
  let ?w = "identified s r (ss_world st)" and ?rid = "request_id s r (ss_world st)"
  let ?run = "ControlPlane_EvaluateDeploymentCandidate (NewControlPlane L n) i p ?rid ?w"
  fix resp1 st1
  assume step: "endpoint_handler s EvaluateDeploymentCandidate_ep params
      \<lparr>cx_RequestID = ?rid, cx_Principal = None\<rparr> r (st\<lparr>ss_world := ?w\<rparr>) = (resp1, st1)"
    and resp: "resp = resp1\<lparr>rs_RequestID := ?rid\<rparr>" and st': "ss_world st' = ss_world st1"
  have w: "w_db ?w = w_db (ss_world st)" "calm ?w"
    using identified_db [OF assms(3)] assms(1,3)
    by (simp_all add: identified_def EnsureRequestID_def letM_def NewControlPlane_fields uuid_New_def)
  obtain token where a: "ParseBearerToken (rq_Header r ''Authorization'') = Inr token" "sv_validate s token = Inr p"
    using assms(6) unfolding authenticated_Some by blast
  have served: "(resp1, st1) = respond_with s \<lparr>cx_RequestID = ?rid, cx_Principal = Some p\<rparr>
      (ControlPlane_EvaluateDeploymentCandidate (NewControlPlane L n) i p ?rid) 200 CandidatePayload (st\<lparr>ss_world := ?w\<rparr>)"
    using step a assms(3,5,7)
    by (auto simp: protected_def authMiddleware_def authorize_def principalFromContext_def
        evaluateDeploymentCandidate_def known_role_def)
  have unknown: "i \<notin> cand_ID ` set (t_candidates (w_db (ss_world st))) \<Longrightarrow> ?run = (Inl ErrNotFound, ?w)"
    by (rule evaluation_of_unknown [OF w(2)]) (simp add: w)
  have decided: "?run = (Inl (StateConflictError (ErrorsNew (''deployment candidate '' @ lib_uuid_String L i @
       '' is already in terminal status '' @ CandidateStatus_string (cand_Status c)))), ?w)"
    if "c \<in> set (t_candidates (w_db (ss_world st)))" "cand_ID c = i" "cand_Status c \<noteq> CandidateStatusPending" for c
    using evaluation_of_decided [OF w(2), of c L n p ?rid] assms(2) that by (simp add: w)
  have err: "rs_Status resp1 = rs_Status (fst (writeError s \<lparr>cx_RequestID = ?rid, cx_Principal = Some p\<rparr> e (st\<lparr>ss_world := ?w\<rparr>)))
      \<and> rs_Body resp1 = rs_Body (fst (writeError s \<lparr>cx_RequestID = ?rid, cx_Principal = Some p\<rparr> e (st\<lparr>ss_world := ?w\<rparr>)))
      \<and> ss_world st1 = ?w" if "?run = (Inl e, ?w)" for e
  proof -
    have "writeError s \<lparr>cx_RequestID = ?rid, cx_Principal = Some p\<rparr> e (st\<lparr>ss_world := ?w\<rparr>) = (resp1, st1)"
      using served that by (simp add: respond_with_def letM_def on_world_def)
    from this writeError_state(1) [of s "\<lparr>cx_RequestID = ?rid, cx_Principal = Some p\<rparr>" e "st\<lparr>ss_world := ?w\<rparr>"]
    show ?thesis by simp
  qed
  show ?thesis
    using err [OF unknown] err [OF decided]
    by (auto simp: resp st' w writeError_def RespondError_def RespondErrorWithRemediation_def WriteJSON_def)
qed

end
