(* ===== verification/Go_Encoding.thy ===== *)
theory Go_Encoding
  imports Go_Strings "HOL-Library.List_Lexorder" "HOL-Library.Char_ord"
begin

section \<open>Encodings of the standard library\<close>

text \<open>
  What the issuer and the client use of \<^verbatim>\<open>encoding/hex\<close>, \<^verbatim>\<open>encoding/base64\<close>, \<^verbatim>\<open>math/big\<close> and \<^verbatim>\<open>net/url\<close>,
  each with the fact that its reader inverts it: the published key determines the key, and the form a
  client posts is the form the server reads.
\<close>

subsection \<open>Hexadecimal\<close>

definition hex_byte :: "char \<Rightarrow> string" where
  "hex_byte c = [hex_digit (of_char c div 16), hex_digit (of_char c mod 16)]"

definition EncodeToString :: "string \<Rightarrow> string" where
  "EncodeToString s = concat (map hex_byte s)"

subsection \<open>\<^verbatim>\<open>base64.RawURLEncoding\<close>\<close>

definition b64_char :: "nat \<Rightarrow> char" where
  "b64_char n = char_of (if n < 26 then 65 + n else if n < 52 then 71 + n else if n < 62 then n - 4
     else if n = 62 then 45 else 95)"

fun RawURLEncode :: "string \<Rightarrow> string" where
  "RawURLEncode [] = []"
| "RawURLEncode [a] = (let n = of_char a * 16 :: nat in map b64_char [n div 64, n mod 64])"
| "RawURLEncode [a, b] =
     (let n = (of_char a * 256 + of_char b) * 4 :: nat in
      map b64_char [n div 4096, n div 64 mod 64, n mod 64])"
| "RawURLEncode (a # b # c # s) =
     (let n = of_char a * 65536 + of_char b * 256 + of_char c :: nat in
      map b64_char [n div 262144, n div 4096 mod 64, n div 64 mod 64, n mod 64] @ RawURLEncode s)"

text \<open>The bytes of a big integer, most significant first and without leading zeros.\<close>

fun big_Bytes :: "nat \<Rightarrow> string" where
  "big_Bytes n = (if n = 0 then [] else big_Bytes (n div 256) @ [char_of (n mod 256)])"

declare big_Bytes.simps [simp del]

text \<open>The reader of a key document: \<^verbatim>\<open>Base64urlUInt\<close> of RFC 7518.\<close>

definition b64_value :: "char \<Rightarrow> nat" where
  "b64_value c = (let n = of_char c :: nat in
     if n = 45 then 62 else if n = 95 then 63 else if n < 58 then n + 4 else if n < 91 then n - 65 else n - 71)"

fun RawURLDecode :: "string \<Rightarrow> string" where
  "RawURLDecode [a, b] = [char_of ((b64_value a * 64 + b64_value b) div 16)]"
| "RawURLDecode [a, b, c] =
     (let n = (b64_value a * 4096 + b64_value b * 64 + b64_value c) div 4 in
      [char_of (n div 256), char_of (n mod 256)])"
| "RawURLDecode (a # b # c # d # s) =
     (let n = b64_value a * 262144 + b64_value b * 4096 + b64_value c * 64 + b64_value d in
      [char_of (n div 65536), char_of (n div 256 mod 256), char_of (n mod 256)] @ RawURLDecode s)"
| "RawURLDecode _ = []"

definition big_SetBytes :: "string \<Rightarrow> nat" where
  "big_SetBytes s = foldl (\<lambda>n c. n * 256 + of_char c) 0 s"

lemma b64_value_char [simp]: "n < 64 \<Longrightarrow> b64_value (b64_char n) = n"
  unfolding b64_value_def b64_char_def Let_def by auto

lemma byte_bound [simp]: "(of_char c :: nat) < 256"
  by simp

lemma decode_group:
  "x < 64 \<Longrightarrow> y < 64 \<Longrightarrow> RawURLDecode (map b64_char [x, y]) = [char_of ((x * 64 + y) div 16)]"
  "x < 64 \<Longrightarrow> y < 64 \<Longrightarrow> z < 64 \<Longrightarrow> RawURLDecode (map b64_char [x, y, z]) =
     (let n = (x * 4096 + y * 64 + z) div 4 in [char_of (n div 256), char_of (n mod 256)])"
  "x < 64 \<Longrightarrow> y < 64 \<Longrightarrow> z < 64 \<Longrightarrow> v < 64 \<Longrightarrow> RawURLDecode (map b64_char [x, y, z, v] @ s) =
     (let n = x * 262144 + y * 4096 + z * 64 + v in
      [char_of (n div 65536), char_of (n div 256 mod 256), char_of (n mod 256)] @ RawURLDecode s)"
  by simp_all

lemma sextets:
  fixes n :: nat
  shows "n div 64 * 64 + n mod 64 = n" "n div 4096 * 4096 + n div 64 mod 64 * 64 + n mod 64 = n"
    "n div 262144 * 262144 + n div 4096 mod 64 * 4096 + n div 64 mod 64 * 64 + n mod 64 = n"
proof -
  have d: "n div 4096 = n div 64 div 64" "n div 262144 = n div 4096 div 64"
    using div_mult2_eq [of n 64 64] div_mult2_eq [of n 4096 64] by simp_all
  have e: "m div 64 * 64 + m mod 64 = m" for m :: nat by simp
  show "n div 64 * 64 + n mod 64 = n" by (rule e)
  show "n div 4096 * 4096 + n div 64 mod 64 * 64 + n mod 64 = n"
    using e [of n] e [of "n div 64"] unfolding d by linarith
  show "n div 262144 * 262144 + n div 4096 mod 64 * 4096 + n div 64 mod 64 * 64 + n mod 64 = n"
    using e [of n] e [of "n div 64"] e [of "n div 4096"] unfolding d by linarith
qed

lemma octets:
  assumes "b < 256" "c < (256 :: nat)"
  shows "(a * 256 + b) div 256 = a" "(a * 256 + b) mod 256 = b"
    "(a * 65536 + b * 256 + c) div 65536 = a" "(a * 65536 + b * 256 + c) div 256 mod 256 = b"
    "(a * 65536 + b * 256 + c) mod 256 = c"
proof -
  have e: "(m * 256 + k) div 256 = m" "(m * 256 + k) mod 256 = k" if "k < 256" for m k :: nat
    using that by simp_all
  show "(a * 256 + b) div 256 = a" "(a * 256 + b) mod 256 = b" using e [OF assms(1)] by simp_all
  define m where "m = a * 256 + b"
  have m: "a * 65536 + b * 256 + c = m * 256 + c" by (simp add: m_def)
  have "(m * 256 + c) div 65536 = (m * 256 + c) div 256 div 256"
    using div_mult2_eq [of "m * 256 + c" 256 256] by simp
  then show "(a * 65536 + b * 256 + c) div 65536 = a"
    using e [OF assms(1)] by (simp only: m e [OF assms(2)] m_def)
  show "(a * 65536 + b * 256 + c) div 256 mod 256 = b"
    using e [OF assms(1)] by (simp only: m e [OF assms(2)] m_def)
  show "(a * 65536 + b * 256 + c) mod 256 = c" by (simp only: m e [OF assms(2)])
qed

lemma RawURLDecode_Encode: "RawURLDecode (RawURLEncode s) = s"
proof (induction s rule: RawURLEncode.induct)
  case (2 a)
  define n :: nat where "n = of_char a * 16"
  have "n div 64 < 64" using byte_bound [of a] unfolding n_def by (intro less_mult_imp_div_less) linarith
  then have "RawURLDecode (RawURLEncode [a]) = [char_of (n div 16)]"
    by (simp only: RawURLEncode.simps Let_def n_def [symmetric] decode_group sextets mod_less_divisor)
  then show ?case by (simp add: n_def)
next
  case (3 a b)
  define m n :: nat where "m = of_char a * 256 + of_char b" and "n = m * 4"
  have m: "m div 256 = of_char a" "m mod 256 = of_char b"
    unfolding m_def by (rule octets(1,2) [OF byte_bound byte_bound])+
  have "m < 65536" using byte_bound [of a] byte_bound [of b] unfolding m_def by linarith
  then have "n div 4096 < 64" unfolding n_def by (intro less_mult_imp_div_less) simp
  then have "RawURLDecode (RawURLEncode [a, b]) =
      (let n = n div 4 in [char_of (n div 256), char_of (n mod 256)])"
    by (simp only: RawURLEncode.simps Let_def m_def [symmetric] n_def [symmetric] decode_group sextets
        mod_less_divisor zero_less_numeral)
  moreover have "n div 4 = m" by (simp add: n_def)
  ultimately show ?case by (simp only: Let_def m char_of_char)
next
  case (4 a b c s)
  define n :: nat where "n = of_char a * 65536 + of_char b * 256 + of_char c"
  have n: "n div 65536 = of_char a" "n div 256 mod 256 = of_char b" "n mod 256 = of_char c"
    unfolding n_def by (rule octets(3-5) [OF byte_bound byte_bound])+
  have "n < 16777216" using byte_bound [of a] byte_bound [of b] byte_bound [of c] unfolding n_def by linarith
  then have "n div 262144 < 64" by (intro less_mult_imp_div_less) simp
  then have "RawURLDecode (RawURLEncode (a # b # c # s)) =
      [char_of (n div 65536), char_of (n div 256 mod 256), char_of (n mod 256)] @ RawURLDecode (RawURLEncode s)"
    by (simp only: RawURLEncode.simps Let_def n_def [symmetric] decode_group sextets
        mod_less_divisor zero_less_numeral)
  then show ?case by (simp only: n 4 char_of_char append_Cons append_Nil)
qed simp

lemma big_SetBytes_Bytes: "big_SetBytes (big_Bytes n) = n"
proof (induction n rule: big_Bytes.induct)
  case (1 n)
  then show ?case by (subst big_Bytes.simps) (simp add: big_SetBytes_def)
qed

text \<open>A published modulus or exponent determines the number.\<close>

lemma key_number_roundtrip: "big_SetBytes (RawURLDecode (RawURLEncode (big_Bytes n))) = n"
  by (simp add: RawURLDecode_Encode big_SetBytes_Bytes)

subsection \<open>Forms\<close>

text \<open>\<^verbatim>\<open>url.QueryEscape\<close>, and \<^verbatim>\<open>Values.Encode\<close>, which sorts by key.\<close>

definition unreserved :: "char \<Rightarrow> bool" where
  "unreserved c \<longleftrightarrow> (let n = of_char c :: nat in
     48 \<le> n \<and> n \<le> 57 \<or> 65 \<le> n \<and> n \<le> 90 \<or> 97 \<le> n \<and> n \<le> 122 \<or> n \<in> {45, 46, 95, 126})"

definition upper_hex :: "nat \<Rightarrow> char" where
  "upper_hex n = char_of (if n < 10 then 48 + n else 55 + n)"

definition escape_byte :: "char \<Rightarrow> string" where
  "escape_byte c = (if unreserved c then [c] else if c = CHR '' '' then ''+''
     else [CHR ''%'', upper_hex (of_char c div 16), upper_hex (of_char c mod 16)])"

definition QueryEscape :: "string \<Rightarrow> string" where
  "QueryEscape s = concat (map escape_byte s)"

definition encode_pair :: "string \<times> string \<Rightarrow> string" where
  "encode_pair kv = QueryEscape (fst kv) @ ''='' @ QueryEscape (snd kv)"

definition Values_Encode :: "(string \<times> string) list \<Rightarrow> string" where
  "Values_Encode vs = Join (map encode_pair (sort_key fst vs)) ''&''"

text \<open>The error of \<^verbatim>\<open>url.ParseQuery\<close>: some nonempty piece does not parse.\<close>

definition query_error :: "string \<Rightarrow> bool" where
  "query_error q \<longleftrightarrow> (\<exists>piece \<in> set (split_byte CHR ''&'' q). piece \<noteq> [] \<and> query_pair piece = None)"

lemma unhex_upper [simp]: "n < 16 \<Longrightarrow> unhex (upper_hex n) = Some n"
  by (auto simp: unhex_def upper_hex_def Let_def)

lemma escape_special:
  "CHR ''%'' \<noteq> c \<and> CHR ''+'' \<noteq> c" if "unreserved c"
  using that by (auto simp: unreserved_def)

lemma query_unescape_escape: "query_unescape (QueryEscape s @ t) = map_option ((@) s) (query_unescape t)"
proof (induction s)
  case (Cons c s)
  have "query_unescape (escape_byte c @ u) = map_option (Cons c) (query_unescape u)" for u
  proof (cases "unreserved c \<or> c = CHR '' ''")
    case True
    then show ?thesis using escape_special [of c] by (auto simp: escape_byte_def)
  next
    case False
    have "(of_char c :: nat) div 16 < 16" using byte_bound [of c] by (intro less_mult_imp_div_less) simp
    with False show ?thesis by (simp add: escape_byte_def)
  qed
  with Cons show ?case by (simp add: QueryEscape_def option.map_comp comp_def)
qed (simp add: QueryEscape_def option.map_ident)

lemma upper_hex_plain: "n < 16 \<Longrightarrow> upper_hex n \<notin> {CHR ''&'', CHR ''='', CHR '';''}"
proof -
  assume n: "n < 16"
  then have "(of_char (upper_hex n) :: nat) \<in> {48..70}" "(of_char (upper_hex n) :: nat) \<notin> {58..64}"
    by (auto simp: upper_hex_def)
  then show ?thesis by auto
qed

lemma QueryEscape_plain: "x \<in> set (QueryEscape s) \<Longrightarrow> x \<notin> {CHR ''&'', CHR ''='', CHR '';''}"
proof -
  have "x \<notin> {CHR ''&'', CHR ''='', CHR '';''}" if x: "x \<in> set (escape_byte c)" for c
  proof (cases "unreserved c \<or> c = CHR '' ''")
    case True
    with x show ?thesis by (auto simp: escape_byte_def unreserved_def split: if_splits)
  next
    case False
    have "(of_char c :: nat) div 16 < 16" "(of_char c :: nat) mod 16 < 16"
      using byte_bound [of c] by (simp_all add: less_mult_imp_div_less)
    then show ?thesis using x False upper_hex_plain by (auto simp: escape_byte_def)
  qed
  then show "x \<in> set (QueryEscape s) \<Longrightarrow> x \<notin> {CHR ''&'', CHR ''='', CHR '';''}"
    by (auto simp: QueryEscape_def)
qed

lemma query_pair_encode: "query_pair (encode_pair kv) = Some kv"
proof -
  obtain k v where kv: "kv = (k, v)" by fastforce
  have "cut ''='' (QueryEscape k @ CHR ''='' # QueryEscape v) = Some (QueryEscape k, QueryEscape v)"
    by (rule cut_single) (use QueryEscape_plain in blast)
  moreover have "query_unescape (QueryEscape s) = Some s" for s
    using query_unescape_escape [of s "[]"] by simp
  moreover have "CHR '';'' \<notin> set (encode_pair kv)"
    using QueryEscape_plain by (auto simp: encode_pair_def kv)
  ultimately show ?thesis by (simp add: query_pair_def encode_pair_def kv)
qed

lemma split_byte_plain: "b \<notin> set x \<Longrightarrow> split_byte b x = [x]"
  by (induction x) auto

lemma split_byte_append: "b \<notin> set x \<Longrightarrow> split_byte b (x @ b # s) = x # split_byte b s"
  by (induction x) auto

lemma split_byte_Join:
  assumes "xs \<noteq> []" "\<forall>x \<in> set xs. b \<notin> set x"
  shows "split_byte b (Join xs [b]) = xs"
  using assms
proof (induction xs "[b]" rule: Join.induct)
  case (2 x)
  then show ?case by (simp add: split_byte_plain)
next
  case (3 x y xs)
  then show ?case using split_byte_append [of b x] by simp
qed simp

text \<open>The server reads back the pairs a client encodes, sorted by key, without an error.\<close>

lemma ParseQuery_Encode:
  assumes "vs \<noteq> []"
  shows "ParseQuery (Values_Encode vs) = sort_key fst vs" "\<not> query_error (Values_Encode vs)"
proof -
  let ?vs = "sort_key fst vs"
  have "?vs \<noteq> []" using assms by (metis length_0_conv length_sort)
  moreover have "\<forall>x \<in> set (map encode_pair ?vs). CHR ''&'' \<notin> set x"
    using QueryEscape_plain by (auto simp: encode_pair_def)
  ultimately have s: "split_byte CHR ''&'' (Values_Encode vs) = map encode_pair ?vs"
    unfolding Values_Encode_def by (intro split_byte_Join) simp_all
  have "List.map_filter query_pair (map encode_pair us) = us" for us
    by (induction us) (simp_all add: List.map_filter_def query_pair_encode)
  then show "ParseQuery (Values_Encode vs) = ?vs" by (simp add: ParseQuery_def s)
  show "\<not> query_error (Values_Encode vs)" by (auto simp: query_error_def s query_pair_encode)
qed

end
