(* ===== verification/DevOIDC.thy ===== *)
theory DevOIDC
  imports Go_Encoding Httpx Validators
begin

section \<open>The development OIDC issuer (\<^verbatim>\<open>internal/devoidc\<close>, \<^verbatim>\<open>cmd/devoidc\<close>)\<close>

text \<open>
  An issuer holds a key pair and two clients, one per role, and serves a discovery document, its public
  key and signed tokens. RSA, SHA-256, the PKCS #1 encoding, the JWT library, \<^verbatim>\<open>mime.ParseMediaType\<close>,
  \<^verbatim>\<open>url.Parse\<close> and the rounding of \<^verbatim>\<open>float64\<close> are the parameters \<open>issuer_lib\<close>; \<open>lib_GenerateKey\<close> is the
  key the random source yields, \<open>lib_SignRS256 claims kid key\<close> the signed token. The clock is an argument.
\<close>

record rsa_key =
  rsa_N :: nat
  rsa_E :: nat
  rsa_D :: nat

record issuer_lib =
  lib_url_Parse :: "string \<Rightarrow> go_error option"
  lib_GenerateKey :: "go_error + rsa_key"
  lib_MarshalPKCS1 :: "nat \<Rightarrow> nat \<Rightarrow> string"
  lib_Sum256 :: "string \<Rightarrow> string"
  lib_SignRS256 :: "Claims \<Rightarrow> string \<Rightarrow> rsa_key \<Rightarrow> go_error + string"
  lib_Seconds :: "int \<Rightarrow> int"
  lib_ParseMediaType :: "string \<Rightarrow> go_error + string"
  lib_mux_NotFound :: "HttpRequest \<Rightarrow> int \<times> string \<times> string"

record IssuerConfig =
  di_Addr :: string
  di_IssuerURL :: string
  di_Audience :: string
  di_TokenTTL :: int
  di_EngineerSubject :: string
  di_PlatformAdminSubject :: string

record TokenClaims =
  tc_Subject :: string
  tc_Role :: string
  tc_TTL :: int

record clientDefinition =
  cd_ClientID :: string
  cd_DefaultSubject :: string
  cd_Role :: Role

record TokenIssuer =
  is_cfg :: IssuerConfig
  is_privateKey :: rsa_key
  is_keyID :: string
  is_clients :: "string \<rightharpoonup> clientDefinition"

record tokenResponse =
  tr_AccessToken :: string
  tr_IDToken :: string
  tr_TokenType :: string
  tr_ExpiresIn :: int
  tr_IssuedTokenType :: string

record discoveryDocument =
  dd_Issuer :: string
  dd_JWKSURI :: string
  dd_TokenEndpoint :: string
  dd_GrantTypesSupported :: "string list"
  dd_ResponseTypesSupported :: "string list"
  dd_SubjectTypesSupported :: "string list"
  dd_IDTokenSigningAlgValuesSupported :: "string list"
  dd_TokenEndpointAuthMethodsSupported :: "string list"

record jwk =
  jwk_kty :: string
  jwk_alg :: string
  jwk_use :: string
  jwk_kid :: string
  jwk_n :: string
  jwk_e :: string

datatype issuer_payload =
    DiscoveryPayload discoveryDocument
  | KeysPayload "jwk list"
  | TokenPayload tokenResponse
  | HealthPayload string
  | TextPayload string

record issuer_response =
  ir_Status :: int
  ir_ContentType :: string
  ir_Body :: issuer_payload

subsection \<open>Configuration\<close>

definition DefaultAddr :: string where "DefaultAddr = '':9000''"
definition DefaultIssuerURL :: string where "DefaultIssuerURL = ''http://localhost:9000''"
definition DefaultAudience :: string where "DefaultAudience = ''golden-path-control-plane''"
definition DefaultEngineerSubject :: string where "DefaultEngineerSubject = ''developer@example.com''"
definition DefaultPlatformAdminSubject :: string where
  "DefaultPlatformAdminSubject = ''platform-admin@example.com''"
definition EngineerClientID :: string where "EngineerClientID = ''golden-path-engineer''"
definition PlatformAdminClientID :: string where "PlatformAdminClientID = ''golden-path-platform-admin''"

text \<open>\<^verbatim>\<open>defaultValue\<close> and \<^verbatim>\<open>loadConfig\<close> of \<^verbatim>\<open>cmd/devoidc\<close>.\<close>

definition defaultValue :: "environ \<Rightarrow> string \<Rightarrow> string \<Rightarrow> string" where
  "defaultValue env key fallback = (let v = TrimSpace (env key) in if v = [] then fallback else v)"

definition issuer_loadConfig :: "config_lib \<Rightarrow> environ \<Rightarrow> go_error + IssuerConfig" where
  "issuer_loadConfig lib env =
     (let cfg = \<lparr>di_Addr = defaultValue env ''OIDC_DEV_ADDR'' DefaultAddr,
                 di_IssuerURL = defaultValue env ''OIDC_DEV_ISSUER_URL'' DefaultIssuerURL,
                 di_Audience = defaultValue env ''OIDC_DEV_AUDIENCE'' DefaultAudience,
                 di_TokenTTL = Hour,
                 di_EngineerSubject = defaultValue env ''OIDC_DEV_ENGINEER_SUBJECT'' DefaultEngineerSubject,
                 di_PlatformAdminSubject =
                   defaultValue env ''OIDC_DEV_PLATFORM_ADMIN_SUBJECT'' DefaultPlatformAdminSubject\<rparr>;
          rawTTL = TrimSpace (env ''OIDC_DEV_TOKEN_TTL'')
      in if rawTTL \<noteq> []
         then (case ParseDuration (lib_scale lib) rawTTL of
             Inl err \<Rightarrow> Inl (wrap_prefix ''OIDC_DEV_TOKEN_TTL must be a valid duration: '' err)
           | Inr ttl \<Rightarrow> Inr (cfg\<lparr>di_TokenTTL := ttl\<rparr>))
         else Inr cfg)"

definition defaulted :: "IssuerConfig \<Rightarrow> IssuerConfig" where
  "defaulted cfg =
     (let dflt = (\<lambda>v d. if TrimSpace v = [] then d else v) in
      \<lparr>di_Addr = dflt (di_Addr cfg) DefaultAddr,
       di_IssuerURL = dflt (di_IssuerURL cfg) DefaultIssuerURL,
       di_Audience = dflt (di_Audience cfg) DefaultAudience,
       di_TokenTTL = (if di_TokenTTL cfg \<le> 0 then Hour else di_TokenTTL cfg),
       di_EngineerSubject = dflt (di_EngineerSubject cfg) DefaultEngineerSubject,
       di_PlatformAdminSubject = dflt (di_PlatformAdminSubject cfg) DefaultPlatformAdminSubject\<rparr>)"

definition clients_of :: "IssuerConfig \<Rightarrow> string \<rightharpoonup> clientDefinition" where
  "clients_of cfg =
     [EngineerClientID \<mapsto> \<lparr>cd_ClientID = EngineerClientID, cd_DefaultSubject = di_EngineerSubject cfg,
                           cd_Role = RoleEngineer\<rparr>,
      PlatformAdminClientID \<mapsto> \<lparr>cd_ClientID = PlatformAdminClientID,
                           cd_DefaultSubject = di_PlatformAdminSubject cfg, cd_Role = RolePlatformAdmin\<rparr>]"

text \<open>\<^verbatim>\<open>New\<close>: the key id is the hexadecimal text of the first eight bytes of the key's hash.\<close>

definition NewIssuer :: "issuer_lib \<Rightarrow> IssuerConfig \<Rightarrow> go_error + TokenIssuer" where
  "NewIssuer lib given =
     (let cfg = defaulted given in
      case lib_url_Parse lib (di_IssuerURL cfg) of
        Some err \<Rightarrow> Inl (wrap_prefix ''devoidc: parse issuer url: '' err)
      | None \<Rightarrow>
          (case lib_GenerateKey lib of
             Inl err \<Rightarrow> Inl (wrap_prefix ''devoidc: generate rsa key: '' err)
           | Inr privateKey \<Rightarrow>
               (let keyHash = lib_Sum256 lib (lib_MarshalPKCS1 lib (rsa_N privateKey) (rsa_E privateKey)) in
                Inr \<lparr>is_cfg = cfg, is_privateKey = privateKey, is_keyID = EncodeToString (take 8 keyHash),
                     is_clients = clients_of cfg\<rparr>)))"

subsection \<open>Signing\<close>

definition SignMapClaims :: "issuer_lib \<Rightarrow> TokenIssuer \<Rightarrow> Claims \<Rightarrow> go_error + string" where
  "SignMapClaims lib i claims =
     map_sum (wrap_prefix ''devoidc: sign token: '') id (lib_SignRS256 lib claims (is_keyID i) (is_privateKey i))"

definition SignToken :: "issuer_lib \<Rightarrow> TokenIssuer \<Rightarrow> int \<Rightarrow> TokenClaims \<Rightarrow> go_error + string" where
  "SignToken lib i now claims =
     (let subject = TrimSpace (tc_Subject claims) in
      if subject = [] then Inl (ErrorsNew ''devoidc: subject is required'')
      else let role = TrimSpace (tc_Role claims) in
      if role = [] then Inl (ErrorsNew ''devoidc: role is required'')
      else let ttl = (if tc_TTL claims = 0 then di_TokenTTL (is_cfg i) else tc_TTL claims) in
      SignMapClaims lib i
        \<lparr>cl_Role = role, cl_Subject = subject, cl_Issuer = di_IssuerURL (is_cfg i),
         cl_Audience = [di_Audience (is_cfg i)], cl_ExpiresAt = Some (numeric_date (now + ttl)),
         cl_IssuedAt = Some (numeric_date now), cl_NotBefore = Some (numeric_date (now - Minute))\<rparr>)"

subsection \<open>Forms and responses\<close>

text \<open>
  \<^verbatim>\<open>http.Request.ParseForm\<close>: the fields of a posted form and then those of the query, or an error. A body
  counts only as a posted form, and one of more than ten megabytes is refused.
\<close>

definition parsePostForm :: "issuer_lib \<Rightarrow> HttpRequest \<Rightarrow> go_error + (string \<times> string) list" where
  "parsePostForm lib r =
     (let ct = rq_Header r ''Content-Type'' in
      tryE (lib_ParseMediaType lib (if ct = [] then ''application/octet-stream'' else ct)) (\<lambda>media.
      if media \<noteq> ''application/x-www-form-urlencoded'' then Inr []
      else if 10485760 < length (rq_Body r) then Inl (ErrorsNew ''http: POST too large'')
      else if query_error (rq_Body r) then Inl (LibError ''invalid query'')
      else Inr (ParseQuery (rq_Body r))))"

definition ParseForm :: "issuer_lib \<Rightarrow> HttpRequest \<Rightarrow> go_error + (string \<times> string) list" where
  "ParseForm lib r =
     tryE (if rq_Method r \<in> {''POST'', ''PUT'', ''PATCH''} then parsePostForm lib r else Inr []) (\<lambda>posted.
     if query_error (rq_RawQuery r) then Inl (LibError ''invalid query'')
     else Inr (posted @ ParseQuery (rq_RawQuery r)))"

definition http_Error :: "int \<Rightarrow> string \<Rightarrow> issuer_response" where
  "http_Error status message =
     \<lparr>ir_Status = status, ir_ContentType = ''text/plain; charset=utf-8'',
      ir_Body = TextPayload (message @ [CHR 0x0A])\<rparr>"

definition writeJSON :: "int \<Rightarrow> issuer_payload \<Rightarrow> issuer_response" where
  "writeJSON status payload =
     \<lparr>ir_Status = status, ir_ContentType = ''application/json'', ir_Body = payload\<rparr>"

definition encodeBigInt :: "nat \<Rightarrow> string" where
  "encodeBigInt n = RawURLEncode (big_Bytes n)"

subsection \<open>Handlers\<close>

definition discovery_of :: "TokenIssuer \<Rightarrow> discoveryDocument" where
  "discovery_of i =
     (let url = di_IssuerURL (is_cfg i) in
      \<lparr>dd_Issuer = url, dd_JWKSURI = TrimSuffix url ''/'' @ ''/keys'',
       dd_TokenEndpoint = TrimSuffix url ''/'' @ ''/token'',
       dd_GrantTypesSupported = [''client_credentials''], dd_ResponseTypesSupported = [''token''],
       dd_SubjectTypesSupported = [''public''], dd_IDTokenSigningAlgValuesSupported = [''RS256''],
       dd_TokenEndpointAuthMethodsSupported = [''none'']\<rparr>)"

definition discovery :: "TokenIssuer \<Rightarrow> HttpRequest \<Rightarrow> issuer_response" where
  "discovery i r =
     (if rq_Method r \<noteq> ''GET'' then http_Error 405 ''method not allowed''
      else writeJSON 200 (DiscoveryPayload (discovery_of i)))"

definition public_jwk :: "TokenIssuer \<Rightarrow> jwk" where
  "public_jwk i =
     \<lparr>jwk_kty = ''RSA'', jwk_alg = ''RS256'', jwk_use = ''sig'', jwk_kid = is_keyID i,
      jwk_n = encodeBigInt (rsa_N (is_privateKey i)), jwk_e = encodeBigInt (rsa_E (is_privateKey i))\<rparr>"

definition keys_handler :: "TokenIssuer \<Rightarrow> HttpRequest \<Rightarrow> issuer_response" where
  "keys_handler i r =
     (if rq_Method r \<noteq> ''GET'' then http_Error 405 ''method not allowed''
      else writeJSON 200 (KeysPayload [public_jwk i]))"

definition token_handler :: "issuer_lib \<Rightarrow> TokenIssuer \<Rightarrow> int \<Rightarrow> HttpRequest \<Rightarrow> issuer_response" where
  "token_handler lib i now r =
     (if rq_Method r \<noteq> ''POST'' then http_Error 405 ''method not allowed''
      else case ParseForm lib r of
        Inl err \<Rightarrow> http_Error 400 ''invalid form body''
      | Inr form \<Rightarrow>
          if Values_Get form ''grant_type'' \<noteq> ''client_credentials''
          then http_Error 400 ''unsupported grant_type''
          else (case is_clients i (TrimSpace (Values_Get form ''client_id'')) of
              None \<Rightarrow> http_Error 401 ''invalid client_id''
            | Some client \<Rightarrow>
                (let given = TrimSpace (Values_Get form ''subject'');
                     subject = (if given = [] then cd_DefaultSubject client else given) in
                 case SignToken lib i now \<lparr>tc_Subject = subject, tc_Role = Role_string (cd_Role client),
                        tc_TTL = di_TokenTTL (is_cfg i)\<rparr> of
                   Inl err \<Rightarrow> http_Error 500 ''failed to issue token''
                 | Inr signedToken \<Rightarrow> writeJSON 200 (TokenPayload
                     \<lparr>tr_AccessToken = signedToken, tr_IDToken = signedToken, tr_TokenType = ''Bearer'',
                      tr_ExpiresIn = lib_Seconds lib (di_TokenTTL (is_cfg i)),
                      tr_IssuedTokenType = ''urn:ietf:params:oauth:token-type:id_token''\<rparr>))))"

definition issuer_healthz :: "HttpRequest \<Rightarrow> issuer_response" where
  "issuer_healthz r =
     (if rq_Method r \<noteq> ''GET'' then http_Error 405 ''method not allowed''
      else writeJSON 200 (HealthPayload ''ok''))"

text \<open>
  The four patterns of the \<^verbatim>\<open>ServeMux\<close> match exactly their path; what the multiplexer answers to any other
  (not found, or a redirect to the cleaned path) is a parameter.
\<close>

definition Handler :: "issuer_lib \<Rightarrow> TokenIssuer \<Rightarrow> int \<Rightarrow> HttpRequest \<Rightarrow> issuer_response" where
  "Handler lib i now r =
     (if rq_Path r = ''/.well-known/openid-configuration'' then discovery i r
      else if rq_Path r = ''/keys'' then keys_handler i r
      else if rq_Path r = ''/token'' then token_handler lib i now r
      else if rq_Path r = ''/healthz'' then issuer_healthz r
      else case lib_mux_NotFound lib r of (status, ct, text) \<Rightarrow>
        \<lparr>ir_Status = status, ir_ContentType = ct, ir_Body = TextPayload text\<rparr>)"

subsection \<open>\<^verbatim>\<open>main\<close>\<close>

text \<open>
  The exit status and what goes to the error stream; \<open>served\<close> is the error \<^verbatim>\<open>ListenAndServe\<close> returns on
  the configured address with the issuer's handler, \<open>None\<close> for \<^verbatim>\<open>ErrServerClosed\<close>.
\<close>

definition issuer_main ::
  "config_lib \<Rightarrow> issuer_lib \<Rightarrow> (go_error \<Rightarrow> string) \<Rightarrow> environ \<Rightarrow> (string \<Rightarrow> TokenIssuer \<Rightarrow> go_error option)
    \<Rightarrow> int \<times> string list" where
  "issuer_main lib ilib text_of env served =
     (case issuer_loadConfig lib env of
        Inl err \<Rightarrow> (1, [error_text text_of err])
      | Inr cfg \<Rightarrow>
          (case NewIssuer ilib cfg of
             Inl err \<Rightarrow> (1, [error_text text_of err])
           | Inr issuer \<Rightarrow>
               (case served (di_Addr cfg) issuer of
                  Some err \<Rightarrow> (1, [error_text text_of err])
                | None \<Rightarrow> (0, []))))"

end
