(* ===== verification/Client.thy ===== *)
theory Client
  imports DevOIDC
begin

section \<open>The command line client (\<^verbatim>\<open>cmd/cli\<close>)\<close>

text \<open>
  A command parses its flags, sends at most a few HTTP requests and prints. Its state is the network, of
  any type \<open>'n\<close>, the lines written to the two streams and the requests sent. \<open>cli_lib\<close> holds what
  \<^verbatim>\<open>net/http\<close>, \<^verbatim>\<open>encoding/json\<close>, the file system and the UUID package contribute: \<open>lib_Do\<close> sends a request
  and returns the status, the bytes of the body and the error, if any, that ends them, and \<open>lib_Issue\<close> is the issuance of an HMAC
  token at the present time.
\<close>

record api_request =
  ar_Method :: string
  ar_URL :: string
  ar_Header :: "(string \<times> string) list"
  ar_Body :: "string option"

type_synonym body = "string \<times> go_error option"

record 'n cli_lib =
  lib_NewRequest :: "string \<Rightarrow> string \<Rightarrow> go_error option"
  lib_Do :: "api_request \<Rightarrow> 'n \<Rightarrow> (go_error + int \<times> body) \<times> 'n"
  lib_ReadFile :: "string \<Rightarrow> go_error + string"
  lib_cli_uuid_Parse :: "string \<Rightarrow> go_error + uuid"
  lib_Marshal_candidate :: "DeploymentCandidateInput \<Rightarrow> go_error + string"
  lib_decode_discovery :: "body \<Rightarrow> go_error + string"
  lib_decode_token :: "body \<Rightarrow> go_error + string \<times> string"
  lib_cli_config :: config_lib
  lib_cli_auth :: auth_lib
  lib_cli_Now :: int
  lib_cli_text :: "go_error \<Rightarrow> string"

record 'n terminal =
  tm_network :: 'n
  tm_stdout :: "string list"
  tm_stderr :: "string list"
  tm_sent :: "api_request list"

type_synonym ('n, 'a) cli = "('n terminal, go_error, 'a) io"

definition Println :: "string \<Rightarrow> ('n, unit) cli" where
  "Println text w = (Inr (), w\<lparr>tm_stdout := tm_stdout w @ [text]\<rparr>)"

definition send :: "'n cli_lib \<Rightarrow> api_request \<Rightarrow> ('n, int \<times> body) cli" where
  "send lib req w = (case lib_Do lib req (tm_network w) of
     (r, n) \<Rightarrow> (r, w\<lparr>tm_network := n, tm_sent := tm_sent w @ [req]\<rparr>))"

text \<open>\<^verbatim>\<open>io.ReadAll\<close>.\<close>

definition ReadAll :: "body \<Rightarrow> go_error + string" where
  "ReadAll b = (case b of (bytes, None) \<Rightarrow> Inr bytes | (bytes, Some e) \<Rightarrow> Inl e)"

subsection \<open>\<^verbatim>\<open>flag.FlagSet\<close>\<close>

text \<open>
  A flag set knows for each flag its default text and the check its \<^verbatim>\<open>Set\<close> makes. Parsing consumes
  arguments of the forms \<^verbatim>\<open>-name=value\<close> and \<^verbatim>\<open>-name value\<close>, with one or two dashes, until the first that
  is no flag or until \<^verbatim>\<open>--\<close>. The message of a failed parse, which the flag set also writes to the error
  stream, is the error.
\<close>

type_synonym flag_set = "string \<rightharpoonup> string \<times> (string \<Rightarrow> go_error option)"

definition string_flag :: "string \<Rightarrow> string \<times> (string \<Rightarrow> go_error option)" where
  "string_flag d = (d, \<lambda>_. None)"

definition flag_default :: "flag_set \<Rightarrow> string \<Rightarrow> string" where
  "flag_default fs name = (case fs name of Some (d, check) \<Rightarrow> d | None \<Rightarrow> [])"

definition flag_name :: "string \<Rightarrow> string option" where
  "flag_name s =
     (if length s < 2 \<or> hd s \<noteq> CHR ''-'' then None
      else Some (if s ! 1 = CHR ''-'' then drop 2 s else tl s))"

text \<open>A name is cut at the first \<^verbatim>\<open>=\<close> after its first character.\<close>

definition flag_parts :: "string \<Rightarrow> string \<times> string option" where
  "flag_parts name =
     (case name of [] \<Rightarrow> ([], None)
      | c # rest \<Rightarrow> (case cut ''='' rest of None \<Rightarrow> (name, None) | Some (a, v) \<Rightarrow> (c # a, Some v)))"

definition set_flag ::
  "flag_set \<Rightarrow> string \<Rightarrow> string \<Rightarrow> (string \<Rightarrow> string) \<Rightarrow> go_error + (string \<Rightarrow> string)" where
  "set_flag fs name v values =
     (case fs name of
        None \<Rightarrow> Inl (ErrorsNew (''flag provided but not defined: -'' @ name))
      | Some (d, check) \<Rightarrow> (case check v of
            Some e \<Rightarrow> Inl (LibError (''invalid value '' @ Quote v @ '' for flag -'' @ name))
          | None \<Rightarrow> Inr (values(name := v))))"

fun Parse_args :: "flag_set \<Rightarrow> (string \<Rightarrow> string) \<Rightarrow> string list \<Rightarrow> go_error + (string \<Rightarrow> string)" where
  "Parse_args fs values [] = Inr values"
| "Parse_args fs values (s # args) =
     (if s = ''--'' then Inr values
      else case flag_name s of
        None \<Rightarrow> Inr values
      | Some name \<Rightarrow>
          if name = [] \<or> hd name = CHR ''-'' \<or> hd name = CHR ''=''
          then Inl (ErrorsNew (''bad flag syntax: '' @ s))
          else (case flag_parts name of
              (key, given) \<Rightarrow>
                if fs key = None then
                  (if key = ''help'' \<or> key = ''h'' then Inl (LibError ''flag: help requested'')
                   else Inl (ErrorsNew (''flag provided but not defined: -'' @ key)))
                else (case given of
                    Some v \<Rightarrow> tryE (set_flag fs key v values) (\<lambda>vs. Parse_args fs vs args)
                  | None \<Rightarrow>
                      (case args of
                         [] \<Rightarrow> Inl (ErrorsNew (''flag needs an argument: -'' @ key))
                       | v # rest \<Rightarrow> tryE (set_flag fs key v values) (\<lambda>vs. Parse_args fs vs rest)))))"

definition Flags_Parse :: "flag_set \<Rightarrow> string list \<Rightarrow> go_error + (string \<Rightarrow> string)" where
  "Flags_Parse fs args = Parse_args fs (flag_default fs) args"

subsection \<open>Requests to the API\<close>

definition doRequest :: "'n cli_lib \<Rightarrow> environ \<Rightarrow> string \<Rightarrow> string \<Rightarrow> string option \<Rightarrow> ('n, unit) cli" where
  "doRequest lib env method path body =
     (let given = TrimSuffix (env ''CONTROL_PLANE_API_URL'') ''/'';
          token = TrimSpace (env ''CONTROL_PLANE_TOKEN'');
          baseURL = (if given = [] then ''http://localhost:8080'' else given)
      in if token = [] then errM (ErrorsNew ''CONTROL_PLANE_TOKEN must be set'')
      else case lib_NewRequest lib method (baseURL @ path) of
        Some err \<Rightarrow> errM err
      | None \<Rightarrow>
          tryM (send lib \<lparr>ar_Method = method, ar_URL = baseURL @ path,
              ar_Header = [(''Authorization'', ''Bearer '' @ token), (''Content-Type'', ''application/json''),
                           (''Accept'', ''application/json'')],
              ar_Body = body\<rparr>) (\<lambda>(status, response_body).
          tryM (liftE (ReadAll response_body)) (\<lambda>payload.
          tryM (Println payload) (\<lambda>_.
          if 400 \<le> status then errM (ErrorsNew (''cli: request failed with status '' @ Itoa status))
          else okM ()))))"

definition runRegisterService :: "'n cli_lib \<Rightarrow> environ \<Rightarrow> string list \<Rightarrow> ('n, unit) cli" where
  "runRegisterService lib env args =
     tryM (liftE (Flags_Parse [''file'' \<mapsto> string_flag []] args)) (\<lambda>flags.
     if TrimSpace (flags ''file'') = [] then errM (ErrorsNew ''register-service: --file is required'')
     else tryM (wrapM (wrap_prefix ''register-service: read file: '') (liftE (lib_ReadFile lib (flags ''file'')))) (\<lambda>body.
     doRequest lib env ''POST'' ''/v1/services'' (Some body)))"

definition candidate_flags :: flag_set where
  "candidate_flags =
     [''service-id'' \<mapsto> string_flag [], ''environment'' \<mapsto> string_flag ''production'', ''version'' \<mapsto> string_flag [],
      ''commit-sha'' \<mapsto> string_flag [], ''requested-by'' \<mapsto> string_flag ''developer@example.com'']"

definition runCreateCandidate :: "'n cli_lib \<Rightarrow> environ \<Rightarrow> string list \<Rightarrow> ('n, unit) cli" where
  "runCreateCandidate lib env args =
     tryM (liftE (Flags_Parse candidate_flags args)) (\<lambda>flags.
     tryM (wrapM (wrap_prefix ''create-candidate: invalid service-id: '')
       (liftE (lib_cli_uuid_Parse lib (flags ''service-id'')))) (\<lambda>id.
     tryM (liftE (lib_Marshal_candidate lib
       \<lparr>cin_ServiceID = id, cin_Environment = flags ''environment'', cin_Version = flags ''version'',
        cin_CommitSHA = flags ''commit-sha'', cin_RequestedBy = flags ''requested-by''\<rparr>)) (\<lambda>body.
     doRequest lib env ''POST'' ''/v1/deployment-candidates'' (Some body))))"

text \<open>A path template is cut at its \<^verbatim>\<open>%s\<close>.\<close>

definition Sprintf_path :: "string \<Rightarrow> string \<Rightarrow> string" where
  "Sprintf_path template v = (case cut ''%s'' template of Some (a, b) \<Rightarrow> a @ v @ b | None \<Rightarrow> template)"

definition runGet :: "'n cli_lib \<Rightarrow> environ \<Rightarrow> string list \<Rightarrow> string \<Rightarrow> string \<Rightarrow> ('n, unit) cli" where
  "runGet lib env args pathTemplate idFlag =
     tryM (liftE (Flags_Parse [idFlag \<mapsto> string_flag []] args)) (\<lambda>flags.
     if flags idFlag = [] then errM (ErrorsNew (''get: --'' @ idFlag @ '' is required''))
     else doRequest lib env ''GET'' (Sprintf_path pathTemplate (flags idFlag)) None)"

definition runPostEmpty :: "'n cli_lib \<Rightarrow> environ \<Rightarrow> string list \<Rightarrow> string \<Rightarrow> string \<Rightarrow> ('n, unit) cli" where
  "runPostEmpty lib env args pathTemplate idFlag =
     tryM (liftE (Flags_Parse [idFlag \<mapsto> string_flag []] args)) (\<lambda>flags.
     if flags idFlag = [] then errM (ErrorsNew (''post-empty: --'' @ idFlag @ '' is required''))
     else doRequest lib env ''POST'' (Sprintf_path pathTemplate (flags idFlag)) (Some ''{}''))"

subsection \<open>Tokens\<close>

definition oidcClientIDForRole :: "Role \<Rightarrow> go_error + string" where
  "oidcClientIDForRole r =
     (if r = RoleEngineer then Inr EngineerClientID
      else if r = RolePlatformAdmin then Inr PlatformAdminClientID
      else Inl (ErrorsNew (''cli: unsupported role '' @ Quote (Role_string r))))"

definition get_url :: "string \<Rightarrow> api_request" where
  "get_url url = \<lparr>ar_Method = ''GET'', ar_URL = url, ar_Header = [], ar_Body = None\<rparr>"

text \<open>\<^verbatim>\<open>http.PostForm\<close>.\<close>

definition post_form :: "string \<Rightarrow> (string \<times> string) list \<Rightarrow> api_request" where
  "post_form url form = \<lparr>ar_Method = ''POST'', ar_URL = url,
     ar_Header = [(''Content-Type'', ''application/x-www-form-urlencoded'')], ar_Body = Some (Values_Encode form)\<rparr>"

definition token_form :: "string \<Rightarrow> string \<Rightarrow> (string \<times> string) list" where
  "token_form clientID subject =
     [(''grant_type'', ''client_credentials''), (''client_id'', clientID)]
     @ (if TrimSpace subject \<noteq> [] then [(''subject'', subject)] else [])"

definition issueOIDCToken :: "'n cli_lib \<Rightarrow> AuthConfig \<Rightarrow> string \<Rightarrow> Role \<Rightarrow> ('n, string) cli" where
  "issueOIDCToken lib cfg subject r =
     (let discoveryURL = TrimSuffix (OIDCIssuerURL cfg) ''/'' @ ''/.well-known/openid-configuration'' in
      tryM (wrapM (wrap_prefix ''cli: fetch oidc discovery document: '') (send lib (get_url discoveryURL)))
        (\<lambda>(status, response_body).
      if status \<noteq> 200
      then errM (ErrorsNew (''cli: discovery endpoint returned status '' @ Itoa status))
      else tryM (wrapM (wrap_prefix ''cli: decode oidc discovery document: '')
        (liftE (lib_decode_discovery lib response_body))) (\<lambda>endpoint.
      if TrimSpace endpoint = [] then errM (ErrorsNew ''cli: discovery document did not contain token_endpoint'')
      else tryM (liftE (oidcClientIDForRole r)) (\<lambda>clientID.
      tryM (wrapM (wrap_prefix ''cli: fetch oidc token: '')
        (send lib (post_form endpoint (token_form clientID subject)))) (\<lambda>(token_status, token_body).
      if token_status \<noteq> 200
      then errM (ErrorsNew (''cli: token endpoint returned status '' @ Itoa token_status @ '': '' @
             TrimSpace (fst token_body)))
      else tryM (wrapM (wrap_prefix ''cli: decode oidc token response: '')
        (liftE (lib_decode_token lib token_body))) (\<lambda>(accessToken, idToken).
      if TrimSpace idToken \<noteq> [] then okM idToken
      else if TrimSpace accessToken \<noteq> [] then okM accessToken
      else errM (ErrorsNew ''cli: oidc token response did not include a token'')))))))"

definition token_flags :: "config_lib \<Rightarrow> flag_set" where
  "token_flags lib =
     [''subject'' \<mapsto> string_flag ''developer@example.com'', ''role'' \<mapsto> string_flag ''engineer'',
      ''ttl'' \<mapsto> (Duration_String Hour,
        \<lambda>v. case ParseDuration (lib_scale lib) v of Inl e \<Rightarrow> Some e | Inr d \<Rightarrow> None)]"

definition runToken :: "'n cli_lib \<Rightarrow> environ \<Rightarrow> string list \<Rightarrow> ('n, unit) cli" where
  "runToken lib env args =
     (let conf = lib_cli_config lib in
      tryM (liftE (Flags_Parse (token_flags conf) args)) (\<lambda>flags.
      tryM (liftE (ParseDuration (lib_scale conf) (flags ''ttl''))) (\<lambda>ttl.
      tryM (liftE (LoadTokenIssuerConfig conf env)) (\<lambda>cfg.
      let r = Role_of (flags ''role''); subject = flags ''subject'' in
      if Mode (ti_Auth cfg) = ''hmac'' then
        tryM (liftE (IssueHMACToken (lib_cli_auth lib) (ti_Auth cfg) (lib_cli_Now lib) subject r ttl)) Println
      else if Mode (ti_Auth cfg) = ''oidc'' then
        tryM (issueOIDCToken lib (ti_Auth cfg) subject r) Println
      else errM (ErrorsNew (''unsupported auth mode '' @ Quote (Mode (ti_Auth cfg))))))))"

subsection \<open>\<^verbatim>\<open>main\<close>\<close>

definition usage :: string where
  "usage = ''usage:'' @ [CHR 0x0A] @ concat (map (\<lambda>line. ''  cli '' @ line @ [CHR 0x0A])
     [''token --subject developer@example.com --role engineer'', ''register-service --file ./service.json'',
      ''scorecard --service-id <uuid>'', ''queue-evaluation --service-id <uuid>'',
      ''create-candidate --service-id <uuid> --environment production --version v1.0.0 --commit-sha abc123 --requested-by developer@example.com'']) @
     ''  cli evaluate-candidate --candidate-id <uuid>''"

text \<open>The command an argument names; the result of \<open>cli_main\<close> is the exit status.\<close>

definition cli_command :: "'n cli_lib \<Rightarrow> environ \<Rightarrow> string \<Rightarrow> (string list \<Rightarrow> ('n, unit) cli) option" where
  "cli_command lib env name =
     (if name = ''token'' then Some (runToken lib env)
      else if name = ''register-service'' then Some (runRegisterService lib env)
      else if name = ''scorecard''
      then Some (\<lambda>args. runGet lib env args ''/v1/services/%s/scorecard'' ''service-id'')
      else if name = ''queue-evaluation''
      then Some (\<lambda>args. runPostEmpty lib env args ''/v1/services/%s/evaluations'' ''service-id'')
      else if name = ''create-candidate'' then Some (runCreateCandidate lib env)
      else if name = ''evaluate-candidate''
      then Some (\<lambda>args. runPostEmpty lib env args ''/v1/deployment-candidates/%s/evaluate'' ''candidate-id'')
      else None)"

definition fail :: "'n cli_lib \<Rightarrow> go_error \<Rightarrow> 'n terminal \<Rightarrow> int \<times> 'n terminal" where
  "fail lib err w = (1, w\<lparr>tm_stderr := tm_stderr w @ [error_text (lib_cli_text lib) err]\<rparr>)"

definition cli_main :: "'n cli_lib \<Rightarrow> environ \<Rightarrow> string list \<Rightarrow> 'n terminal \<Rightarrow> int \<times> 'n terminal" where
  "cli_main lib env args w =
     (case args of
        [] \<Rightarrow> (1, w\<lparr>tm_stdout := tm_stdout w @ [usage]\<rparr>)
      | name # rest \<Rightarrow>
          (case cli_command lib env name of
             None \<Rightarrow> (1, w\<lparr>tm_stdout := tm_stdout w @ [usage]\<rparr>)
           | Some command \<Rightarrow>
               (case command rest w of (Inl err, w') \<Rightarrow> fail lib err w' | (Inr u, w') \<Rightarrow> (0, w'))))"

end
