(* ===== verification/Issuing.thy ===== *)
theory Issuing
  imports DevOIDC
begin

section \<open>What an issued token proves\<close>

text \<open>
  The development issuer and the OIDC validator of the API agree: a token the issuer hands out is
  accepted, until it expires, as the role of the client that asked for it. \<open>fetch\<close> is what a \<^verbatim>\<open>GET\<close>
  of a URL returns; \<open>oidc_library\<close> states the documented behaviour of the OIDC library against it.
\<close>

subsection \<open>The OIDC library\<close>

definition well_known :: string where "well_known = ''/.well-known/openid-configuration''"

definition jwk_matches :: "jwk \<Rightarrow> string \<Rightarrow> rsa_key \<Rightarrow> bool" where
  "jwk_matches j kid k \<longleftrightarrow> jwk_kid j = kid \<and> jwk_kty j = ''RSA'' \<and> jwk_alg j = ''RS256'' \<and> jwk_use j = ''sig''
     \<and> big_SetBytes (RawURLDecode (jwk_n j)) = rsa_N k \<and> big_SetBytes (RawURLDecode (jwk_e j)) = rsa_E k"

text \<open>
  \<^verbatim>\<open>NewProvider\<close> reads the discovery document below the issuer's URL and requires it to name that
  issuer; \<^verbatim>\<open>Verify\<close> accepts a token signed with a published key for the verifier's issuer and client
  while it is in force.
\<close>

definition oidc_library :: "auth_lib \<Rightarrow> issuer_lib \<Rightarrow> (string \<Rightarrow> issuer_response option) \<Rightarrow> bool" where
  "oidc_library lib ilib fetch \<longleftrightarrow>
     (\<forall>insecure url d ct. fetch (TrimSuffix url ''/'' @ well_known)
          = Some \<lparr>ir_Status = 200, ir_ContentType = ct, ir_Body = DiscoveryPayload d\<rparr> \<and> dd_Issuer d = url
        \<longrightarrow> lib_NewProvider lib insecure url = Inr (url, dd_JWKSURI d))
   \<and> (\<forall>now v raw c kid k ct js. lib_SignRS256 ilib c kid k = Inr raw
          \<and> fetch (ov_JWKS v) = Some \<lparr>ir_Status = 200, ir_ContentType = ct, ir_Body = KeysPayload js\<rparr>
          \<and> (\<exists>j \<in> set js. jwk_matches j kid k) \<and> cl_Issuer c = ov_Issuer v
          \<and> ov_ClientID v \<in> set (cl_Audience c) \<and> cl_ExpiresAt c \<noteq> None \<and> in_force now c
        \<longrightarrow> lib_Verify lib now v raw
            = Inr (Inr \<lparr>oc_Role = cl_Role c, oc_Sub = cl_Subject c, oc_Iss = cl_Issuer c\<rparr>))"

lemma oidc_discovers:
  assumes "oidc_library lib ilib fetch" "dd_Issuer d = url" "fetch (TrimSuffix url ''/'' @ well_known)
     = Some \<lparr>ir_Status = 200, ir_ContentType = ct, ir_Body = DiscoveryPayload d\<rparr>"
  shows "lib_NewProvider lib insecure url = Inr (url, dd_JWKSURI d)"
  using assms unfolding oidc_library_def by blast

lemma oidc_verifies:
  assumes "oidc_library lib ilib fetch" "lib_SignRS256 ilib c kid k = Inr raw" "jwk_matches j kid k"
    "fetch (ov_JWKS v) = Some \<lparr>ir_Status = 200, ir_ContentType = ct, ir_Body = KeysPayload js\<rparr>"
    "j \<in> set js" "cl_Issuer c = ov_Issuer v" "ov_ClientID v \<in> set (cl_Audience c)"
    "cl_ExpiresAt c \<noteq> None" "in_force now c"
  shows "lib_Verify lib now v raw = Inr (Inr \<lparr>oc_Role = cl_Role c, oc_Sub = cl_Subject c, oc_Iss = cl_Issuer c\<rparr>)"
  using assms unfolding oidc_library_def by blast

text \<open>The issuer answers below its own URL.\<close>

definition get_request :: "string \<Rightarrow> HttpRequest" where
  "get_request path = \<lparr>rq_Method = ''GET'', rq_Path = path, rq_RawQuery = [], rq_Header = (\<lambda>_. []), rq_Body = []\<rparr>"

definition serves :: "issuer_lib \<Rightarrow> TokenIssuer \<Rightarrow> (string \<Rightarrow> issuer_response option) \<Rightarrow> bool" where
  "serves ilib i fetch \<longleftrightarrow> (\<forall>path \<in> {well_known, ''/keys''}. \<forall>now.
     fetch (TrimSuffix (di_IssuerURL (is_cfg i)) ''/'' @ path) = Some (Handler ilib i now (get_request path)))"

text \<open>The API is configured for this issuer: by its key document, or by discovery.\<close>

definition trusts :: "AuthConfig \<Rightarrow> IssuerConfig \<Rightarrow> bool" where
  "trusts cfg icfg \<longleftrightarrow> Mode cfg = ''oidc'' \<and> OIDCIssuerURL cfg = di_IssuerURL icfg \<and> Audience cfg = di_Audience icfg
     \<and> OIDCJWKSURL cfg \<in> {[], TrimSuffix (di_IssuerURL icfg) ''/'' @ ''/keys''}"

subsection \<open>The parts of the issuer\<close>

lemma serves_discovery:
  "serves ilib i fetch \<Longrightarrow> fetch (TrimSuffix (di_IssuerURL (is_cfg i)) ''/'' @ well_known)
     = Some \<lparr>ir_Status = 200, ir_ContentType = ''application/json'', ir_Body = DiscoveryPayload (discovery_of i)\<rparr>"
  by (simp add: serves_def Handler_def well_known_def discovery_def get_request_def writeJSON_def)

lemma serves_keys:
  "serves ilib i fetch \<Longrightarrow> fetch (TrimSuffix (di_IssuerURL (is_cfg i)) ''/'' @ ''/keys'')
     = Some \<lparr>ir_Status = 200, ir_ContentType = ''application/json'', ir_Body = KeysPayload [public_jwk i]\<rparr>"
  by (simp add: serves_def Handler_def well_known_def keys_handler_def get_request_def writeJSON_def)

lemma public_jwk_matches: "jwk_matches (public_jwk i) (is_keyID i) (is_privateKey i)"
  by (simp add: jwk_matches_def public_jwk_def encodeBigInt_def key_number_roundtrip)

text \<open>Under either configuration the API checks the issuer's tokens against the issuer's keys.\<close>

lemma NewValidator_trusting:
  assumes "oidc_library lib ilib fetch" "serves ilib i fetch" "trusts cfg (is_cfg i)"
  shows "NewValidator lib cfg = Inr (oidcValidator
    \<lparr>ov_Issuer = di_IssuerURL (is_cfg i), ov_JWKS = TrimSuffix (di_IssuerURL (is_cfg i)) ''/'' @ ''/keys'',
     ov_ClientID = di_Audience (is_cfg i)\<rparr>)"
proof -
  let ?url = "di_IssuerURL (is_cfg i)"
  have "lib_NewProvider lib insecure ?url = Inr (?url, dd_JWKSURI (discovery_of i))" for insecure
    by (rule oidc_discovers [OF assms(1) _ serves_discovery [OF assms(2)]]) (simp add: discovery_of_def Let_def)
  moreover have "dd_JWKSURI (discovery_of i) = TrimSuffix ?url ''/'' @ ''/keys''"
    by (simp add: discovery_of_def Let_def)
  ultimately show ?thesis
    using assms(3) by (auto simp: trusts_def NewValidator_def newOIDCValidator_def Let_def)
qed

lemma Verify_signed:
  assumes "oidc_library lib ilib fetch" "serves ilib i fetch"
    "lib_SignRS256 ilib c (is_keyID i) (is_privateKey i) = Inr raw"
    "cl_Issuer c = di_IssuerURL (is_cfg i)" "di_Audience (is_cfg i) \<in> set (cl_Audience c)"
    "cl_ExpiresAt c \<noteq> None" "in_force now c"
  shows "lib_Verify lib now
      \<lparr>ov_Issuer = di_IssuerURL (is_cfg i), ov_JWKS = TrimSuffix (di_IssuerURL (is_cfg i)) ''/'' @ ''/keys'',
       ov_ClientID = di_Audience (is_cfg i)\<rparr> raw
    = Inr (Inr \<lparr>oc_Role = cl_Role c, oc_Sub = cl_Subject c, oc_Iss = cl_Issuer c\<rparr>)"
proof -
  have "fetch (ov_JWKS \<lparr>ov_Issuer = di_IssuerURL (is_cfg i),
      ov_JWKS = TrimSuffix (di_IssuerURL (is_cfg i)) ''/'' @ ''/keys'', ov_ClientID = di_Audience (is_cfg i)\<rparr>)
    = Some \<lparr>ir_Status = 200, ir_ContentType = ''application/json'', ir_Body = KeysPayload [public_jwk i]\<rparr>"
    by (simp add: serves_keys [OF assms(2)])
  then show ?thesis
    by (rule oidc_verifies [OF assms(1,3) public_jwk_matches _ _ _ _ assms(6,7)]) (simp_all add: assms(4,5))
qed

text \<open>\<^verbatim>\<open>New\<close> leaves no field of the configuration blank, and its lifetime positive.\<close>

lemma defaulted_filled:
  "TrimSpace (di_IssuerURL (defaulted c)) \<noteq> []" "TrimSpace (di_Audience (defaulted c)) \<noteq> []"
  "0 < di_TokenTTL (defaulted c)"
  "TrimSpace (di_EngineerSubject (defaulted c)) \<noteq> []" "TrimSpace (di_PlatformAdminSubject (defaulted c)) \<noteq> []"
proof -
  have "TrimSpace DefaultIssuerURL \<noteq> []" "TrimSpace DefaultAudience \<noteq> []" "TrimSpace DefaultEngineerSubject \<noteq> []"
    "TrimSpace DefaultPlatformAdminSubject \<noteq> []"
    by code_simp+
  then show "TrimSpace (di_IssuerURL (defaulted c)) \<noteq> []" "TrimSpace (di_Audience (defaulted c)) \<noteq> []"
    "0 < di_TokenTTL (defaulted c)"
    "TrimSpace (di_EngineerSubject (defaulted c)) \<noteq> []" "TrimSpace (di_PlatformAdminSubject (defaulted c)) \<noteq> []"
    by (simp_all add: defaulted_def Let_def)
qed

lemma NewIssuer_Inr:
  assumes "NewIssuer ilib given = Inr i"
  shows "is_cfg i = defaulted given" "is_clients i = clients_of (defaulted given)"
  using assms by (auto simp: NewIssuer_def Let_def split: option.splits sum.splits)

lemma clients_of_Some:
  "clients_of cfg clientID = Some client \<longleftrightarrow>
     clientID = EngineerClientID \<and> client = \<lparr>cd_ClientID = EngineerClientID,
       cd_DefaultSubject = di_EngineerSubject cfg, cd_Role = RoleEngineer\<rparr>
   \<or> clientID = PlatformAdminClientID \<and> client = \<lparr>cd_ClientID = PlatformAdminClientID,
       cd_DefaultSubject = di_PlatformAdminSubject cfg, cd_Role = RolePlatformAdmin\<rparr>"
  by (auto simp: clients_of_def EngineerClientID_def PlatformAdminClientID_def)

lemma role_trimmed: "known_role r \<Longrightarrow> TrimSpace (Role_string r) = Role_string r \<and> Role_string r \<noteq> []"
proof -
  have "TrimSpace ''engineer'' = ''engineer''" "TrimSpace ''platform-admin'' = ''platform-admin''"
    by code_simp+
  then show "known_role r \<Longrightarrow> TrimSpace (Role_string r) = Role_string r \<and> Role_string r \<noteq> []"
    by (auto simp: known_role_def)
qed

subsection \<open>Tokens\<close>

text \<open>A signed token of a known role is accepted as its subject and role until it expires.\<close>

lemma SignToken_accepted:
  assumes lib: "oidc_library lib ilib fetch" "serves ilib i fetch" "trusts cfg (is_cfg i)"
    and url: "TrimSpace (di_IssuerURL (is_cfg i)) \<noteq> []" and role: "known_role r" and ttl: "0 < ttl"
    and sign: "SignToken ilib i now \<lparr>tc_Subject = subject, tc_Role = Role_string r, tc_TTL = ttl\<rparr> = Inr token"
    and time: "now - Minute \<le> later" "later < (now + ttl) div Second * Second"
  shows "\<exists>v. NewValidator lib cfg = Inr v \<and> Validate lib v later token
    = Inr \<lparr>pr_Subject = TrimSpace subject, pr_Role = r, pr_Issuer = di_IssuerURL (is_cfg i)\<rparr>"
proof -
  let ?c = "\<lparr>cl_Role = Role_string r, cl_Subject = TrimSpace subject, cl_Issuer = di_IssuerURL (is_cfg i),
     cl_Audience = [di_Audience (is_cfg i)], cl_ExpiresAt = Some (numeric_date (now + ttl)),
     cl_IssuedAt = Some (numeric_date now), cl_NotBefore = Some (numeric_date (now - Minute))\<rparr>"
  have s: "lib_SignRS256 ilib ?c (is_keyID i) (is_privateKey i) = Inr token" "TrimSpace subject \<noteq> []"
    using sign ttl role_trimmed [OF role]
    by (auto simp: SignToken_def SignMapClaims_def Let_def map_sum_def split: if_splits sum.splits)
  have "(now - Minute) div Second * Second \<le> now - Minute"
    using minus_mod_eq_div_mult [of "now - Minute" Second] by simp
  with time have "in_force later ?c" by (simp add: in_force_def numeric_date_def)
  note verify = Verify_signed [OF lib(1,2) s(1) _ _ _ this, simplified]
  have "di_IssuerURL (is_cfg i) \<noteq> []" using url TrimSpace_Nil by metis
  moreover have "Role_of (Role_string r) = r" using role by (auto simp: known_role_def Role_of_def)
  ultimately show ?thesis
    using s(2) role by (simp add: NewValidator_trusting [OF lib] oidc_Validate_def verify)
qed

subsection \<open>The token endpoint\<close>

text \<open>Whom a token request asks to be: the role is the client's, the subject the given one or the client's.\<close>

definition requested :: "TokenIssuer \<Rightarrow> (string \<times> string) list \<Rightarrow> Principal option" where
  "requested i form =
     map_option (\<lambda>client. \<lparr>pr_Subject = (let given = TrimSpace (Values_Get form ''subject'') in
         if given = [] then TrimSpace (cd_DefaultSubject client) else given),
       pr_Role = cd_Role client, pr_Issuer = di_IssuerURL (is_cfg i)\<rparr>)
     (is_clients i (TrimSpace (Values_Get form ''client_id'')))"

definition token_claims :: "TokenIssuer \<Rightarrow> (string \<times> string) list \<Rightarrow> clientDefinition \<Rightarrow> TokenClaims" where
  "token_claims i form client =
     \<lparr>tc_Subject = (let given = TrimSpace (Values_Get form ''subject'') in
         if given = [] then cd_DefaultSubject client else given),
      tc_Role = Role_string (cd_Role client), tc_TTL = di_TokenTTL (is_cfg i)\<rparr>"

lemma Handler_token:
  "rq_Path r = ''/token'' \<Longrightarrow> Handler lib i now r = token_handler lib i now r"
  by (simp add: Handler_def)

lemma token_handler_200:
  "token_handler lib i now r = \<lparr>ir_Status = status, ir_ContentType = ct, ir_Body = TokenPayload tr\<rparr> \<longleftrightarrow>
     (\<exists>form client token. rq_Method r = ''POST'' \<and> ParseForm lib r = Inr form
        \<and> Values_Get form ''grant_type'' = ''client_credentials''
        \<and> is_clients i (TrimSpace (Values_Get form ''client_id'')) = Some client
        \<and> SignToken lib i now (token_claims i form client) = Inr token
        \<and> status = 200 \<and> ct = ''application/json''
        \<and> tr = \<lparr>tr_AccessToken = token, tr_IDToken = token, tr_TokenType = ''Bearer'',
                tr_ExpiresIn = lib_Seconds lib (di_TokenTTL (is_cfg i)),
                tr_IssuedTokenType = ''urn:ietf:params:oauth:token-type:id_token''\<rparr>)"
  unfolding token_handler_def token_claims_def Let_def http_Error_def writeJSON_def
  by (auto split: sum.splits option.splits if_splits)

lemma Handler_TokenPayload:
  assumes "Handler lib i now r = \<lparr>ir_Status = status, ir_ContentType = ct, ir_Body = TokenPayload tr\<rparr>"
  shows "token_handler lib i now r = \<lparr>ir_Status = status, ir_ContentType = ct, ir_Body = TokenPayload tr\<rparr>"
  using assms unfolding Handler_def discovery_def keys_handler_def issuer_healthz_def http_Error_def writeJSON_def
  by (auto split: if_splits prod.splits)

lemma requested_accepted:
  assumes lib: "oidc_library lib ilib fetch" "serves ilib i fetch" "trusts cfg (is_cfg i)"
    and i: "NewIssuer ilib given = Inr i"
    and client: "is_clients i (TrimSpace (Values_Get form ''client_id'')) = Some client"
    and sign: "SignToken ilib i now (token_claims i form client) = Inr token"
    and time: "now - Minute \<le> later" "later < (now + di_TokenTTL (is_cfg i)) div Second * Second"
  shows "\<exists>v p. NewValidator lib cfg = Inr v \<and> requested i form = Some p \<and> Validate lib v later token = Inr p"
proof -
  note cfg = NewIssuer_Inr [OF i]
  have "known_role (cd_Role client)"
    using client by (auto simp: cfg clients_of_Some known_role_def)
  note accepted = SignToken_accepted [OF lib _ this _ sign [unfolded token_claims_def] time]
  have "\<exists>v. NewValidator lib cfg = Inr v \<and> Validate lib v later token
      = Inr \<lparr>pr_Subject = TrimSpace (let given = TrimSpace (Values_Get form ''subject'') in
         if given = [] then cd_DefaultSubject client else given), pr_Role = cd_Role client,
         pr_Issuer = di_IssuerURL (is_cfg i)\<rparr>"
    by (rule accepted) (simp_all add: cfg defaulted_filled)
  moreover have "TrimSpace (let given = TrimSpace (Values_Get form ''subject'') in
         if given = [] then cd_DefaultSubject client else given)
      = (let given = TrimSpace (Values_Get form ''subject'') in
         if given = [] then TrimSpace (cd_DefaultSubject client) else given)"
    by (simp add: Let_def TrimSpace_idem)
  ultimately show ?thesis by (simp add: requested_def client)
qed

text \<open>
  C25. Every token the development issuer hands out is accepted by the validator of an API configured for
  that issuer, by its key document or by discovery, until the token expires: as the principal the form
  asks for, whose role is that of the client, one of the two, and whose subject is never empty.
\<close>

theorem issued_token_accepted:
  assumes "oidc_library lib ilib fetch" "serves ilib i fetch" "trusts cfg (is_cfg i)"
    and "NewIssuer ilib given = Inr i"
    and "Handler ilib i now r = \<lparr>ir_Status = status, ir_ContentType = ct, ir_Body = TokenPayload tr\<rparr>"
    and "now - Minute \<le> later" "later < (now + di_TokenTTL (is_cfg i)) div Second * Second"
  shows "\<exists>v form p. NewValidator lib cfg = Inr v \<and> ParseForm ilib r = Inr form \<and> requested i form = Some p
    \<and> Validate lib v later (tr_IDToken tr) = Inr p
    \<and> known_role (pr_Role p) \<and> pr_Subject p \<noteq> [] \<and> tr_AccessToken tr = tr_IDToken tr"
proof -
  obtain form client token where t: "ParseForm ilib r = Inr form"
    "is_clients i (TrimSpace (Values_Get form ''client_id'')) = Some client"
    "SignToken ilib i now (token_claims i form client) = Inr token" "tr_IDToken tr = token" "tr_AccessToken tr = token"
    using Handler_TokenPayload [OF assms(5)] by (auto simp: token_handler_200)
  obtain v p where v: "NewValidator lib cfg = Inr v" "requested i form = Some p" "Validate lib v later token = Inr p"
    using requested_accepted [OF assms(1-4) t(2,3) assms(6,7)] by blast
  have "pr_Subject p \<noteq> []"
    using v(2) t(2) by (auto simp: requested_def Let_def NewIssuer_Inr [OF assms(4)] clients_of_Some defaulted_filled
        split: if_splits)
  with v t issued.accepts [OF v(3)] show ?thesis by blast
qed

subsection \<open>A concrete issuer\<close>

definition dev_key :: rsa_key where "dev_key = \<lparr>rsa_N = 3233, rsa_E = 17, rsa_D = 413\<rparr>"

definition dev_config :: IssuerConfig where
  "dev_config = \<lparr>di_Addr = DefaultAddr, di_IssuerURL = DefaultIssuerURL, di_Audience = DefaultAudience,
     di_TokenTTL = Hour, di_EngineerSubject = DefaultEngineerSubject,
     di_PlatformAdminSubject = DefaultPlatformAdminSubject\<rparr>"

definition dev_issuer :: TokenIssuer where
  "dev_issuer = \<lparr>is_cfg = dev_config, is_privateKey = dev_key, is_keyID = ''6162636465666768'',
     is_clients = clients_of dev_config\<rparr>"

definition dev_now :: int where "dev_now = 1700000000 * Second"

definition dev_claims :: Claims where
  "dev_claims = \<lparr>cl_Role = ''engineer'', cl_Subject = ''ann@example.com'', cl_Issuer = DefaultIssuerURL,
     cl_Audience = [DefaultAudience], cl_ExpiresAt = Some 1700003600, cl_IssuedAt = Some 1700000000,
     cl_NotBefore = Some 1699999940\<rparr>"

definition dev_lib :: issuer_lib where
  "dev_lib = \<lparr>lib_url_Parse = (\<lambda>_. None), lib_GenerateKey = Inr dev_key,
     lib_MarshalPKCS1 = (\<lambda>n e. big_Bytes n @ big_Bytes e), lib_Sum256 = (\<lambda>_. ''abcdefghijklmnopqrstuvwxyz012345''),
     lib_SignRS256 = (\<lambda>c kid k. if c = dev_claims \<and> kid = is_keyID dev_issuer \<and> k = dev_key
        then Inr ''d.e.f'' else Inl (LibError ''cannot sign'')),
     lib_Seconds = (\<lambda>d. d div Second), lib_ParseMediaType = (\<lambda>ct. Inr ct),
     lib_mux_NotFound = (\<lambda>r. (404, ''text/plain; charset=utf-8'', ''404 page not found''))\<rparr>"

definition dev_auth_lib :: auth_lib where
  "dev_auth_lib = paper_lib
     \<lparr>lib_NewProvider := \<lambda>insecure url. Inr (url, TrimSuffix url ''/'' @ ''/keys''),
      lib_Verify := \<lambda>now v raw. if raw = ''d.e.f'' \<and> ov_Issuer v = cl_Issuer dev_claims
          \<and> ov_ClientID v \<in> set (cl_Audience dev_claims) \<and> in_force now dev_claims
        then Inr (Inr \<lparr>oc_Role = cl_Role dev_claims, oc_Sub = cl_Subject dev_claims, oc_Iss = cl_Issuer dev_claims\<rparr>)
        else Inl (LibError ''failed to verify'')\<rparr>"

definition dev_fetch :: "string \<Rightarrow> issuer_response option" where
  "dev_fetch url =
     (if url = ''http://localhost:9000'' @ well_known then Some (Handler dev_lib dev_issuer dev_now (get_request well_known))
      else if url = ''http://localhost:9000/keys'' then Some (Handler dev_lib dev_issuer dev_now (get_request ''/keys''))
      else None)"

definition dev_auth_config :: AuthConfig where
  "dev_auth_config = \<lparr>Mode = ''oidc'', Audience = DefaultAudience, Issuer = DefaultIssuerURL, HMACSecret = [],
     OIDCIssuerURL = DefaultIssuerURL, OIDCJWKSURL = []\<rparr>"

definition dev_form :: "(string \<times> string) list" where
  "dev_form = [(''client_id'', EngineerClientID), (''grant_type'', ''client_credentials''),
     (''subject'', ''ann@example.com'')]"

definition dev_request :: HttpRequest where
  "dev_request = \<lparr>rq_Method = ''POST'', rq_Path = ''/token'', rq_RawQuery = [],
     rq_Header = (\<lambda>h. if h = ''Content-Type'' then ''application/x-www-form-urlencoded'' else []),
     rq_Body = Values_Encode dev_form\<rparr>"

definition dev_response :: tokenResponse where
  "dev_response = \<lparr>tr_AccessToken = ''d.e.f'', tr_IDToken = ''d.e.f'', tr_TokenType = ''Bearer'',
     tr_ExpiresIn = 3600, tr_IssuedTokenType = ''urn:ietf:params:oauth:token-type:id_token''\<rparr>"

lemma dev_url: "TrimSuffix DefaultIssuerURL ''/'' = ''http://localhost:9000''"
  by code_simp

lemma dev_serves: "serves dev_lib dev_issuer dev_fetch"
  by (simp add: serves_def dev_fetch_def dev_issuer_def dev_config_def dev_url well_known_def Handler_def
      get_request_def discovery_def keys_handler_def)

lemma dev_new: "NewIssuer dev_lib dev_config = Inr dev_issuer"
proof -
  have "defaulted dev_config = dev_config"
    "EncodeToString (take 8 (lib_Sum256 dev_lib (lib_MarshalPKCS1 dev_lib (rsa_N dev_key) (rsa_E dev_key))))
       = is_keyID dev_issuer"
    by code_simp+
  moreover have "lib_url_Parse dev_lib url = None" "lib_GenerateKey dev_lib = Inr dev_key" for url
    by (simp_all add: dev_lib_def)
  ultimately show ?thesis by (simp add: NewIssuer_def dev_issuer_def)
qed

lemma dev_answers: "Handler dev_lib dev_issuer dev_now dev_request
    = \<lparr>ir_Status = 200, ir_ContentType = ''application/json'', ir_Body = TokenPayload dev_response\<rparr>"
proof -
  have "length (Values_Encode dev_form) < 200" "sort_key fst dev_form = dev_form" "dev_form \<noteq> []"
    "\<not> query_error []" "ParseQuery [] = []"
    by code_simp+
  then have form: "ParseForm dev_lib dev_request = Inr dev_form"
    by (simp add: ParseForm_def parsePostForm_def dev_request_def dev_lib_def ParseQuery_Encode)
  have client: "TrimSpace (Values_Get dev_form ''client_id'') = EngineerClientID"
    "TrimSpace (Values_Get dev_form ''subject'') = ''ann@example.com''"
    "Values_Get dev_form ''grant_type'' = ''client_credentials''" by code_simp+
  have cfg: "is_cfg dev_issuer = dev_config" "is_clients dev_issuer = clients_of dev_config"
    by (simp_all add: dev_issuer_def)
  have found: "clients_of dev_config EngineerClientID = Some \<lparr>cd_ClientID = EngineerClientID,
      cd_DefaultSubject = di_EngineerSubject dev_config, cd_Role = RoleEngineer\<rparr>"
    by (simp add: clients_of_Some)
  have "SignToken dev_lib dev_issuer dev_now
      \<lparr>tc_Subject = ''ann@example.com'', tc_Role = ''engineer'', tc_TTL = Hour\<rparr> = Inr ''d.e.f''"
    by code_simp
  then have sign: "SignToken dev_lib dev_issuer dev_now (token_claims dev_issuer dev_form
      \<lparr>cd_ClientID = EngineerClientID, cd_DefaultSubject = di_EngineerSubject dev_config, cd_Role = RoleEngineer\<rparr>)
      = Inr ''d.e.f''"
    by (simp add: token_claims_def client cfg) (simp add: dev_config_def)
  have "rq_Path dev_request = ''/token''" "rq_Method dev_request = ''POST''"
    by (simp_all add: dev_request_def)
  moreover have "lib_Seconds dev_lib (di_TokenTTL dev_config) = 3600" by code_simp
  ultimately show ?thesis
    using form client sign found by (simp add: Handler_token token_handler_200 cfg dev_response_def)
qed

lemma dev_trusts: "trusts dev_auth_config (is_cfg dev_issuer)"
  by (simp add: trusts_def dev_auth_config_def dev_issuer_def dev_config_def)

lemma dev_library: "oidc_library dev_auth_lib dev_lib dev_fetch"
proof -
  have d: "dd_JWKSURI d = TrimSuffix (dd_Issuer d) ''/'' @ ''/keys''"
    if "dev_fetch url = Some \<lparr>ir_Status = 200, ir_ContentType = ct, ir_Body = DiscoveryPayload d\<rparr>" for url ct d
    using that by (auto simp: dev_fetch_def Handler_def discovery_def keys_handler_def writeJSON_def http_Error_def
        discovery_of_def Let_def get_request_def well_known_def split: if_splits)
  have s: "c = dev_claims \<and> raw = ''d.e.f''" if "lib_SignRS256 dev_lib c kid k = Inr raw" for c kid k raw
    using that by (simp add: dev_lib_def split: if_splits)
  show ?thesis
    unfolding oidc_library_def
  proof (intro conjI allI impI; elim conjE)
    fix insecure url d ct
    assume "dev_fetch (TrimSuffix url ''/'' @ well_known)
        = Some \<lparr>ir_Status = 200, ir_ContentType = ct, ir_Body = DiscoveryPayload d\<rparr>" "dd_Issuer d = url"
    then show "lib_NewProvider dev_auth_lib insecure url = Inr (url, dd_JWKSURI d)"
      using d by (simp add: dev_auth_lib_def)
  next
    fix now raw c kid k ct js and v :: oidc_verifier
    assume "lib_SignRS256 dev_lib c kid k = Inr raw" "cl_Issuer c = ov_Issuer v"
      "ov_ClientID v \<in> set (cl_Audience c)" "in_force now c"
    then show "lib_Verify dev_auth_lib now v raw
        = Inr (Inr \<lparr>oc_Role = cl_Role c, oc_Sub = cl_Subject c, oc_Iss = cl_Issuer c\<rparr>)"
      using s [of c kid k raw] by (simp add: dev_auth_lib_def)
  qed
qed

theorem issued_token_accepted_witness:
  "\<exists>v p. NewValidator dev_auth_lib dev_auth_config = Inr v
     \<and> Validate dev_auth_lib v (dev_now + Second) (tr_IDToken dev_response) = Inr p \<and> known_role (pr_Role p)"
proof -
  have "dev_now - Minute \<le> dev_now + Second"
    "dev_now + Second < (dev_now + di_TokenTTL (is_cfg dev_issuer)) div Second * Second"
    by code_simp+
  from issued_token_accepted [OF dev_library dev_serves dev_trusts dev_new dev_answers this] show ?thesis by blast
qed

end
