(* ===== verification/Commands.thy ===== *)
theory Commands
  imports Client Issuing Loading
begin

section \<open>What a command does\<close>

text \<open>
  A command of the client sends at most one request to the API, with the credentials of its
  environment, and its exit status tells the outcome; \<^verbatim>\<open>token\<close> obtains a token that the API accepts.
\<close>

subsection \<open>API commands\<close>

text \<open>
  \<open>asks lib env m\<close>: run in any state, \<open>m\<close> either fails without touching the network, or sends one request
  that carries the trimmed token of the environment, prints the body of a whole response and succeeds
  exactly when the response is whole and its status is below 400.
\<close>

definition asked :: "'n cli_lib \<Rightarrow> environ \<Rightarrow> api_request \<Rightarrow> 'n terminal \<Rightarrow> (go_error + unit) \<times> 'n terminal \<Rightarrow> bool" where
  "asked lib env req w out \<longleftrightarrow>
     TrimSpace (env ''CONTROL_PLANE_TOKEN'') \<noteq> []
   \<and> map_of (ar_Header req) ''Authorization'' = Some (''Bearer '' @ TrimSpace (env ''CONTROL_PLANE_TOKEN''))
   \<and> tm_sent (snd out) = tm_sent w @ [req]
   \<and> (case lib_Do lib req (tm_network w) of (r, n) \<Rightarrow>
        tm_network (snd out) = n
        \<and> (fst out = Inr () \<longleftrightarrow> (\<exists>status payload. r = Inr (status, payload, None) \<and> status < 400))
        \<and> tm_stdout (snd out) = tm_stdout w @
            (case r of Inr (status, payload, None) \<Rightarrow> [payload] | _ \<Rightarrow> []))"

definition asks :: "'n cli_lib \<Rightarrow> environ \<Rightarrow> ('n, unit) cli \<Rightarrow> bool" where
  "asks lib env m \<longleftrightarrow> (\<forall>w. (\<exists>err. m w = (Inl err, w)) \<or> (\<exists>req. asked lib env req w (m w)))"

named_theorems asks_rules \<open>commands that send at most one authenticated request\<close>

lemma asks_errM [asks_rules]: "asks lib env (errM e)"
  by (simp add: asks_def errM_def)

lemma asks_if [asks_rules]: "(b \<Longrightarrow> asks lib env m) \<Longrightarrow> (\<not> b \<Longrightarrow> asks lib env n) \<Longrightarrow> asks lib env (if b then m else n)"
  by simp

lemma asks_pure [asks_rules]: "(\<And>a. asks lib env (k a)) \<Longrightarrow> asks lib env (tryM (liftE r) k)"
  by (cases r) (auto simp: asks_def liftE_def tryM_def errM_def okM_def)

lemma asks_wrapped [asks_rules]: "(\<And>a. asks lib env (k a)) \<Longrightarrow> asks lib env (tryM (wrapM f (liftE r)) k)"
  by (cases r) (auto simp: asks_def liftE_def tryM_def wrapM_def errM_def okM_def)

lemma asks_doRequest [asks_rules]: "asks lib env (doRequest lib env method path body)"
proof -
  have "(\<exists>err. doRequest lib env method path body w = (Inl err, w))
      \<or> (\<exists>req. asked lib env req w (doRequest lib env method path body w))" for w
  proof (cases "TrimSpace (env ''CONTROL_PLANE_TOKEN'') = [] \<or> lib_NewRequest lib method
      ((if TrimSuffix (env ''CONTROL_PLANE_API_URL'') ''/'' = [] then ''http://localhost:8080''
        else TrimSuffix (env ''CONTROL_PLANE_API_URL'') ''/'') @ path) \<noteq> None")
    case True
    then show ?thesis by (auto simp: doRequest_def Let_def errM_def)
  next
    case False
    define url where "url = (if TrimSuffix (env ''CONTROL_PLANE_API_URL'') ''/'' = [] then ''http://localhost:8080''
        else TrimSuffix (env ''CONTROL_PLANE_API_URL'') ''/'') @ path"
    define req where "req = \<lparr>ar_Method = method, ar_URL = url,
      ar_Header = [(''Authorization'', ''Bearer '' @ TrimSpace (env ''CONTROL_PLANE_TOKEN'')),
        (''Content-Type'', ''application/json''), (''Accept'', ''application/json'')], ar_Body = body\<rparr>"
    have t: "TrimSpace (env ''CONTROL_PLANE_TOKEN'') \<noteq> []" and n: "lib_NewRequest lib method url = None"
      using False unfolding url_def by blast+
    have run: "doRequest lib env method path body =
        tryM (send lib req) (\<lambda>(status, response_body).
        tryM (liftE (ReadAll response_body)) (\<lambda>payload.
        tryM (Println payload) (\<lambda>_.
        if 400 \<le> status then errM (ErrorsNew (''cli: request failed with status '' @ Itoa status)) else okM ())))"
      using t n by (simp add: doRequest_def Let_def url_def [symmetric] req_def)
    obtain r n' where d: "lib_Do lib req (tm_network w) = (r, n')" by fastforce
    have header: "map_of (ar_Header req) ''Authorization'' = Some (''Bearer '' @ TrimSpace (env ''CONTROL_PLANE_TOKEN''))"
      by (simp add: req_def)
    have "asked lib env req w (doRequest lib env method path body w)"
      unfolding asked_def run using t header
      by (cases r) (auto simp: d send_def tryM_def liftE_def ReadAll_def Println_def errM_def okM_def
          split: option.splits sum.splits if_splits)
    then show ?thesis by blast
  qed
  then show ?thesis by (simp add: asks_def)
qed

lemma asks_command:
  "cli_command lib env name = Some m \<Longrightarrow> name \<noteq> ''token'' \<Longrightarrow> asks lib env (m args)"
  unfolding cli_command_def runRegisterService_def runGet_def runPostEmpty_def runCreateCandidate_def
  by (auto split: if_splits intro!: asks_rules)

text \<open>
  C27. Every command but \<^verbatim>\<open>token\<close> sends at most one request. If it sends none it exits with status 1 and
  prints nothing but its usage. If it sends one, the request carries the \<^verbatim>\<open>CONTROL_PLANE_TOKEN\<close> in a
  header from which the server reads back exactly that token; the body of a whole response is printed,
  and the exit status is 0 exactly when the response was whole with a status below 400.
\<close>

theorem cli_request:
  assumes "args = [] \<or> hd args \<noteq> ''token''" "cli_main lib env args w = (code, w')"
  shows "code = 1 \<and> tm_network w' = tm_network w \<and> tm_sent w' = tm_sent w
       \<and> (tm_stdout w' = tm_stdout w \<or> tm_stdout w' = tm_stdout w @ [usage])
    \<or> (\<exists>req header. tm_sent w' = tm_sent w @ [req] \<and> map_of (ar_Header req) ''Authorization'' = Some header
       \<and> ParseBearerToken header = Inr (TrimSpace (env ''CONTROL_PLANE_TOKEN''))
       \<and> (case lib_Do lib req (tm_network w) of (r, n) \<Rightarrow> tm_network w' = n
            \<and> code = (if \<exists>status payload. r = Inr (status, payload, None) \<and> status < 400 then 0 else 1)
            \<and> tm_stdout w' = tm_stdout w @ (case r of Inr (status, payload, None) \<Rightarrow> [payload] | _ \<Rightarrow> [])))"
proof (cases "args = [] \<or> cli_command lib env (hd args) = None")
  case True
  then show ?thesis using assms(2) by (auto simp: cli_main_def split: list.splits)
next
  case False
  then obtain name rest m where m: "args = name # rest" "cli_command lib env name = Some m"
    by (cases args) auto
  then have main: "cli_main lib env args w =
      (case m rest w of (Inl err, v) \<Rightarrow> fail lib err v | (Inr u, v) \<Rightarrow> (0, v))"
    by (simp add: cli_main_def)
  have "asks lib env (m rest)" using asks_command [OF m(2)] assms(1) m(1) by simp
  then consider (none) err where "m rest w = (Inl err, w)" | (one) req where "asked lib env req w (m rest w)"
    unfolding asks_def by blast
  then show ?thesis
  proof cases
    case none
    then show ?thesis using assms(2) by (auto simp: main fail_def)
  next
    case one
    let ?header = "''Bearer '' @ TrimSpace (env ''CONTROL_PLANE_TOKEN'')"
    obtain r n where d: "lib_Do lib req (tm_network w) = (r, n)" by fastforce
    obtain x v where x: "m rest w = (x, v)" by fastforce
    have code: "code = (if x = Inr () then 0 else 1)"
      using assms(2) by (cases x) (auto simp: main x fail_def)
    have kept: "tm_sent w' = tm_sent v" "tm_network w' = tm_network v" "tm_stdout w' = tm_stdout v"
      using assms(2) by (cases x; auto simp: main x fail_def)+
    have "ParseBearerToken ?header = Inr (TrimSpace (env ''CONTROL_PLANE_TOKEN''))"
      using one by (intro ParseBearerToken_roundtrip) (simp_all add: TrimSpace_idem asked_def)
    with one show ?thesis
      by (intro disjI2 exI [of _ req] exI [of _ ?header]) (simp add: asked_def d x code kept)
  qed
qed

definition sample_cli :: "unit cli_lib" where
  "sample_cli = \<lparr>lib_NewRequest = (\<lambda>_ _. None),
     lib_Do = (\<lambda>req n. (Inr (if ar_Method req = ''GET'' then 200 else 404, ''{}'', None), n)),
     lib_ReadFile = (\<lambda>_. Inl (LibError ''no such file'')), lib_cli_uuid_Parse = (\<lambda>_. Inr 7),
     lib_Marshal_candidate = (\<lambda>_. Inr ''{}''), lib_decode_discovery = (\<lambda>_. Inl (LibError ''EOF'')),
     lib_decode_token = (\<lambda>_. Inl (LibError ''EOF'')), lib_cli_config = no_lib, lib_cli_auth = paper_lib,
     lib_cli_Now = 0, lib_cli_text = (\<lambda>_. ''library error'')\<rparr>"

definition sample_cli_env :: environ where
  "sample_cli_env v = (if v = ''CONTROL_PLANE_TOKEN'' then ''a.b.c'' else [])"

definition fresh_terminal :: "'n \<Rightarrow> 'n terminal" where
  "fresh_terminal n = \<lparr>tm_network = n, tm_stdout = [], tm_stderr = [], tm_sent = []\<rparr>"

theorem cli_request_witness:
  "\<exists>(req :: api_request) header. map_of (ar_Header req) ''Authorization'' = Some header \<and> ParseBearerToken header = Inr ''a.b.c''"
proof -
  let ?args = "[''scorecard'', ''--service-id'', ''7'']"
  obtain code w' where run: "cli_main sample_cli sample_cli_env ?args (fresh_terminal ()) = (code, w')"
    by fastforce
  have "fst (cli_main sample_cli sample_cli_env ?args (fresh_terminal ())) = 0" by code_simp
  then have "code = 0" by (simp add: run)
  have token: "TrimSpace (sample_cli_env ''CONTROL_PLANE_TOKEN'') = ''a.b.c''" by code_simp
  have a: "?args = [] \<or> hd ?args \<noteq> ''token''" by simp
  have "\<exists>(req :: api_request) header. map_of (ar_Header req) ''Authorization'' = Some header
      \<and> ParseBearerToken header = Inr (TrimSpace (sample_cli_env ''CONTROL_PLANE_TOKEN''))"
    using cli_request [OF a run] \<open>code = 0\<close> by (elim disjE) (simp, blast)
  then show ?thesis by (simp only: token)
qed

subsection \<open>Signing in with the development issuer\<close>

text \<open>
  The network carries the client's requests to the issuer, and the JSON the issuer writes reads back as
  the fields it wrote. Bodies arrive whole.
\<close>

definition delivered :: "string \<Rightarrow> api_request \<Rightarrow> HttpRequest" where
  "delivered path req =
     \<lparr>rq_Method = ar_Method req, rq_Path = path, rq_RawQuery = [],
      rq_Header = (\<lambda>h. case map_of (ar_Header req) h of Some v \<Rightarrow> v | None \<Rightarrow> []),
      rq_Body = (case ar_Body req of Some b \<Rightarrow> b | None \<Rightarrow> [])\<rparr>"

definition decodes :: "'n cli_lib \<Rightarrow> issuer_payload \<Rightarrow> body \<Rightarrow> bool" where
  "decodes lib payload b \<longleftrightarrow>
     (case payload of
        DiscoveryPayload d \<Rightarrow> lib_decode_discovery lib b = Inr (dd_TokenEndpoint d)
      | TokenPayload t \<Rightarrow> lib_decode_token lib b = Inr (tr_AccessToken t, tr_IDToken t)
      | _ \<Rightarrow> True)"

definition connected :: "'n cli_lib \<Rightarrow> issuer_lib \<Rightarrow> TokenIssuer \<Rightarrow> int \<Rightarrow> bool" where
  "connected lib ilib i now \<longleftrightarrow>
     (\<forall>req n. \<forall>path \<in> {well_known, ''/token''}.
        ar_URL req = TrimSuffix (di_IssuerURL (is_cfg i)) ''/'' @ path \<longrightarrow>
        (\<exists>bytes. lib_Do lib req n = (Inr (ir_Status (Handler ilib i now (delivered path req)), bytes, None), n)
           \<and> decodes lib (ir_Body (Handler ilib i now (delivered path req))) (bytes, None)))"

text \<open>The issuer's key signs, and a signed token has no outer white space, as its compact form is.\<close>

definition signs :: "issuer_lib \<Rightarrow> TokenIssuer \<Rightarrow> bool" where
  "signs ilib i \<longleftrightarrow> (\<forall>c. \<exists>raw. lib_SignRS256 ilib c (is_keyID i) (is_privateKey i) = Inr raw
     \<and> raw \<noteq> [] \<and> TrimSpace raw = raw)"

lemma connected_send:
  assumes "connected lib ilib i now" "path \<in> {well_known, ''/token''}"
    "ar_URL req = TrimSuffix (di_IssuerURL (is_cfg i)) ''/'' @ path"
    "Handler ilib i now (delivered path req) = \<lparr>ir_Status = status, ir_ContentType = ct, ir_Body = payload\<rparr>"
  obtains bytes where "send lib req w = (Inr (status, bytes, None), w\<lparr>tm_sent := tm_sent w @ [req]\<rparr>)"
    "decodes lib payload (bytes, None)"
proof -
  have "\<exists>bytes. lib_Do lib req (tm_network w)
        = (Inr (ir_Status (Handler ilib i now (delivered path req)), bytes, None), tm_network w)
      \<and> decodes lib (ir_Body (Handler ilib i now (delivered path req))) (bytes, None)"
    using assms(1-3) unfolding connected_def by blast
  then obtain bytes where "lib_Do lib req (tm_network w) = (Inr (status, bytes, None), tm_network w)"
    "decodes lib payload (bytes, None)"
    by (auto simp: assms(4))
  then show thesis by (intro that [of bytes]) (simp_all add: send_def)
qed

lemma trim_left_keeps: "c \<in> set s \<Longrightarrow> \<forall>e \<in> set es. c \<notin> set e \<Longrightarrow> c \<in> set (trim_left es s)"
proof (induction es s rule: trim_left.induct)
  case (1 es s)
  show ?case
  proof (cases "strip_one es s")
    case None
    then show ?thesis using 1 by (simp add: trim_left_fixed)
  next
    case (Some r)
    with 1 strip_one_Some [OF Some] have "c \<in> set (trim_left es r)" by auto
    with Some show ?thesis by (simp add: trim_left.simps [of es s])
  qed
qed

lemma TrimSpace_keeps:
  assumes "c \<in> set s" "\<forall>e \<in> set space_encodings. c \<notin> set e"
  shows "c \<in> set (TrimSpace s)"
proof -
  have "c \<in> set (rev (trim_left space_encodings s))"
    using trim_left_keeps [OF assms] by simp
  then have "c \<in> set (trim_left (map rev space_encodings) (rev (trim_left space_encodings s)))"
    by (rule trim_left_keeps) (use assms(2) in simp)
  then show ?thesis by (simp add: TrimSpace_def Let_def)
qed

lemma endpoint_not_blank: "TrimSpace (s @ ''/token'') \<noteq> []"
proof -
  have marker: "\<forall>e \<in> set space_encodings. CHR ''k'' \<notin> set e" by code_simp
  have "CHR ''k'' \<in> set (TrimSpace (s @ ''/token''))"
    by (rule TrimSpace_keeps [OF _ marker]) simp
  then show ?thesis by (metis empty_iff list.set(1))
qed

text \<open>The form the client posts is the one the issuer reads.\<close>

definition posted_form :: "string \<Rightarrow> string \<Rightarrow> (string \<times> string) list" where
  "posted_form clientID subject =
     [(''client_id'', clientID), (''grant_type'', ''client_credentials'')]
     @ (if TrimSpace subject \<noteq> [] then [(''subject'', subject)] else [])"

lemma sort_token_form: "sort_key fst (token_form clientID subject) = posted_form clientID subject"
proof -
  have "''client_id'' < ''grant_type''" "''grant_type'' < ''subject''" "''client_id'' < ''subject''"
    by code_simp+
  then show ?thesis by (simp add: token_form_def posted_form_def)
qed

lemma posted_form_Get:
  "Values_Get (posted_form clientID subject) ''client_id'' = clientID"
  "Values_Get (posted_form clientID subject) ''grant_type'' = ''client_credentials''"
  "TrimSpace (Values_Get (posted_form clientID subject) ''subject'') = TrimSpace subject"
  by (simp_all add: posted_form_def Values_Get_def)

lemma ParseForm_delivered:
  assumes "lib_ParseMediaType ilib ''application/x-www-form-urlencoded'' = Inr ''application/x-www-form-urlencoded''"
    "length (Values_Encode (token_form clientID subject)) \<le> 10485760"
  shows "ParseForm ilib (delivered path (post_form url (token_form clientID subject)))
    = Inr (posted_form clientID subject)"
proof -
  define form where "form = token_form clientID subject"
  have "form \<noteq> []" by (simp add: form_def token_form_def)
  note f = ParseQuery_Encode [OF this]
  have "\<not> query_error []" "ParseQuery [] = []" by code_simp+
  then show ?thesis
    using assms(2) f unfolding form_def [symmetric] sort_token_form [symmetric]
    by (simp add: ParseForm_def parsePostForm_def delivered_def post_form_def assms(1))
qed

text \<open>The subject a role's client stands for.\<close>

definition default_subject :: "IssuerConfig \<Rightarrow> Role \<Rightarrow> string" where
  "default_subject cfg r =
     (if r = RoleEngineer then di_EngineerSubject cfg else di_PlatformAdminSubject cfg)"

text \<open>The principal a token stands for that a caller asked for in a role, with a subject or none.\<close>

definition signed_in :: "TokenIssuer \<Rightarrow> string \<Rightarrow> Role \<Rightarrow> Principal" where
  "signed_in i subject r =
     \<lparr>pr_Subject = (if TrimSpace subject = [] then TrimSpace (default_subject (is_cfg i) r) else TrimSpace subject),
      pr_Role = r, pr_Issuer = di_IssuerURL (is_cfg i)\<rparr>"

lemma requested_posted:
  assumes "known_role r" "oidcClientIDForRole r = Inr clientID" "is_clients i = clients_of (is_cfg i)"
  shows "\<exists>client. is_clients i (TrimSpace clientID) = Some client"
    "requested i (posted_form clientID subject) = Some (signed_in i subject r)"
proof -
  have t: "TrimSpace EngineerClientID = EngineerClientID" "TrimSpace PlatformAdminClientID = PlatformAdminClientID"
    by code_simp+
  have "EngineerClientID \<noteq> PlatformAdminClientID"
    by (simp add: EngineerClientID_def PlatformAdminClientID_def)
  then show "\<exists>client. is_clients i (TrimSpace clientID) = Some client"
    "requested i (posted_form clientID subject) = Some (signed_in i subject r)"
    using assms t
    by (auto simp: known_role_def oidcClientIDForRole_def requested_def posted_form_Get clients_of_def
        default_subject_def signed_in_def Let_def)
qed

lemma SignToken_signs:
  assumes "signs ilib i" "TrimSpace (tc_Subject c) \<noteq> []" "TrimSpace (tc_Role c) \<noteq> []"
  shows "\<exists>token. SignToken ilib i now c = Inr token \<and> token \<noteq> [] \<and> TrimSpace token = token"
proof -
  have "\<exists>token. SignMapClaims ilib i claims = Inr token \<and> token \<noteq> [] \<and> TrimSpace token = token" for claims
    using assms(1) unfolding signs_def SignMapClaims_def by (metis map_sum.simps(2) id_apply)
  with assms(2,3) show ?thesis by (simp add: SignToken_def Let_def)
qed

lemma token_claims_signed:
  assumes "signs ilib i" "NewIssuer ilib given = Inr i" "is_clients i clientID = Some client"
  shows "\<exists>token. SignToken ilib i now (token_claims i form client) = Inr token \<and> token \<noteq> [] \<and> TrimSpace token = token"
proof (rule SignToken_signs [OF assms(1)])
  have client: "cd_Role client = RoleEngineer \<and> cd_DefaultSubject client = di_EngineerSubject (defaulted given)
      \<or> cd_Role client = RolePlatformAdmin \<and> cd_DefaultSubject client = di_PlatformAdminSubject (defaulted given)"
    using assms(3) by (auto simp: NewIssuer_Inr [OF assms(2)] clients_of_Some)
  then show "TrimSpace (tc_Subject (token_claims i form client)) \<noteq> []"
    by (auto simp: token_claims_def Let_def defaulted_filled TrimSpace_idem)
  have "known_role (cd_Role client)" using client by (auto simp: known_role_def)
  from role_trimmed [OF this] show "TrimSpace (tc_Role (token_claims i form client)) \<noteq> []"
    by (simp add: token_claims_def)
qed

lemma issueOIDCToken_run:
  assumes net: "connected lib ilib i now" and key: "signs ilib i" and i: "NewIssuer ilib given = Inr i"
    and form: "lib_ParseMediaType ilib ''application/x-www-form-urlencoded'' = Inr ''application/x-www-form-urlencoded''"
      "length (Values_Encode (token_form clientID subject)) \<le> 10485760"
    and r: "known_role r" "oidcClientIDForRole r = Inr clientID"
    and cfg: "OIDCIssuerURL cfg = di_IssuerURL (is_cfg i)"
  shows "\<exists>token client w'. issueOIDCToken lib cfg subject r w = (Inr token, w') \<and> tm_stdout w' = tm_stdout w
    \<and> tm_stderr w' = tm_stderr w \<and> is_clients i (TrimSpace clientID) = Some client
    \<and> SignToken ilib i now (token_claims i (posted_form clientID subject) client) = Inr token
    \<and> token \<noteq> [] \<and> TrimSpace token = token"
proof -
  let ?url = "TrimSuffix (di_IssuerURL (is_cfg i)) ''/''"
  let ?form = "posted_form clientID subject"
  define discover where "discover = get_url (?url @ well_known)"
  define post where "post = post_form (?url @ ''/token'') (token_form clientID subject)"
  obtain client where client: "is_clients i (TrimSpace clientID) = Some client"
    using requested_posted(1) [OF r, of i] NewIssuer_Inr [OF i] by auto
  obtain token where token: "SignToken ilib i now (token_claims i ?form client) = Inr token" "token \<noteq> []" "TrimSpace token = token"
    using token_claims_signed [OF key i client] by blast
  let ?tr = "\<lparr>tr_AccessToken = token, tr_IDToken = token, tr_TokenType = ''Bearer'',
      tr_ExpiresIn = lib_Seconds ilib (di_TokenTTL (is_cfg i)),
      tr_IssuedTokenType = ''urn:ietf:params:oauth:token-type:id_token''\<rparr>"
  have d: "Handler ilib i now (delivered well_known discover)
      = \<lparr>ir_Status = 200, ir_ContentType = ''application/json'', ir_Body = DiscoveryPayload (discovery_of i)\<rparr>"
    by (simp add: Handler_def delivered_def discover_def get_url_def discovery_def writeJSON_def well_known_def)
  have "token_handler ilib i now (delivered ''/token'' post)
      = \<lparr>ir_Status = 200, ir_ContentType = ''application/json'', ir_Body = TokenPayload ?tr\<rparr>"
    unfolding token_handler_200
    using client token(1) ParseForm_delivered [OF form]
    by (auto simp: post_def delivered_def post_form_def posted_form_Get)
  then have t: "Handler ilib i now (delivered ''/token'' post)
      = \<lparr>ir_Status = 200, ir_ContentType = ''application/json'', ir_Body = TokenPayload ?tr\<rparr>"
    by (simp add: Handler_token delivered_def)
  have url: "ar_URL discover = ?url @ well_known" "ar_URL post = ?url @ ''/token''"
    and path: "well_known \<in> {well_known, ''/token''}" "''/token'' \<in> {well_known, ''/token''}"
    by (simp_all add: discover_def get_url_def post_def post_form_def)
  obtain b where b: "send lib discover w = (Inr (200, b, None), w\<lparr>tm_sent := tm_sent w @ [discover]\<rparr>)"
    "decodes lib (DiscoveryPayload (discovery_of i)) (b, None)"
    by (rule connected_send [OF net path(1) url(1) d])
  let ?w = "w\<lparr>tm_sent := tm_sent w @ [discover]\<rparr>"
  obtain c where c: "send lib post ?w = (Inr (200, c, None), ?w\<lparr>tm_sent := tm_sent ?w @ [post]\<rparr>)"
    "decodes lib (TokenPayload ?tr) (c, None)"
    by (rule connected_send [OF net path(2) url(2) t])
  have endpoint: "dd_TokenEndpoint (discovery_of i) = ?url @ ''/token''" "TrimSpace (?url @ ''/token'') \<noteq> []"
    by (simp add: discovery_of_def Let_def) (rule endpoint_not_blank)
  have "issueOIDCToken lib cfg subject r w = (Inr token, ?w\<lparr>tm_sent := tm_sent ?w @ [post]\<rparr>)"
    using b c token(2,3) endpoint r(2)
    by (simp add: issueOIDCToken_def Let_def cfg decodes_def well_known_def [symmetric] discover_def [symmetric]
        post_def [symmetric] combinator_defs liftE_def)
  with client token show ?thesis by auto
qed

lemma Join_length: "length (Join xs [c]) \<le> sum_list (map (\<lambda>x. Suc (length x)) xs)"
  by (induction xs "[c]" rule: Join.induct) auto

lemma QueryEscape_length: "length (QueryEscape s) \<le> 3 * length s"
proof -
  have "length (escape_byte c) \<le> 3" for c by (simp add: escape_byte_def)
  then have "sum_list (map (length \<circ> escape_byte) s) \<le> 3 * length s"
    by (induction s) (auto intro: add_mono)
  then show ?thesis by (simp add: QueryEscape_def length_concat comp_def)
qed

lemma posted_form_length:
  assumes "length clientID \<le> 100" "length subject \<le> 1000000"
  shows "length (Values_Encode (token_form clientID subject)) \<le> 10485760"
proof -
  let ?size = "\<lambda>kv. Suc (length (encode_pair kv))"
  have size: "?size (k, v) \<le> 2 + 3 * length k + 3 * length v" for k v
    using QueryEscape_length [of k] QueryEscape_length [of v] by (simp add: encode_pair_def)
  have "length (Values_Encode (token_form clientID subject)) \<le> sum_list (map ?size (posted_form clientID subject))"
    using Join_length [of "map encode_pair (posted_form clientID subject)" "CHR ''&''"]
    by (simp add: Values_Encode_def sort_token_form comp_def)
  also have "\<dots> \<le> ?size (''client_id'', clientID) + ?size (''grant_type'', ''client_credentials'') + ?size (''subject'', subject)"
    by (simp add: posted_form_def)
  also have "\<dots> \<le> 10485760"
    using size [of "''client_id''" clientID] size [of "''grant_type''" "''client_credentials''"]
      size [of "''subject''" subject] assms by simp
  finally show ?thesis .
qed

text \<open>A parsed flag holds its default or a text its \<^verbatim>\<open>Set\<close> accepted.\<close>

lemma set_flag_checked:
  assumes "set_flag fs key v vals = Inr vals'" "fs name = Some (d, check)" "check (vals name) = None"
  shows "check (vals' name) = None"
  using assms by (auto simp: set_flag_def split: option.splits prod.splits)

lemma Parse_args_checked:
  assumes "Parse_args fs vals args = Inr vals'" "fs name = Some (d, check)" "check (vals name) = None"
  shows "check (vals' name) = None"
  using assms
proof (induction fs vals args rule: Parse_args.induct)
  case (2 fs vals s args)
  then show ?case
    by (auto simp: res_simps split: if_splits option.splits prod.splits list.splits dest: set_flag_checked)
qed simp

lemma ttl_parses:
  assumes "Flags_Parse (token_flags conf) args = Inr flags"
  shows "\<exists>ttl. ParseDuration (lib_scale conf) (flags ''ttl'') = Inr ttl"
proof -
  have d: "ParseDuration (lib_scale conf) (Duration_String Hour) = Inr Hour"
    by (rule Duration_String_ParseDuration) simp_all
  let ?check = "\<lambda>v. case ParseDuration (lib_scale conf) v of Inl e \<Rightarrow> Some e | Inr d \<Rightarrow> None"
  have ttl: "token_flags conf ''ttl'' = Some (Duration_String Hour, ?check)"
    by (simp add: token_flags_def)
  have "flag_default (token_flags conf) ''ttl'' = Duration_String Hour"
    by (simp add: flag_default_def ttl)
  then have "?check (flags ''ttl'') = None"
    using Parse_args_checked [OF assms [unfolded Flags_Parse_def] ttl] by (simp only: d sum.case)
  then show ?thesis by (simp split: sum.splits)
qed

text \<open>\<^verbatim>\<open>cli token\<close> with an issuer prints what the issuer signed for the form it posted.\<close>

lemma cli_token_run:
  assumes net: "connected lib ilib i now" "signs ilib i" "NewIssuer ilib given = Inr i"
      "lib_ParseMediaType ilib ''application/x-www-form-urlencoded'' = Inr ''application/x-www-form-urlencoded''"
    and auth: "trusts auth (is_cfg i)"
    and cli: "LoadTokenIssuerConfig (lib_cli_config lib) env = Inr \<lparr>ti_Auth = auth\<rparr>"
      "Flags_Parse (token_flags (lib_cli_config lib)) args = Inr flags"
      "known_role (Role_of (flags ''role''))" "length (flags ''subject'') \<le> 1000000"
  obtains token form client w' where "cli_main lib env (''token'' # args) w = (0, w')"
    "tm_stdout w' = tm_stdout w @ [token]" "token \<noteq> []" "TrimSpace token = token"
    "requested i form = Some (signed_in i (flags ''subject'') (Role_of (flags ''role'')))"
    "is_clients i (TrimSpace (Values_Get form ''client_id'')) = Some client"
    "SignToken ilib i now (token_claims i form client) = Inr token"
proof -
  let ?r = "Role_of (flags ''role'')" and ?subject = "flags ''subject''"
  obtain clientID where id: "oidcClientIDForRole ?r = Inr clientID" "length clientID \<le> 100"
    using cli(3) by (auto simp: known_role_def oidcClientIDForRole_def EngineerClientID_def PlatformAdminClientID_def)
  have mode: "Mode auth = ''oidc''" "OIDCIssuerURL auth = di_IssuerURL (is_cfg i)"
    using auth by (simp_all add: trusts_def)
  obtain token client w' where run: "issueOIDCToken lib auth ?subject ?r w = (Inr token, w')"
    "tm_stdout w' = tm_stdout w" "is_clients i (TrimSpace clientID) = Some client"
    "SignToken ilib i now (token_claims i (posted_form clientID ?subject) client) = Inr token"
    "token \<noteq> []" "TrimSpace token = token"
    using issueOIDCToken_run [OF net posted_form_length [OF id(2) cli(4)] cli(3) id(1) mode(2)] by blast
  obtain ttl where ttl: "ParseDuration (lib_scale (lib_cli_config lib)) (flags ''ttl'') = Inr ttl"
    using ttl_parses [OF cli(2)] by blast
  have main: "cli_main lib env (''token'' # args) w = (0, w'\<lparr>tm_stdout := tm_stdout w' @ [token]\<rparr>)"
    using run(1) by (simp add: cli_main_def cli_command_def runToken_def Let_def cli(1,2) ttl mode(1) combinator_defs
        liftE_def Println_def)
  have out: "tm_stdout (w'\<lparr>tm_stdout := tm_stdout w' @ [token]\<rparr>) = tm_stdout w @ [token]"
    by (simp add: run(2))
  have known: "is_clients i (TrimSpace (Values_Get (posted_form clientID ?subject) ''client_id'')) = Some client"
    by (simp only: posted_form_Get run(3))
  have clients: "is_clients i = clients_of (is_cfg i)" by (simp add: NewIssuer_Inr [OF net(3)])
  from that [OF main out run(5,6) requested_posted(2) [OF cli(3) id(1) clients] known run(4)] show thesis .
qed

subsection \<open>A concrete sign-in\<close>

text \<open>A library whose tokens spell out the role and the subject, and a network with the issuer on it.\<close>

definition spell :: "Claims \<Rightarrow> string" where
  "spell c = replicate (length (cl_Role c)) CHR ''r'' @ CHR ''|'' # cl_Role c @ cl_Subject c @ ''.''"

definition read_spelled :: "string \<Rightarrow> string \<times> string" where
  "read_spelled raw = (let n = length (takeWhile (\<lambda>x. x = CHR ''r'') raw); s = butlast (drop (Suc n) raw) in (take n s, drop n s))"

definition plain_lib :: issuer_lib where
  "plain_lib = dev_lib\<lparr>lib_SignRS256 := \<lambda>c kid k. Inr (spell c)\<rparr>"

definition plain_auth_lib :: auth_lib where
  "plain_auth_lib = dev_auth_lib\<lparr>lib_Verify := \<lambda>now v raw.
     Inr (Inr \<lparr>oc_Role = fst (read_spelled raw), oc_Sub = snd (read_spelled raw), oc_Iss = ov_Issuer v\<rparr>)\<rparr>"

definition plain_body :: "issuer_payload \<Rightarrow> string" where
  "plain_body payload = (case payload of TokenPayload t \<Rightarrow> tr_IDToken t | _ \<Rightarrow> [])"

definition dev_answer :: "string \<Rightarrow> api_request \<Rightarrow> go_error + int \<times> body" where
  "dev_answer path req = (let r = Handler plain_lib dev_issuer dev_now (delivered path req) in
     Inr (ir_Status r, plain_body (ir_Body r), None))"

definition dev_cli :: "unit cli_lib" where
  "dev_cli = sample_cli
     \<lparr>lib_Do := \<lambda>req n. (if ar_URL req = ''http://localhost:9000'' @ well_known then dev_answer well_known req
        else if ar_URL req = ''http://localhost:9000/token'' then dev_answer ''/token'' req
        else Inl (LibError ''no such host''), n),
      lib_decode_discovery := \<lambda>b. Inr ''http://localhost:9000/token'',
      lib_decode_token := \<lambda>b. Inr (fst b, fst b)\<rparr>"

definition dev_cli_env :: environ where
  "dev_cli_env v =
     (if v = ''AUTH_MODE'' then ''oidc'' else if v = ''AUTH_AUDIENCE'' then DefaultAudience
      else if v = ''AUTH_OIDC_ISSUER_URL'' then DefaultIssuerURL else [])"

lemma read_spell: "read_spelled (spell c) = (cl_Role c, cl_Subject c)"
proof -
  have "takeWhile (\<lambda>x. x = CHR ''r'') (spell c) = replicate (length (cl_Role c)) CHR ''r''"
    unfolding spell_def by (subst takeWhile_append2) auto
  then show ?thesis by (simp add: read_spelled_def) (simp add: spell_def Let_def butlast_append)
qed

lemma spell_printable: "spell c \<noteq> []" "TrimSpace (spell c) = spell c"
proof -
  show "spell c \<noteq> []" by (simp add: spell_def)
  then show "TrimSpace (spell c) = spell c"
    by (rule printable_trimmed) (cases "cl_Role c"; simp add: spell_def)+
qed

lemma plain_signs: "signs plain_lib dev_issuer"
  by (simp add: signs_def plain_lib_def spell_printable)

lemma plain_serves: "serves plain_lib dev_issuer dev_fetch"
  by (simp add: serves_def dev_fetch_def dev_issuer_def dev_config_def dev_url well_known_def Handler_def
      get_request_def discovery_def keys_handler_def)

lemma plain_new: "NewIssuer plain_lib dev_config = Inr dev_issuer"
proof -
  have "lib_url_Parse plain_lib = lib_url_Parse dev_lib" "lib_GenerateKey plain_lib = lib_GenerateKey dev_lib"
    "lib_Sum256 plain_lib = lib_Sum256 dev_lib" "lib_MarshalPKCS1 plain_lib = lib_MarshalPKCS1 dev_lib"
    by (simp_all add: plain_lib_def)
  then have "NewIssuer plain_lib dev_config = NewIssuer dev_lib dev_config" by (simp only: NewIssuer_def)
  then show ?thesis by (simp only: dev_new)
qed

lemma plain_library: "oidc_library plain_auth_lib plain_lib dev_fetch"
  unfolding oidc_library_def
proof (intro conjI allI impI; elim conjE)
  fix insecure url d ct
  assume "dev_fetch (TrimSuffix url ''/'' @ well_known)
      = Some \<lparr>ir_Status = 200, ir_ContentType = ct, ir_Body = DiscoveryPayload d\<rparr>" "dd_Issuer d = url"
  from oidc_discovers [OF dev_library this(2,1)]
  show "lib_NewProvider plain_auth_lib insecure url = Inr (url, dd_JWKSURI d)"
    by (simp add: plain_auth_lib_def)
next
  fix now raw c kid k ct js and v :: oidc_verifier
  assume "lib_SignRS256 plain_lib c kid k = Inr raw" "cl_Issuer c = ov_Issuer v"
  then show "lib_Verify plain_auth_lib now v raw
      = Inr (Inr \<lparr>oc_Role = cl_Role c, oc_Sub = cl_Subject c, oc_Iss = cl_Issuer c\<rparr>)"
    by (auto simp: plain_auth_lib_def plain_lib_def read_spell)
qed

lemma token_handler_body: "ir_Body (token_handler ilib i now r) \<noteq> DiscoveryPayload d"
  unfolding token_handler_def http_Error_def writeJSON_def Let_def
  by (simp split: sum.split option.split prod.split)

lemma dev_decodes:
  assumes "path \<in> {well_known, ''/token''}"
  shows "decodes dev_cli (ir_Body (Handler plain_lib dev_issuer dev_now (delivered path req)))
    (plain_body (ir_Body (Handler plain_lib dev_issuer dev_now (delivered path req))), None)"
proof -
  define r where "r = Handler plain_lib dev_issuer dev_now (delivered path req)"
  obtain status ct payload where p: "r = \<lparr>ir_Status = status, ir_ContentType = ct, ir_Body = payload\<rparr>"
    by (cases r)
  have token: "tr_AccessToken t = tr_IDToken t" if "payload = TokenPayload t" for t
    using Handler_TokenPayload [of plain_lib dev_issuer dev_now "delivered path req" status ct t] p that
    unfolding r_def by (auto simp: token_handler_200)
  have "dd_TokenEndpoint d = ''http://localhost:9000/token''" if "payload = DiscoveryPayload d" for d
  proof -
    have "ir_Body (token_handler plain_lib dev_issuer dev_now (delivered path req)) \<noteq> DiscoveryPayload d"
      by (rule token_handler_body)
    then have "discovery_of dev_issuer = d"
      using p that assms unfolding r_def Handler_def discovery_def keys_handler_def well_known_def
        issuer_healthz_def http_Error_def writeJSON_def Let_def delivered_def
      by (auto split: if_splits)
    then show ?thesis by (auto simp: discovery_of_def Let_def dev_issuer_def dev_config_def dev_url)
  qed
  with token show ?thesis
    unfolding r_def [symmetric] p
    by (simp add: decodes_def plain_body_def dev_cli_def split: issuer_payload.split)
qed

lemma dev_connected: "connected dev_cli plain_lib dev_issuer dev_now"
  unfolding connected_def
proof (intro allI ballI impI)
  fix req :: api_request and n path
  assume path: "path \<in> {well_known, ''/token''}"
    and url: "ar_URL req = TrimSuffix (di_IssuerURL (is_cfg dev_issuer)) ''/'' @ path"
  have base: "TrimSuffix (di_IssuerURL (is_cfg dev_issuer)) ''/'' = ''http://localhost:9000''"
    by (simp add: dev_issuer_def dev_config_def dev_url)
  have "lib_Do dev_cli req n = (dev_answer path req, n)"
    using path url unfolding base by (auto simp: dev_cli_def well_known_def)
  with dev_decodes [OF path] show "\<exists>bytes. lib_Do dev_cli req n =
        (Inr (ir_Status (Handler plain_lib dev_issuer dev_now (delivered path req)), bytes, None), n)
      \<and> decodes dev_cli (ir_Body (Handler plain_lib dev_issuer dev_now (delivered path req))) (bytes, None)"
    by (auto simp: dev_answer_def Let_def)
qed

end
