(* ===== verification/SignIn.thy ===== *)
theory SignIn
  imports Commands Serving
begin

section \<open>From an issuer to a handler\<close>

text \<open>
  What the HTTP layer needs of whoever hands out tokens: \<open>credentials\<close> extends the contract of a validator
  by the law that an issued token is accepted as the principal it was issued for. It is interpreted on
  the two sources of tokens the program has, HMAC issuance and the development issuer, and gives the
  caller's way through the authentication middleware.
\<close>

locale credentials = validator validate for validate :: "string \<Rightarrow> go_error + Principal" +
  fixes issued :: "string \<Rightarrow> Principal \<Rightarrow> bool"
  assumes issued_accepted: "issued raw p \<Longrightarrow> validate raw = Inr p"
begin

lemma issued_role: "issued raw p \<Longrightarrow> known_role (pr_Role p)"
  using accepts issued_accepted by blast

lemma issued_once: "issued raw p \<Longrightarrow> issued raw q \<Longrightarrow> p = q"
  by (metis issued_accepted sum.inject(2))

lemma passes:
  assumes "issued raw p" "sv_validate s = validate" "TrimSpace raw = raw" "raw \<noteq> []"
    "rq_Header r ''Authorization'' = ''Bearer '' @ raw"
  shows "authMiddleware s handler cx r st = handler (cx\<lparr>cx_Principal := Some p\<rparr>) r st"
  using ParseBearerToken_roundtrip [OF assms(3,4)] assms(1,2,5) issued_accepted
  by (simp add: authMiddleware_def)

lemma authorized:
  assumes "issued raw p" "sv_validate s = validate" "TrimSpace raw = raw" "raw \<noteq> []"
    "rq_Header r ''Authorization'' = ''Bearer '' @ raw" "pr_Role p \<in> set roles"
  shows "protected s roles handler cx r st = handler (cx\<lparr>cx_Principal := Some p\<rparr>) r st"
  using passes [OF assms(1-5)] assms(6)
  by (simp add: protected_def authorize_def principalFromContext_def)

end

subsection \<open>The two sources of tokens\<close>

definition issued_by_secret :: "auth_lib \<Rightarrow> AuthConfig \<Rightarrow> int \<Rightarrow> string \<Rightarrow> Principal \<Rightarrow> bool" where
  "issued_by_secret lib cfg now raw p \<longleftrightarrow> jwt_complete lib
     \<and> (\<exists>at_time ttl. IssueHMACToken lib cfg at_time (pr_Subject p) (pr_Role p) ttl = Inr raw \<and> pr_Issuer p = Issuer cfg
        \<and> at_time - Minute \<le> now \<and> now < (at_time + ttl) div Second * Second)"

definition issued_by_issuer ::
  "auth_lib \<Rightarrow> issuer_lib \<Rightarrow> (string \<Rightarrow> issuer_response option) \<Rightarrow> Validator \<Rightarrow> int \<Rightarrow> string \<Rightarrow> Principal \<Rightarrow> bool" where
  "issued_by_issuer lib ilib fetch v now raw p \<longleftrightarrow> oidc_library lib ilib fetch
     \<and> (\<exists>i given cfg form client at_time. serves ilib i fetch \<and> trusts cfg (is_cfg i) \<and> NewIssuer ilib given = Inr i
        \<and> NewValidator lib cfg = Inr v \<and> requested i form = Some p
        \<and> is_clients i (TrimSpace (Values_Get form ''client_id'')) = Some client
        \<and> SignToken ilib i at_time (token_claims i form client) = Inr raw
        \<and> at_time - Minute \<le> now \<and> now < (at_time + di_TokenTTL (is_cfg i)) div Second * Second)"

interpretation secret: credentials "Validate lib (hmacValidator cfg) now" "issued_by_secret lib cfg now" for lib cfg now
proof
  fix raw p assume "issued_by_secret lib cfg now raw p"
  then show "Validate lib (hmacValidator cfg) now raw = Inr p"
    unfolding issued_by_secret_def using hmac_token_accepted by (metis (full_types) Principal.surjective old.unit.exhaust)
qed

interpretation issuer: credentials "Validate lib v now" "issued_by_issuer lib ilib fetch v now" for lib ilib fetch v now
proof
  fix raw p assume "issued_by_issuer lib ilib fetch v now raw p"
  then obtain i given cfg form client at_time where i: "oidc_library lib ilib fetch" "serves ilib i fetch"
    "trusts cfg (is_cfg i)" "NewIssuer ilib given = Inr i" "NewValidator lib cfg = Inr v" "requested i form = Some p"
    "is_clients i (TrimSpace (Values_Get form ''client_id'')) = Some client"
    "SignToken ilib i at_time (token_claims i form client) = Inr raw"
    "at_time - Minute \<le> now" "now < (at_time + di_TokenTTL (is_cfg i)) div Second * Second"
    unfolding issued_by_issuer_def by blast
  from requested_accepted [OF i(1-4,7-10)] i(5,6) show "Validate lib v now raw = Inr p" by auto
qed

subsection \<open>From the command line to a handler\<close>

text \<open>
  C26. \<^verbatim>\<open>cli token\<close> against the development issuer: for either role and any subject it exits with status
  0 and prints one line, a token that an API configured for the issuer accepts, for the issuer's lifetime
  whatever \<^verbatim>\<open>--ttl\<close> says, as the trimmed subject (or the client's default) in that role; and a request that
  carries the token reaches the handler of every route open to the role, under that principal.
\<close>

theorem cli_signed_in:
  assumes net: "connected lib ilib i now" "signs ilib i" "NewIssuer ilib given = Inr i"
      "lib_ParseMediaType ilib ''application/x-www-form-urlencoded'' = Inr ''application/x-www-form-urlencoded''"
    and api: "oidc_library alib ilib fetch" "serves ilib i fetch" "trusts auth (is_cfg i)"
    and cli: "LoadTokenIssuerConfig (lib_cli_config lib) env = Inr \<lparr>ti_Auth = auth\<rparr>"
      "Flags_Parse (token_flags (lib_cli_config lib)) args = Inr flags"
      "known_role (Role_of (flags ''role''))" "length (flags ''subject'') \<le> 1000000"
    and time: "now - Minute \<le> later" "later < (now + di_TokenTTL (is_cfg i)) div Second * Second"
    and server: "NewValidator alib auth = Inr v" "sv_validate s = Validate alib v later"
  shows "\<exists>token w'. cli_main lib env (''token'' # args) w = (0, w') \<and> tm_stdout w' = tm_stdout w @ [token]
    \<and> Validate alib v later token = Inr (signed_in i (flags ''subject'') (Role_of (flags ''role'')))
    \<and> (\<forall>roles handler cx r st. Role_of (flags ''role'') \<in> set roles
          \<longrightarrow> rq_Header r ''Authorization'' = ''Bearer '' @ token
          \<longrightarrow> protected s roles handler cx r st
              = handler (cx\<lparr>cx_Principal := Some (signed_in i (flags ''subject'') (Role_of (flags ''role'')))\<rparr>) r st)"
proof -
  let ?p = "signed_in i (flags ''subject'') (Role_of (flags ''role''))"
  obtain token form client w' where run: "cli_main lib env (''token'' # args) w = (0, w')"
    "tm_stdout w' = tm_stdout w @ [token]" "token \<noteq> []" "TrimSpace token = token" "requested i form = Some ?p"
    "is_clients i (TrimSpace (Values_Get form ''client_id'')) = Some client"
    "SignToken ilib i now (token_claims i form client) = Inr token"
    by (rule cli_token_run [OF net api(3) cli])
  have issued: "issued_by_issuer alib ilib fetch v later token ?p"
    unfolding issued_by_issuer_def using api net(3) server(1) run(5-7) time by blast
  have "pr_Role ?p = Role_of (flags ''role'')" by (simp add: signed_in_def)
  then show ?thesis
    using run(1,2) issuer.issued_accepted [OF issued] issuer.authorized [OF issued server(2) run(4,3)] by metis
qed

definition sample_api :: "Validator \<Rightarrow> world Server" where
  "sample_api v = (sample_server (NewControlPlane L0 3) (okM ()))\<lparr>sv_validate := Validate plain_auth_lib v (dev_now + Second)\<rparr>"

theorem cli_signed_in_witness:
  "\<exists>token v w'. cli_main dev_cli dev_cli_env [''token'', ''--subject'', ''ann@example.com''] (fresh_terminal ()) = (0, w')
     \<and> tm_stdout w' = [token] \<and> NewValidator plain_auth_lib dev_auth_config = Inr v
     \<and> (\<forall>params cx st. endpoint_handler (sample_api v) RegisterService_ep params cx
            (sample_request ''POST'' ''/v1/services'' token) st
          = registerService (sample_api v) params
              (cx\<lparr>cx_Principal := Some \<lparr>pr_Subject = ''ann@example.com'', pr_Role = RoleEngineer, pr_Issuer = DefaultIssuerURL\<rparr>\<rparr>)
              (sample_request ''POST'' ''/v1/services'' token) st)"
proof -
  let ?args = "[''--subject'', ''ann@example.com'']"
  define flags where "flags = (flag_default (token_flags no_lib))(''subject'' := ''ann@example.com'')"
  have conf: "lib_cli_config dev_cli = no_lib" by (simp add: dev_cli_def sample_cli_def)
  have media: "lib_ParseMediaType plain_lib ''application/x-www-form-urlencoded'' = Inr ''application/x-www-form-urlencoded''"
    by (simp add: plain_lib_def dev_lib_def)
  have load: "LoadTokenIssuerConfig no_lib dev_cli_env = Inr \<lparr>ti_Auth = dev_auth_config\<rparr>"
    by code_simp
  have parse: "Flags_Parse (token_flags no_lib) ?args = Inr flags"
    by (simp add: Flags_Parse_def flag_name_def flag_parts_def set_flag_def flags_def token_flags_def string_flag_def)
  have fields: "flags ''subject'' = ''ann@example.com''" "flags ''role'' = ''engineer''"
    by (simp_all add: flags_def flag_default_def token_flags_def string_flag_def)
  have r: "Role_of ''engineer'' = RoleEngineer" by code_simp
  have small: "known_role (Role_of (flags ''role''))" "length (flags ''subject'') \<le> 1000000"
    by (simp_all add: fields r known_role_def)
  have time: "dev_now - Minute \<le> dev_now + Second"
    "dev_now + Second < (dev_now + di_TokenTTL (is_cfg dev_issuer)) div Second * Second"
    by code_simp+
  obtain v where v: "NewValidator plain_auth_lib dev_auth_config = Inr v"
    using NewValidator_trusting [OF plain_library plain_serves dev_trusts] by blast
  have sv: "sv_validate (sample_api v) = Validate plain_auth_lib v (dev_now + Second)" by (simp add: sample_api_def)
  have "TrimSpace ''ann@example.com'' = ''ann@example.com''" by code_simp
  moreover have "di_IssuerURL (is_cfg dev_issuer) = DefaultIssuerURL" by (simp add: dev_issuer_def dev_config_def)
  ultimately have p: "signed_in dev_issuer (flags ''subject'') (Role_of (flags ''role''))
      = \<lparr>pr_Subject = ''ann@example.com'', pr_Role = RoleEngineer, pr_Issuer = DefaultIssuerURL\<rparr>"
    by (simp add: signed_in_def fields r)
  note run = cli_signed_in [OF dev_connected plain_signs plain_new media plain_library plain_serves dev_trusts
      load [folded conf] parse [folded conf] small time v sv, of "fresh_terminal ()", unfolded p, unfolded fields r]
  have out: "tm_stdout (fresh_terminal ()) = []" by (simp add: fresh_terminal_def)
  from run obtain token w' where t: "cli_main dev_cli dev_cli_env (''token'' # ?args) (fresh_terminal ()) = (0, w')"
    "tm_stdout w' = [token]"
    "\<And>roles handler cx r st. RoleEngineer \<in> set roles \<Longrightarrow> rq_Header r ''Authorization'' = ''Bearer '' @ token
       \<Longrightarrow> protected (sample_api v) roles handler cx r st
         = handler (cx\<lparr>cx_Principal := Some \<lparr>pr_Subject = ''ann@example.com'', pr_Role = RoleEngineer,
             pr_Issuer = DefaultIssuerURL\<rparr>\<rparr>) r st"
    unfolding out append_Nil by blast
  show ?thesis by (intro exI [of _ token] exI [of _ v] exI [of _ w'] conjI allI)
      (simp_all add: t(1,2) v t(3) sample_request_def)
qed

end
