(* ===== verification/Migrations.thy ===== *)
theory Migrations
  imports Go_Strings "HOL-Library.List_Lexorder" "HOL-Library.Char_ord"
begin

section \<open>Schema migrations (\<^verbatim>\<open>internal/migrations\<close>)\<close>

text \<open>
  The migration scripts are embedded files; what a script does to the schema, a value of type \<open>'s\<close>, is
  PostgreSQL's and a parameter, as are the embedded file system and the collation of \<^verbatim>\<open>ORDER BY\<close>. A
  session's world holds the schema, the rows of \<^verbatim>\<open>schema_migrations\<close> (absent before the table is
  created), whether the session holds the advisory lock, how many pooled connections are out, and the
  outcome of every round trip to come: it works, it fails before the server acts, or the server acts
  and the reply is lost.
\<close>

record 's migration_lib =
  mig_ReadDir :: "go_error + (string \<times> bool) list"
  mig_ReadFile :: "string \<Rightarrow> go_error + string"
  mig_exec :: "string \<Rightarrow> 's \<Rightarrow> go_error + 's"
  mig_collate :: "string list \<Rightarrow> string list"

record 's schema =
  sch_state :: 's
  sch_versions :: "string list option"

datatype trip = Works | Fails go_error | Lost go_error

record 's session =
  ses_schema :: "'s schema"
  ses_trips :: "trip stream"
  ses_lock :: bool
  ses_connections :: int

type_synonym ('s, 'a) step = "('s session, go_error, 'a) io"

definition next_round :: "'s session \<Rightarrow> 's session" where
  "next_round w = w\<lparr>ses_trips := stl (ses_trips w)\<rparr>"

text \<open>A statement: \<open>f\<close> is what the server does to the session when it acts.\<close>

definition server :: "('s session \<Rightarrow> go_error + 'a \<times> 's session) \<Rightarrow> ('s, 'a) step" where
  "server f w =
     (let w1 = next_round w in
      case shd (ses_trips w) of
        Works \<Rightarrow> (case f w1 of Inl e \<Rightarrow> (Inl e, w1) | Inr (a, w2) \<Rightarrow> (Inr a, w2))
      | Fails e \<Rightarrow> (Inl e, w1)
      | Lost e \<Rightarrow> (case f w1 of Inl _ \<Rightarrow> (Inl e, w1) | Inr (a, w2) \<Rightarrow> (Inl e, w2)))"

definition query :: "('s schema \<Rightarrow> go_error + 'a) \<Rightarrow> ('s, 'a) step" where
  "query q = server (\<lambda>w. map_sum id (\<lambda>a. (a, w)) (q (ses_schema w)))"

definition exec :: "('s schema \<Rightarrow> go_error + 's schema) \<Rightarrow> ('s, unit) step" where
  "exec stmt = server (\<lambda>w. map_sum id (\<lambda>d. ((), w\<lparr>ses_schema := d\<rparr>)) (stmt (ses_schema w)))"

definition undefined_table :: go_error where
  "undefined_table = PgError ''42P01'' ''''"

subsection \<open>The embedded versions\<close>

definition migrationEntries :: "'s migration_lib \<Rightarrow> go_error + string list" where
  "migrationEntries lib =
     (case mig_ReadDir lib of
        Inl e \<Rightarrow> Inl (wrap_prefix ''migrations: read embedded SQL: '' e)
      | Inr entries \<Rightarrow>
          Inr (sort (map fst (filter (\<lambda>(name, isDir). \<not> isDir \<and> HasSuffix name ''.sql'') entries))))"

text \<open>\<^verbatim>\<open>Versions\<close> panics when the embedded directory cannot be read: \<open>None\<close>.\<close>

definition Versions :: "'s migration_lib \<Rightarrow> string list option" where
  "Versions lib = (case migrationEntries lib of Inl e \<Rightarrow> None | Inr vs \<Rightarrow> Some vs)"

definition CurrentVersion :: "'s migration_lib \<Rightarrow> string option" where
  "CurrentVersion lib = map_option (\<lambda>vs. if vs = [] then [] else last vs) (Versions lib)"

subsection \<open>Apply\<close>

definition migrationApplied :: "string \<Rightarrow> ('s, bool) step" where
  "migrationApplied version =
     wrapM (wrap_prefix (''migrations: check version '' @ version @ '': ''))
       (query (\<lambda>d. case sch_versions d of None \<Rightarrow> Inl undefined_table | Some vs \<Rightarrow> Inr (version \<in> set vs)))"

definition insert_version :: "string \<Rightarrow> 's schema \<Rightarrow> go_error + 's schema" where
  "insert_version version d =
     (case sch_versions d of
        None \<Rightarrow> Inl undefined_table
      | Some vs \<Rightarrow> if version \<in> set vs then Inl (PgError ''23505'' ''schema_migrations_pkey'')
          else Inr (d\<lparr>sch_versions := Some (vs @ [version])\<rparr>))"

text \<open>
  \<^verbatim>\<open>conn.Begin ... tx.Commit\<close>: an error inside rolls back (a round trip whose own error is ignored), a
  commit that fails leaves the schema of before the transaction, a commit whose reply is lost has
  happened.
\<close>

definition in_transaction :: "string \<Rightarrow> ('s, unit) step \<Rightarrow> ('s, unit) step" where
  "in_transaction name body w =
     (case wrapM (wrap_prefix (''migrations: begin transaction for '' @ name @ '': '')) (query (\<lambda>d. Inr ())) w of
        (Inl e, w1) \<Rightarrow> (Inl e, w1)
      | (Inr u, w1) \<Rightarrow>
          (case body w1 of
             (Inl e, w2) \<Rightarrow> (Inl e, (next_round w2)\<lparr>ses_schema := ses_schema w1\<rparr>)
           | (Inr u', w2) \<Rightarrow>
               (case shd (ses_trips w2) of
                  Works \<Rightarrow> (Inr (), next_round w2)
                | Fails e \<Rightarrow> (Inl (wrap_prefix (''migrations: commit '' @ name @ '': '') e),
                              (next_round w2)\<lparr>ses_schema := ses_schema w1\<rparr>)
                | Lost e \<Rightarrow> (Inl (wrap_prefix (''migrations: commit '' @ name @ '': '') e), next_round w2))))"

definition run_script :: "'s migration_lib \<Rightarrow> string \<Rightarrow> 's schema \<Rightarrow> go_error + 's schema" where
  "run_script lib contents d = map_sum id (\<lambda>s. d\<lparr>sch_state := s\<rparr>) (mig_exec lib contents (sch_state d))"

definition apply_migration :: "'s migration_lib \<Rightarrow> string \<Rightarrow> ('s, unit) step" where
  "apply_migration lib name =
     tryM (migrationApplied name) (\<lambda>applied.
     if applied then okM ()
     else (case mig_ReadFile lib (''sql/'' @ name) of
         Inl e \<Rightarrow> errM (wrap_prefix (''migrations: read file '' @ name @ '': '') e)
       | Inr contents \<Rightarrow> in_transaction name
           (tryM (wrapM (wrap_prefix (''migrations: apply '' @ name @ '': '')) (exec (run_script lib contents))) (\<lambda>_.
            wrapM (wrap_prefix (''migrations: record '' @ name @ '': '')) (exec (insert_version name))))))"

fun apply_all :: "'s migration_lib \<Rightarrow> string list \<Rightarrow> ('s, unit) step" where
  "apply_all lib [] = okM ()"
| "apply_all lib (name # names) = tryM (apply_migration lib name) (\<lambda>_. apply_all lib names)"

definition Acquire :: "('s, unit) step" where
  "Acquire = server (\<lambda>w. Inr ((), w\<lparr>ses_connections := ses_connections w + 1\<rparr>))"

text \<open>\<^verbatim>\<open>defer f()\<close>: \<open>f\<close> runs when the rest returns, with or without an error; its own result is dropped.\<close>

definition deferM :: "('s session \<Rightarrow> 's session) \<Rightarrow> ('s, 'a) step \<Rightarrow> ('s, 'a) step" where
  "deferM f m w = (case m w of (r, w') \<Rightarrow> (r, f w'))"

definition Release :: "'s session \<Rightarrow> 's session" where
  "Release w = w\<lparr>ses_connections := ses_connections w - 1\<rparr>"

definition advisory_lock :: "bool \<Rightarrow> ('s, unit) step" where
  "advisory_lock held = server (\<lambda>w. Inr ((), w\<lparr>ses_lock := held\<rparr>))"

definition advisory_unlock :: "'s session \<Rightarrow> 's session" where
  "advisory_unlock w = snd (advisory_lock False w)"

definition create_table :: "'s schema \<Rightarrow> go_error + 's schema" where
  "create_table d = Inr (if sch_versions d = None then d\<lparr>sch_versions := Some []\<rparr> else d)"

text \<open>
  What \<^verbatim>\<open>Apply\<close> does under the advisory lock. The two statements on the schema \<^verbatim>\<open>public\<close> are round trips
  without an effect on the modelled state.
\<close>

definition apply_body :: "'s migration_lib \<Rightarrow> ('s, unit) step" where
  "apply_body lib =
     tryM (wrapM (wrap_prefix ''migrations: ensure public schema: '') (query (\<lambda>d. Inr ()))) (\<lambda>_.
     tryM (wrapM (wrap_prefix ''migrations: set search_path: '') (query (\<lambda>d. Inr ()))) (\<lambda>_.
     tryM (wrapM (wrap_prefix ''migrations: ensure schema_migrations table: '') (exec create_table)) (\<lambda>_.
     case migrationEntries lib of Inl e \<Rightarrow> errM e | Inr entries \<Rightarrow> apply_all lib entries)))"

text \<open>A connection that cannot be acquired is not released.\<close>

definition Apply :: "'s migration_lib \<Rightarrow> ('s, unit) step" where
  "Apply lib w =
     (case Acquire w of
        (Inl e, w1) \<Rightarrow> (Inl (wrap_prefix ''migrations: acquire connection: '' e), w\<lparr>ses_trips := ses_trips w1\<rparr>)
      | (Inr u, w1) \<Rightarrow>
          deferM Release
          (tryM (wrapM (wrap_prefix ''migrations: acquire advisory lock: '') (advisory_lock True)) (\<lambda>_.
           deferM advisory_unlock (apply_body lib))) w1)"

subsection \<open>EnsureCompatible\<close>

definition schemaMigrationsTableExists :: "('s, bool) step" where
  "schemaMigrationsTableExists =
     wrapM (\<lambda>e. case as_PgError e of
         Some (code, _) \<Rightarrow> if code = ''3D000'' then Wrapf [] ErrSchemaUninitialized '': database does not exist''
           else wrap_prefix ''migrations: check schema_migrations table: '' e
       | None \<Rightarrow> wrap_prefix ''migrations: check schema_migrations table: '' e)
       (query (\<lambda>d. Inr (sch_versions d \<noteq> None)))"

definition AppliedVersions :: "'s migration_lib \<Rightarrow> ('s, string list) step" where
  "AppliedVersions lib w =
     (case Acquire w of
        (Inl e, w1) \<Rightarrow> (Inl (wrap_prefix ''migrations: acquire connection: '' e), w\<lparr>ses_trips := ses_trips w1\<rparr>)
      | (Inr u, w1) \<Rightarrow>
          deferM Release
          (tryM schemaMigrationsTableExists (\<lambda>exists.
           if \<not> exists
           then errM (Wrapf [] ErrSchemaUninitialized '': run cmd/migrate before starting the runtime'')
           else tryM (wrapM (wrap_prefix ''migrations: list applied versions: '')
               (query (\<lambda>d. case sch_versions d of None \<Rightarrow> Inl undefined_table | Some vs \<Rightarrow> Inr (mig_collate lib vs)))) (\<lambda>versions.
             tryM (wrapM (wrap_prefix ''migrations: iterate applied versions: '') (query (\<lambda>d. Inr ()))) (\<lambda>_.
             okM versions)))) w1)"

text \<open>The comparison of the two sets: the first unknown version, then the missing ones.\<close>

definition compare_versions :: "string list \<Rightarrow> string \<Rightarrow> string list \<Rightarrow> go_error option" where
  "compare_versions expected current applied =
     (case find (\<lambda>v. v \<notin> set expected) applied of
        Some version \<Rightarrow> Some (Wrapf [] ErrSchemaAhead
          ('': database contains unknown migration version '' @ version @ '' while binary expects up to '' @ current))
      | None \<Rightarrow>
          (let missing = filter (\<lambda>v. v \<notin> set applied) expected in
           if missing \<noteq> []
           then Some (Wrapf [] ErrSchemaBehind ('': missing versions '' @ Join missing '', '' @ ''; run cmd/migrate''))
           else None))"

text \<open>The inner \<open>None\<close> of the value is the panic of \<^verbatim>\<open>Versions\<close>.\<close>

definition EnsureCompatible :: "'s migration_lib \<Rightarrow> ('s, unit option) step" where
  "EnsureCompatible lib =
     tryM (AppliedVersions lib) (\<lambda>applied.
     case (Versions lib, CurrentVersion lib) of
       (Some expected, Some current) \<Rightarrow>
         (case compare_versions expected current applied of Some e \<Rightarrow> errM e | None \<Rightarrow> okM (Some ()))
     | _ \<Rightarrow> okM None)"

end
