(* ===== verification/Runtime.thy ===== *)
theory Runtime
  imports Server System Migrations
begin

section \<open>Process wiring (\<^verbatim>\<open>internal/app/runtime.go\<close>, \<^verbatim>\<open>internal/postgres/postgres.go\<close>,
  \<^verbatim>\<open>internal/observability\<close>, \<^verbatim>\<open>cmd/worker\<close>, \<^verbatim>\<open>cmd/migrate\<close>)\<close>

text \<open>
  What a process sets up before it serves and gives back when it ends. A host holds the database as the
  migrations see it and as the store sees it, how many connection pools the process has open, the tracer
  providers it has started and not shut down, and what it has written. \<open>runtime_lib\<close> holds the pgx pool,
  the Prometheus registry and the OpenTelemetry exporter: a call that may fail is its error, if any.
\<close>

subsection \<open>State\<close>

datatype collector =
    GoCollector | ProcessCollector
  | CounterVec string string "string list"
  | HistogramVec string string "string list"

record Metrics =
  Registry :: "collector list"
  HTTPRequestsTotal :: collector
  HTTPRequestLatency :: collector
  WorkerJobsTotal :: collector

record tracer =
  tp_ServiceName :: string
  tp_Endpoint :: "string option"

record pool_config =
  pc_URL :: string
  pc_MaxConns :: "32 word"
  pc_MinConns :: "32 word"
  pc_MaxConnLifetime :: int
  pc_MaxConnIdleTime :: int

datatype runtime_log =
    RuntimeBootstrapped any_value
  | ApiListening string | ApiServerFailed string
  | WorkerStarted | WorkerFailed string | WorkerLogged worker_log
  | MigrationsApplied "string option"

record 's runtime_lib =
  rl_config :: config_lib
  rl_migrations :: "'s migration_lib"
  rl_auth :: auth_lib
  rl_libraries :: libraries
  rl_Register :: "collector list \<Rightarrow> collector \<Rightarrow> go_error option"
  rl_NewResource :: "string \<Rightarrow> go_error option"
  rl_NewExporter :: "string \<Rightarrow> go_error option"
  rl_ShutdownTracer :: "tracer \<Rightarrow> go_error option"
  rl_ParseConfig :: "string \<Rightarrow> go_error + pool_config"
  rl_NewWithConfig :: "pool_config \<Rightarrow> go_error option"
  rl_Ping :: "pool_config \<Rightarrow> go_error option"
  rl_text :: "go_error \<Rightarrow> string"

record 's host =
  host_session :: "'s session"
  host_store :: world
  host_pools :: int
  host_tracers :: "tracer list"
  host_log :: "runtime_log list"
  host_stderr :: "string list"
  host_jobs_total :: "(string \<times> string) list"

type_synonym ('s, 'a) host_io = "('s host, go_error, 'a) io"

text \<open>A library call that returns only an error.\<close>

definition callM :: "go_error option \<Rightarrow> ('s, unit) host_io" where
  "callM r = (case r of Some e \<Rightarrow> errM e | None \<Rightarrow> okM ())"

definition modify :: "('s host \<Rightarrow> 's host) \<Rightarrow> 's host \<Rightarrow> unit \<times> 's host" where
  "modify f w = ((), f w)"

definition in_session :: "('s, 'a) step \<Rightarrow> ('s, 'a) host_io" where
  "in_session m w = (case m (host_session w) of (r, s) \<Rightarrow> (r, w\<lparr>host_session := s\<rparr>))"

subsection \<open>Logging, metrics and tracing\<close>

text \<open>
  \<^verbatim>\<open>slog.Level.UnmarshalText\<close>: a level name, upper-cased, with an optional signed offset, added at 64 bits.
\<close>

fun split_sign :: "string \<Rightarrow> string \<times> string" where
  "split_sign [] = ([], [])"
| "split_sign (c # s) =
     (if c = CHR ''+'' \<or> c = CHR ''-'' then ([], c # s) else (case split_sign s of (a, b) \<Rightarrow> (c # a, b)))"

definition level_named :: "string \<Rightarrow> int option" where
  "level_named name =
     (if name = ''DEBUG'' then Some (- 4) else if name = ''INFO'' then Some 0
      else if name = ''WARN'' then Some 4 else if name = ''ERROR'' then Some 8 else None)"

definition UnmarshalLevel :: "(string \<Rightarrow> string) \<Rightarrow> string \<Rightarrow> go_error + int" where
  "UnmarshalLevel unicode s =
     (let (name, offset) = split_sign s; bad = (\<lambda>e. wrap_prefix (''slog: level string '' @ Quote s @ '': '') e) in
      case (if offset = [] then Inr 0 else Atoi offset) of
        Inl e \<Rightarrow> Inl (bad e)
      | Inr n \<Rightarrow>
          (case level_named (ToUpper unicode name) of
             None \<Rightarrow> Inl (bad (ErrorsNew ''unknown name''))
           | Some level \<Rightarrow> Inr (sint (word_of_int (level + n) :: 64 word))))"

definition NewLogger :: "config_lib \<Rightarrow> string \<Rightarrow> go_error + int" where
  "NewLogger lib level =
     map_sum (wrap_prefix ''observability: parse log level: '') id
       (UnmarshalLevel (lib_ToUpper lib) (ToLower (lib_ToLower lib) level))"

text \<open>\<^verbatim>\<open>logger.Info\<close> and \<^verbatim>\<open>logger.Error\<close>, at levels 0 and 8.\<close>

definition log_at :: "int \<Rightarrow> int \<Rightarrow> runtime_log \<Rightarrow> 's host \<Rightarrow> 's host" where
  "log_at logger level entry w = (if logger \<le> level then w\<lparr>host_log := host_log w @ [entry]\<rparr> else w)"

definition Register_all :: "'s runtime_lib \<Rightarrow> collector list \<Rightarrow> go_error + collector list" where
  "Register_all lib cs = foldl (\<lambda>r c. tryE r (\<lambda>registry.
     case rl_Register lib registry c of Some e \<Rightarrow> Inl e | None \<Rightarrow> Inr (registry @ [c]))) (Inr []) cs"

definition NewMetrics :: "'s runtime_lib \<Rightarrow> string \<Rightarrow> go_error + Metrics" where
  "NewMetrics lib namespace =
     (let total = CounterVec namespace ''http_requests_total'' [''route'', ''method'', ''status''];
          latency = HistogramVec namespace ''http_request_duration_seconds'' [''route'', ''method''];
          jobs = CounterVec namespace ''worker_jobs_total'' [''type'', ''status'']
      in tryE (Register_all lib [GoCollector, ProcessCollector, total, latency, jobs]) (\<lambda>registry.
         Inr \<lparr>Registry = registry, HTTPRequestsTotal = total, HTTPRequestLatency = latency, WorkerJobsTotal = jobs\<rparr>))"

definition SetupTracing :: "'s runtime_lib \<Rightarrow> ObservabilityConfig \<Rightarrow> ('s, tracer) host_io" where
  "SetupTracing lib cfg =
     tryM (wrapM (wrap_prefix ''observability: create resource: '') (callM (rl_NewResource lib (ServiceName cfg)))) (\<lambda>_.
     let install = (\<lambda>p. letM (modify (\<lambda>w. w\<lparr>host_tracers := host_tracers w @ [p]\<rparr>)) (\<lambda>_. okM p));
         endpoint = TrimSpace (OTLPEndpoint cfg) in
     if endpoint = [] then install \<lparr>tp_ServiceName = ServiceName cfg, tp_Endpoint = None\<rparr>
     else tryM (wrapM (wrap_prefix ''observability: create otlp exporter: '') (callM (rl_NewExporter lib endpoint))) (\<lambda>_.
     install \<lparr>tp_ServiceName = ServiceName cfg, tp_Endpoint = Some endpoint\<rparr>))"

subsection \<open>The connection pool\<close>

definition Pool_Close :: "'s host \<Rightarrow> 's host" where
  "Pool_Close w = w\<lparr>host_pools := host_pools w - 1\<rparr>"

text \<open>The limits are converted with \<^verbatim>\<open>int32(...)\<close>, which keeps the low 32 bits.\<close>

definition limited :: "DatabaseConfig \<Rightarrow> pool_config \<Rightarrow> pool_config" where
  "limited cfg poolConfig =
     poolConfig\<lparr>pc_MaxConns := word_of_int (MaxOpenConns cfg), pc_MinConns := word_of_int (MinIdleConns cfg),
       pc_MaxConnLifetime := MaxConnLifetime cfg, pc_MaxConnIdleTime := MaxConnIdleTime cfg\<rparr>"

definition NewPool :: "'s runtime_lib \<Rightarrow> DatabaseConfig \<Rightarrow> ('s, pool_config) host_io" where
  "NewPool lib cfg =
     tryM (wrapM (wrap_prefix ''postgres: parse database url: '') (liftE (rl_ParseConfig lib (db_URL cfg)))) (\<lambda>parsed.
     let poolConfig = limited cfg parsed in
     tryM (wrapM (wrap_prefix ''postgres: connect: '') (callM (rl_NewWithConfig lib poolConfig))) (\<lambda>_.
     letM (modify (\<lambda>w. w\<lparr>host_pools := host_pools w + 1\<rparr>)) (\<lambda>_.
     case rl_Ping lib poolConfig of
       Some err \<Rightarrow> letM (modify Pool_Close) (\<lambda>_. errM (wrap_prefix ''postgres: ping: '' err))
     | None \<Rightarrow> okM poolConfig)))"

subsection \<open>\<^verbatim>\<open>Bootstrap\<close> and \<^verbatim>\<open>Close\<close>\<close>

record Runtime =
  ru_Config :: Config
  ru_Logger :: int
  ru_Metrics :: Metrics
  ru_Store :: "world Repository"
  ru_Pool :: pool_config
  ru_ControlPlane :: "world ControlPlane"
  ru_AuthValidator :: Validator
  ru_tracer :: tracer

text \<open>The value \<open>None\<close> is a panic: \<^verbatim>\<open>EnsureCompatible\<close> panics when the embedded files cannot be read.\<close>

definition Bootstrap :: "'s runtime_lib \<Rightarrow> environ \<Rightarrow> ('s, Runtime option) host_io" where
  "Bootstrap lib env =
     tryM (liftE (Load (rl_config lib) env)) (\<lambda>cfg.
     tryM (liftE (NewLogger (rl_config lib) (AppLogLevel cfg))) (\<lambda>logger.
     tryM (wrapM (wrap_prefix ''bootstrap: create metrics: '')
       (liftE (NewMetrics lib (Namespace (cfg_Observability cfg))))) (\<lambda>metrics.
     tryM (wrapM (wrap_prefix ''bootstrap: setup tracing: '') (SetupTracing lib (cfg_Observability cfg))) (\<lambda>tracer.
     tryM (NewPool lib (cfg_Database cfg)) (\<lambda>pool.
     catchM (in_session (EnsureCompatible (rl_migrations lib))) (\<lambda>checked.
     case checked of
       Inl err \<Rightarrow> letM (modify Pool_Close) (\<lambda>_. errM (wrap_prefix ''bootstrap: schema compatibility: '' err))
     | Inr None \<Rightarrow> okM None
     | Inr (Some u) \<Rightarrow>
         (case NewValidator (rl_auth lib) (cfg_Auth cfg) of
            Inl err \<Rightarrow> letM (modify Pool_Close) (\<lambda>_. errM (wrap_prefix ''bootstrap: auth validator: '' err))
          | Inr v \<Rightarrow>
              letM (modify (log_at logger 0 (RuntimeBootstrapped (Redacted cfg)))) (\<lambda>_.
              okM (Some \<lparr>ru_Config = cfg, ru_Logger = logger, ru_Metrics = metrics,
                ru_Store = PostgresRepository (lib_error_text (rl_libraries lib)), ru_Pool = pool,
                ru_ControlPlane = NewControlPlane (rl_libraries lib) (MaxAttempts (cfg_Worker cfg)),
                ru_AuthValidator = v, ru_tracer = tracer\<rparr>)))))))))"

definition Runtime_Close :: "'s runtime_lib \<Rightarrow> Runtime \<Rightarrow> ('s, unit) host_io" where
  "Runtime_Close lib rt =
     letM (modify (\<lambda>w. (Pool_Close w)\<lparr>host_tracers := remove1 (ru_tracer rt) (host_tracers w)\<rparr>)) (\<lambda>_.
     wrapM (wrap_prefix ''runtime: shutdown tracing: '') (callM (rl_ShutdownTracer lib (ru_tracer rt))))"

subsection \<open>\<^verbatim>\<open>cmd/worker\<close> and \<^verbatim>\<open>cmd/migrate\<close>\<close>

text \<open>The result is the exit status; a panic ends a Go process with status 2.\<close>

definition exit_with :: "'s runtime_lib \<Rightarrow> go_error \<Rightarrow> 's host \<Rightarrow> int \<times> 's host" where
  "exit_with lib err w = (1, w\<lparr>host_stderr := host_stderr w @ [error_text (rl_text lib) err]\<rparr>)"

text \<open>A worker over the store of the host: its lines pass the level of the logger, its counter is the host's.\<close>

fun worker_level :: "worker_log \<Rightarrow> int" where
  "worker_level (WorkerIterationFailed wid err) = 8"
| "worker_level (WorkerJobFailed wid job t err) = 8"
| "worker_level (WorkerJobCompleted wid job t) = 0"

definition on_store :: "int \<Rightarrow> (world worker_state, go_error, 'a) io \<Rightarrow> ('s, 'a) host_io" where
  "on_store level m w = (case m (watched (host_store w)) of (r, s) \<Rightarrow>
     (r, w\<lparr>host_store := ws_world s, host_jobs_total := host_jobs_total w @ ws_jobs_total s,
       host_log := host_log w @ map WorkerLogged (filter (\<lambda>e. level \<le> worker_level e) (ws_log s))\<rparr>))"

text \<open>\<^verbatim>\<open>errors.Is(err, context.Canceled)\<close>.\<close>

definition canceled :: "go_error \<Rightarrow> bool" where
  "canceled e \<longleftrightarrow> errors_Is e (LibError ''context canceled'')"

definition worker_main ::
  "'s runtime_lib \<Rightarrow> environ \<Rightarrow> uuid \<Rightarrow> nat \<Rightarrow> 's host \<Rightarrow> int \<times> 's host" where
  "worker_main lib env newID ticks =
     letM (Bootstrap lib env) (\<lambda>started. case started of
       Inl err \<Rightarrow> exit_with lib err
     | Inr None \<Rightarrow> Pair 2
     | Inr (Some rt) \<Rightarrow>
         (let wc = cfg_Worker (ru_Config rt);
              wk = worker_of (rl_libraries lib) (ru_ControlPlane rt) newID (cfg_BatchSize wc) (cfg_Lease wc) in
          letM (modify (log_at (ru_Logger rt) 0 WorkerStarted)) (\<lambda>_.
          letM (on_store (ru_Logger rt) (Run wk ticks)) (\<lambda>ran. case ran of
            Inl err \<Rightarrow>
              if \<not> canceled err
              then letM (modify (log_at (ru_Logger rt) 8 (WorkerFailed (error_text (rl_text lib) err)))) (\<lambda>_. Pair 1)
              else letM (Runtime_Close lib rt) (\<lambda>_. Pair 0)
          | Inr u \<Rightarrow> letM (Runtime_Close lib rt) (\<lambda>_. Pair 0)))))"

text \<open>\<^verbatim>\<open>os.Exit\<close> skips the deferred \<^verbatim>\<open>pool.Close\<close>.\<close>

definition migrate_main :: "'s runtime_lib \<Rightarrow> environ \<Rightarrow> 's host \<Rightarrow> int \<times> 's host" where
  "migrate_main lib env w =
     (case tryM (liftE (Load (rl_config lib) env)) (\<lambda>cfg.
           tryM (liftE (NewLogger (rl_config lib) (AppLogLevel cfg))) (\<lambda>logger.
           tryM (NewPool lib (cfg_Database cfg)) (\<lambda>pool.
           tryM (in_session (Apply (rl_migrations lib))) (\<lambda>_. okM logger)))) w of
        (Inl err, w') \<Rightarrow> exit_with lib err w'
      | (Inr logger, w') \<Rightarrow>
          (case CurrentVersion (rl_migrations lib) of
             None \<Rightarrow> (2, Pool_Close w')
           | Some version \<Rightarrow> (0, Pool_Close (log_at logger 0 (MigrationsApplied (Some version)) w'))))"

end
