(* ===== verification/Installing.thy ===== *)
theory Installing
  imports Migrations
begin

section \<open>What the migrations guarantee\<close>

text \<open>
  The schema is always what the recorded scripts, run once each in their order, make of the initial
  schema; a run of \<^verbatim>\<open>Apply\<close> that fails anywhere leaves a prefix of the scripts installed, and a later
  run without faults installs the rest.
\<close>

subsection \<open>The specification\<close>

fun replay :: "'s migration_lib \<Rightarrow> string list \<Rightarrow> 's \<Rightarrow> go_error + 's" where
  "replay lib [] s = Inr s"
| "replay lib (v # vs) s = tryE (mig_ReadFile lib (''sql/'' @ v)) (\<lambda>c. tryE (mig_exec lib c s) (replay lib vs))"

definition recorded :: "'s schema \<Rightarrow> string list" where
  "recorded d = (case sch_versions d of None \<Rightarrow> [] | Some vs \<Rightarrow> vs)"

definition installing :: "'s migration_lib \<Rightarrow> 's \<Rightarrow> string list \<Rightarrow> 's schema \<Rightarrow> bool" where
  "installing lib s0 es d \<longleftrightarrow> prefix (recorded d) es \<and> replay lib (recorded d) s0 = Inr (sch_state d)"

definition unique_names :: "'s migration_lib \<Rightarrow> bool" where
  "unique_names lib \<longleftrightarrow> (\<forall>dir. mig_ReadDir lib = Inr dir \<longrightarrow> distinct (map fst dir))"

lemma migrationEntries_distinct:
  "unique_names lib \<Longrightarrow> migrationEntries lib = Inr es \<Longrightarrow> distinct es"
  by (auto simp: migrationEntries_def unique_names_def split: sum.splits intro: distinct_map_filter)

lemma replay_snoc:
  "replay lib (vs @ [v]) s = tryE (replay lib vs s) (\<lambda>t. tryE (mig_ReadFile lib (''sql/'' @ v)) (\<lambda>c. mig_exec lib c t))"
proof (induction vs arbitrary: s)
  case Nil
  show ?case by (simp add: tryE_def split: sum.split)
next
  case (Cons u vs)
  then show ?case by (auto simp: tryE_def split: sum.split)
qed

lemma replay_append: "replay lib (us @ vs) s = tryE (replay lib us s) (replay lib vs)"
  by (induction us arbitrary: s) (auto simp: tryE_def split: sum.split)

subsection \<open>Round trips\<close>

lemma query_cases:
  assumes "query q w = (r, w')"
  shows "ses_schema w' = ses_schema w" "\<And>a. r = Inr a \<Longrightarrow> q (ses_schema w) = Inr a"
    "ses_connections w' = ses_connections w" "ses_lock w' = ses_lock w"
  using assms by (auto simp: query_def server_def next_round_def Let_def split: trip.splits sum.splits)
    (cases "q (ses_schema w)"; auto)+

lemma exec_cases:
  assumes "exec stmt w = (r, w')"
  shows "(r = Inr () \<and> stmt (ses_schema w) = Inr (ses_schema w'))
       \<or> (\<exists>e. r = Inl e \<and> (ses_schema w' = ses_schema w \<or> stmt (ses_schema w) = Inr (ses_schema w')))"
    "ses_connections w' = ses_connections w" "ses_lock w' = ses_lock w"
  using assms
  by (cases "stmt (ses_schema w)"; auto simp: exec_def server_def next_round_def Let_def split: trip.splits)+

lemma in_transaction_cases:
  assumes "in_transaction name body w = (r, w')"
  shows "(\<exists>e. r = Inl e \<and> ses_schema w' = ses_schema w)
       \<or> (\<exists>w1 w2. ses_schema w1 = ses_schema w \<and> body w1 = (Inr (), w2) \<and> ses_schema w' = ses_schema w2)"
proof -
  obtain x w1 where b: "wrapM (wrap_prefix (''migrations: begin transaction for '' @ name @ '': '')) (query (\<lambda>d. Inr ())) w = (x, w1)"
    by fastforce
  have same: "ses_schema w1 = ses_schema w"
    using b query_cases(1) [of "\<lambda>d. Inr ()" w] by (auto simp: wrapM_def split: prod.splits sum.splits)
  show ?thesis
  proof (cases x)
    case (Inl e)
    then show ?thesis using assms b same by (auto simp: in_transaction_def)
  next
    case x: (Inr u)
    obtain y w2 where y: "body w1 = (y, w2)" by fastforce
    show ?thesis
    proof (cases y)
      case (Inl e)
      then show ?thesis using assms b x y same by (auto simp: in_transaction_def)
    next
      case (Inr u')
      then show ?thesis
        using assms b x y same by (auto simp: in_transaction_def next_round_def split: trip.splits)
    qed
  qed
qed

definition migrated :: "'s migration_lib \<Rightarrow> string \<Rightarrow> 's schema \<Rightarrow> 's schema \<Rightarrow> bool" where
  "migrated lib name d d' \<longleftrightarrow>
     (\<exists>c s vs. mig_ReadFile lib (''sql/'' @ name) = Inr c \<and> mig_exec lib c (sch_state d) = Inr s
        \<and> sch_versions d = Some vs \<and> name \<notin> set vs
        \<and> d' = d\<lparr>sch_state := s, sch_versions := Some (vs @ [name])\<rparr>)"

lemma apply_migration_cases:
  assumes "apply_migration lib name w = (r, w')"
  shows "(ses_schema w' = ses_schema w \<and> (r = Inr () \<longrightarrow> name \<in> set (recorded (ses_schema w))))
       \<or> migrated lib name (ses_schema w) (ses_schema w')"
proof -
  obtain x w1 where m: "migrationApplied name w = (x, w1)" by fastforce
  have same: "ses_schema w1 = ses_schema w"
    using m query_cases(1) by (auto simp: migrationApplied_def wrapM_def split: prod.splits sum.splits)
  have hit: "name \<in> set (recorded (ses_schema w))" if "x = Inr True"
    using m that query_cases(2)
    by (fastforce simp: migrationApplied_def wrapM_Inr recorded_def split: option.splits)
  show ?thesis
  proof (cases "\<exists>c. x = Inr False \<and> mig_ReadFile lib (''sql/'' @ name) = Inr c")
    case False
    then show ?thesis
      using assms m same hit
      by (auto simp: apply_migration_def tryM_def okM_def errM_def split: sum.splits if_splits)
  next
    case True
    then obtain c where x: "x = Inr False" and c: "mig_ReadFile lib (''sql/'' @ name) = Inr c" by blast
    let ?body = "tryM (wrapM (wrap_prefix (''migrations: apply '' @ name @ '': '')) (exec (run_script lib c))) (\<lambda>_.
            wrapM (wrap_prefix (''migrations: record '' @ name @ '': '')) (exec (insert_version name)))"
    have tx: "in_transaction name ?body w1 = (r, w')"
      using assms m x c by (simp add: apply_migration_def tryM_def)
    from in_transaction_cases [OF tx] show ?thesis
    proof
      assume "\<exists>e. r = Inl e \<and> ses_schema w' = ses_schema w1"
      then show ?thesis using same by auto
    next
      assume "\<exists>v1 v2. ses_schema v1 = ses_schema w1 \<and> ?body v1 = (Inr (), v2) \<and> ses_schema w' = ses_schema v2"
      then obtain v1 u v2 where v: "ses_schema v1 = ses_schema w" "exec (run_script lib c) v1 = (Inr (), u)"
          "exec (insert_version name) u = (Inr (), v2)" "ses_schema w' = ses_schema v2"
        using same by (auto simp: tryM_Inr wrapM_Inr)
      have "run_script lib c (ses_schema w) = Inr (ses_schema u)" and ins: "insert_version name (ses_schema u) = Inr (ses_schema w')"
        using exec_cases(1) [OF v(2)] exec_cases(1) [OF v(3)] v(1,4) by auto
      then obtain t where t: "mig_exec lib c (sch_state (ses_schema w)) = Inr t"
          "ses_schema u = (ses_schema w)\<lparr>sch_state := t\<rparr>"
        by (cases "mig_exec lib c (sch_state (ses_schema w))") (auto simp: run_script_def)
      obtain vs where vs: "sch_versions (ses_schema u) = Some vs" "name \<notin> set vs"
          "ses_schema w' = (ses_schema u)\<lparr>sch_versions := Some (vs @ [name])\<rparr>"
        using ins by (auto simp: insert_version_def split: option.splits if_splits)
      have "sch_versions (ses_schema w) = Some vs" using vs(1) t(2) by simp
      with c t vs have "migrated lib name (ses_schema w) (ses_schema w')" by (simp add: migrated_def)
      then show ?thesis by blast
    qed
  qed
qed

subsection \<open>The invariant\<close>

lemma migrated_recorded: "migrated lib name d d' \<Longrightarrow> recorded d' = recorded d @ [name] \<and> name \<notin> set (recorded d)"
  by (auto simp: migrated_def recorded_def)

lemma migrated_replay:
  "migrated lib name d d' \<Longrightarrow> replay lib (recorded d) s0 = Inr (sch_state d) \<Longrightarrow>
     replay lib (recorded d') s0 = Inr (sch_state d')"
  by (frule migrated_recorded) (auto simp: migrated_def replay_snoc)

text \<open>
  In the course of a run the first scripts are all recorded; the next one is recorded already or is the
  next in line.
\<close>

lemma prefix_covering: "prefix vs es \<Longrightarrow> distinct es \<Longrightarrow> set es \<subseteq> set vs \<Longrightarrow> vs = es"
  by (auto simp: prefix_def) (metis Int_absorb2 List.set_empty inf_commute set_empty)

lemma next_in_line:
  assumes "distinct (dn @ name # rest)" "prefix vs (dn @ name # rest)" "set dn \<subseteq> set vs" "name \<notin> set vs"
  shows "vs = dn"
proof -
  have "prefix vs dn"
    using assms(2,4) by (auto simp: prefix_append prefix_Cons)
  moreover have "distinct dn" using assms(1) by simp
  ultimately show ?thesis using prefix_covering assms(3) by blast
qed

lemma apply_all_installs:
  assumes "distinct es" "es = dn @ rest" "installing lib s0 es (ses_schema w)"
    "set dn \<subseteq> set (recorded (ses_schema w))" "apply_all lib rest w = (r, w')"
  shows "installing lib s0 es (ses_schema w') \<and> prefix (recorded (ses_schema w)) (recorded (ses_schema w'))
       \<and> (r = Inr () \<longrightarrow> recorded (ses_schema w') = es)"
  using assms(2-5)
proof (induction rest arbitrary: dn w)
  case Nil
  have "prefix (recorded (ses_schema w)) es" "set es \<subseteq> set (recorded (ses_schema w))"
    using Nil by (simp_all add: installing_def)
  then have "recorded (ses_schema w) = es" using prefix_covering assms(1) by blast
  with Nil show ?case by (auto simp: okM_def)
next
  case (Cons name rest)
  obtain x w1 where a: "apply_migration lib name w = (x, w1)" by fastforce
  have step: "installing lib s0 es (ses_schema w1) \<and> prefix (recorded (ses_schema w)) (recorded (ses_schema w1))
      \<and> (x = Inr () \<longrightarrow> set (dn @ [name]) \<subseteq> set (recorded (ses_schema w1)))"
    using apply_migration_cases [OF a]
  proof
    assume "migrated lib name (ses_schema w) (ses_schema w1)"
    then have m: "recorded (ses_schema w1) = recorded (ses_schema w) @ [name]" "name \<notin> set (recorded (ses_schema w))"
      "replay lib (recorded (ses_schema w1)) s0 = Inr (sch_state (ses_schema w1))"
      using migrated_recorded migrated_replay Cons.prems(2) by (auto simp: installing_def)
    have "recorded (ses_schema w) = dn"
      using next_in_line [OF _ _ Cons.prems(3) m(2)] assms(1) Cons.prems(1,2) by (auto simp: installing_def)
    with m Cons.prems(1) show ?thesis by (simp add: installing_def)
  qed (use Cons.prems in auto)
  show ?case
  proof (cases x)
    case (Inl e)
    then show ?thesis using Cons.prems(4) a step by (auto simp: tryM_def)
  next
    case (Inr u)
    then have run: "apply_all lib rest w1 = (r, w')" using Cons.prems(4) a by (simp add: tryM_def)
    have "set (dn @ [name]) \<subseteq> set (recorded (ses_schema w1))" using step Inr by simp
    from Cons.IH [OF _ _ this run] step Cons.prems(1) show ?thesis by (auto intro: prefix_order.trans)
  qed
qed

subsection \<open>A run of Apply\<close>

definition with_table :: "'s schema \<Rightarrow> 's schema" where
  "with_table d = (if sch_versions d = None then d\<lparr>sch_versions := Some []\<rparr> else d)"

lemma with_table_simps [simp]: "recorded (with_table d) = recorded d" "sch_state (with_table d) = sch_state d"
  "sch_versions (with_table d) \<noteq> None" "installing lib s0 es (with_table d) = installing lib s0 es d"
  by (simp_all add: with_table_def recorded_def installing_def)

lemma create_table_eq: "create_table d = Inr (with_table d)"
  by (simp add: create_table_def with_table_def)

lemma round_schema [simp]: "ses_schema (next_round w) = ses_schema w"
  by (simp add: next_round_def)

lemma Acquire_schema: "Acquire w = (r, w') \<Longrightarrow> ses_schema w' = ses_schema w"
  by (auto simp: Acquire_def server_def Let_def split: trip.splits)

lemma advisory_lock_schema: "advisory_lock b w = (r, w') \<Longrightarrow> ses_schema w' = ses_schema w"
  by (auto simp: advisory_lock_def server_def Let_def split: trip.splits)

lemma unlock_schema [simp]: "ses_schema (advisory_unlock w) = ses_schema w"
  unfolding advisory_unlock_def by (rule advisory_lock_schema) (rule prod.collapse [symmetric])

lemma wrap_query_schema: "wrapM f (query q) w = (r, w') \<Longrightarrow> ses_schema w' = ses_schema w"
  by (auto simp: wrapM_def dest: query_cases(1) split: prod.splits sum.splits)

lemma wrap_exec_schema:
  "wrapM f (exec s) w = (Inr (), w') \<Longrightarrow> s (ses_schema w) = Inr (ses_schema w')"
  "wrapM f (exec s) w = (Inl e, w') \<Longrightarrow> ses_schema w' = ses_schema w \<or> s (ses_schema w) = Inr (ses_schema w')"
  by (auto simp: wrapM_def dest!: exec_cases(1) split: prod.splits sum.splits)

lemma apply_body_cases:
  assumes "apply_body lib w = (r, w')" "migrationEntries lib = Inr es"
  shows "(r \<noteq> Inr () \<and> ses_schema w' \<in> {ses_schema w, with_table (ses_schema w)})
       \<or> (\<exists>u. ses_schema u = with_table (ses_schema w) \<and> apply_all lib es u = (r, w'))"
proof -
  let ?q1 = "wrapM (wrap_prefix ''migrations: ensure public schema: '') (query (\<lambda>d. Inr ()))"
  let ?q2 = "wrapM (wrap_prefix ''migrations: set search_path: '') (query (\<lambda>d. Inr ()))"
  let ?q3 = "wrapM (wrap_prefix ''migrations: ensure schema_migrations table: '') (exec create_table)"
  obtain x1 w1 where 1: "?q1 w = (x1, w1)" by fastforce
  obtain x2 w2 where 2: "?q2 w1 = (x2, w2)" by fastforce
  obtain x3 w3 where 3: "?q3 w2 = (x3, w3)" by fastforce
  have s: "ses_schema w1 = ses_schema w" "ses_schema w2 = ses_schema w"
    using wrap_query_schema [OF 1] wrap_query_schema [OF 2] by simp_all
  show ?thesis
  proof (cases x1)
    case (Inl e)
    then show ?thesis using assms(1) 1 s by (auto simp: apply_body_def tryM_def)
  next
    case x1: (Inr u1)
    show ?thesis
    proof (cases x2)
      case (Inl e)
      then show ?thesis using assms(1) 1 2 s x1 by (auto simp: apply_body_def tryM_def)
    next
      case x2: (Inr u2)
      show ?thesis
      proof (cases x3)
        case (Inl e)
        then have "r = Inl e" "w' = w3" using assms(1) 1 2 3 x1 x2 by (simp_all add: apply_body_def tryM_def)
        moreover have "ses_schema w3 \<in> {ses_schema w, with_table (ses_schema w)}"
          using wrap_exec_schema(2) [OF 3 [unfolded Inl]] s by (auto simp: create_table_eq)
        ultimately show ?thesis by simp
      next
        case (Inr u3)
        have "ses_schema w3 = with_table (ses_schema w)"
          using wrap_exec_schema(1) [of _ create_table w2 w3] 3 Inr s by (simp add: create_table_eq)
        moreover have "apply_all lib es w3 = (r, w')"
          using assms 1 2 3 x1 x2 Inr by (simp add: apply_body_def tryM_def)
        ultimately show ?thesis by blast
      qed
    qed
  qed
qed

lemma apply_body_installs:
  assumes "unique_names lib" "migrationEntries lib = Inr es" "installing lib s0 es (ses_schema w)"
    "apply_body lib w = (r, w')"
  shows "installing lib s0 es (ses_schema w') \<and> prefix (recorded (ses_schema w)) (recorded (ses_schema w'))
       \<and> (r = Inr () \<longrightarrow> recorded (ses_schema w') = es)"
  using apply_body_cases [OF assms(4,2)]
proof
  assume "\<exists>u. ses_schema u = with_table (ses_schema w) \<and> apply_all lib es u = (r, w')"
  then obtain u where u: "ses_schema u = with_table (ses_schema w)" "apply_all lib es u = (r, w')" by blast
  show ?thesis
    using apply_all_installs [OF migrationEntries_distinct [OF assms(1,2)], of "[]" es lib s0 u r w'] u assms(3) by simp
qed (use assms(3) in auto)

lemma Apply_schema:
  assumes "Apply lib w = (r, w')"
  shows "(\<exists>e. r = Inl e \<and> ses_schema w' = ses_schema w)
       \<or> (\<exists>u v. ses_schema u = ses_schema w \<and> apply_body lib u = (r, v) \<and> ses_schema w' = ses_schema v)"
proof -
  obtain x w1 where a: "Acquire w = (x, w1)" by fastforce
  have s1: "ses_schema w1 = ses_schema w" by (rule Acquire_schema [OF a])
  obtain y w2 where l: "wrapM (wrap_prefix ''migrations: acquire advisory lock: '') (advisory_lock True) w1 = (y, w2)"
    by fastforce
  then obtain z where "advisory_lock True w1 = (z, w2)" by (auto simp: wrapM_def split: prod.splits sum.splits)
  then have s2: "ses_schema w2 = ses_schema w" using s1 advisory_lock_schema [of True w1 z w2] by simp
  show ?thesis
  proof (cases "(\<exists>e. x = Inl e) \<or> (\<exists>e. y = Inl e)")
    case True
    then show ?thesis
      using assms a l s1 s2 by (auto simp: Apply_def deferM_def tryM_def Release_def split: sum.splits)
  next
    case False
    then obtain u v where xy: "x = Inr u" "y = Inr v" by (meson sum.exhaust)
    obtain t w3 where b: "apply_body lib w2 = (t, w3)" by fastforce
    then have "r = t" "w' = Release (advisory_unlock w3)"
      using assms a l xy by (simp_all add: Apply_def deferM_def tryM_def)
    then show ?thesis using b s2 by (auto simp: Release_def)
  qed
qed

text \<open>
  C7. Whatever round trips fail, a run of \<^verbatim>\<open>Apply\<close> keeps the schema equal to what the recorded scripts make
  of the initial one, each run once and in the order of their names; it only ever adds records; and
  when it returns no error every embedded script is recorded and has been run.
\<close>

theorem Apply_installs:
  assumes "unique_names lib" "migrationEntries lib = Inr es" "installing lib s0 es (ses_schema w)"
    "Apply lib w = (r, w')"
  shows "installing lib s0 es (ses_schema w') \<and> prefix (recorded (ses_schema w)) (recorded (ses_schema w'))
       \<and> (r = Inr () \<longrightarrow> recorded (ses_schema w') = es)"
  using Apply_schema [OF assms(4)]
proof
  assume "\<exists>u v. ses_schema u = ses_schema w \<and> apply_body lib u = (r, v) \<and> ses_schema w' = ses_schema v"
  then obtain u v where u: "ses_schema u = ses_schema w" "apply_body lib u = (r, v)" "ses_schema w' = ses_schema v"
    by blast
  show ?thesis using apply_body_installs [OF assms(1,2) _ u(2), of s0] assms(3) u(1,3) by simp
qed (use assms(3) in auto)

subsection \<open>Runs without faults\<close>

definition steady :: "'s session \<Rightarrow> bool" where
  "steady w \<longleftrightarrow> ses_trips w = sconst Works"

lemma steady_round: "steady w \<Longrightarrow> next_round w = w"
  by (cases w) (simp add: steady_def next_round_def)

lemma steady_server: "steady w \<Longrightarrow> server f w = (case f w of Inl e \<Rightarrow> (Inl e, w) | Inr (a, w') \<Rightarrow> (Inr a, w'))"
  by (simp add: server_def steady_round) (simp add: steady_def)

lemma steady_query: "steady w \<Longrightarrow> query q w = (q (ses_schema w), w)"
  by (simp add: query_def steady_server split: sum.split) (cases "q (ses_schema w)"; simp)

lemma steady_exec:
  "steady w \<Longrightarrow> exec s w = (case s (ses_schema w) of Inl e \<Rightarrow> (Inl e, w) | Inr d \<Rightarrow> (Inr (), w\<lparr>ses_schema := d\<rparr>))"
  by (simp add: exec_def steady_server) (cases "s (ses_schema w)"; simp)

lemma steady_simps [simp]: "steady (w\<lparr>ses_schema := d\<rparr>) = steady w" "steady (w\<lparr>ses_lock := b\<rparr>) = steady w"
  "steady (w\<lparr>ses_connections := n\<rparr>) = steady w"
  by (simp_all add: steady_def)

lemma steady_commit: "steady w \<Longrightarrow> shd (ses_trips w) = Works"
  by (simp add: steady_def)

lemma apply_migration_steady:
  assumes "steady w" "sch_versions (ses_schema w) = Some vs"
    "name \<notin> set vs \<Longrightarrow> \<exists>c t. mig_ReadFile lib (''sql/'' @ name) = Inr c \<and> mig_exec lib c (sch_state (ses_schema w)) = Inr t"
  shows "\<exists>d. apply_migration lib name w = (Inr (), w\<lparr>ses_schema := d\<rparr>)
       \<and> sch_versions d = Some (if name \<in> set vs then vs else vs @ [name])"
proof (cases "name \<in> set vs")
  case True
  then have "apply_migration lib name w = (Inr (), w)"
    using assms by (simp add: apply_migration_def migrationApplied_def tryM_def wrapM_def steady_query okM_def)
  with True assms(2) show ?thesis by (intro exI [of _ "ses_schema w"]) simp
next
  case False
  then obtain c t where c: "mig_ReadFile lib (''sql/'' @ name) = Inr c" "mig_exec lib c (sch_state (ses_schema w)) = Inr t"
    using assms(3) by blast
  let ?d = "(ses_schema w)\<lparr>sch_state := t, sch_versions := Some (vs @ [name])\<rparr>"
  have "apply_migration lib name w = (Inr (), w\<lparr>ses_schema := ?d\<rparr>)"
    using assms(1,2) c False
    by (simp add: apply_migration_def migrationApplied_def in_transaction_def tryM_def wrapM_def steady_query steady_exec
        run_script_def insert_version_def steady_round steady_commit)
  with False show ?thesis by (intro exI [of _ ?d]) simp
qed

lemma apply_all_idle:
  "steady w \<Longrightarrow> sch_versions (ses_schema w) = Some vs \<Longrightarrow> set names \<subseteq> set vs \<Longrightarrow> apply_all lib names w = (Inr (), w)"
  by (induction names)
    (simp_all add: apply_migration_def migrationApplied_def tryM_def wrapM_def steady_query okM_def)

lemma replay_prefix:
  assumes "replay lib es s0 = Inr s" "es = dn @ name # rest" "replay lib dn s0 = Inr t"
  shows "\<exists>c u. mig_ReadFile lib (''sql/'' @ name) = Inr c \<and> mig_exec lib c t = Inr u"
  using assms by (auto simp: replay_append res_simps)

lemma apply_all_steady:
  assumes "distinct es" "replay lib es s0 = Inr s" "es = dn @ rest" "installing lib s0 es (ses_schema w)"
    "set dn \<subseteq> set (recorded (ses_schema w))" "steady w" "sch_versions (ses_schema w) \<noteq> None"
  shows "fst (apply_all lib rest w) = Inr ()"
  using assms(3-7)
proof (induction rest arbitrary: dn w)
  case (Cons name rest)
  obtain vs where vs: "sch_versions (ses_schema w) = Some vs" "recorded (ses_schema w) = vs"
    using Cons.prems(5) by (auto simp: recorded_def)
  have runs: "\<exists>c t. mig_ReadFile lib (''sql/'' @ name) = Inr c \<and> mig_exec lib c (sch_state (ses_schema w)) = Inr t"
    if "name \<notin> set vs"
  proof -
    have "vs = dn" using next_in_line [of dn name rest vs] assms(1) Cons.prems(1-3) that vs(2) by (simp add: installing_def)
    then show ?thesis using replay_prefix [OF assms(2) Cons.prems(1)] Cons.prems(2) vs(2) by (simp add: installing_def)
  qed
  obtain d where d: "apply_migration lib name w = (Inr (), w\<lparr>ses_schema := d\<rparr>)"
    "sch_versions d = Some (if name \<in> set vs then vs else vs @ [name])"
    using apply_migration_steady [OF Cons.prems(4) vs(1) runs] by blast
  let ?w = "w\<lparr>ses_schema := d\<rparr>"
  have one: "apply_all lib [name] w = (Inr (), ?w)" by (simp add: d tryM_def okM_def)
  have inst: "installing lib s0 es (ses_schema ?w)"
    using apply_migration_cases [OF d(1)]
  proof
    assume m: "migrated lib name (ses_schema w) (ses_schema ?w)"
    then have "recorded (ses_schema ?w) = vs @ [name]" "name \<notin> set vs" using migrated_recorded vs(2) by auto
    moreover have "vs = dn"
      using next_in_line [of dn name rest vs] assms(1) Cons.prems(1-3) calculation(2) vs(2) by (simp add: installing_def)
    ultimately show ?thesis
      using migrated_replay [OF m] Cons.prems(1,2) by (simp add: installing_def)
  qed (use Cons.prems(2) in simp)
  have "set (dn @ [name]) \<subseteq> set (recorded (ses_schema ?w))"
    using d(2) Cons.prems(3) vs(2) by (auto simp: recorded_def)
  from Cons.IH [OF _ inst this] Cons.prems(1,4) d show ?case by (simp add: tryM_def)
qed (simp add: okM_def)

lemma Apply_steady:
  assumes "unique_names lib" "migrationEntries lib = Inr es" "replay lib es s0 = Inr s"
    and "installing lib s0 es (ses_schema w)" "steady w"
  shows "\<exists>w'. Apply lib w = (Inr (), w') \<and> recorded (ses_schema w') = es \<and> sch_state (ses_schema w') = s
           \<and> (recorded (ses_schema w) = es \<and> sch_versions (ses_schema w) \<noteq> None \<longrightarrow> ses_schema w' = ses_schema w)"
proof -
  define w2 where "w2 = w\<lparr>ses_connections := ses_connections w + 1, ses_lock := True, ses_schema := with_table (ses_schema w)\<rparr>"
  obtain r v where run: "apply_all lib es w2 = (r, v)" by fastforce
  have w2: "steady w2" "ses_schema w2 = with_table (ses_schema w)" by (simp_all add: w2_def assms(5))
  have dist: "distinct es" by (rule migrationEntries_distinct [OF assms(1,2)])
  have "fst (apply_all lib es w2) = Inr ()"
    by (rule apply_all_steady [OF dist assms(3), of "[]"]) (use w2 assms(4) in simp_all)
  then have ok: "r = Inr ()" by (simp add: run)
  have "Apply lib w = (Inr (), Release (advisory_unlock v))"
    using assms(5) run ok
    by (simp add: Apply_def apply_body_def Acquire_def advisory_lock_def steady_server tryM_def wrapM_def steady_query steady_exec
        create_table_eq assms(2) deferM_def w2_def)
  moreover have inst: "installing lib s0 es (ses_schema v)" "recorded (ses_schema v) = es"
    using apply_all_installs [OF dist _ _ _ run, of "[]" s0] w2 assms(4) ok by simp_all
  moreover have "sch_state (ses_schema v) = s" using inst assms(3) by (simp add: installing_def)
  moreover have "ses_schema v = ses_schema w"
    if c: "recorded (ses_schema w) = es" "sch_versions (ses_schema w) \<noteq> None"
  proof -
    obtain vs where "sch_versions (ses_schema w2) = Some vs" "vs = es"
      using c w2(2) by (auto simp: recorded_def with_table_def)
    then have "v = w2" using apply_all_idle [OF w2(1), of vs es lib] run by simp
    then show ?thesis using w2(2) c(2) by (simp add: with_table_def)
  qed
  ultimately show ?thesis by (auto simp: Release_def)
qed

text \<open>
  C19. From whatever a run broken off earlier has left, a run of \<^verbatim>\<open>Apply\<close> without faults completes: it returns
  no error, every script is recorded and the schema is what all scripts make of the initial one. On a
  schema that is complete already it changes nothing.
\<close>

theorem Apply_completes:
  assumes "unique_names lib" "migrationEntries lib = Inr es" "replay lib es s0 = Inr s"
    and "installing lib s0 es (ses_schema w)" "steady w"
  shows "\<exists>w'. Apply lib w = (Inr (), w') \<and> recorded (ses_schema w') = es \<and> sch_state (ses_schema w') = s
           \<and> (recorded (ses_schema w) = es \<and> sch_versions (ses_schema w) \<noteq> None \<longrightarrow> ses_schema w' = ses_schema w)"
  using assms by (rule Apply_steady)

subsection \<open>EnsureCompatible\<close>

lemma AppliedVersions_steady:
  assumes "steady w"
  shows "AppliedVersions lib w =
    (case sch_versions (ses_schema w) of
       None \<Rightarrow> Inl (Wrapf [] ErrSchemaUninitialized '': run cmd/migrate before starting the runtime'')
     | Some vs \<Rightarrow> Inr (mig_collate lib vs), w)"
  using assms
  by (simp add: AppliedVersions_def Acquire_def steady_server deferM_def schemaMigrationsTableExists_def tryM_def
      wrapM_def steady_query okM_def errM_def Release_def split: option.split)

definition compatible :: "string list \<Rightarrow> 's schema \<Rightarrow> bool" where
  "compatible es d \<longleftrightarrow> (\<exists>vs. sch_versions d = Some vs \<and> set vs = set es)"

definition keeps_rows :: "'s migration_lib \<Rightarrow> bool" where
  "keeps_rows lib \<longleftrightarrow> (\<forall>vs. set (mig_collate lib vs) = set vs)"

lemma compare_versions_None: "compare_versions es c vs = None \<longleftrightarrow> set vs = set es"
proof (cases "find (\<lambda>v. v \<notin> set es) vs")
  case None
  then have "set vs \<subseteq> set es" by (auto simp: find_None_iff)
  then show ?thesis by (auto simp: compare_versions_def None Let_def filter_empty_conv)
next
  case (Some v)
  then have "v \<in> set vs" "v \<notin> set es" by (auto simp: find_Some_iff)
  then show ?thesis using Some by (auto simp: compare_versions_def)
qed

lemma compare_versions_Some:
  assumes "compare_versions es c vs = Some e"
  shows "errors_Is e ErrSchemaAhead \<longleftrightarrow> \<not> set vs \<subseteq> set es" "errors_Is e ErrSchemaBehind \<longleftrightarrow> set vs \<subset> set es"
    "\<not> errors_Is e ErrSchemaUninitialized"
proof -
  have f: "find (\<lambda>v. v \<notin> set es) vs = None \<longleftrightarrow> set vs \<subseteq> set es" by (auto simp: find_None_iff)
  have "compare_versions es c vs \<noteq> None" using assms by simp
  then have n: "set vs \<noteq> set es" by (simp add: compare_versions_None)
  show "errors_Is e ErrSchemaAhead \<longleftrightarrow> \<not> set vs \<subseteq> set es" "errors_Is e ErrSchemaBehind \<longleftrightarrow> set vs \<subset> set es"
    "\<not> errors_Is e ErrSchemaUninitialized"
    using assms f n
    by (cases "find (\<lambda>v. v \<notin> set es) vs"; auto simp: compare_versions_def Let_def split: if_splits)+
qed

lemma EnsureCompatible_steady:
  assumes "steady w" "migrationEntries lib = Inr es"
  shows "EnsureCompatible lib w =
    (case sch_versions (ses_schema w) of
       None \<Rightarrow> Inl (Wrapf [] ErrSchemaUninitialized '': run cmd/migrate before starting the runtime'')
     | Some vs \<Rightarrow>
         (case compare_versions es (if es = [] then [] else last es) (mig_collate lib vs) of
            Some e \<Rightarrow> Inl e | None \<Rightarrow> Inr (Some ())), w)"
  using assms
  by (simp add: EnsureCompatible_def tryM_def AppliedVersions_steady Versions_def CurrentVersion_def okM_def errM_def
      split: option.split)

text \<open>
  C20. Without faults \<^verbatim>\<open>EnsureCompatible\<close> accepts a schema exactly when the recorded versions are those of
  the binary, and its errors tell the three other cases apart: no migrations table, an unknown version
  (the schema is ahead), and missing versions only (the schema is behind).
\<close>

theorem EnsureCompatible_decides:
  assumes "steady w" "migrationEntries lib = Inr es" "keeps_rows lib"
  shows "(fst (EnsureCompatible lib w) = Inr (Some ()) \<longleftrightarrow> compatible es (ses_schema w))
       \<and> fst (EnsureCompatible lib w) \<noteq> Inr None
       \<and> (\<forall>e. fst (EnsureCompatible lib w) = Inl e \<longrightarrow>
            (errors_Is e ErrSchemaUninitialized \<longleftrightarrow> sch_versions (ses_schema w) = None)
          \<and> (errors_Is e ErrSchemaAhead \<longleftrightarrow> \<not> set (recorded (ses_schema w)) \<subseteq> set es)
          \<and> (errors_Is e ErrSchemaBehind \<longleftrightarrow>
               sch_versions (ses_schema w) \<noteq> None \<and> set (recorded (ses_schema w)) \<subset> set es))"
proof (cases "sch_versions (ses_schema w)")
  case None
  then show ?thesis by (simp add: EnsureCompatible_steady [OF assms(1,2)] compatible_def recorded_def)
next
  case vs: (Some vs)
  define c where "c = (if es = [] then [] else last es)"
  have s: "set (mig_collate lib vs) = set vs" using assms(3) by (simp add: keeps_rows_def)
  have run: "fst (EnsureCompatible lib w) =
      (case compare_versions es c (mig_collate lib vs) of Some e \<Rightarrow> Inl e | None \<Rightarrow> Inr (Some ()))"
    unfolding c_def by (simp add: EnsureCompatible_steady [OF assms(1,2)] vs)
  show ?thesis
  proof (cases "compare_versions es c (mig_collate lib vs)")
    case None
    then show ?thesis
      using s compare_versions_None [of es c "mig_collate lib vs"] by (simp add: run compatible_def vs)
  next
    case (Some e)
    have "set vs \<noteq> set es" using Some s compare_versions_None [of es c "mig_collate lib vs"] by simp
    then show ?thesis
      using s compare_versions_Some [OF Some] by (simp add: run Some compatible_def recorded_def vs)
  qed
qed

lemma apply_all_table:
  "apply_all lib names w = (r, w') \<Longrightarrow> sch_versions (ses_schema w) \<noteq> None \<Longrightarrow> sch_versions (ses_schema w') \<noteq> None"
proof (induction names arbitrary: w)
  case (Cons name names)
  obtain x w1 where a: "apply_migration lib name w = (x, w1)" by fastforce
  have "sch_versions (ses_schema w1) \<noteq> None"
    using apply_migration_cases [OF a] Cons.prems(2) by (auto simp: migrated_def)
  with Cons a show ?case by (auto simp: tryM_def split: sum.splits)
qed (simp add: okM_def)

text \<open>
  A process starts on the schema that a successful run of \<^verbatim>\<open>Apply\<close> of the same binary left, whatever
  faults that run met.
\<close>

lemma Apply_then_compatible:
  assumes "unique_names lib" "keeps_rows lib" "installing lib s0 es (ses_schema w)" "migrationEntries lib = Inr es"
    and "Apply lib w = (Inr (), w')" "steady v" "ses_schema v = ses_schema w'"
  shows "EnsureCompatible lib v = (Inr (Some ()), v)"
proof -
  obtain u x where u: "ses_schema u = ses_schema w" "apply_body lib u = (Inr (), x)" "ses_schema w' = ses_schema x"
    using Apply_schema [OF assms(5)] by auto
  have rec: "recorded (ses_schema v) = es"
    using apply_body_installs [OF assms(1,4) _ u(2), of s0] assms(3,7) u(1,3) by simp
  obtain y where "ses_schema y = with_table (ses_schema u)" "apply_all lib es y = (Inr (), x)"
    using apply_body_cases [OF u(2) assms(4)] by auto
  with apply_all_table [of lib es y "Inr ()" x] assms(7) u(3) have "sch_versions (ses_schema v) \<noteq> None" by simp
  with rec obtain vs where vs: "sch_versions (ses_schema v) = Some vs" "vs = es" by (auto simp: recorded_def)
  then have "compare_versions es c (mig_collate lib vs) = None" for c
    using assms(2) by (simp add: compare_versions_None keeps_rows_def)
  with vs show ?thesis by (simp add: EnsureCompatible_steady [OF assms(6,4)])
qed

subsection \<open>Connections and the lock\<close>

definition holding :: "int \<Rightarrow> bool \<Rightarrow> 's session \<Rightarrow> bool" where
  "holding n locked w \<longleftrightarrow> ses_connections w = n \<and> ses_lock w = locked"

lemma keeps_query [keeps_rules]: "keeps (holding n b) (query q)"
  by (rule keepsI) (auto simp: holding_def dest: query_cases)

lemma keeps_exec [keeps_rules]: "keeps (holding n b) (exec s)"
  by (rule keepsI) (auto simp: holding_def dest: exec_cases)

lemma keeps_in_transaction [keeps_rules]:
  assumes "keeps (holding n b) body"
  shows "keeps (holding n b) (in_transaction name body)"
proof -
  have k: "keeps (holding n b) (wrapM (wrap_prefix m) (query (\<lambda>d. Inr ())))" for m
    by (intro keeps_rules)
  show ?thesis
    using k [of "''migrations: begin transaction for '' @ name @ '': ''"] assms
    by (fastforce simp: keeps_def in_transaction_def holding_def next_round_def
        split: prod.splits sum.splits trip.splits)
qed

lemma keeps_apply_all: "keeps (holding n b) (apply_all lib names)"
proof (induction names)
  case (Cons name names)
  have "keeps (holding n b) (apply_migration lib name)"
    unfolding apply_migration_def migrationApplied_def by (intro keeps_rules)
  with Cons show ?case by (simp add: keeps_tryM)
qed (simp add: keeps_rules)

lemma keeps_apply_body: "keeps (holding n b) (apply_body lib)"
  unfolding apply_body_def by (intro keeps_rules keeps_apply_all)

lemma Acquire_connections:
  "Acquire w = (Inr u, w') \<Longrightarrow> ses_connections w' = ses_connections w + 1 \<and> ses_lock w' = ses_lock w"
  by (auto simp: Acquire_def server_def next_round_def Let_def split: trip.splits)

lemma advisory_lock_connections:
  "advisory_lock b w = (r, w') \<Longrightarrow> ses_connections w' = ses_connections w \<and> (r = Inr () \<longrightarrow> ses_lock w' = b)"
  by (auto simp: advisory_lock_def server_def next_round_def Let_def split: trip.splits)

lemma unlock_connections [simp]: "ses_connections (advisory_unlock w) = ses_connections w"
  using advisory_lock_connections [OF prod.collapse [symmetric], of False w] by (simp add: advisory_unlock_def)

text \<open>
  However it ends, \<^verbatim>\<open>Apply\<close> gives back the connection it took; and a connection is taken once only.
\<close>

lemma Apply_returns_connection:
  "ses_connections (snd (Apply lib w)) = ses_connections w"
proof -
  obtain x w1 where a: "Acquire w = (x, w1)" by fastforce
  show ?thesis
  proof (cases x)
    case (Inl e)
    then show ?thesis using a by (simp add: Apply_def)
  next
    case x: (Inr u)
    obtain y w2 where l: "advisory_lock True w1 = (y, w2)" by fastforce
    obtain t w3 where b: "apply_body lib w2 = (t, w3)" by fastforce
    have c: "ses_connections w1 = ses_connections w + 1" "ses_connections w2 = ses_connections w1"
      using Acquire_connections a x advisory_lock_connections [OF l] by auto
    have "ses_connections w3 = ses_connections w2"
      using keepsD [OF keeps_apply_body _ b, of "ses_connections w2" "ses_lock w2"] by (simp add: holding_def)
    then show ?thesis
      using a x l b c by (auto simp: Apply_def deferM_def tryM_def wrapM_def Release_def split: sum.splits)
  qed
qed

subsection \<open>A concrete set of scripts\<close>

definition two_scripts :: "string list migration_lib" where
  "two_scripts =
     \<lparr>mig_ReadDir = Inr [(''0002_audit.sql'', False), (''README.md'', False), (''0001_init.sql'', False)],
      mig_ReadFile = (\<lambda>path. Inr path), mig_exec = (\<lambda>c s. Inr (s @ [c])), mig_collate = (\<lambda>vs. vs)\<rparr>"

definition new_session :: "trip stream \<Rightarrow> string list session" where
  "new_session trips = \<lparr>ses_schema = \<lparr>sch_state = [], sch_versions = None\<rparr>, ses_trips = trips,
     ses_lock = False, ses_connections = 0\<rparr>"

lemma two_scripts_facts:
  "unique_names two_scripts" "keeps_rows two_scripts"
  "migrationEntries two_scripts = Inr [''0001_init.sql'', ''0002_audit.sql'']"
  "replay two_scripts [''0001_init.sql'', ''0002_audit.sql''] [] = Inr [''sql/0001_init.sql'', ''sql/0002_audit.sql'']"
proof -
  show "unique_names two_scripts" "keeps_rows two_scripts"
    by (auto simp: unique_names_def keeps_rows_def two_scripts_def)
  show "migrationEntries two_scripts = Inr [''0001_init.sql'', ''0002_audit.sql'']" by code_simp
  show "replay two_scripts [''0001_init.sql'', ''0002_audit.sql''] [] = Inr [''sql/0001_init.sql'', ''sql/0002_audit.sql'']"
    by (simp add: two_scripts_def)
qed

lemma new_session_installing: "installing two_scripts [] es (ses_schema (new_session trips))"
  by (simp add: installing_def recorded_def new_session_def)

theorem Apply_installs_witness:
  "installing two_scripts [] [''0001_init.sql'', ''0002_audit.sql'']
     (ses_schema (snd (Apply two_scripts (new_session (Works ## Works ## Lost (LibError ''reset'') ## sconst Works)))))"
proof -
  let ?w = "new_session (Works ## Works ## Lost (LibError ''reset'') ## sconst Works)"
  obtain r w' where run: "Apply two_scripts ?w = (r, w')" by fastforce
  from Apply_installs [OF two_scripts_facts(1,3) new_session_installing run] show ?thesis by (simp add: run)
qed

theorem Apply_completes_witness:
  "\<exists>w'. Apply two_scripts (new_session (sconst Works)) = (Inr (), w')
     \<and> recorded (ses_schema w') = [''0001_init.sql'', ''0002_audit.sql'']
     \<and> sch_state (ses_schema w') = [''sql/0001_init.sql'', ''sql/0002_audit.sql'']"
  using Apply_completes [OF two_scripts_facts(1,3,4) new_session_installing, of "sconst Works"]
  by (auto simp: steady_def new_session_def)

theorem EnsureCompatible_decides_witness:
  "\<exists>e. fst (EnsureCompatible two_scripts (new_session (sconst Works))) = Inl e \<and> errors_Is e ErrSchemaUninitialized"
proof -
  let ?w = "new_session (sconst Works)"
  have "steady ?w" by (simp add: steady_def new_session_def)
  from EnsureCompatible_decides [OF this two_scripts_facts(3,2)]
  show ?thesis
    by (cases "fst (EnsureCompatible two_scripts ?w)") (auto simp: compatible_def new_session_def)
qed

end
