(* ===== verification/Starting.thy ===== *)
theory Starting
  imports Runtime Installing Loading Scenario "HOL-Library.Multiset"
begin

section \<open>What a process holds\<close>

text \<open>
  A failed start leaves no connection pool open, a successful one exactly one, on an acceptable
  configuration and a schema of this binary's version; the pool has the configured limits as far as 32
  bits hold them; and closing gives everything back.
\<close>

subsection \<open>The logger\<close>

lemma UnmarshalLevel_known:
  assumes "s \<in> {''DEBUG'', ''INFO'', ''WARN'', ''ERROR''}"
  shows "\<exists>level. NewLogger lib s = Inr level \<and> level_named s = Some level"
proof -
  have f: "list_all is_ascii s" "list_all is_ascii (map lower_byte s)" "split_sign (map lower_byte s) = (map lower_byte s, [])"
    "map upper_byte (map lower_byte s) = s"
    using assms by (elim insertE emptyE; hypsubst; code_simp)+
  obtain level where l: "level_named s = Some level" "level \<in> {- 4, 0, 4, 8}"
    using assms by (auto simp: level_named_def)
  have "sint (word_of_int level :: 64 word) = level" using l(2) by auto
  with l f show ?thesis
    by (simp add: NewLogger_def UnmarshalLevel_def ToLower_def ToUpper_def map_map [symmetric] del: map_map)
qed

subsection \<open>The pool\<close>

lemma sint_int32: "sint (word_of_int n :: 32 word) = (n + 2 ^ 31) mod 2 ^ 32 - 2 ^ 31"
proof -
  have "sint (word_of_int n :: 32 word) = signed_take_bit 31 n" by (simp add: signed_of_int)
  then show ?thesis by (simp add: signed_take_bit_eq_take_bit_shift take_bit_eq_mod)
qed

lemma NewPool_Inr:
  assumes "NewPool lib cfg w = (Inr pool, w')"
  shows "w' = w\<lparr>host_pools := host_pools w + 1\<rparr>"
    "\<exists>parsed. rl_ParseConfig lib (db_URL cfg) = Inr parsed \<and> pool = limited cfg parsed"
proof -
  obtain parsed where parsed: "rl_ParseConfig lib (db_URL cfg) = Inr parsed"
    using assms by (auto simp: NewPool_def io_simps liftE_def errM_def okM_def split: sum.splits)
  then show "w' = w\<lparr>host_pools := host_pools w + 1\<rparr>"
    "\<exists>parsed. rl_ParseConfig lib (db_URL cfg) = Inr parsed \<and> pool = limited cfg parsed"
    using assms by (auto simp: NewPool_def Let_def io_simps modify_def callM_def split: option.splits)
qed

lemma NewPool_Inl:
  "NewPool lib cfg w = (Inl err, w') \<Longrightarrow> w' = w"
  by (auto simp: NewPool_def Let_def io_simps modify_def callM_def Pool_Close_def split: option.splits)

text \<open>
  C37. The pool \<^verbatim>\<open>NewPool\<close> opens has the limits of its configuration modulo \<open>2 ^ 32\<close>, read as signed 32-bit
  numbers: the configured ones when \<^verbatim>\<open>DATABASE_MAX_OPEN_CONNS\<close> is below \<open>2 ^ 31\<close>; an acceptable
  configuration above that opens a pool of another size.
\<close>

theorem NewPool_limits:
  assumes "NewPool lib cfg w = (Inr pool, w')" "database_ok cfg"
  shows "sint (pc_MaxConns pool) = (MaxOpenConns cfg + 2 ^ 31) mod 2 ^ 32 - 2 ^ 31
       \<and> (MaxOpenConns cfg < 2 ^ 31 \<longleftrightarrow> sint (pc_MaxConns pool) = MaxOpenConns cfg)
       \<and> (MaxOpenConns cfg < 2 ^ 31 \<longrightarrow> sint (pc_MinConns pool) = MinIdleConns cfg)
       \<and> pc_MaxConnLifetime pool = MaxConnLifetime cfg \<and> pc_MaxConnIdleTime pool = MaxConnIdleTime cfg"
proof -
  have ok: "1 \<le> MaxOpenConns cfg" "0 \<le> MinIdleConns cfg" "MinIdleConns cfg \<le> MaxOpenConns cfg"
    using assms(2) by (simp_all add: database_ok_def)
  obtain parsed where pool: "pool = limited cfg parsed" using NewPool_Inr(2) [OF assms(1)] by blast
  have small: "sint (word_of_int n :: 32 word) = n" if "0 \<le> n" "n < 2 ^ 31" for n
    using that unfolding sint_int32 by simp
  have max: "sint (pc_MaxConns pool) = (MaxOpenConns cfg + 2 ^ 31) mod 2 ^ 32 - 2 ^ 31"
    by (simp add: pool limited_def sint_int32)
  have "sint (pc_MaxConns pool) < 2 ^ 31"
    unfolding max using pos_mod_bound [of "2 ^ 32" "MaxOpenConns cfg + 2 ^ 31"] by simp
  then have "MaxOpenConns cfg < 2 ^ 31 \<longleftrightarrow> sint (pc_MaxConns pool) = MaxOpenConns cfg"
    using small [of "MaxOpenConns cfg"] ok(1) by (auto simp: pool limited_def)
  moreover have "MaxOpenConns cfg < 2 ^ 31 \<longrightarrow> sint (pc_MinConns pool) = MinIdleConns cfg"
    using small [of "MinIdleConns cfg"] ok(2,3) by (auto simp: pool limited_def)
  ultimately show ?thesis using max by (simp add: pool limited_def)
qed

subsection \<open>Starting and closing\<close>

lemma SetupTracing_effect:
  "SetupTracing lib cfg w = (Inr p, w') \<Longrightarrow> w' = w\<lparr>host_tracers := host_tracers w @ [p]\<rparr>"
  "SetupTracing lib cfg w = (Inl e, w') \<Longrightarrow> w' = w"
  by (auto simp: SetupTracing_def Let_def io_simps modify_def callM_def split: option.splits if_splits)

lemma in_session_effect:
  "in_session m w = (r, w') \<longleftrightarrow> (\<exists>s. m (host_session w) = (r, s) \<and> w' = w\<lparr>host_session := s\<rparr>)"
  by (auto simp: in_session_def split: prod.splits)

lemma log_at_effect [simp]:
  "host_pools (log_at l n e w) = host_pools w" "host_tracers (log_at l n e w) = host_tracers w"
  "host_session (log_at l n e w) = host_session w" "host_store (log_at l n e w) = host_store w"
  "host_jobs_total (log_at l n e w) = host_jobs_total w"
  by (simp_all add: log_at_def)

lemma log_at_log: "host_log (log_at l n e w) = host_log w @ (if l \<le> n then [e] else [])"
  by (simp add: log_at_def)

definition quiet_start :: "'s host \<Rightarrow> 's host \<Rightarrow> bool" where
  "quiet_start w w' \<longleftrightarrow> host_pools w' = host_pools w \<and> host_log w' = host_log w \<and> host_store w' = host_store w
     \<and> (host_tracers w' = host_tracers w \<or> (\<exists>p. host_tracers w' = host_tracers w @ [p]))"

definition started :: "'s runtime_lib \<Rightarrow> 's host \<Rightarrow> Runtime \<Rightarrow> 's host \<Rightarrow> bool" where
  "started lib w rt w' \<longleftrightarrow>
     host_pools w' = host_pools w + 1 \<and> host_tracers w' = host_tracers w @ [ru_tracer rt]
   \<and> host_store w' = host_store w \<and> host_jobs_total w' = host_jobs_total w
   \<and> config_ok (rl_config lib) (ru_Config rt)
   \<and> EnsureCompatible (rl_migrations lib) (host_session w) = (Inr (Some ()), host_session w')
   \<and> NewValidator (rl_auth lib) (cfg_Auth (ru_Config rt)) = Inr (ru_AuthValidator rt)
   \<and> ru_ControlPlane rt = NewControlPlane (rl_libraries lib) (MaxAttempts (cfg_Worker (ru_Config rt)))"

text \<open>The part of \<^verbatim>\<open>Bootstrap\<close> after the pool is open.\<close>

definition finish_start ::
  "'s runtime_lib \<Rightarrow> Config \<Rightarrow> int \<Rightarrow> Metrics \<Rightarrow> tracer \<Rightarrow> pool_config \<Rightarrow> ('s, Runtime option) host_io" where
  "finish_start lib cfg logger metrics p pool =
     catchM (in_session (EnsureCompatible (rl_migrations lib))) (\<lambda>checked.
     case checked of
       Inl err \<Rightarrow> letM (modify Pool_Close) (\<lambda>_. errM (wrap_prefix ''bootstrap: schema compatibility: '' err))
     | Inr None \<Rightarrow> okM None
     | Inr (Some u) \<Rightarrow>
         (case NewValidator (rl_auth lib) (cfg_Auth cfg) of
            Inl err \<Rightarrow> letM (modify Pool_Close) (\<lambda>_. errM (wrap_prefix ''bootstrap: auth validator: '' err))
          | Inr v \<Rightarrow>
              letM (modify (log_at logger 0 (RuntimeBootstrapped (Redacted cfg)))) (\<lambda>_.
              okM (Some \<lparr>ru_Config = cfg, ru_Logger = logger, ru_Metrics = metrics,
                ru_Store = PostgresRepository (lib_error_text (rl_libraries lib)), ru_Pool = pool,
                ru_ControlPlane = NewControlPlane (rl_libraries lib) (MaxAttempts (cfg_Worker cfg)),
                ru_AuthValidator = v, ru_tracer = p\<rparr>))))"

lemma Bootstrap_finish:
  "Bootstrap lib env =
     tryM (liftE (Load (rl_config lib) env)) (\<lambda>cfg.
     tryM (liftE (NewLogger (rl_config lib) (AppLogLevel cfg))) (\<lambda>logger.
     tryM (wrapM (wrap_prefix ''bootstrap: create metrics: '')
       (liftE (NewMetrics lib (Namespace (cfg_Observability cfg))))) (\<lambda>metrics.
     tryM (wrapM (wrap_prefix ''bootstrap: setup tracing: '') (SetupTracing lib (cfg_Observability cfg))) (\<lambda>p.
     tryM (NewPool lib (cfg_Database cfg)) (\<lambda>pool. finish_start lib cfg logger metrics p pool)))))"
  unfolding Bootstrap_def finish_start_def ..

lemma finish_start_run:
  assumes "EnsureCompatible (rl_migrations lib) (host_session w) = (c, s)"
  shows "finish_start lib cfg logger metrics p pool w =
    (let w1 = w\<lparr>host_session := s\<rparr> in
     case c of
       Inl err \<Rightarrow> (Inl (wrap_prefix ''bootstrap: schema compatibility: '' err), Pool_Close w1)
     | Inr None \<Rightarrow> (Inr None, w1)
     | Inr (Some u) \<Rightarrow>
         (case NewValidator (rl_auth lib) (cfg_Auth cfg) of
            Inl err \<Rightarrow> (Inl (wrap_prefix ''bootstrap: auth validator: '' err), Pool_Close w1)
          | Inr v \<Rightarrow> (Inr (Some \<lparr>ru_Config = cfg, ru_Logger = logger, ru_Metrics = metrics,
              ru_Store = PostgresRepository (lib_error_text (rl_libraries lib)), ru_Pool = pool,
              ru_ControlPlane = NewControlPlane (rl_libraries lib) (MaxAttempts (cfg_Worker cfg)),
              ru_AuthValidator = v, ru_tracer = p\<rparr>),
              log_at logger 0 (RuntimeBootstrapped (Redacted cfg)) w1)))"
  using assms
  by (simp add: finish_start_def in_session_def catchM_def letM_def modify_def errM_def okM_def Let_def
      split: sum.split option.split)

lemma finish_start_Inl:
  assumes "finish_start lib cfg logger metrics p pool w = (Inl e, w')"
  shows "host_pools w' = host_pools w - 1 \<and> host_log w' = host_log w \<and> host_tracers w' = host_tracers w
     \<and> host_store w' = host_store w"
proof -
  obtain c s where "EnsureCompatible (rl_migrations lib) (host_session w) = (c, s)" by fastforce
  from assms [unfolded finish_start_run [OF this]] show ?thesis
    by (auto simp: Let_def Pool_Close_def split: sum.splits option.splits)
qed

lemma finish_start_None:
  assumes "finish_start lib cfg logger metrics p pool w = (Inr None, w')"
  shows "Versions (rl_migrations lib) = None"
proof -
  obtain c s where c: "EnsureCompatible (rl_migrations lib) (host_session w) = (c, s)" by fastforce
  from assms [unfolded finish_start_run [OF this]] have "c = Inr None"
    by (auto simp: Let_def split: sum.splits option.splits)
  with c have run: "EnsureCompatible (rl_migrations lib) (host_session w) = (Inr None, s)" by simp
  show ?thesis
  proof (cases "Versions (rl_migrations lib)")
    case (Some vs)
    with run show ?thesis
      by (simp add: EnsureCompatible_def CurrentVersion_def tryM_def errM_def okM_def
          split: prod.splits sum.splits option.splits)
  qed simp
qed

lemma finish_start_Some:
  assumes "finish_start lib cfg logger metrics p pool w = (Inr (Some rt), w')"
  shows "host_pools w' = host_pools w \<and> host_tracers w' = host_tracers w \<and> host_store w' = host_store w
   \<and> host_jobs_total w' = host_jobs_total w \<and> ru_Config rt = cfg \<and> ru_tracer rt = p
   \<and> EnsureCompatible (rl_migrations lib) (host_session w) = (Inr (Some ()), host_session w')
   \<and> NewValidator (rl_auth lib) (cfg_Auth cfg) = Inr (ru_AuthValidator rt)
   \<and> ru_ControlPlane rt = NewControlPlane (rl_libraries lib) (MaxAttempts (cfg_Worker cfg))"
proof -
  obtain c s where c: "EnsureCompatible (rl_migrations lib) (host_session w) = (c, s)" by fastforce
  from assms [unfolded finish_start_run [OF this]] c show ?thesis
    by (auto simp: Let_def split: sum.splits option.splits)
qed

lemma Bootstrap_Inl: "Bootstrap lib env w = (Inl e, w') \<Longrightarrow> quiet_start w w'"
  by (auto simp: Bootstrap_finish io_simps quiet_start_def
      dest!: SetupTracing_effect NewPool_Inl NewPool_Inr(1) finish_start_Inl)

lemma Bootstrap_None: "Bootstrap lib env w = (Inr None, w') \<Longrightarrow> Versions (rl_migrations lib) = None"
  by (auto simp: Bootstrap_finish io_simps dest: finish_start_None)

lemma Bootstrap_Some:
  assumes "Bootstrap lib env w = (Inr (Some rt), w')"
  shows "started lib w rt w'"
proof -
  obtain cfg logger metrics p wt pool wp where
    load: "Load (rl_config lib) env = Inr cfg"
    and t: "SetupTracing lib (cfg_Observability cfg) w = (Inr p, wt)"
    and pool: "NewPool lib (cfg_Database cfg) wt = (Inr pool, wp)"
    and fin: "finish_start lib cfg logger metrics p pool wp = (Inr (Some rt), w')"
    using assms unfolding Bootstrap_finish io_simps by metis
  show ?thesis
    using finish_start_Some [OF fin] Load_acceptable [OF load]
    by (simp add: started_def NewPool_Inr(1) [OF pool] SetupTracing_effect(1) [OF t])
qed

lemma Runtime_Close_effect:
  "Runtime_Close lib rt w = (r, w') \<Longrightarrow>
     w' = (Pool_Close w)\<lparr>host_tracers := remove1 (ru_tracer rt) (host_tracers w)\<rparr>"
  by (auto simp: Runtime_Close_def letM_def wrapM_def errM_def okM_def modify_def callM_def split: option.splits)

lemma Runtime_Close_started:
  assumes "started lib w rt v" "host_pools u = host_pools v" "host_tracers u = host_tracers v"
    "Runtime_Close lib rt u = (r, w')"
  shows "host_pools w' = host_pools w" "mset (host_tracers w') = mset (host_tracers w)" "host_store w' = host_store u"
    "host_jobs_total w' = host_jobs_total u" "host_log w' = host_log u"
  using assms(1-3) Runtime_Close_effect [OF assms(4)] by (simp_all add: started_def Pool_Close_def)

text \<open>
  C28. A failed \<^verbatim>\<open>Bootstrap\<close> leaves the process with the pools it had and logs nothing; it may leave one
  tracer provider running. A successful one opens exactly one pool and one provider, runs on an acceptable
  configuration with the validator of that configuration, and has found the schema to be this binary's;
  \<^verbatim>\<open>Close\<close> then gives back the pool and the provider. Neither touches the tables. It panics only if the
  embedded migrations cannot be read.
\<close>

theorem Bootstrap_resources:
  assumes "Bootstrap lib env w = (r, w')"
  shows "case r of
      Inl err \<Rightarrow> quiet_start w w'
    | Inr None \<Rightarrow> Versions (rl_migrations lib) = None
    | Inr (Some rt) \<Rightarrow> started lib w rt w'
        \<and> host_pools (snd (Runtime_Close lib rt w')) = host_pools w
        \<and> mset (host_tracers (snd (Runtime_Close lib rt w'))) = mset (host_tracers w)
        \<and> host_store (snd (Runtime_Close lib rt w')) = host_store w"
proof (cases r)
  case (Inl e)
  then show ?thesis using Bootstrap_Inl assms by simp
next
  case (Inr x)
  show ?thesis
  proof (cases x)
    case None
    then show ?thesis using Inr Bootstrap_None assms by simp
  next
    case (Some rt)
    have s: "started lib w rt w'" using Bootstrap_Some assms Inr Some by simp
    obtain q v where c: "Runtime_Close lib rt w' = (q, v)" by fastforce
    have "host_store w' = host_store w" using s by (simp add: started_def)
    with s Runtime_Close_started [OF s refl refl c] c show ?thesis by (simp add: Inr Some)
  qed
qed

subsection \<open>The worker process\<close>

lemma Run_canceled: "fst (Run wk ticks w) = Inl (LibError ''context canceled'')"
  by (induction wk ticks arbitrary: w rule: Run.induct) (simp_all add: letM_def errM_def case_prod_beta)

text \<open>
  C30. The worker process exits with status 0 exactly when \<^verbatim>\<open>Bootstrap\<close> succeeds, whatever its iterations
  meet; then it has closed its pool and its provider, left in the tables what its loop, run with the
  configured batch size and lease until the signal, made of them, and reported what the loop counted and,
  at the configured level, what it logged. If \<^verbatim>\<open>Bootstrap\<close> fails it exits with status 1, says why and keeps
  nothing open.
\<close>

theorem worker_main_exits:
  assumes "worker_main lib env newID ticks w = (code, w')"
  shows "(\<exists>rt v s. Bootstrap lib env w = (Inr (Some rt), v) \<and> code = 0
            \<and> host_pools w' = host_pools w \<and> mset (host_tracers w') = mset (host_tracers w)
            \<and> s = snd (Run (worker_of (rl_libraries lib) (ru_ControlPlane rt) newID
                (cfg_BatchSize (cfg_Worker (ru_Config rt))) (cfg_Lease (cfg_Worker (ru_Config rt)))) ticks (watched (host_store w)))
            \<and> host_store w' = ws_world s \<and> host_jobs_total w' = host_jobs_total w @ ws_jobs_total s
            \<and> host_log w' = host_log v @ (if ru_Logger rt \<le> 0 then [WorkerStarted] else [])
                @ map WorkerLogged (filter (\<lambda>e. ru_Logger rt \<le> worker_level e) (ws_log s)))
       \<or> (\<exists>err v. Bootstrap lib env w = (Inl err, v) \<and> code = 1 \<and> host_pools w' = host_pools w
            \<and> host_store w' = host_store w \<and> host_stderr w' = host_stderr v @ [error_text (rl_text lib) err])
       \<or> code = 2 \<and> Versions (rl_migrations lib) = None"
proof -
  obtain r v where b: "Bootstrap lib env w = (r, v)" by fastforce
  consider (failed) err where "r = Inl err" | (panicked) "r = Inr None" | (running) rt where "r = Inr (Some rt)"
    by (metis option.exhaust sum.exhaust)
  then show ?thesis
  proof cases
    case failed
    then show ?thesis using assms b Bootstrap_Inl [of lib env w err v]
      by (auto simp: worker_main_def letM_def exit_with_def quiet_start_def)
  next
    case panicked
    then show ?thesis using assms b Bootstrap_None [of lib env w v] by (simp add: worker_main_def letM_def)
  next
    case running
    define wk where "wk = worker_of (rl_libraries lib) (ru_ControlPlane rt) newID
      (cfg_BatchSize (cfg_Worker (ru_Config rt))) (cfg_Lease (cfg_Worker (ru_Config rt)))"
    define v1 where "v1 = log_at (ru_Logger rt) 0 WorkerStarted v"
    define s where "s = snd (Run wk ticks (watched (host_store v1)))"
    define v2 where "v2 = v1\<lparr>host_store := ws_world s, host_jobs_total := host_jobs_total v1 @ ws_jobs_total s,
      host_log := host_log v1 @ map WorkerLogged (filter (\<lambda>e. ru_Logger rt \<le> worker_level e) (ws_log s))\<rparr>"
    obtain q x where c: "Runtime_Close lib rt v2 = (q, x)" by fastforce
    have st: "started lib w rt v" using Bootstrap_Some b running by simp
    have ran: "on_store (ru_Logger rt) (Run wk ticks) v1 = (Inl (LibError ''context canceled''), v2)"
      using Run_canceled [of wk ticks "watched (host_store v1)"] by (simp add: on_store_def v2_def s_def case_prod_beta)
    have "code = 0 \<and> w' = x"
      using assms b running ran c
      by (simp add: worker_main_def letM_def modify_def Let_def wk_def [symmetric] v1_def [symmetric] canceled_def)
    moreover have "host_store v1 = host_store w" "host_jobs_total v1 = host_jobs_total w"
      "host_log v1 = host_log v @ (if ru_Logger rt \<le> 0 then [WorkerStarted] else [])"
      using st by (simp_all add: v1_def started_def log_at_log)
    moreover note Runtime_Close_started [OF st _ _ c]
    ultimately show ?thesis
      using b running by (simp add: v2_def s_def) (simp add: v1_def wk_def)
  qed
qed

subsection \<open>A start that succeeds\<close>

definition all_available :: "'s runtime_lib \<Rightarrow> bool" where
  "all_available lib \<longleftrightarrow>
     (\<forall>cs c. rl_Register lib cs c = None) \<and> (\<forall>s. rl_NewResource lib s = None) \<and> (\<forall>e. rl_NewExporter lib e = None)
   \<and> (\<forall>url. \<exists>parsed. rl_ParseConfig lib url = Inr parsed)
   \<and> (\<forall>pool. rl_NewWithConfig lib pool = None \<and> rl_Ping lib pool = None)"

lemma NewMetrics_available: "all_available lib \<Longrightarrow> \<exists>m. NewMetrics lib namespace = Inr m"
  by (simp add: all_available_def NewMetrics_def Register_all_def Let_def)

lemma SetupTracing_available:
  assumes "all_available lib"
  shows "\<exists>p. SetupTracing lib cfg w = (Inr p, w\<lparr>host_tracers := host_tracers w @ [p]\<rparr>)"
  using assms
  by (simp add: all_available_def SetupTracing_def Let_def combinator_defs callM_def modify_def)

lemma NewPool_available:
  assumes "all_available lib"
  shows "\<exists>pool. NewPool lib cfg w = (Inr pool, w\<lparr>host_pools := host_pools w + 1\<rparr>)"
proof -
  obtain parsed where "rl_ParseConfig lib (db_URL cfg) = Inr parsed"
    using assms unfolding all_available_def by blast
  with assms show ?thesis
    by (simp add: all_available_def NewPool_def Let_def combinator_defs callM_def modify_def liftE_def)
qed

text \<open>With every service available, an environment that loads and a compatible schema are enough.\<close>

lemma Bootstrap_available:
  assumes "all_available lib" "Load (rl_config lib) env = Inr cfg"
    "EnsureCompatible (rl_migrations lib) (host_session w) = (Inr (Some ()), s)"
    "NewValidator (rl_auth lib) (cfg_Auth cfg) = Inr v"
  shows "\<exists>rt w'. Bootstrap lib env w = (Inr (Some rt), w') \<and> ru_Config rt = cfg"
proof -
  have "AppLogLevel cfg \<in> {''DEBUG'', ''INFO'', ''WARN'', ''ERROR''}"
    using Load_acceptable [OF assms(2)] by (simp add: config_ok_def)
  then obtain logger where logger: "NewLogger (rl_config lib) (AppLogLevel cfg) = Inr logger"
    using UnmarshalLevel_known by blast
  obtain m where m: "NewMetrics lib (Namespace (cfg_Observability cfg)) = Inr m"
    using NewMetrics_available [OF assms(1)] by blast
  obtain p where p: "SetupTracing lib (cfg_Observability cfg) w = (Inr p, w\<lparr>host_tracers := host_tracers w @ [p]\<rparr>)"
    using SetupTracing_available [OF assms(1)] by blast
  let ?w = "w\<lparr>host_tracers := host_tracers w @ [p]\<rparr>"
  obtain pool where pool: "NewPool lib (cfg_Database cfg) ?w = (Inr pool, ?w\<lparr>host_pools := host_pools ?w + 1\<rparr>)"
    using NewPool_available [OF assms(1)] by blast
  have "EnsureCompatible (rl_migrations lib) (host_session (?w\<lparr>host_pools := host_pools ?w + 1\<rparr>)) = (Inr (Some ()), s)"
    using assms(3) by simp
  note fin = finish_start_run [OF this, of cfg logger m p pool]
  show ?thesis
    unfolding Bootstrap_finish tryM_def wrapM_def liftE_def assms(2) logger m okM_def sum.case prod.case p pool fin
    by (simp add: Let_def assms(4))
qed

definition sample_runtime_lib :: "string list runtime_lib" where
  "sample_runtime_lib = \<lparr>rl_config = no_lib, rl_migrations = two_scripts, rl_auth = paper_lib, rl_libraries = L0,
     rl_Register = (\<lambda>_ _. None), rl_NewResource = (\<lambda>_. None), rl_NewExporter = (\<lambda>_. None),
     rl_ShutdownTracer = (\<lambda>_. None),
     rl_ParseConfig = (\<lambda>url. Inr \<lparr>pc_URL = url, pc_MaxConns = 4, pc_MinConns = 0, pc_MaxConnLifetime = Hour,
       pc_MaxConnIdleTime = Hour\<rparr>),
     rl_NewWithConfig = (\<lambda>_. None), rl_Ping = (\<lambda>_. None), rl_text = (\<lambda>_. ''library error'')\<rparr>"

definition host_on :: "string list session \<Rightarrow> string list host" where
  "host_on s = \<lparr>host_session = s, host_store = process 0 0 empty_db, host_pools = 0, host_tracers = [],
     host_log = [], host_stderr = [], host_jobs_total = []\<rparr>"

lemma sample_bootstrap:
  "\<exists>s rt w'. Bootstrap sample_runtime_lib sample_environment (host_on s) = (Inr (Some rt), w')"
proof -
  let ?w = "new_session (sconst Works)"
  have st: "steady ?w" by (simp add: steady_def new_session_def)
  obtain w' where run: "Apply two_scripts ?w = (Inr (), w')"
    using Apply_steady [OF two_scripts_facts(1,3,4) new_session_installing st] by blast
  let ?s = "?w\<lparr>ses_schema := ses_schema w'\<rparr>"
  have compatible: "EnsureCompatible two_scripts ?s = (Inr (Some ()), ?s)"
    using Apply_then_compatible [OF two_scripts_facts(1,2) new_session_installing two_scripts_facts(3) run]
    by (simp add: st)
  have "isl (Load no_lib sample_environment) = False" by code_simp
  then obtain cfg where cfg: "Load no_lib sample_environment = Inr cfg"
    by (cases "Load no_lib sample_environment") auto
  have "auth_ok no_lib (cfg_Auth cfg)" using Load_acceptable [OF cfg] by (simp add: config_ok_def)
  then have "Mode (cfg_Auth cfg) = ''hmac'' \<or> Mode (cfg_Auth cfg) = ''oidc''" by (auto simp: auth_ok_def)
  moreover have "lib_NewProvider paper_lib insecure url = Inr (url, url @ ''/keys'')" for insecure url
    by (simp add: paper_lib_def)
  ultimately have "\<exists>v. NewValidator paper_lib (cfg_Auth cfg) = Inr v"
    by (elim disjE) (simp_all add: NewValidator_def newOIDCValidator_def Let_def)
  then obtain v where "NewValidator paper_lib (cfg_Auth cfg) = Inr v" ..
  then have "\<exists>rt w'. Bootstrap sample_runtime_lib sample_environment (host_on ?s) = (Inr (Some rt), w') \<and> ru_Config rt = cfg"
    using compatible cfg
    by (intro Bootstrap_available) (simp_all add: sample_runtime_lib_def all_available_def host_on_def)
  then show ?thesis by blast
qed

theorem Bootstrap_resources_witness:
  "\<exists>s rt w'. Bootstrap sample_runtime_lib sample_environment (host_on s) = (Inr (Some rt), w')
     \<and> host_pools w' = 1 \<and> host_pools (snd (Runtime_Close sample_runtime_lib rt w')) = 0"
proof -
  obtain s rt w' where b: "Bootstrap sample_runtime_lib sample_environment (host_on s) = (Inr (Some rt), w')"
    using sample_bootstrap by blast
  from Bootstrap_resources [OF b] have "host_pools w' = 1 \<and> host_pools (snd (Runtime_Close sample_runtime_lib rt w')) = 0"
    by (simp add: started_def) (simp add: host_on_def)
  with b show ?thesis by blast
qed

theorem worker_main_exits_witness:
  "\<exists>s w'. worker_main sample_runtime_lib sample_environment 1 2 (host_on s) = (0, w') \<and> host_pools w' = 0"
proof -
  obtain s rt v where b: "Bootstrap sample_runtime_lib sample_environment (host_on s) = (Inr (Some rt), v)"
    using sample_bootstrap by blast
  obtain code w' where m: "worker_main sample_runtime_lib sample_environment 1 2 (host_on s) = (code, w')"
    by fastforce
  have "Versions two_scripts \<noteq> None" using two_scripts_facts(3) by (simp add: Versions_def)
  then have v: "Versions (rl_migrations sample_runtime_lib) \<noteq> None" by (simp add: sample_runtime_lib_def)
  have "host_pools (host_on s) = 0" by (simp add: host_on_def)
  with worker_main_exits [OF m] b v m show ?thesis by auto
qed

definition crowded :: DatabaseConfig where
  "crowded = \<lparr>db_URL = ''postgres://db/cp'', MaxOpenConns = 4294967297, MinIdleConns = 2, MaxConnLifetime = Hour,
     MaxConnIdleTime = Hour\<rparr>"

theorem NewPool_limits_witness:
  "\<exists>pool w'. NewPool sample_runtime_lib crowded (host_on (new_session (sconst Works))) = (Inr pool, w') \<and> database_ok crowded
     \<and> sint (pc_MaxConns pool) = 1"
proof -
  have ok: "database_ok crowded"
  proof -
    have "TrimSpace ''postgres://db/cp'' = ''postgres://db/cp''" by code_simp
    then show ?thesis by (simp add: database_ok_def crowded_def trimmed_def positive_duration_def)
  qed
  have "all_available sample_runtime_lib" by (simp add: sample_runtime_lib_def all_available_def)
  then obtain pool where pool: "NewPool sample_runtime_lib crowded (host_on (new_session (sconst Works)))
      = (Inr pool, (host_on (new_session (sconst Works)))\<lparr>host_pools := host_pools (host_on (new_session (sconst Works))) + 1\<rparr>)"
    using NewPool_available by blast
  from NewPool_limits [OF pool ok] have "sint (pc_MaxConns pool) = 1" by (simp add: crowded_def)
  with pool ok show ?thesis by blast
qed

end
