(* ===== verification/ApiProcess.thy ===== *)
theory ApiProcess
  imports Starting
begin

section \<open>The life of the API process (\<^verbatim>\<open>cmd/api\<close>)\<close>

text \<open>
  After a start the process is two goroutines and the requests in flight. \<^verbatim>\<open>main\<close> blocks in
  \<^verbatim>\<open>ListenAndServe\<close>; the other waits for a signal and then calls \<^verbatim>\<open>server.Shutdown\<close>, which stops accepting
  at once and then waits for the requests in flight. As \<^verbatim>\<open>net/http\<close> documents, \<^verbatim>\<open>ListenAndServe\<close> returns
  \<^verbatim>\<open>ErrServerClosed\<close> as soon as \<^verbatim>\<open>Shutdown\<close> is called. \<open>api_step\<close> interleaves these; what a request does
  is the concern of Server. A process that has exited takes no step.
\<close>

subsection \<open>The process\<close>

datatype main_state = Listening | Returning | Exited int

record 's api_process =
  ap_runtime :: Runtime
  ap_host :: "'s host"
  ap_accepting :: bool
  ap_inflight :: nat
  ap_draining :: bool
  ap_drained :: bool
  ap_main :: main_state

text \<open>\<^verbatim>\<open>main\<close> up to \<^verbatim>\<open>ListenAndServe\<close>: an exit status, or the process listening.\<close>

definition api_main :: "'s runtime_lib \<Rightarrow> environ \<Rightarrow> 's host \<Rightarrow> (int \<times> 's host) + 's api_process" where
  "api_main lib env w =
     (case Bootstrap lib env w of
        (Inl err, w') \<Rightarrow> Inl (exit_with lib err w')
      | (Inr None, w') \<Rightarrow> Inl (2, w')
      | (Inr (Some rt), w') \<Rightarrow> Inr
          \<lparr>ap_runtime = rt, ap_host = log_at (ru_Logger rt) 0 (ApiListening (HTTPAddr (ru_Config rt))) w',
           ap_accepting = True, ap_inflight = 0, ap_draining = False, ap_drained = False, ap_main = Listening\<rparr>)"

inductive api_step :: "'s runtime_lib \<Rightarrow> 's api_process \<Rightarrow> 's api_process \<Rightarrow> bool" for lib where
  accept: "ap_accepting p \<Longrightarrow> ap_main p = Listening \<Longrightarrow>
    api_step lib p (p\<lparr>ap_inflight := Suc (ap_inflight p)\<rparr>)"
| respond: "ap_inflight p = Suc n \<Longrightarrow> ap_main p \<in> {Listening, Returning} \<Longrightarrow>
    api_step lib p (p\<lparr>ap_inflight := n\<rparr>)"
| shutdown: "\<not> ap_draining p \<Longrightarrow> ap_main p = Listening \<Longrightarrow>
    api_step lib p (p\<lparr>ap_draining := True, ap_accepting := False\<rparr>)"
| drained: "ap_draining p \<Longrightarrow> ap_inflight p = 0 \<Longrightarrow> ap_main p \<in> {Listening, Returning} \<Longrightarrow>
    api_step lib p (p\<lparr>ap_drained := True\<rparr>)"
| server_closed: "ap_draining p \<Longrightarrow> ap_main p = Listening \<Longrightarrow>
    api_step lib p (p\<lparr>ap_main := Returning\<rparr>)"
| server_failed: "ap_main p = Listening \<Longrightarrow>
    api_step lib p (p\<lparr>ap_host := log_at (ru_Logger (ap_runtime p)) 8 (ApiServerFailed (error_text (rl_text lib) err)) (ap_host p),
      ap_accepting := False, ap_main := Exited 1\<rparr>)"
| closed: "ap_main p = Returning \<Longrightarrow>
    api_step lib p (p\<lparr>ap_host := snd (Runtime_Close lib (ap_runtime p) (ap_host p)), ap_main := Exited 0\<rparr>)"

inductive_cases api_stepE: "api_step lib p q"

definition api_run :: "'s runtime_lib \<Rightarrow> 's api_process \<Rightarrow> 's api_process \<Rightarrow> bool" where
  "api_run lib = (api_step lib)\<^sup>*\<^sup>*"

text \<open>A process that has exited takes no step, so its last state is what it leaves behind.\<close>

lemma exited_is_final:
  assumes "api_run lib p q" "ap_main p = Exited code"
  shows "q = p"
  using assms unfolding api_run_def by (induction rule: rtranclp_induct) (auto elim: api_stepE)

subsection \<open>Invariants\<close>

text \<open>
  While the process runs it holds what the start opened; at status 0 it has closed it, after a call of
  \<^verbatim>\<open>Shutdown\<close>; at status 1, where \<^verbatim>\<open>os.Exit\<close> skips the deferred \<^verbatim>\<open>Close\<close>, it has not.
\<close>

definition api_inv :: "'s host \<Rightarrow> Runtime \<Rightarrow> 's api_process \<Rightarrow> bool" where
  "api_inv w rt p \<longleftrightarrow>
     ap_runtime p = rt \<and> (ap_draining p \<longrightarrow> \<not> ap_accepting p)
   \<and> (case ap_main p of
        Listening \<Rightarrow> host_pools (ap_host p) = host_pools w + 1 \<and> host_tracers (ap_host p) = host_tracers w @ [ru_tracer rt]
      | Returning \<Rightarrow> host_pools (ap_host p) = host_pools w + 1 \<and> host_tracers (ap_host p) = host_tracers w @ [ru_tracer rt]
          \<and> ap_draining p
      | Exited code \<Rightarrow> \<not> ap_accepting p \<and> (code = 0 \<and> ap_draining p \<and> host_pools (ap_host p) = host_pools w
            \<and> mset (host_tracers (ap_host p)) = mset (host_tracers w)
          \<or> code = 1 \<and> host_pools (ap_host p) = host_pools w + 1))"

lemma api_main_inv: "api_main lib env w = Inr p \<Longrightarrow> api_inv w (ap_runtime p) p \<and> ap_main p = Listening"
  by (auto simp: api_main_def api_inv_def started_def dest!: Bootstrap_Some split: prod.splits sum.splits option.splits)

lemma Close_releases:
  assumes "host_pools u = host_pools w + 1" "host_tracers u = host_tracers w @ [ru_tracer rt]"
  shows "host_pools (snd (Runtime_Close lib rt u)) = host_pools w"
    "mset (host_tracers (snd (Runtime_Close lib rt u))) = mset (host_tracers w)"
  using assms Runtime_Close_effect [OF prod.collapse [symmetric], of lib rt u] by (simp_all add: Pool_Close_def)

lemma api_step_inv:
  assumes "api_step lib p q" "api_inv w rt p"
  shows "api_inv w rt q"
  using assms
  by (elim api_stepE) (auto simp: api_inv_def Close_releases split: main_state.splits)

lemma api_run_inv: "api_run lib p q \<Longrightarrow> api_inv w rt p \<Longrightarrow> api_inv w rt q"
  unfolding api_run_def by (induction rule: rtranclp_induct) (auto intro: api_step_inv)

lemma api_run_steps: "api_step lib p q \<Longrightarrow> api_run lib q r \<Longrightarrow> api_run lib p r"
  unfolding api_run_def by (rule converse_rtranclp_into_rtranclp)

lemma api_run_refl: "api_run lib p p"
  by (simp add: api_run_def)

text \<open>A stop need not wait for anyone.\<close>

lemma stop_at_once:
  assumes "ap_main p = Listening"
  shows "\<exists>q. api_run lib p q \<and> ap_main q = Exited 0 \<and> ap_inflight q = ap_inflight p \<and> ap_drained q = ap_drained p"
proof -
  have go: "\<exists>q. api_run lib r q \<and> ap_main q = Exited 0 \<and> ap_inflight q = ap_inflight r \<and> ap_drained q = ap_drained r"
    if "ap_draining r" "ap_main r = Listening" for r
  proof -
    have "api_step lib r (r\<lparr>ap_main := Returning\<rparr>)" using that by (rule server_closed)
    moreover have "api_run lib (r\<lparr>ap_main := Returning\<rparr>)
        (r\<lparr>ap_host := snd (Runtime_Close lib (ap_runtime r) (ap_host r)), ap_main := Exited 0\<rparr>)"
      using api_run_steps [OF closed [of "r\<lparr>ap_main := Returning\<rparr>"] api_run_refl] by simp
    ultimately have "api_run lib r (r\<lparr>ap_host := snd (Runtime_Close lib (ap_runtime r) (ap_host r)), ap_main := Exited 0\<rparr>)"
      by (rule api_run_steps)
    then show ?thesis
      by (intro exI [of _ "r\<lparr>ap_host := snd (Runtime_Close lib (ap_runtime r) (ap_host r)), ap_main := Exited 0\<rparr>"]) simp
  qed
  show ?thesis
  proof (cases "ap_draining p")
    case True
    then show ?thesis using go assms by blast
  next
    case False
    let ?r = "p\<lparr>ap_draining := True, ap_accepting := False\<rparr>"
    have "api_step lib p ?r" using False assms by (rule shutdown)
    moreover obtain q where "api_run lib ?r q" "ap_main q = Exited 0" "ap_inflight q = ap_inflight ?r"
      "ap_drained q = ap_drained ?r"
      using go [of ?r] assms by auto
    ultimately show ?thesis using api_run_steps [of lib p ?r q] by auto
  qed
qed

text \<open>
  C29. A stopped API process has accepted nothing since \<^verbatim>\<open>Shutdown\<close> was called, has given back its pool and
  its tracer provider when it exits with status 0, and still holds the pool at status 1. But nothing
  makes it wait: from every state in which it listens, with any number of requests in flight, it can exit
  with status 0 and all of them unanswered, however long \<^verbatim>\<open>SHUTDOWN_TIMEOUT\<close> is.
\<close>

theorem api_exit:
  assumes "api_main lib env w = Inr p" "api_run lib p q"
  shows "(ap_draining q \<longrightarrow> \<not> ap_accepting q)
     \<and> (ap_main q = Exited 0 \<longrightarrow> ap_draining q \<and> host_pools (ap_host q) = host_pools w
          \<and> mset (host_tracers (ap_host q)) = mset (host_tracers w))
     \<and> (ap_main q = Exited 1 \<longrightarrow> host_pools (ap_host q) = host_pools w + 1)
     \<and> (ap_main q = Listening \<longrightarrow>
          (\<exists>q'. api_run lib q q' \<and> ap_main q' = Exited 0 \<and> ap_inflight q' = ap_inflight q))"
proof -
  have "api_inv w (ap_runtime p) q"
    using api_main_inv [OF assms(1)] api_run_inv [OF assms(2)] by blast
  moreover have "\<exists>q'. api_run lib q q' \<and> ap_main q' = Exited 0 \<and> ap_inflight q' = ap_inflight q"
    if "ap_main q = Listening"
    using stop_at_once [OF that] by blast
  ultimately show ?thesis by (auto simp: api_inv_def)
qed

theorem api_exit_witness:
  "\<exists>s p q. api_main sample_runtime_lib sample_environment (host_on s) = Inr p
     \<and> api_run sample_runtime_lib p q \<and> ap_main q = Exited 0 \<and> ap_inflight q = 2"
proof -
  obtain s rt v where "Bootstrap sample_runtime_lib sample_environment (host_on s) = (Inr (Some rt), v)"
    using sample_bootstrap by blast
  then obtain p where p: "api_main sample_runtime_lib sample_environment (host_on s) = Inr p"
    "ap_main p = Listening" "ap_accepting p" "ap_inflight p = 0"
    by (auto simp: api_main_def)
  let ?p1 = "p\<lparr>ap_inflight := Suc (ap_inflight p)\<rparr>"
  let ?p2 = "?p1\<lparr>ap_inflight := Suc (ap_inflight ?p1)\<rparr>"
  have "api_step sample_runtime_lib p ?p1" "api_step sample_runtime_lib ?p1 ?p2"
    using p by (intro accept; simp)+
  then have run: "api_run sample_runtime_lib p ?p2"
    by (meson api_run_refl api_run_steps)
  have "ap_main ?p2 = Listening" "ap_inflight ?p2 = 2" using p by simp_all
  with api_exit [OF p(1) run] obtain q where "api_run sample_runtime_lib ?p2 q" "ap_main q = Exited 0" "ap_inflight q = 2"
    by auto
  moreover have "api_run sample_runtime_lib p q"
    using run calculation(1) unfolding api_run_def by (rule rtranclp_trans)
  ultimately show ?thesis using p(1) by blast
qed

end
