(* ===== verification/Spec2Isabelle.thy ===== *)
theory Spec2Isabelle
  imports Draining Loading Serving SignIn ApiProcess
begin

section \<open>The golden-path control plane, verified\<close>

text \<open>
  The program registers services with their operational declarations, evaluates whether a service is
  ready for production, and approves or rejects deployment candidates by the latest evaluation. It is
  five executables over one PostgreSQL database: \<^verbatim>\<open>cmd/api\<close> serves the HTTP API, \<^verbatim>\<open>cmd/worker\<close> claims
  evaluation jobs from a queue in the database, \<^verbatim>\<open>cmd/migrate\<close> installs the schema, \<^verbatim>\<open>cmd/devoidc\<close>
  issues tokens for development and \<^verbatim>\<open>cmd/cli\<close> is the client. An API process and a worker never call each
  other; they meet in the tables, so every statement about the tables is made under interference.

  \<^bold>\<open>How the Go code is translated.\<close> A Go function is a definition of the same name. A method has its
  receiver as first argument, or the receiver's type as prefix (\<open>Store_ClaimJobs\<close>,
  \<open>ControlPlane_RegisterService\<close>). A pair of a value and an error is \<open>go_error + 'a\<close>, with the wrapped
  errors of \<^verbatim>\<open>fmt.Errorf\<close> and \<^verbatim>\<open>errors.Is\<close> as a datatype (\<open>Go_Error\<close>). Code with effects is a function
  from a state to a result and a state; \<open>tryM\<close>, \<open>wrapM\<close>, \<open>letM\<close> and \<open>okM\<close> of \<open>Prelude\<close> write the early
  returns the way the code has them. A Go string is a \<open>string\<close>, its bytes; a time is an \<open>int\<close> of
  nanoseconds; a duration that the code computes with is kept in 64 bits where it could overflow
  (\<open>backoff\<close>, \<open>ParseDuration\<close>), and the pool's limits are words of 32 bits as in the code (\<open>limited\<close>).
  Nothing uses fuel except the endless loop \<^verbatim>\<open>Run\<close> of a worker, which takes the number of its ticks.

  \<^bold>\<open>The theories\<close>, in the order of the code.

  \<^item> \<open>Prelude\<close>, \<open>Go_Error\<close>, \<open>Go_Strings\<close>, \<open>Go_Time\<close>, \<open>Go_Encoding\<close>: the Go the program uses, with
    \<^verbatim>\<open>strings.TrimSpace\<close>, \<^verbatim>\<open>strconv.Atoi\<close>, \<^verbatim>\<open>time.ParseDuration\<close>, \<^verbatim>\<open>Duration.String\<close>, query strings, base64
    and hexadecimal, and the round trips between their parsers and printers.
  \<^item> \<open>Domain\<close>: \<^verbatim>\<open>internal/domain/models.go\<close>, all types and validators. \<open>PlatformChecks\<close>:
    \<^verbatim>\<open>internal/platformchecks/evaluator.go\<close>, the ten checks, the score and the state (\<open>Evaluate\<close>).
  \<^item> \<open>Database\<close>: the tables and constraints of \<^verbatim>\<open>migrations/sql/0001_init.sql\<close> as the record \<open>db\<close>, and the
    world a store runs in. \<open>Store\<close>: the methods of \<^verbatim>\<open>internal/postgres\<close>, one function on the tables per SQL
    statement. \<open>Integrity\<close> and \<open>History\<close>: the invariant \<open>db_inv\<close> of the tables and the relation \<open>since\<close>
    of what is never undone, each kept by every method.
  \<^item> \<open>ControlPlane\<close> and \<open>Worker\<close>: \<^verbatim>\<open>internal/app/controlplane.go\<close> and \<^verbatim>\<open>internal/jobs/worker.go\<close> over an
    arbitrary \<open>Repository\<close>, the interface of the code as a record of functions.
  \<^item> \<open>Contract\<close>: the two locales \<open>repository\<close> and \<open>evidence_repository\<close> that say what these two need of a
    repository. \<open>System\<close> interprets them on the PostgreSQL store alone (\<open>pg\<close>) and amid other processes
    (\<open>amidst\<close>), and defines \<open>reachable\<close>, the tables any interleaving of the operations can make.
  \<^item> \<open>Calm\<close>, \<open>Scenario\<close>, \<open>Promotion\<close>, \<open>Queue\<close>, \<open>Outcomes\<close>, \<open>Draining\<close>: the properties of candidates and jobs.
    \<open>Scenario\<close> is one evaluated run from registration to approval that the witnesses share.
  \<^item> \<open>Auth\<close>, \<open>Validators\<close>: \<^verbatim>\<open>internal/auth\<close>, token issuance and the two validators, which the locale
    \<open>validator\<close> unites. \<open>Config\<close>, \<open>Loading\<close>: \<^verbatim>\<open>internal/config/config.go\<close> and its properties.
  \<^item> \<open>Httpx\<close>, \<open>Server\<close>: \<^verbatim>\<open>internal/httpx\<close> and \<^verbatim>\<open>internal/api/server.go\<close>, handlers, middlewares and the
    route table. \<open>Requests\<close> states which operation a request stands for (\<open>request_operation\<close>) and that the
    server refines it; \<open>Serving\<close> has the properties of served requests.
  \<^item> \<open>Migrations\<close>, \<open>Installing\<close>: \<^verbatim>\<open>internal/migrations/migrations.go\<close>.
  \<^item> \<open>DevOIDC\<close>, \<open>Issuing\<close>: \<^verbatim>\<open>internal/devoidc/issuer.go\<close> and \<^verbatim>\<open>cmd/devoidc\<close>. \<open>Client\<close>, \<open>Commands\<close>:
    \<^verbatim>\<open>cmd/cli/main.go\<close> with the part of package \<^verbatim>\<open>flag\<close> it uses. \<open>SignIn\<close> joins issuer, client and server
    by the locale \<open>credentials\<close>, which extends \<open>validator\<close>.
  \<^item> \<open>Runtime\<close>, \<open>Starting\<close>: \<^verbatim>\<open>internal/app/runtime.go\<close>, \<^verbatim>\<open>internal/observability\<close>,
    \<^verbatim>\<open>internal/postgres/postgres.go\<close>, \<^verbatim>\<open>cmd/worker\<close> and \<^verbatim>\<open>cmd/migrate\<close>, over a host that counts pools and
    tracers. \<open>ApiProcess\<close>: \<^verbatim>\<open>cmd/api\<close>, whose two goroutines and requests in flight are the step relation
    \<open>api_step\<close>.
\<close>

text \<open>
  \<^bold>\<open>Worlds.\<close> The state of the store is a \<open>world\<close>: the tables and five streams: the faults the next round
  trips meet, the readings of the process clock and of the database clock, the fresh identifiers and the
  rows other transactions have locked. A fault may strike before or after a statement
  takes effect, so a failed write may have happened. No property fixes the streams unless it says so: a
  safety property holds for all of them, a functional one for a calm world (\<open>calm\<close>), in which round
  trips work. Other processes act between two calls of the repository, never inside one, because each
  method of the store is one statement or one transaction; \<open>lawful\<close> says what such an action may do, and
  \<open>operation_amid_others\<close> shows that every operation of the program is itself lawful.

  \<^bold>\<open>Parameters\<close> stand for code that is not in the repository, and hypotheses on them state its documented
  behaviour. \<open>parsers\<close> are \<^verbatim>\<open>net/mail\<close> and \<^verbatim>\<open>net/url\<close>; \<open>config_lib\<close> has \<^verbatim>\<open>url.Parse\<close>, the Unicode case
  tables and inexact products of \<^verbatim>\<open>float64\<close>; \<open>auth_lib\<close> is the JWT and OIDC libraries with \<open>jwt_sound\<close>
  (what a verified signature means), \<open>jwt_complete\<close> (a signed token parses) and \<open>oidc_library\<close> (discovery and
  published keys); \<open>issuer_lib\<close> is RSA, SHA-256 and the media type parser, with \<open>signs\<close> of a token that is
  not blank; \<open>http_lib\<close> is chi's
  routing, JSON and UUID parsing and the metrics page; \<open>cli_lib\<close> the network, files and JSON of the client, with
  \<open>connected\<close> when that network is an issuer of this development; \<open>runtime_lib\<close> is pgxpool, Prometheus
  and OpenTelemetry; \<open>migration_lib\<close> gives the effect of a script on the schema. Every property with such a
  hypothesis has a witness at a concrete instance.

  \<^bold>\<open>What the properties show.\<close>

  \<^item> Candidates (\<open>Promotion\<close>): an approval rests on stored evidence of readiness, a rejection on a failing
    one; a decision is final and is made once, under any faults and interference; what the handler does in
    a calm world; every operation keeps the tables well formed and is lawful for the others.
  \<^item> Jobs (\<open>Queue\<close>, \<open>Outcomes\<close>, \<open>Draining\<close>): leases are exclusive, oldest jobs come first, only the owner
    finishes a job, waits are bounded, attempts run out, what a request adds to the queue, and an
    undisturbed worker empties it in a bounded number of ticks.
  \<^item> The API (\<open>Requests\<close>, \<open>Serving\<close>): the tables change only by the operation a request stands for, for an
    authorised caller; every answer has a request id, a count and a log line, and none reveals an
    internal cause.
  \<^item> Migrations (\<open>Installing\<close>): each runs once and in order, an interrupted run can be completed, and the
    check before the start accepts exactly the schema of the binary.
  \<^item> Configuration (\<open>Loading\<close>): a loaded configuration is acceptable, every acceptable one can be loaded,
    the logged one hides its secrets.
  \<^item> Tokens (\<open>Validators\<close>, \<open>Issuing\<close>, \<open>Commands\<close>, \<open>SignIn\<close>): what an accepted token proves, and that an
    issued one is accepted, from the command line to the handler.
  \<^item> Processes (\<open>Starting\<close>, \<open>ApiProcess\<close>): what they hold, release and report.
  \<^item> The evaluator (\<open>PlatformChecks\<close>): its verdict as a function of the checks, and its monotonicity in the
    order of readiness states.
\<close>

text \<open>
  \<^bold>\<open>What is not modelled.\<close> Encoding to JSON (a payload is the Go value that is encoded) and chi's matching
  of paths; cryptography; the text of log entries beyond message and level, durations and remote addresses
  in them, help texts and buckets of metrics; help output and
  usage texts of \<^verbatim>\<open>flag\<close>; the rounding of a stored instant to the microseconds of \<^verbatim>\<open>timestamptz\<close>;
  cancellation of contexts inside a repository call other than as a fault; operating
  system signals other than as a step of \<open>api_step\<close>; transaction isolation below the level of a
  statement, where the row locks of \<^verbatim>\<open>FOR UPDATE SKIP LOCKED\<close> and the guards of the updates are modelled and
  a serialization failure is a fault. The tests, the OpenAPI file, the container and
  Terraform files are not part of the program.

  \<^bold>\<open>Where the code surprises.\<close> Queueing an evaluation with an idempotency key used for another service returns
  that service's job and queues nothing (\<open>QueueServiceEvaluation_repeats\<close>). A worker that dies in the last attempt leaves its job
  processing for ever (\<open>exhausted_never_claimed\<close>). The process of the API does not wait for \<^verbatim>\<open>Shutdown\<close>, so requests in flight are
  cut off (\<open>api_exit\<close>). The limits of the pool are truncated to 32 bits (\<open>NewPool_limits\<close>). The flag \<^verbatim>\<open>--ttl\<close> of the client is
  ignored against an issuer (\<open>cli_signed_in\<close>). A connection string in keyword form is logged with its
  password, since \<^verbatim>\<open>redactURL\<close> leaves alone what has no \<^verbatim>\<open>@\<close>.
\<close>

end
